(* ===== verification/Prelude.thy ===== *)
theory Prelude
  imports Main "HOL-Library.Char_ord" "HOL-Library.List_Lexorder"
begin

text \<open>
  The vocabulary every component theory shares: JavaScript strings and the string methods the
  sources call, decimal printing and parsing, and the two reusable contracts "a normaliser
  is a projection onto its normal forms" and "a handler with a busy flag is single-flight".

  A JavaScript string is a HOL \<open>string\<close> that holds its UTF-8 bytes. For ASCII text, which is what
  identifiers, tokens, paths, digits and header names are, bytes, UTF-16 code units and
  characters coincide; for other text \<open>length\<close> counts bytes, \<open>trim\<close> strips the ASCII white space
  only, and case mapping changes the ASCII letters only.
\<close>

named_theorems js_string \<open>unfolding and evaluation of the JavaScript string methods\<close>

section \<open>String methods\<close>

abbreviation code :: "char \<Rightarrow> nat" where
  "code c \<equiv> of_char c"

definition is_ws :: "char \<Rightarrow> bool" where
  "is_ws c \<longleftrightarrow> (9 \<le> code c \<and> code c \<le> 13) \<or> code c = 32"

definition is_digit :: "char \<Rightarrow> bool" where
  "is_digit c \<longleftrightarrow> 48 \<le> code c \<and> code c \<le> 57"

definition is_upper :: "char \<Rightarrow> bool" where
  "is_upper c \<longleftrightarrow> 65 \<le> code c \<and> code c \<le> 90"

definition is_lower :: "char \<Rightarrow> bool" where
  "is_lower c \<longleftrightarrow> 97 \<le> code c \<and> code c \<le> 122"

definition is_letter :: "char \<Rightarrow> bool" where
  "is_letter c \<longleftrightarrow> is_upper c \<or> is_lower c"

definition to_upper :: "char \<Rightarrow> char" where
  "to_upper c = (if is_lower c then char_of (code c - 32) else c)"

definition to_lower :: "char \<Rightarrow> char" where
  "to_lower c = (if is_upper c then char_of (code c + 32) else c)"

abbreviation upper :: "string \<Rightarrow> string" where
  "upper \<equiv> map to_upper"

abbreviation lower :: "string \<Rightarrow> string" where
  "lower \<equiv> map to_lower"

definition trim :: "string \<Rightarrow> string" where
  "trim s = rev (dropWhile is_ws (rev (dropWhile is_ws s)))"

definition starts_with :: "string \<Rightarrow> string \<Rightarrow> bool" where
  "starts_with s p \<longleftrightarrow> take (length p) s = p"

fun str_includes :: "string \<Rightarrow> string \<Rightarrow> bool" where
  "str_includes [] p = (p = [])"
| "str_includes (c # cs) p = (starts_with (c # cs) p \<or> str_includes cs p)"

text \<open>\<open>s.replaceAll(a, b)\<close> for one-character \<open>a\<close> and \<open>b\<close>.\<close>

definition replace_char :: "char \<Rightarrow> char \<Rightarrow> string \<Rightarrow> string" where
  "replace_char a b s = map (\<lambda>c. if c = a then b else c) s"

text \<open>\<open>s.replace(a, b)\<close> with string arguments replaces the first occurrence only.\<close>

fun replace_first :: "char \<Rightarrow> char \<Rightarrow> string \<Rightarrow> string" where
  "replace_first a b [] = []"
| "replace_first a b (c # cs) = (if c = a then b # cs else c # replace_first a b cs)"

text \<open>\<open>s.replace(/x+$/, "")\<close>: drop every trailing occurrence of one character.\<close>

definition strip_trailing :: "char \<Rightarrow> string \<Rightarrow> string" where
  "strip_trailing a s = rev (dropWhile (\<lambda>c. c = a) (rev s))"

text \<open>\<open>s.slice(a, b)\<close> for \<open>0 \<le> a \<le> b\<close>, and \<open>s.slice(a)\<close>.\<close>

definition slice :: "nat \<Rightarrow> nat \<Rightarrow> 'a list \<Rightarrow> 'a list" where
  "slice a b s = take (b - a) (drop a s)"

fun join :: "string \<Rightarrow> string list \<Rightarrow> string" where
  "join sep [] = []"
| "join sep [x] = x"
| "join sep (x # y # ys) = x @ sep @ join sep (y # ys)"

text \<open>\<open>s.split(c)\<close> for a one-character separator: never empty, \<open>"".split(c) = [""]\<close>.\<close>

fun split_char :: "char \<Rightarrow> string \<Rightarrow> string list" where
  "split_char sep [] = [[]]"
| "split_char sep (c # cs) =
     (case split_char sep cs of
        [] \<Rightarrow> [[c]]
      | w # ws \<Rightarrow> if c = sep then [] # w # ws else (c # w) # ws)"

text \<open>\<open>s.replace(/\\b\\w/g, u => u.toUpperCase())\<close>: upper-case the first letter of each word.\<close>

definition is_word :: "char \<Rightarrow> bool" where
  "is_word c \<longleftrightarrow> is_letter c \<or> is_digit c \<or> c = CHR ''_''"

fun capitalize_words :: "bool \<Rightarrow> string \<Rightarrow> string" where
  "capitalize_words after_word [] = []"
| "capitalize_words after_word (c # cs) =
     (if is_word c \<and> \<not> after_word then to_upper c else c) # capitalize_words (is_word c) cs"

text \<open>
  A string is falsy when it is empty; \<open>x || y\<close> and \<open>x || null\<close> on strings, and \<open>x ?? y\<close>.
\<close>

definition or_else :: "string \<Rightarrow> string \<Rightarrow> string" where
  "or_else x y = (if x = [] then y else x)"

definition or_null :: "string \<Rightarrow> string option" where
  "or_null x = (if x = [] then None else Some x)"

definition coalesce :: "'a option \<Rightarrow> 'a \<Rightarrow> 'a" where
  "coalesce x y = (case x of None \<Rightarrow> y | Some v \<Rightarrow> v)"

definition truthy :: "string option \<Rightarrow> bool" where
  "truthy x \<longleftrightarrow> (case x of None \<Rightarrow> False | Some v \<Rightarrow> v \<noteq> [])"

lemmas [js_string] =
  is_ws_def is_digit_def is_upper_def is_lower_def is_letter_def to_upper_def to_lower_def
  trim_def starts_with_def replace_char_def strip_trailing_def slice_def is_word_def
  or_else_def or_null_def coalesce_def truthy_def

subsection \<open>Facts about the string methods\<close>

lemma dropWhile_head: "dropWhile P xs = y # ys \<Longrightarrow> \<not> P y"
  by (induction xs) (auto split: if_splits)

lemma trim_Nil [simp]: "trim [] = []"
  by (simp add: trim_def)

lemma trim_no_ws: "list_all (\<lambda>c. \<not> is_ws c) s \<Longrightarrow> trim s = s"
proof -
  assume h: "list_all (\<lambda>c. \<not> is_ws c) s"
  have drop: "dropWhile is_ws t = t" if "list_all (\<lambda>c. \<not> is_ws c) t" for t
    using that by (cases t) auto
  from h have "list_all (\<lambda>c. \<not> is_ws c) (rev s)" by (simp add: list_all_iff)
  with h show ?thesis by (simp add: trim_def drop)
qed

text \<open>A trimmed string neither starts nor ends with white space, and trimming it again does nothing.\<close>

definition trimmed :: "string \<Rightarrow> bool" where
  "trimmed s \<longleftrightarrow> s = [] \<or> (\<not> is_ws (hd s) \<and> \<not> is_ws (last s))"

lemma trimmed_trim [simp]: "trimmed (trim s)"
proof (cases "trim s = []")
  case True
  then show ?thesis by (simp add: trimmed_def)
next
  case False
  define t where "t = dropWhile is_ws s"
  define u where "u = dropWhile is_ws (rev t)"
  have trim: "trim s = rev u" by (simp add: trim_def t_def u_def)
  with False have "u \<noteq> []" by auto
  then have "\<not> is_ws (hd u)" unfolding u_def by (rule hd_dropWhile)
  then have last: "\<not> is_ws (last (rev u))" by (simp add: last_rev)
  have split: "rev t = takeWhile is_ws (rev t) @ u" by (simp add: u_def)
  have "t = rev (takeWhile is_ws (rev t) @ u)"
    using arg_cong [OF split, of rev] by simp
  then have "t = rev u @ rev (takeWhile is_ws (rev t))" by simp
  with \<open>u \<noteq> []\<close> have "t \<noteq> []" and "hd t = hd (rev u)"
    by (metis Nil_is_append_conv rev_is_Nil_conv, metis hd_append2 rev_is_Nil_conv)
  then have "\<not> is_ws (hd (rev u))" unfolding t_def by (metis hd_dropWhile)
  with last trim show ?thesis by (simp add: trimmed_def)
qed

lemma trim_trimmed: "trimmed s \<Longrightarrow> trim s = s"
proof (cases s)
  case Nil
  then show ?thesis by simp
next
  case (Cons a xs)
  assume h: "trimmed s"
  with Cons have "\<not> is_ws a" and "\<not> is_ws (last s)" by (auto simp: trimmed_def)
  moreover from Cons have "hd (rev s) = last s" by (simp only: hd_rev)
  ultimately have "dropWhile is_ws s = s" and "dropWhile is_ws (rev s) = rev s"
    using Cons by (simp_all only: dropWhile_eq_self_iff list.sel list.distinct simp_thms)
  then show ?thesis by (simp add: trim_def)
qed

lemma trim_idem [simp]: "trim (trim s) = trim s"
  by (rule trim_trimmed) simp

lemma set_trim: "set (trim s) \<subseteq> set s"
proof
  fix x
  assume "x \<in> set (trim s)"
  then have "x \<in> set (dropWhile is_ws (rev (dropWhile is_ws s)))" by (simp add: trim_def)
  then have "x \<in> set (rev (dropWhile is_ws s))" by (rule set_dropWhileD)
  then have "x \<in> set (dropWhile is_ws s)" by simp
  then show "x \<in> set s" by (rule set_dropWhileD)
qed

lemma length_trim: "length (trim s) \<le> length s"
  unfolding trim_def using length_dropWhile_le [of is_ws "rev (dropWhile is_ws s)"]
    length_dropWhile_le [of is_ws s] by simp

lemma or_else_nonempty: "y \<noteq> [] \<Longrightarrow> or_else x y \<noteq> []"
  by (simp add: or_else_def)

lemma starts_with_append [simp]: "starts_with (p @ s) p"
  by (simp add: starts_with_def)

lemma starts_with_conv: "starts_with s p \<longleftrightarrow> (\<exists>t. s = p @ t)"
  by (metis append_take_drop_id starts_with_append starts_with_def)

lemma str_includes_append: "str_includes (p @ s @ q) s"
proof (induction p)
  case Nil
  show ?case
  proof (cases "s @ q")
    case Nil
    then show ?thesis by simp
  next
    case (Cons c cs)
    then have "starts_with (c # cs) s" by (metis starts_with_append)
    with Cons show ?thesis by simp
  qed
qed simp

lemma strip_trailing_last: "strip_trailing a s = [] \<or> last (strip_trailing a s) \<noteq> a"
proof -
  have "dropWhile (\<lambda>c. c = a) (rev s) = [] \<or> hd (dropWhile (\<lambda>c. c = a) (rev s)) \<noteq> a"
    using hd_dropWhile by blast
  then show ?thesis by (auto simp: strip_trailing_def last_rev)
qed

text \<open>Splitting a joined list gives the list back when no item holds the separator.\<close>

lemma split_char_nonempty [simp]: "split_char sep s \<noteq> []"
  by (induction s) (auto split: list.splits)

lemma split_char_plain: "sep \<notin> set w \<Longrightarrow> split_char sep w = [w]"
  by (induction w) auto

lemma split_char_sep:
  "sep \<notin> set w \<Longrightarrow> split_char sep (w @ sep # s) = w # split_char sep s"
proof (induction w)
  case Nil
  then show ?case by (cases "split_char sep s") auto
next
  case (Cons c w)
  then show ?case by auto
qed

lemma split_join:
  "xs \<noteq> [] \<Longrightarrow> \<forall>w \<in> set xs. sep \<notin> set w \<Longrightarrow> split_char sep (join [sep] xs) = xs"
  by (induction "[sep]" xs rule: join.induct) (auto simp: split_char_plain split_char_sep)

section \<open>Decimal numerals\<close>

definition digit_char :: "nat \<Rightarrow> char" where
  "digit_char d = char_of (48 + d mod 10)"

fun show_nat :: "nat \<Rightarrow> string" where
  "show_nat n = (if n < 10 then [digit_char n] else show_nat (n div 10) @ [digit_char (n mod 10)])"

declare show_nat.simps [simp del]

definition show_int :: "int \<Rightarrow> string" where
  "show_int i = (if i < 0 then ''-'' @ show_nat (nat (- i)) else show_nat (nat i))"

definition digit_value :: "char \<Rightarrow> nat" where
  "digit_value c = code c - 48"

text \<open>\<open>Number.parseInt(s, 10)\<close> on a string of digits only, which the callers' patterns ensure.\<close>

definition parse_digits :: "string \<Rightarrow> nat" where
  "parse_digits s = foldl (\<lambda>n c. 10 * n + digit_value c) 0 s"

lemma digit_char_digit [simp]: "is_digit (digit_char d)"
  by (simp add: is_digit_def digit_char_def)

lemma digit_value_char [simp]: "digit_value (digit_char d) = d mod 10"
  by (simp add: digit_value_def digit_char_def)

lemma digit_value_less: "is_digit c \<Longrightarrow> digit_value c < 10"
  by (auto simp: is_digit_def digit_value_def)

lemma parse_digits_append:
  "parse_digits (s @ [c]) = 10 * parse_digits s + digit_value c"
  by (simp add: parse_digits_def)

lemma parse_show_nat [simp]: "parse_digits (show_nat n) = n"
proof (induction n rule: show_nat.induct)
  case (1 n)
  show ?case
  proof (cases "n < 10")
    case True
    then show ?thesis by (simp add: show_nat.simps parse_digits_def)
  next
    case False
    with 1 have "parse_digits (show_nat (n div 10)) = n div 10" by simp
    with False show ?thesis
      by (simp add: show_nat.simps [of n] parse_digits_append)
  qed
qed

lemma show_nat_digits: "list_all is_digit (show_nat n)"
proof (induction n rule: show_nat.induct)
  case (1 n)
  then show ?case by (subst show_nat.simps) auto
qed

lemma show_nat_nonempty [simp]: "show_nat n \<noteq> []"
  by (subst show_nat.simps) simp

section \<open>Normalisers\<close>

text \<open>
  Input fields are normalised on every key stroke. A normaliser maps every text to a normal form
  and leaves normal forms alone: it is idempotent and its range is the set of normal forms.
\<close>

locale normaliser =
  fixes norm :: "'a \<Rightarrow> 'a"
    and normal :: "'a \<Rightarrow> bool"
  assumes normal_norm: "normal (norm x)"
    and norm_normal: "normal x \<Longrightarrow> norm x = x"
begin

lemma norm_idem: "norm (norm x) = norm x"
  by (rule norm_normal) (rule normal_norm)

lemma normal_iff: "normal x \<longleftrightarrow> norm x = x"
  using normal_norm norm_normal by metis

lemma range_norm: "range norm = {x. normal x}"
  using normal_norm norm_normal by (auto simp: image_def) metis

end

text \<open>
  A field that keeps a bounded number of the characters it accepts and displays them in some
  layout: what is displayed depends on the kept characters only, and typing on is the same as
  typing the whole text.
\<close>

locale masked_input =
  fixes keep :: "char \<Rightarrow> bool"
    and bound :: nat
    and layout :: "string \<Rightarrow> string"
  assumes layout_keeps: "length ds \<le> bound \<Longrightarrow> list_all keep ds \<Longrightarrow> filter keep (layout ds) = ds"
begin

lemma kept: "filter keep (layout (take bound (filter keep s))) = take bound (filter keep s)"
  by (rule layout_keeps) (auto simp: list_all_iff dest: in_set_takeD)

lemma type_on:
  "layout (take bound (filter keep (layout (take bound (filter keep s)) @ t)))
     = layout (take bound (filter keep (s @ t)))"
proof -
  have "take bound (take bound xs @ ys) = take bound (xs @ ys)" for xs ys :: string
    by (simp add: min_def)
  then show ?thesis by (simp only: filter_append kept)
qed

end

interpretation trimming: normaliser trim trimmed
  by unfold_locales (simp_all add: trim_trimmed)

end
