(* ===== verification/Uri.thy ===== *)
theory Uri
  imports Prelude
begin

text \<open>
  The URI functions of the language that the sources call: \<open>encodeURIComponent\<close>, its inverse
  \<open>decodeURIComponent\<close> with the URIError it throws, and the query strings of
  \<open>URLSearchParams\<close>. Strings are UTF-8 byte lists, so percent-encoding is byte by byte and
  decoding checks that the escaped bytes are well-formed UTF-8.
\<close>

section \<open>Percent-encoding\<close>

text \<open>The characters \<open>encodeURIComponent\<close> leaves alone: letters, digits and \<open>- _ . ! ~ * ' ( )\<close>.\<close>

definition uri_unreserved :: "char \<Rightarrow> bool" where
  "uri_unreserved c \<longleftrightarrow> is_letter c \<or> is_digit c \<or>
     code c \<in> {45, 95, 46, 33, 126, 42, 39, 40, 41}"

definition hex_digit :: "nat \<Rightarrow> char" where
  "hex_digit n = (if n < 10 then char_of (48 + n) else char_of (55 + n))"

definition hex_value :: "char \<Rightarrow> nat option" where
  "hex_value c =
     (if is_digit c then Some (code c - 48)
      else if 65 \<le> code c \<and> code c \<le> 70 then Some (code c - 55)
      else if 97 \<le> code c \<and> code c \<le> 102 then Some (code c - 87)
      else None)"

definition percent :: "char \<Rightarrow> string" where
  "percent c = [CHR ''%'', hex_digit (code c div 16), hex_digit (code c mod 16)]"

definition encode_uri_component :: "string \<Rightarrow> string" where
  "encode_uri_component s = concat (map (\<lambda>c. if uri_unreserved c then [c] else percent c) s)"

text \<open>
  Well-formed UTF-8: \<open>utf8_valid\<close> reads a lead byte, the number of continuation bytes it
  announces and the bounds on the first of them (no overlong forms, no surrogates, no code
  point beyond U+10FFFF).
\<close>

fun utf8_lead :: "nat \<Rightarrow> (nat \<times> nat \<times> nat) option" where
  "utf8_lead b =
     (if b < 128 then Some (0, 128, 191)
      else if b < 194 then None
      else if b < 224 then Some (1, 128, 191)
      else if b = 224 then Some (2, 160, 191)
      else if b = 237 then Some (2, 128, 159)
      else if b < 240 then Some (2, 128, 191)
      else if b = 240 then Some (3, 144, 191)
      else if b < 244 then Some (3, 128, 191)
      else if b = 244 then Some (3, 128, 143)
      else None)"

declare utf8_lead.simps [simp del]

fun utf8_run :: "nat \<times> nat \<times> nat \<Rightarrow> string \<Rightarrow> bool" where
  "utf8_run (0, lo, hi) [] = True"
| "utf8_run (Suc k, lo, hi) [] = False"
| "utf8_run (0, lo, hi) (c # cs) =
     (case utf8_lead (code c) of None \<Rightarrow> False | Some p \<Rightarrow> utf8_run p cs)"
| "utf8_run (Suc k, lo, hi) (c # cs) =
     (lo \<le> code c \<and> code c \<le> hi \<and> utf8_run (k, 128, 191) cs)"

definition utf8_valid :: "string \<Rightarrow> bool" where
  "utf8_valid s \<longleftrightarrow> utf8_run (0, 128, 191) s"

text \<open>\<open>decodeURIComponent\<close>: \<open>None\<close> is the URIError of a malformed escape.\<close>

fun percent_decode :: "string \<Rightarrow> string option" where
  "percent_decode [] = Some []"
| "percent_decode (c # cs) =
     (if c \<noteq> CHR ''%'' then map_option ((#) c) (percent_decode cs)
      else case cs of
        a # b # ds \<Rightarrow>
          (case (hex_value a, hex_value b) of
            (Some x, Some y) \<Rightarrow> map_option ((#) (char_of (16 * x + y))) (percent_decode ds)
          | _ \<Rightarrow> None)
      | _ \<Rightarrow> None)"

definition decode_uri_component :: "string \<Rightarrow> string option" where
  "decode_uri_component s =
     (case percent_decode s of
        None \<Rightarrow> None
      | Some t \<Rightarrow> if utf8_valid t then Some t else None)"

section \<open>Round trip\<close>

lemma hex_value_digit: "n < 16 \<Longrightarrow> hex_value (hex_digit n) = Some n"
  by (auto simp: hex_value_def hex_digit_def is_digit_def)

lemma code_less: "code c < 256"
  by (metis nat_of_char_less_256)

lemma uri_unreserved_not_percent: "uri_unreserved c \<Longrightarrow> c \<noteq> CHR ''%''"
  by (auto simp: uri_unreserved_def is_letter_def is_upper_def is_lower_def is_digit_def)

lemma percent_decode_percent: "percent_decode (percent c @ s) = map_option ((#) c) (percent_decode s)"
proof -
  have "code c div 16 < 16" by (simp add: less_mult_imp_div_less code_less)
  moreover have "16 * (code c div 16) + code c mod 16 = code c" by simp
  ultimately show ?thesis
    by (simp add: percent_def hex_value_digit)
qed

lemma percent_decode_encode: "percent_decode (encode_uri_component s) = Some s"
  by (induction s)
    (auto simp: encode_uri_component_def percent_decode_percent dest: uri_unreserved_not_percent)

lemma decode_encode: "utf8_valid s \<Longrightarrow> decode_uri_component (encode_uri_component s) = Some s"
  by (simp add: decode_uri_component_def percent_decode_encode)

lemma utf8_valid_Nil [simp]: "utf8_valid []"
  by (simp add: utf8_valid_def)

lemma utf8_valid_ascii: "list_all (\<lambda>c. code c < 128) s \<Longrightarrow> utf8_valid s"
  unfolding utf8_valid_def by (induction s) (auto simp: utf8_lead.simps)

text \<open>The encoded text is printable ASCII without white space, \<open>#\<close>, \<open>/\<close>, \<open>?\<close> or \<open>&\<close>.\<close>

definition uri_safe :: "char \<Rightarrow> bool" where
  "uri_safe c \<longleftrightarrow> uri_unreserved c \<or> c = CHR ''%''"

lemma hex_digit_unreserved: "n < 16 \<Longrightarrow> uri_unreserved (hex_digit n)"
  by (auto simp: uri_unreserved_def hex_digit_def is_digit_def is_letter_def is_upper_def is_lower_def)

lemma encode_uri_safe: "list_all uri_safe (encode_uri_component s)"
  by (induction s)
    (auto simp: encode_uri_component_def uri_safe_def percent_def hex_digit_unreserved code_less
      less_mult_imp_div_less)

lemma uri_safe_not_ws: "uri_safe c \<Longrightarrow> \<not> is_ws c"
  by (auto simp: uri_safe_def uri_unreserved_def is_ws_def is_letter_def is_upper_def is_lower_def
      is_digit_def)

lemma trim_encode [simp]: "trim (encode_uri_component s) = encode_uri_component s"
proof (rule trim_no_ws)
  show "list_all (\<lambda>c. \<not> is_ws c) (encode_uri_component s)"
    using encode_uri_safe [of s] by (auto simp: list_all_iff uri_safe_not_ws)
qed

lemma encode_Nil_iff [simp]: "encode_uri_component s = [] \<longleftrightarrow> s = []"
  by (cases s) (simp_all add: encode_uri_component_def percent_def)

lemma uri_safe_ne:
  "uri_safe c \<Longrightarrow> c \<noteq> CHR ''#'' \<and> c \<noteq> CHR ''/'' \<and> c \<noteq> CHR ''?'' \<and> c \<noteq> CHR ''&'' \<and> c \<noteq> CHR ''=''"
  by (auto simp: uri_safe_def uri_unreserved_def is_letter_def is_upper_def is_lower_def is_digit_def)

section \<open>Query strings\<close>

text \<open>
  \<open>URLSearchParams\<close>: an ordered list of name/value pairs; \<open>set\<close> replaces the first pair of the
  name and drops the others, \<open>append\<close> adds a pair, and \<open>toString\<close> writes the pairs in
  \<open>application/x-www-form-urlencoded\<close>: letters, digits and \<open>* - . _\<close> as they are, a space as
  \<open>+\<close>, every other byte as an escape.
\<close>

type_synonym params = "(string \<times> string) list"

fun params_set :: "string \<Rightarrow> string \<Rightarrow> params \<Rightarrow> params" where
  "params_set k v [] = [(k, v)]"
| "params_set k v ((k', v') # ps) =
     (if k' = k then (k, v) # filter (\<lambda>p. fst p \<noteq> k) ps else (k', v') # params_set k v ps)"

definition params_append :: "string \<Rightarrow> string \<Rightarrow> params \<Rightarrow> params" where
  "params_append k v ps = ps @ [(k, v)]"

definition form_plain :: "char \<Rightarrow> bool" where
  "form_plain c \<longleftrightarrow> is_letter c \<or> is_digit c \<or> code c \<in> {42, 45, 46, 95}"

definition form_encode :: "string \<Rightarrow> string" where
  "form_encode s =
     concat (map (\<lambda>c. if form_plain c then [c] else if c = CHR '' '' then ''+'' else percent c) s)"

definition params_to_string :: "params \<Rightarrow> string" where
  "params_to_string ps = join ''&'' (map (\<lambda>(k, v). form_encode k @ ''='' @ form_encode v) ps)"

lemma map_of_params_set: "map_of (params_set k v ps) = (map_of ps)(k \<mapsto> v)"
proof (induction ps)
  case Nil
  then show ?case by simp
next
  case (Cons p ps)
  have "map_of (filter (\<lambda>p. fst p \<noteq> k) ps) x = (if x = k then None else map_of ps x)" for x
    by (induction ps) auto
  with Cons show ?case by (cases p) (auto simp: fun_eq_iff)
qed

lemma params_set_fresh: "k \<notin> fst ` set ps \<Longrightarrow> params_set k v ps = ps @ [(k, v)]"
  by (induction k v ps rule: params_set.induct) auto

text \<open>
  \<open>URL\<close> and \<open>URLSearchParams\<close>: a parsed URL is what precedes the query, the pairs of the query, and
  the fragment; setting a pair rewrites the query. \<open>parse\<close> is the constructor (\<open>None\<close>: it throws).
\<close>

record url_parts =
  ul_prefix :: string
  ul_query :: params
  ul_hash :: string

definition url_to_string :: "url_parts \<Rightarrow> string" where
  "url_to_string u =
     ul_prefix u @ (if ul_query u = [] then [] else ''?'' @ params_to_string (ul_query u)) @ ul_hash u"

definition params_get :: "string \<Rightarrow> params \<Rightarrow> string option" where
  "params_get k ps = map_of ps k"

definition params_delete :: "string \<Rightarrow> params \<Rightarrow> params" where
  "params_delete k ps = filter (\<lambda>p. fst p \<noteq> k) ps"

lemma params_get_delete [simp]: "params_get k (params_delete k' ps) = (if k = k' then None else params_get k ps)"
  by (induction ps) (auto simp: params_get_def params_delete_def)

end
