(* ===== verification/Http.thy ===== *)
theory Http
  imports Prelude Uri "HOL-Library.AList"
begin

text \<open>
  What the two API modules share: JSON values and the property access that throws on \<open>null\<close>,
  the errors the sources throw and how their messages are read, requests, responses and
  headers, the transport (the browser's \<open>fetch\<close> over a server that is a parameter), and the
  contract \<open>api_client\<close> under which a whole session of calls sends acceptable requests only.
\<close>

section \<open>JSON and errors\<close>

datatype json =
  JNull | JBool bool | JNum int | JStr string | JArr "json list" | JObj "(string \<times> json) list"

datatype js_error =
    ApiError string int        \<comment> \<open>lib/api.ts\<close>
  | AdminApiError string int   \<comment> \<open>lib/admin-api.ts\<close>
  | PlainError string          \<comment> \<open>\<open>new Error(m)\<close>\<close>
  | TypeErr string             \<comment> \<open>a property read on \<open>null\<close>\<close>
  | UriErr                     \<comment> \<open>\<open>decodeURIComponent\<close> on a malformed escape\<close>
  | SyntaxErr                  \<comment> \<open>\<open>response.json()\<close> on a body that is not JSON\<close>
  | FetchFailed string         \<comment> \<open>a rejected \<open>fetch\<close>\<close>
  | DomError string string     \<comment> \<open>a DOMException: name and message\<close>
  | NotAnError                 \<comment> \<open>a thrown value that is not an Error\<close>

text \<open>\<open>cause instanceof Error\<close> and \<open>cause.message\<close>; the engine's own texts are V8's.\<close>

definition is_error :: "js_error \<Rightarrow> bool" where
  "is_error e \<longleftrightarrow> e \<noteq> NotAnError"

fun error_message :: "js_error \<Rightarrow> string" where
  "error_message (ApiError m _) = m"
| "error_message (AdminApiError m _) = m"
| "error_message (PlainError m) = m"
| "error_message (TypeErr p) = ''Cannot read properties of null (reading '' @ p @ '')''"
| "error_message UriErr = ''URI malformed''"
| "error_message SyntaxErr = ''Unexpected token in JSON''"
| "error_message (FetchFailed m) = m"
| "error_message (DomError _ m) = m"
| "error_message NotAnError = []"

text \<open>\<open>cause instanceof Error ? cause.message : fallback\<close>, and the stricter form that also
  falls back on an empty message.\<close>

definition cause_message :: "js_error \<Rightarrow> string \<Rightarrow> string" where
  "cause_message e fallback = (if is_error e then error_message e else fallback)"

definition cause_message_or :: "js_error \<Rightarrow> string \<Rightarrow> string" where
  "cause_message_or e fallback =
     (if is_error e \<and> error_message e \<noteq> [] then error_message e else fallback)"

lemma cause_message_or_nonempty: "fallback \<noteq> [] \<Longrightarrow> cause_message_or e fallback \<noteq> []"
  by (simp add: cause_message_or_def)

text \<open>\<open>v.key\<close>: \<open>None\<close> is \<open>undefined\<close>; reading a property of \<open>null\<close> throws.\<close>

fun js_get :: "json \<Rightarrow> string \<Rightarrow> js_error + json option" where
  "js_get JNull k = Inl (TypeErr k)"
| "js_get (JObj kvs) k = Inr (map_of (rev kvs) k)"
| "js_get _ k = Inr None"

text \<open>A nullable text field of a request body.\<close>

definition json_opt :: "string option \<Rightarrow> json" where
  "json_opt x = (case x of None \<Rightarrow> JNull | Some s \<Rightarrow> JStr s)"

section \<open>Requests, responses, headers\<close>

record js_file =
  file_name :: string
  file_type :: string
  file_size :: int

datatype body = NoBody | JsonText json | FormBody "(string \<times> js_file) list"

type_synonym headers = "(string \<times> string) list"

text \<open>Header names are case-insensitive: they are stored in lower case.\<close>

definition header_set :: "string \<Rightarrow> string \<Rightarrow> headers \<Rightarrow> headers" where
  "header_set k v h = AList.update (lower k) v h"

definition header_delete :: "string \<Rightarrow> headers \<Rightarrow> headers" where
  "header_delete k h = AList.delete (lower k) h"

definition header_get :: "headers \<Rightarrow> string \<Rightarrow> string option" where
  "header_get h k = map_of h (lower k)"

definition header_has :: "headers \<Rightarrow> string \<Rightarrow> bool" where
  "header_has h k \<longleftrightarrow> header_get h k \<noteq> None"

definition headers_new :: "headers \<Rightarrow> headers" where
  "headers_new kvs = fold (\<lambda>(k, v). header_set k v) kvs []"

lemma header_get_set: "header_get (header_set k v h) k' = (if lower k' = lower k then Some v else header_get h k')"
  by (simp add: header_get_def header_set_def update_conv')

lemma header_get_delete: "header_get (header_delete k h) k' = (if lower k' = lower k then None else header_get h k')"
  by (simp add: header_get_def header_delete_def delete_conv')

record request_options =
  opt_method :: "string option"
  opt_headers :: headers
  opt_body :: body

definition get_options :: request_options where
  "get_options = \<lparr>opt_method = None, opt_headers = [], opt_body = NoBody\<rparr>"

definition method_options :: "string \<Rightarrow> body \<Rightarrow> request_options" where
  "method_options m b = \<lparr>opt_method = Some m, opt_headers = [], opt_body = b\<rparr>"

record http_request =
  rq_method :: string
  rq_url :: string
  rq_headers :: headers
  rq_body :: body
  rq_credentials :: string
  rq_cache :: string

record http_response =
  rsp_status :: int
  rsp_headers :: headers
  rsp_json :: "json option"  \<comment> \<open>\<open>None\<close>: \<open>response.json()\<close> rejects\<close>

definition rsp_ok :: "http_response \<Rightarrow> bool" where
  "rsp_ok r \<longleftrightarrow> 200 \<le> rsp_status r \<and> rsp_status r \<le> 299"

datatype fetch_result = Unreached string | Responded http_response

definition safe_methods :: "string list" where
  "safe_methods = [''GET'', ''HEAD'', ''OPTIONS'']"

section \<open>The browser and the transport\<close>

text \<open>
  \<open>has_window\<close> tells a browser from server-side rendering; \<open>cookies\<close> is \<open>document.cookie\<close>;
  \<open>events\<close> are the custom events dispatched on \<open>window\<close>; \<open>sent\<close> records every \<open>fetch\<close>; \<open>remote\<close>
  is the server's state. The server itself is a parameter: any function from a request and its
  state to an outcome and its next state.
\<close>

record 'w browser =
  has_window :: bool
  cookies :: string
  events :: "string list"
  sent :: "http_request list"
  remote :: 'w

type_synonym 'w server = "http_request \<Rightarrow> 'w \<Rightarrow> fetch_result \<times> 'w"

definition do_fetch ::
  "'w server \<Rightarrow> http_request \<Rightarrow> ('w, 'z) browser_scheme \<Rightarrow> fetch_result \<times> ('w, 'z) browser_scheme" where
  "do_fetch srv rq b =
     (case srv rq (remote b) of (r, w) \<Rightarrow> (r, b\<lparr>sent := sent b @ [rq], remote := w\<rparr>))"

lemma do_fetch_frame [simp]:
  "sent (snd (do_fetch srv rq b)) = sent b @ [rq]"
  "has_window (snd (do_fetch srv rq b)) = has_window b"
  "cookies (snd (do_fetch srv rq b)) = cookies b"
  "events (snd (do_fetch srv rq b)) = events b"
  "browser.more (snd (do_fetch srv rq b)) = browser.more b"
  by (simp_all add: do_fetch_def split: prod.split)

text \<open>\<open>window.dispatchEvent(new CustomEvent(name))\<close>, a no-op outside a browser.\<close>

definition dispatch :: "string \<Rightarrow> ('w, 'z) browser_scheme \<Rightarrow> ('w, 'z) browser_scheme" where
  "dispatch ev b = (if has_window b then b\<lparr>events := events b @ [ev]\<rparr> else b)"

lemma dispatch_frame [simp]:
  "sent (dispatch ev b) = sent b"
  "has_window (dispatch ev b) = has_window b"
  "cookies (dispatch ev b) = cookies b"
  "remote (dispatch ev b) = remote b"
  by (simp_all add: dispatch_def)

section \<open>Stateful calls that may throw\<close>

type_synonym ('s, 'a) act = "'s \<Rightarrow> (js_error + 'a) \<times> 's"

definition act_return :: "'a \<Rightarrow> ('s, 'a) act" where
  "act_return x s = (Inr x, s)"

definition act_throw :: "js_error \<Rightarrow> ('s, 'a) act" where
  "act_throw e s = (Inl e, s)"

definition act_bind :: "('s, 'a) act \<Rightarrow> ('a \<Rightarrow> ('s, 'b) act) \<Rightarrow> ('s, 'b) act" where
  "act_bind m f s = (case m s of (Inl e, s') \<Rightarrow> (Inl e, s') | (Inr x, s') \<Rightarrow> f x s')"

lemma act_simps [simp]:
  "act_return x s = (Inr x, s)"
  "act_throw e s = (Inl e, s)"
  by (simp_all add: act_return_def act_throw_def)

lemma act_bind_cases:
  "act_bind m f s = (case fst (m s) of Inl e \<Rightarrow> (Inl e, snd (m s)) | Inr x \<Rightarrow> f x (snd (m s)))"
  by (simp add: act_bind_def split: prod.split sum.split)

text \<open>Running a list of calls one after the other, each on the state the one before left.\<close>

fun run_calls ::
  "(string \<Rightarrow> request_options \<Rightarrow> 's \<Rightarrow> 'r \<times> 's) \<Rightarrow> (string \<times> request_options) list \<Rightarrow> 's \<Rightarrow> 's" where
  "run_calls call [] s = s"
| "run_calls call ((p, o') # cs) s = run_calls call cs (snd (call p o' s))"

section \<open>The client contract\<close>

text \<open>
  A client call keeps an invariant of the page and only adds requests to the log, each of
  which is acceptable. Then a whole session of calls does so too.
\<close>

locale api_client =
  fixes call :: "string \<Rightarrow> request_options \<Rightarrow> 's \<Rightarrow> 'r \<times> 's"
    and log :: "'s \<Rightarrow> http_request list"
    and inv :: "'s \<Rightarrow> bool"
    and acceptable :: "http_request \<Rightarrow> bool"
  assumes call_inv: "inv s \<Longrightarrow> inv (snd (call p opts s))"
    and call_log: "inv s \<Longrightarrow> \<exists>rs. log (snd (call p opts s)) = log s @ rs \<and> list_all acceptable rs"
begin

lemma run_inv: "inv s \<Longrightarrow> inv (run_calls call cs s)"
  by (induction cs arbitrary: s) (auto simp: call_inv)

lemma run_log:
  "inv s \<Longrightarrow> \<exists>rs. log (run_calls call cs s) = log s @ rs \<and> list_all acceptable rs"
proof (induction cs arbitrary: s)
  case Nil
  then show ?case by simp
next
  case (Cons c cs)
  obtain p opts where c: "c = (p, opts)" by (cases c)
  from Cons.prems obtain rs where
    rs: "log (snd (call p opts s)) = log s @ rs" "list_all acceptable rs"
    using call_log by blast
  from Cons.IH [OF call_inv [OF Cons.prems]] obtain rs' where
    "log (run_calls call cs (snd (call p opts s))) = log (snd (call p opts s)) @ rs'"
    "list_all acceptable rs'"
    by blast
  with rs c show ?case by (intro exI [of _ "rs @ rs'"]) simp
qed

lemma run_acceptable:
  "inv s \<Longrightarrow> list_all acceptable (log s) \<Longrightarrow> list_all acceptable (log (run_calls call cs s))"
  using run_log [of s cs] by auto

end

end
