(* ===== verification/Status.thy ===== *)
theory Status
  imports Prelude
begin

text \<open>
  The verification status as the browser sees it: the status and step enumerations of
  types/verification.ts, the routing table of lib/status-routing.ts, the presentation tables
  of lib/verification-status.ts and lib/admin-status.ts, the route guard of
  components/verification/status-guard.tsx with the three guarded pages of app/verification,
  and the progress bar of components/verification/verification-progress.tsx.

  The guard and the routing table meet in the contract \<open>status_routing\<close>: every status is
  admitted by the page it is routed to, so a redirect is followed by at most one more page.
\<close>

section \<open>Enumerations\<close>

datatype verification_status =
  Pending | Queued | In_review | More_info | Approved | Rejected | Expired | Revoked

fun status_name :: "verification_status \<Rightarrow> string" where
  "status_name Pending = ''pending''"
| "status_name Queued = ''queued''"
| "status_name In_review = ''in_review''"
| "status_name More_info = ''more_info''"
| "status_name Approved = ''approved''"
| "status_name Rejected = ''rejected''"
| "status_name Expired = ''expired''"
| "status_name Revoked = ''revoked''"

text \<open>What a request asks the applicant for.\<close>

record required_evidence =
  needs_legal_name :: bool
  needs_date_of_birth :: bool
  needs_age_confirmation :: bool
  needs_issuing_country :: bool
  needs_document_type :: bool
  needs_document_front :: bool
  needs_document_back :: bool
  needs_selfie :: bool
  needs_liveness :: bool

lemma status_name_inject [simp]: "status_name s = status_name t \<longleftrightarrow> s = t"
  by (cases s; cases t) simp_all

lemma inj_status_name: "inj_on status_name A"
  by (rule inj_onI) simp

lemma status_name_nonempty [simp]: "status_name s \<noteq> []"
  by (cases s) simp_all

lemma status_name_no_bar [simp]: "CHR ''|'' \<notin> set (status_name s)"
  by (cases s) simp_all

text \<open>JavaScript sorts an array of statuses by the code units of their names.\<close>

instantiation verification_status :: linorder
begin

definition less_eq_verification_status :: "verification_status \<Rightarrow> verification_status \<Rightarrow> bool" where
  "less_eq_verification_status s t \<longleftrightarrow> status_name s \<le> status_name t"

definition less_verification_status :: "verification_status \<Rightarrow> verification_status \<Rightarrow> bool" where
  "less_verification_status s t \<longleftrightarrow> status_name s < status_name t"

instance
  by standard
    (auto simp: less_eq_verification_status_def less_verification_status_def order_less_le)

end

datatype verification_step = Account | Identity | Queue | Review | Access

text \<open>The steps of the progress bar, in the order of \<open>appConfig.verificationSteps\<close>.\<close>

definition verification_steps :: "(verification_step \<times> string) list" where
  "verification_steps =
     [(Account, ''Account''), (Identity, ''Identity''), (Queue, ''Queue''),
      (Review, ''Admin Review''), (Access, ''Access'')]"

section \<open>Routing and presentation tables\<close>

fun status_path :: "verification_status \<Rightarrow> string" where
  "status_path Pending = ''/verification/account-confirmed''"
| "status_path More_info = ''/verification/more-info''"
| "status_path Queued = ''/verification/waiting''"
| "status_path In_review = ''/verification/waiting''"
| "status_path Approved = ''/verification/access''"
| "status_path Rejected = ''/verification/rejected''"
| "status_path Expired = ''/verification/expired''"
| "status_path Revoked = ''/verification/revoked''"

record presentation =
  label :: string
  description :: string
  step :: verification_step

fun status_presentation :: "verification_status \<Rightarrow> presentation" where
  "status_presentation Pending =
     \<lparr>label = ''Ready to verify'',
      description = ''Authenticate with the Discord account assigned to this private request.'',
      step = Account\<rparr>"
| "status_presentation Queued =
     \<lparr>label = ''Waiting for an administrator'',
      description = ''Your verification has been submitted and is waiting in the review queue.'',
      step = Queue\<rparr>"
| "status_presentation In_review =
     \<lparr>label = ''Under review'',
      description = ''An administrator is actively reviewing your verification.'',
      step = Review\<rparr>"
| "status_presentation More_info =
     \<lparr>label = ''More information required'',
      description = ''An administrator needs corrected or additional information before continuing.'',
      step = Identity\<rparr>"
| "status_presentation Approved =
     \<lparr>label = ''Approved'',
      description = ''Your verification has been approved. Controlled Discord access may now be available.'',
      step = Access\<rparr>"
| "status_presentation Rejected =
     \<lparr>label = ''Verification not approved'',
      description = ''Your verification was not accepted. Discord server access has not been released.'',
      step = Review\<rparr>"
| "status_presentation Expired =
     \<lparr>label = ''Request expired'',
      description = ''This verification request is no longer active.'',
      step = Account\<rparr>"
| "status_presentation Revoked =
     \<lparr>label = ''Request revoked'',
      description = ''This verification request has been withdrawn and can no longer be used.'',
      step = Account\<rparr>"

text \<open>The administrator's badge: label and style class.\<close>

fun admin_status_config :: "verification_status \<Rightarrow> string \<times> string" where
  "admin_status_config Pending =
     (''Pending'', ''border-slate-600/50 bg-slate-700/30 text-slate-300'')"
| "admin_status_config Queued =
     (''Queued'', ''border-violet-500/30 bg-violet-500/10 text-violet-300'')"
| "admin_status_config In_review =
     (''In Review'', ''border-blue-500/30 bg-blue-500/10 text-blue-300'')"
| "admin_status_config More_info =
     (''More Info'', ''border-amber-500/30 bg-amber-500/10 text-amber-300'')"
| "admin_status_config Approved =
     (''Approved'', ''border-emerald-500/30 bg-emerald-500/10 text-emerald-300'')"
| "admin_status_config Rejected =
     (''Rejected'', ''border-red-500/30 bg-red-500/10 text-red-300'')"
| "admin_status_config Expired =
     (''Expired'', ''border-zinc-500/30 bg-zinc-500/10 text-zinc-400'')"
| "admin_status_config Revoked =
     (''Revoked'', ''border-rose-500/30 bg-rose-500/10 text-rose-300'')"

section \<open>The route guard\<close>

text \<open>
  The guard turns its \<open>allowed\<close> prop into a stable key, fetches \<open>/verification/status\<close>, and
  either admits the page, redirects, or (on any failure) refuses to show it. \<open>g_active\<close> is the
  effect's own flag, cleared when the effect is torn down.
\<close>

definition allowed_key :: "verification_status list \<Rightarrow> string" where
  "allowed_key allowed = join ''|'' (map status_name (sort allowed))"

record guard_state =
  g_active :: bool
  g_ready :: bool
  g_failed :: bool
  g_replaced :: "string option"

datatype guard_view = Unavailable | Checking | Children

definition guard_init :: guard_state where
  "guard_init = \<lparr>g_active = True, g_ready = False, g_failed = False, g_replaced = None\<rparr>"

definition guard_check :: "guard_state \<Rightarrow> guard_state" where
  "guard_check g = g\<lparr>g_ready := False, g_failed := False\<rparr>"

text \<open>The continuation of the awaited request: \<open>None\<close> is a rejected request.\<close>

definition guard_response ::
  "string \<Rightarrow> verification_status option \<Rightarrow> guard_state \<Rightarrow> guard_state" where
  "guard_response key result g =
     (if \<not> g_active g then g
      else case result of
        None \<Rightarrow> g\<lparr>g_failed := True\<rparr>
      | Some st \<Rightarrow>
          (let allowed_statuses = filter (\<lambda>item. length item > 0) (split_char CHR ''|'' key)
           in if status_name st \<notin> set allowed_statuses
              then g\<lparr>g_replaced := Some (status_path st)\<rparr>
              else g\<lparr>g_ready := True\<rparr>))"

definition guard_unmount :: "guard_state \<Rightarrow> guard_state" where
  "guard_unmount g = g\<lparr>g_active := False\<rparr>"

definition guard_render :: "guard_state \<Rightarrow> guard_view" where
  "guard_render g = (if g_failed g then Unavailable else if \<not> g_ready g then Checking else Children)"

text \<open>The guarded pages of app/verification and the statuses they allow; other pages are open.\<close>

definition identity_page_allowed :: "verification_status list" where
  "identity_page_allowed = [Pending, More_info]"

definition waiting_page_allowed :: "verification_status list" where
  "waiting_page_allowed = [Queued, In_review]"

definition access_page_allowed :: "verification_status list" where
  "access_page_allowed = [Approved]"

definition page_guard :: "string \<Rightarrow> verification_status list option" where
  "page_guard p =
     (if p = ''/verification/identity'' then Some identity_page_allowed
      else if p = ''/verification/waiting'' then Some waiting_page_allowed
      else if p = ''/verification/access'' then Some access_page_allowed
      else None)"

text \<open>
  One visit: the page the browser shows after opening \<open>p\<close> while the server reports \<open>st\<close>,
  computed by running the page's guard.
\<close>

definition visit :: "verification_status \<Rightarrow> string \<Rightarrow> string" where
  "visit st p =
     (case page_guard p of
        None \<Rightarrow> p
      | Some allowed \<Rightarrow>
          coalesce (g_replaced (guard_response (allowed_key allowed) (Some st) (guard_check guard_init))) p)"

subsection \<open>The guard decides membership\<close>

lemma allowed_key_items:
  "set (filter (\<lambda>item. length item > 0) (split_char CHR ''|'' (allowed_key allowed)))
     = status_name ` set allowed"
proof (cases "allowed = []")
  case True
  then show ?thesis by (simp add: allowed_key_def)
next
  case False
  then have "sort allowed \<noteq> []" by (metis set_empty set_sort)
  then have "split_char CHR ''|'' (allowed_key allowed) = map status_name (sort allowed)"
    unfolding allowed_key_def by (intro split_join) auto
  then show ?thesis by auto
qed

lemma guard_response_Some:
  "g_active g \<Longrightarrow> guard_response (allowed_key allowed) (Some st) g =
     (if st \<in> set allowed then g\<lparr>g_ready := True\<rparr> else g\<lparr>g_replaced := Some (status_path st)\<rparr>)"
  unfolding guard_response_def Let_def allowed_key_items by (auto simp: image_iff)

lemma visit_eq:
  "visit st p = (case page_guard p of None \<Rightarrow> p
     | Some allowed \<Rightarrow> if st \<in> set allowed then p else status_path st)"
  by (auto simp: visit_def guard_response_Some guard_check_def guard_init_def coalesce_def
      split: option.splits)

section \<open>The routing contract\<close>

text \<open>
  A router sends a subject that a page does not admit to the subject's own page. The contract
  asks that this page admits it; then routing settles after one redirect.
\<close>

locale status_routing =
  fixes path_of :: "'s \<Rightarrow> 'p"
    and admits :: "'p \<Rightarrow> 's \<Rightarrow> bool"
    and go :: "'s \<Rightarrow> 'p \<Rightarrow> 'p"
  assumes path_admits: "admits (path_of s) s"
    and go_admitted: "admits p s \<Longrightarrow> go s p = p"
    and go_refused: "\<not> admits p s \<Longrightarrow> go s p = path_of s"
begin

lemma go_lands: "admits (go s p) s"
  by (cases "admits p s") (simp_all add: go_admitted go_refused path_admits)

lemma go_settles: "go s (go s p) = go s p"
  by (rule go_admitted) (rule go_lands)

lemma iterate_settles: "(go s ^^ Suc n) p = go s p"
  by (induction n) (simp_all add: go_settles)

lemma refused_moves: "\<not> admits p s \<Longrightarrow> go s p \<noteq> p"
  using go_lands [of s p] by auto

end

definition page_admits :: "string \<Rightarrow> verification_status \<Rightarrow> bool" where
  "page_admits p st \<longleftrightarrow> (case page_guard p of None \<Rightarrow> True | Some allowed \<Rightarrow> st \<in> set allowed)"

interpretation pages: status_routing status_path page_admits visit
proof unfold_locales
  show "page_admits (status_path s) s" for s
    by (cases s) (simp_all add: page_admits_def page_guard_def waiting_page_allowed_def
        access_page_allowed_def)
qed (auto simp: page_admits_def visit_eq split: option.splits)

section \<open>Progress bar\<close>

fun step_index :: "verification_step \<Rightarrow> (verification_step \<times> string) list \<Rightarrow> int" where
  "step_index st [] = -1"
| "step_index st ((k, _) # ks) =
     (if k = st then 0 else let i = step_index st ks in if i < 0 then -1 else i + 1)"

definition current_index :: "verification_step \<Rightarrow> int" where
  "current_index st = step_index st verification_steps"

definition progress_width :: "int \<Rightarrow> int" where
  "progress_width i = (if i \<le> 0 then 0 else min (i * 20) 80)"

definition progress_complete :: "int \<Rightarrow> bool \<Rightarrow> int \<Rightarrow> bool" where
  "progress_complete cur done i \<longleftrightarrow> i < cur \<or> (i = cur \<and> done)"

definition progress_active :: "int \<Rightarrow> bool \<Rightarrow> int \<Rightarrow> bool" where
  "progress_active cur done i \<longleftrightarrow> i = cur \<and> \<not> done"

lemma current_index_range: "0 \<le> current_index st \<and> current_index st < 5"
  by (cases st) (simp_all add: current_index_def verification_steps_def Let_def)

text \<open>A later status of the happy path never shows an earlier step.\<close>

definition step_of :: "verification_status \<Rightarrow> int" where
  "step_of s = current_index (step (status_presentation s))"

section \<open>Properties\<close>


text \<open>C34: from any page, whatever the status, the redirects settle after at most one hop on a
  page that admits the status, and a page that refuses a status never redirects to itself: the
  guards and the routing table cannot loop.\<close>

theorem redirects_settle:
  "(visit st ^^ Suc n) p = visit st p \<and> page_admits (visit st p) st
   \<and> (visit st p = p \<longleftrightarrow> page_admits p st)"
proof -
  have "visit st p = p \<longleftrightarrow> page_admits p st"
    using pages.go_admitted pages.refused_moves by metis
  then show ?thesis
    using pages.iterate_settles pages.go_lands by simp
qed

end
