(* ===== verification/Api_Client.thy ===== *)
theory Api_Client
  imports Http Status
begin

text \<open>
  The applicant's API client: \<open>readCookie\<close>, the session-expiry test and \<open>apiFetch\<close> of lib/api.ts,
  with the endpoint wrappers of lib/verification-api.ts, lib/identity-api.ts,
  lib/submission-api.ts, lib/mobile-capture-api.ts and lib/mobile-handoff-api.ts. The environment
  variable of lib/config.ts is a parameter.
\<close>

section \<open>Configuration\<close>

text \<open>\<open>process.env.NEXT_PUBLIC_API_BASE_URL ?? default\<close>: an empty value is kept.\<close>

definition api_base_url :: "string option \<Rightarrow> string" where
  "api_base_url env = coalesce env ''http://127.0.0.1:8000/api''"

definition session_expired_event :: string where
  "session_expired_event = ''verification-session-expired''"

section \<open>Cookies\<close>

text \<open>\<open>document.cookie.split("; ")\<close>\<close>

fun split_cookies :: "string \<Rightarrow> string list" where
  "split_cookies [] = [[]]"
| "split_cookies (c # cs) =
     (if c = CHR '';'' \<and> cs \<noteq> [] \<and> hd cs = CHR '' '' then [] # split_cookies (tl cs)
      else case split_cookies cs of [] \<Rightarrow> [[c]] | w # ws \<Rightarrow> (c # w) # ws)"

definition read_cookie :: "string \<Rightarrow> ('w, 'z) browser_scheme \<Rightarrow> js_error + string option" where
  "read_cookie name b =
     (if \<not> has_window b then Inr None
      else
        let prefix = name @ ''=''
        in case find (\<lambda>cookie. starts_with cookie prefix) (split_cookies (cookies b)) of
             None \<Rightarrow> Inr None
           | Some item \<Rightarrow>
               if item = [] then Inr None
               else (case decode_uri_component (drop (length prefix) item) of
                       None \<Rightarrow> Inl UriErr
                     | Some v \<Rightarrow> Inr (Some v)))"

section \<open>apiFetch\<close>

definition signal_session_expired :: "('w, 'z) browser_scheme \<Rightarrow> ('w, 'z) browser_scheme" where
  "signal_session_expired b = dispatch session_expired_event b"

definition treat_as_session_expiry :: "string \<Rightarrow> int \<Rightarrow> bool" where
  "treat_as_session_expiry path st =
     (if st \<noteq> 401 then False
      else if \<not> starts_with path ''/verification/'' then False
      else if str_includes path ''session-expired'' then False
      else True)"

text \<open>The \<open>detail\<close> of an error body, when it is a string that is not blank.\<close>

definition api_error_text :: "json option \<Rightarrow> string" where
  "api_error_text body =
     (case body of
        None \<Rightarrow> ''Something went wrong.''
      | Some j \<Rightarrow>
          (case js_get j ''detail'' of
            Inr (Some (JStr d)) \<Rightarrow> if trim d \<noteq> [] then d else ''Something went wrong.''
          | _ \<Rightarrow> ''Something went wrong.''))"

definition api_request ::
  "string option \<Rightarrow> string \<Rightarrow> request_options \<Rightarrow> string option \<Rightarrow> http_request" where
  "api_request env path opts csrf =
     (let h0 = headers_new (opt_headers opts);
          h1 = (case opt_body opts of
                  JsonText _ \<Rightarrow>
                    if \<not> header_has h0 ''Content-Type''
                    then header_set ''Content-Type'' ''application/json'' h0 else h0
                | _ \<Rightarrow> h0);
          h2 = (if truthy csrf then header_set ''X-CSRF-Token'' (the csrf) h1 else h1)
      in \<lparr>rq_method = coalesce (opt_method opts) ''GET'',
          rq_url = api_base_url env @ path,
          rq_headers = h2,
          rq_body = opt_body opts,
          rq_credentials = ''include'',
          rq_cache = ''no-store''\<rparr>)"

definition api_response ::
  "string \<Rightarrow> http_response \<Rightarrow> ('w, 'z) browser_scheme
     \<Rightarrow> (js_error + json option) \<times> ('w, 'z) browser_scheme" where
  "api_response path r b =
     (if \<not> rsp_ok r then
        (let message = api_error_text (rsp_json r);
             b' = (if treat_as_session_expiry path (rsp_status r)
                   then signal_session_expired b else b)
         in (Inl (ApiError message (rsp_status r)), b'))
      else if rsp_status r = 204 then (Inr None, b)
      else case rsp_json r of
             None \<Rightarrow> (Inl SyntaxErr, b)
           | Some j \<Rightarrow> (Inr (Some j), b))"

definition api_fetch ::
  "string option \<Rightarrow> 'w server \<Rightarrow> string \<Rightarrow> request_options
     \<Rightarrow> ('w, 'z) browser_scheme \<Rightarrow> (js_error + json option) \<times> ('w, 'z) browser_scheme" where
  "api_fetch env srv path opts b =
     (let meth = upper (coalesce (opt_method opts) ''GET'');
          token = (if meth \<in> set safe_methods then Inr None else read_cookie ''verification_csrf'' b)
      in case token of
           Inl e \<Rightarrow> (Inl e, b)
         | Inr csrf \<Rightarrow>
             (case do_fetch srv (api_request env path opts csrf) b of
                (Unreached m, b') \<Rightarrow> (Inl (FetchFailed m), b')
              | (Responded r, b') \<Rightarrow> api_response path r b'))"

section \<open>Endpoints\<close>

datatype evidence_type = Document_front | Document_back | Selfie | Liveness

fun evidence_name :: "evidence_type \<Rightarrow> string" where
  "evidence_name Document_front = ''document_front''"
| "evidence_name Document_back = ''document_back''"
| "evidence_name Selfie = ''selfie''"
| "evidence_name Liveness = ''liveness''"

text \<open>The answer to an upload, and what the form keeps of it.\<close>

record evidence_response =
  er_id :: string
  er_type :: evidence_type
  er_content_type :: string
  er_size :: int

record uploaded_evidence =
  up_id :: string
  up_type :: evidence_type
  up_filename :: string
  up_content_type :: string
  up_size :: int

definition uploaded_from :: "js_file \<Rightarrow> evidence_response \<Rightarrow> uploaded_evidence" where
  "uploaded_from f r =
     \<lparr>up_id = er_id r, up_type = er_type r, up_filename = file_name f,
      up_content_type = er_content_type r, up_size = er_size r\<rparr>"

text \<open>A wrapper is the path and the options it hands to \<open>apiFetch\<close>.\<close>

definition public_verification_request :: "string \<Rightarrow> string \<times> request_options" where
  "public_verification_request token = (''/v/'' @ encode_uri_component token, get_options)"

definition create_entry_context :: "string \<Rightarrow> string \<times> request_options" where
  "create_entry_context token =
     (''/v/'' @ encode_uri_component token @ ''/entry-context'', method_options ''POST'' NoBody)"

definition identity_form_config :: "string \<times> request_options" where
  "identity_form_config = (''/verification/form-config'', get_options)"

definition upload_evidence :: "evidence_type \<Rightarrow> js_file \<Rightarrow> string \<times> request_options" where
  "upload_evidence t f =
     (''/verification/evidence/'' @ evidence_name t,
      method_options ''POST'' (FormBody [(''upload'', f)]))"

record submission_payload =
  p_legal_name :: "string option"
  p_date_of_birth :: "string option"
  p_age_result :: "string option"
  p_issuing_country :: "string option"
  p_document_type :: "string option"
  p_evidence_ids :: "string list"
  p_consent_confirmed :: bool
  p_accuracy_confirmed :: bool

definition submit_verification :: "submission_payload \<Rightarrow> string \<times> request_options" where
  "submit_verification p =
     (''/verification/submit'',
      method_options ''POST'' (JsonText (JObj
        [(''legal_name'', json_opt (p_legal_name p)),
         (''date_of_birth'', json_opt (p_date_of_birth p)),
         (''age_result'', json_opt (p_age_result p)),
         (''issuing_country'', json_opt (p_issuing_country p)),
         (''document_type'', json_opt (p_document_type p)),
         (''evidence_ids'', JArr (map JStr (p_evidence_ids p))),
         (''consent_confirmed'', JBool (p_consent_confirmed p)),
         (''accuracy_confirmed'', JBool (p_accuracy_confirmed p))])))"

definition create_mobile_capture :: "string \<times> request_options" where
  "create_mobile_capture = (''/verification/mobile-capture'', method_options ''POST'' NoBody)"

definition mobile_capture_status :: "string \<Rightarrow> string \<times> request_options" where
  "mobile_capture_status i = (''/verification/mobile-capture/'' @ encode_uri_component i, get_options)"

definition revoke_mobile_capture :: "string \<Rightarrow> string \<times> request_options" where
  "revoke_mobile_capture i =
     (''/verification/mobile-capture/'' @ encode_uri_component i, method_options ''DELETE'' NoBody)"

definition exchange_mobile_handoff :: "string \<Rightarrow> string \<times> request_options" where
  "exchange_mobile_handoff token =
     (''/mobile/exchange'',
      \<lparr>opt_method = Some ''POST'', opt_headers = [(''X-Mobile-Handoff-Token'', token)],
       opt_body = NoBody\<rparr>)"

definition mobile_capture_session :: "string \<times> request_options" where
  "mobile_capture_session = (''/mobile/session'', get_options)"

definition upload_mobile_evidence :: "evidence_type \<Rightarrow> js_file \<Rightarrow> string \<times> request_options" where
  "upload_mobile_evidence t f =
     (''/mobile/evidence/'' @ evidence_name t, method_options ''POST'' (FormBody [(''upload'', f)]))"

definition complete_mobile_handoff :: "string \<times> request_options" where
  "complete_mobile_handoff = (''/mobile/complete'', method_options ''POST'' NoBody)"

section \<open>Facts\<close>

lemma api_response_frame [simp]:
  "sent (snd (api_response path r b)) = sent b"
  "cookies (snd (api_response path r b)) = cookies b"
  "has_window (snd (api_response path r b)) = has_window b"
  by (simp_all add: api_response_def signal_session_expired_def Let_def split: option.split)

lemma api_fetch_cases:
  "api_fetch env srv path opts b =
     (case (if upper (coalesce (opt_method opts) ''GET'') \<in> set safe_methods then Inr None
            else read_cookie ''verification_csrf'' b) of
        Inl e \<Rightarrow> (Inl e, b)
      | Inr csrf \<Rightarrow>
          (let fb = do_fetch srv (api_request env path opts csrf) b
           in case fst fb of
                Unreached m \<Rightarrow> (Inl (FetchFailed m), snd fb)
              | Responded r \<Rightarrow> api_response path r (snd fb)))"
  by (auto simp: api_fetch_def Let_def split: sum.split prod.split fetch_result.split)

lemma api_fetch_cookies [simp]:
  "cookies (snd (api_fetch env srv path opts b)) = cookies b"
  "has_window (snd (api_fetch env srv path opts b)) = has_window b"
  by (simp_all add: api_fetch_cases Let_def split: sum.split fetch_result.split)

lemma api_fetch_sent:
  "sent (snd (api_fetch env srv path opts b)) =
     (case (if upper (coalesce (opt_method opts) ''GET'') \<in> set safe_methods then Inr None
            else read_cookie ''verification_csrf'' b) of
        Inl e \<Rightarrow> sent b
      | Inr csrf \<Rightarrow> sent b @ [api_request env path opts csrf])"
  by (simp add: api_fetch_cases Let_def split: sum.split fetch_result.split)

lemma rq_api_request [simp]:
  "rq_method (api_request env path opts csrf) = coalesce (opt_method opts) ''GET''"
  "rq_url (api_request env path opts csrf) = api_base_url env @ path"
  "rq_credentials (api_request env path opts csrf) = ''include''"
  "rq_cache (api_request env path opts csrf) = ''no-store''"
  "rq_body (api_request env path opts csrf) = opt_body opts"
  by (simp_all add: api_request_def Let_def)

lemma api_request_csrf:
  "truthy csrf \<Longrightarrow> header_get (rq_headers (api_request env path opts csrf)) ''X-CSRF-Token'' = csrf"
  by (cases csrf) (simp_all add: api_request_def Let_def header_get_set truthy_def)

text \<open>
  What a page with the CSRF cookie value \<open>t\<close> may send: a request that changes state carries
  \<open>t\<close> as its token, and every request is sent with credentials and bypasses the cache.
\<close>

definition applicant_request_ok :: "string option \<Rightarrow> http_request \<Rightarrow> bool" where
  "applicant_request_ok t rq \<longleftrightarrow>
     (upper (rq_method rq) \<notin> set safe_methods \<and> truthy t
        \<longrightarrow> header_get (rq_headers rq) ''X-CSRF-Token'' = t)
     \<and> rq_credentials rq = ''include'' \<and> rq_cache rq = ''no-store''"

text \<open>The page invariant: the browser shows the cookie \<open>t\<close>, which no call changes.\<close>

definition cookie_inv :: "string option \<Rightarrow> 'w browser \<Rightarrow> bool" where
  "cookie_inv t b \<longleftrightarrow> read_cookie ''verification_csrf'' b = Inr t"

lemma read_cookie_frame:
  "cookies b = cookies b' \<Longrightarrow> has_window b = has_window b' \<Longrightarrow> read_cookie n b = read_cookie n b'"
  by (simp add: read_cookie_def)

interpretation applicant: api_client
  "api_fetch env srv" sent "cookie_inv t" "applicant_request_ok t"
  for env :: "string option" and srv :: "'w server" and t :: "string option"
proof unfold_locales
  fix s :: "'w browser" and p opts
  assume inv: "cookie_inv t s"
  then show "cookie_inv t (snd (api_fetch env srv p opts s))"
    using read_cookie_frame [of "snd (api_fetch env srv p opts s)" s] by (simp add: cookie_inv_def)
  show "\<exists>rs. sent (snd (api_fetch env srv p opts s)) = sent s @ rs
      \<and> list_all (applicant_request_ok t) rs"
    using inv by (auto simp: api_fetch_sent cookie_inv_def applicant_request_ok_def
        api_request_csrf split: sum.split)
qed

section \<open>Properties\<close>

text \<open>Every rejected or error response becomes an \<open>Error\<close> with a non-empty message, an HTTP
  error becomes an \<open>ApiError\<close> that keeps the status, and the session-expired event is dispatched
  exactly when a \<open>/verification/\<close> path other than the session-expired page answers 401.\<close>

theorem api_response_error:
  assumes "\<not> rsp_ok r"
  shows "\<exists>m. api_response path r b =
      (Inl (ApiError m (rsp_status r)),
       if has_window b \<and> rsp_status r = 401 \<and> starts_with path ''/verification/''
          \<and> \<not> str_includes path ''session-expired''
       then b\<lparr>events := events b @ [session_expired_event]\<rparr> else b)
    \<and> trim m \<noteq> []"
proof -
  have "trim (api_error_text (rsp_json r)) \<noteq> []"
    by (auto simp: api_error_text_def js_string split: option.split sum.split json.split)
  then show ?thesis
    using assms
    by (auto simp: api_response_def Let_def treat_as_session_expiry_def
        signal_session_expired_def dispatch_def)
qed

definition first_visit :: "string \<Rightarrow> 'w \<Rightarrow> 'w browser" where
  "first_visit jar w = \<lparr>has_window = True, cookies = jar, events = [], sent = [], remote = w\<rparr>"

theorem api_response_error_witness:
  "events (snd (api_response ''/verification/form-config''
      \<lparr>rsp_status = 401, rsp_headers = [], rsp_json = None\<rparr> (first_visit [] ())))
     = [session_expired_event]"
  using api_response_error [of "\<lparr>rsp_status = 401, rsp_headers = [], rsp_json = None\<rparr>"
      "''/verification/form-config''" "first_visit [] ()"]
  by (auto simp: rsp_ok_def first_visit_def starts_with_def)



end
