(* ===== verification/Admin_Session.thy ===== *)
theory Admin_Session
  imports Http
begin

text \<open>
  The administrator's API client of lib/admin-api.ts: the in-memory session state
  (\<open>adminCsrfToken\<close>, \<open>adminSessionInitialization\<close>), restoring and establishing a session,
  \<open>ensureAdminSession\<close>, \<open>adminFetch\<close>, \<open>getCurrentAdminSession\<close>, \<open>stepUpAdminSession\<close> and
  \<open>logoutAdminSession\<close>, for callers that run one after the other. The interleaving of
  concurrent callers is the subject of Admin_Session_Steps. The server and the two
  environment variables are parameters.
\<close>

section \<open>State and helpers\<close>

record admin_env =
  node_env :: string
  env_api_base :: "string option"

text \<open>
  \<open>session_init\<close> is "\<open>adminSessionInitialization\<close> is not null"; between calls that do not
  overlap a promise held there has been fulfilled.
\<close>

record 'w admin_page = "'w browser" +
  csrf_token :: "string option"
  session_init :: bool

definition admin_session_path :: string where
  "admin_session_path = ''/admin/auth/session''"

definition admin_csrf_header :: string where
  "admin_csrf_header = ''X-Admin-CSRF-Token''"

definition admin_session_expired_event :: string where
  "admin_session_expired_event = ''admin-session-expired''"

definition signal_admin_session_expired :: "'w admin_page \<Rightarrow> 'w admin_page" where
  "signal_admin_session_expired s = dispatch admin_session_expired_event s"

definition clear_admin_session_state :: "'w admin_page \<Rightarrow> 'w admin_page" where
  "clear_admin_session_state s = s\<lparr>csrf_token := None, session_init := False\<rparr>"

definition admin_base_url :: "admin_env \<Rightarrow> string" where
  "admin_base_url env =
     (let configured = (case env_api_base env of None \<Rightarrow> [] | Some v \<Rightarrow> trim v);
          base = or_else configured ''http://localhost:8000/api''
      in strip_trailing CHR ''/'' base)"

definition normalize_api_path :: "string \<Rightarrow> string" where
  "normalize_api_path path =
     (if path = [] then ''/'' else if starts_with path ''/'' then path else ''/'' @ path)"

definition admin_url :: "admin_env \<Rightarrow> string \<Rightarrow> string" where
  "admin_url env path = admin_base_url env @ normalize_api_path path"

definition extract_csrf_token :: "json \<Rightarrow> js_error + string option" where
  "extract_csrf_token payload =
     (case js_get payload ''csrf_token'' of
        Inl e \<Rightarrow> Inl e
      | Inr (Some (JStr t)) \<Rightarrow> if length (trim t) > 0 then Inr (Some (trim t)) else Inr None
      | Inr _ \<Rightarrow> Inr None)"

fun first_text :: "json option list \<Rightarrow> string option" where
  "first_text [] = None"
| "first_text (Some (JStr v) # vs) = (if length (trim v) > 0 then Some (trim v) else first_text vs)"
| "first_text (_ # vs) = first_text vs"

definition extract_error_message :: "json \<Rightarrow> js_error + string option" where
  "extract_error_message payload =
     (case (js_get payload ''detail'', js_get payload ''message'', js_get payload ''error'') of
        (Inr d, Inr m, Inr e) \<Rightarrow> Inr (first_text [d, m, e])
      | _ \<Rightarrow> Inl (TypeErr ''detail''))"

definition response_error_message :: "http_response \<Rightarrow> string \<Rightarrow> string" where
  "response_error_message r fallback =
     (case rsp_json r of
        None \<Rightarrow> fallback
      | Some payload \<Rightarrow>
          (case extract_error_message payload of
             Inl _ \<Rightarrow> fallback
           | Inr m \<Rightarrow> coalesce m fallback))"

text \<open>The requests of the session endpoints, which do not pass through \<open>adminFetch\<close>.\<close>

definition session_request :: "string \<Rightarrow> string \<Rightarrow> headers \<Rightarrow> http_request" where
  "session_request url meth extra =
     \<lparr>rq_method = meth, rq_url = url,
      rq_headers = headers_new ((''Accept'', ''application/json'') # extra),
      rq_body = NoBody, rq_credentials = ''include'', rq_cache = ''no-store''\<rparr>"

section \<open>Restoring and establishing a session\<close>

definition restore_admin_session :: "admin_env \<Rightarrow> 'w server \<Rightarrow> ('w admin_page, bool) act" where
  "restore_admin_session env srv s =
     (case do_fetch srv (session_request (admin_url env admin_session_path) ''GET'' []) s of
        (Unreached _, s1) \<Rightarrow>
          (Inl (AdminApiError ''Unable to reach the SCANLY administrator API.'' 0), s1)
      | (Responded r, s1) \<Rightarrow>
          if rsp_status r = 401 then (Inr False, s1)
          else if \<not> rsp_ok r then
            (Inl (AdminApiError
                (response_error_message r ''Unable to restore administrator session.'')
                (rsp_status r)), s1)
          else (case rsp_json r of
              None \<Rightarrow>
                (Inl (AdminApiError
                  ''Administrator session service returned an invalid response.'' 500), s1)
            | Some payload \<Rightarrow>
                (case extract_csrf_token payload of
                   Inl e \<Rightarrow> (Inl e, s1)
                 | Inr None \<Rightarrow>
                     (Inl (AdminApiError
                       ''Administrator request verification could not be initialized.'' 500), s1)
                 | Inr (Some t) \<Rightarrow> (Inr True, s1\<lparr>csrf_token := Some t\<rparr>))))"

definition establish_url :: "admin_env \<Rightarrow> string" where
  "establish_url env =
     (if node_env env = ''development'' then ''/api/admin/dev-session''
      else admin_url env admin_session_path)"

definition establish_request :: "admin_env \<Rightarrow> http_request" where
  "establish_request env = session_request (establish_url env) ''POST'' []"

definition establish_admin_session :: "admin_env \<Rightarrow> 'w server \<Rightarrow> ('w admin_page, unit) act" where
  "establish_admin_session env srv s =
     (case do_fetch srv (establish_request env) s of
        (Unreached _, s1) \<Rightarrow>
          (Inl (AdminApiError ''Unable to establish the SCANLY administrator session.'' 0), s1)
      | (Responded r, s1) \<Rightarrow>
          if \<not> rsp_ok r then
            (Inl (AdminApiError
                (response_error_message r ''Unable to establish administrator session.'')
                (rsp_status r)),
             if rsp_status r = 401 \<or> rsp_status r = 403
             then signal_admin_session_expired (clear_admin_session_state s1) else s1)
          else (case rsp_json r of
              None \<Rightarrow>
                (Inl (AdminApiError
                  ''Administrator session service returned an invalid response.'' 500), s1)
            | Some payload \<Rightarrow>
                (case extract_csrf_token payload of
                   Inl e \<Rightarrow> (Inl e, s1)
                 | Inr None \<Rightarrow>
                     (Inl (AdminApiError
                       ''Administrator request verification could not be initialized.'' 500), s1)
                 | Inr (Some t) \<Rightarrow> (Inr (), s1\<lparr>csrf_token := Some t\<rparr>))))"

definition initialize_admin_session :: "admin_env \<Rightarrow> 'w server \<Rightarrow> ('w admin_page, unit) act" where
  "initialize_admin_session env srv =
     act_bind (restore_admin_session env srv)
       (\<lambda>restored. if restored then act_return () else establish_admin_session env srv)"

text \<open>
  The initialisation is stored before it runs and taken out again when it fails; a stored one
  is awaited instead of starting another.
\<close>

definition ensure_admin_session :: "admin_env \<Rightarrow> 'w server \<Rightarrow> ('w admin_page, unit) act" where
  "ensure_admin_session env srv s =
     (if truthy (csrf_token s) then (Inr (), s)
      else if session_init s then (Inr (), s)
      else case initialize_admin_session env srv (s\<lparr>session_init := True\<rparr>) of
             (Inl e, s1) \<Rightarrow> (Inl e, s1\<lparr>session_init := False\<rparr>)
           | (Inr u, s1) \<Rightarrow> (Inr u, s1))"

section \<open>adminFetch\<close>

definition normalize_method :: "string option \<Rightarrow> string" where
  "normalize_method m = or_else (case m of None \<Rightarrow> [] | Some v \<Rightarrow> upper (trim v)) ''GET''"

definition method_requires_csrf :: "string \<Rightarrow> bool" where
  "method_requires_csrf m \<longleftrightarrow> m \<notin> set safe_methods"

definition admin_request ::
  "admin_env \<Rightarrow> string \<Rightarrow> request_options \<Rightarrow> string option \<Rightarrow> http_request" where
  "admin_request env path opts csrf =
     (let h0 = headers_new (opt_headers opts);
          h1 = header_set ''Accept'' ''application/json'' h0;
          meth = normalize_method (opt_method opts);
          h2 = header_delete ''Authorization'' h1;
          h3 = (if method_requires_csrf meth
                then header_set admin_csrf_header (coalesce csrf []) h2 else h2);
          h4 = (case opt_body opts of
                  JsonText _ \<Rightarrow>
                    if \<not> header_has h3 ''Content-Type''
                    then header_set ''Content-Type'' ''application/json'' h3 else h3
                | _ \<Rightarrow> h3)
      in \<lparr>rq_method = meth, rq_url = admin_url env path, rq_headers = h4,
          rq_body = opt_body opts, rq_credentials = ''include'', rq_cache = ''no-store''\<rparr>)"

definition admin_failure :: "http_response \<Rightarrow> ('w admin_page, json option) act" where
  "admin_failure r s =
     (let message = response_error_message r ''Administrator request failed.'';
          m401 = (if rsp_status r = 401 \<and> message = ''Administrator request failed.''
                  then ''Administrator session has expired. Please sign in again.'' else message);
          m403 = (if rsp_status r = 403 \<and> m401 = ''Administrator request failed.''
                  then ''You do not have permission to perform this administrator action.''
                  else m401);
          s1 = (if rsp_status r = 401
                then signal_admin_session_expired (clear_admin_session_state s) else s)
      in (Inl (AdminApiError m403 (rsp_status r)), s1))"

definition admin_success :: "http_response \<Rightarrow> ('w admin_page, json option) act" where
  "admin_success r s =
     (if rsp_status r = 204 \<or> header_get (rsp_headers r) ''content-length'' = Some ''0''
      then (Inr None, s)
      else
        let is_json = (case header_get (rsp_headers r) ''content-type'' of
                         None \<Rightarrow> False
                       | Some ct \<Rightarrow> str_includes (lower ct) ''application/json'')
        in if \<not> is_json then
             (Inl (AdminApiError ''Administrator API returned an unexpected response.''
                     (rsp_status r)), s)
           else case rsp_json r of
                  None \<Rightarrow>
                    (Inl (AdminApiError ''Administrator API returned invalid JSON.'' (rsp_status r)), s)
                | Some j \<Rightarrow> (Inr (Some j), s))"

definition admin_send ::
  "admin_env \<Rightarrow> 'w server \<Rightarrow> string \<Rightarrow> request_options \<Rightarrow> ('w admin_page, json option) act" where
  "admin_send env srv path opts s =
     (if method_requires_csrf (normalize_method (opt_method opts)) \<and> \<not> truthy (csrf_token s) then
        (Inl (AdminApiError ''Administrator request verification is unavailable.'' 403), s)
      else case do_fetch srv (admin_request env path opts (csrf_token s)) s of
             (Unreached _, s1) \<Rightarrow>
               (Inl (AdminApiError ''Unable to reach the SCANLY administrator API.'' 0), s1)
           | (Responded r, s1) \<Rightarrow> if \<not> rsp_ok r then admin_failure r s1 else admin_success r s1)"

definition admin_fetch ::
  "admin_env \<Rightarrow> 'w server \<Rightarrow> string \<Rightarrow> request_options \<Rightarrow> ('w admin_page, json option) act" where
  "admin_fetch env srv path opts =
     act_bind (ensure_admin_session env srv) (\<lambda>_. admin_send env srv path opts)"

section \<open>The current administrator, step-up and logout\<close>

datatype admin_role = Reviewer | Admin | Super_admin

fun role_name :: "admin_role \<Rightarrow> string" where
  "role_name Reviewer = ''reviewer''"
| "role_name Admin = ''admin''"
| "role_name Super_admin = ''super_admin''"

definition role_of_json :: "json option \<Rightarrow> admin_role option" where
  "role_of_json j =
     (if j = Some (JStr ''reviewer'') then Some Reviewer
      else if j = Some (JStr ''admin'') then Some Admin
      else if j = Some (JStr ''super_admin'') then Some Super_admin
      else None)"

record current_admin =
  admin_id :: string
  admin_email :: string
  admin_display_name :: string
  admin_role :: admin_role

record current_session =
  session_admin :: current_admin
  session_expires_at :: string

fun json_string :: "json option \<Rightarrow> string option" where
  "json_string (Some (JStr s)) = Some s"
| "json_string _ = None"

text \<open>
  \<open>payload.admin\<close> must be an object (an array is one too, but has none of the fields), and each
  field must have the right type; \<open>None\<close> is the "invalid identity" error.
\<close>

definition current_identity :: "json \<Rightarrow> current_session option" where
  "current_identity payload =
     (case (js_get payload ''authenticated'', js_get payload ''admin'', js_get payload ''expires_at'') of
        (Inr (Some (JBool True)), Inr (Some (JObj kvs)), Inr expires) \<Rightarrow>
          (case (json_string (map_of (rev kvs) ''id''), json_string (map_of (rev kvs) ''email''),
                 json_string (map_of (rev kvs) ''display_name''),
                 role_of_json (map_of (rev kvs) ''role''), json_string expires) of
             (Some i, Some m, Some d, Some r, Some e) \<Rightarrow>
               Some \<lparr>session_admin = \<lparr>admin_id = i, admin_email = m, admin_display_name = d,
                       admin_role = r\<rparr>, session_expires_at = e\<rparr>
           | _ \<Rightarrow> None)
      | _ \<Rightarrow> None)"

definition read_current_session ::
  "admin_env \<Rightarrow> 'w server \<Rightarrow> ('w admin_page, current_session) act" where
  "read_current_session env srv s =
     (case do_fetch srv (session_request (admin_url env admin_session_path) ''GET'' []) s of
        (Unreached _, s1) \<Rightarrow>
          (Inl (AdminApiError ''Unable to reach the SCANLY administrator API.'' 0), s1)
      | (Responded r, s1) \<Rightarrow>
          if \<not> rsp_ok r then
            (Inl (AdminApiError
                (response_error_message r ''Unable to read administrator session.'') (rsp_status r)),
             if rsp_status r = 401
             then signal_admin_session_expired (clear_admin_session_state s1) else s1)
          else (case rsp_json r of
              None \<Rightarrow>
                (Inl (AdminApiError
                  ''Administrator session service returned an invalid response.'' 500), s1)
            | Some payload \<Rightarrow>
                (case extract_csrf_token payload of
                   Inl e \<Rightarrow> (Inl e, s1)
                 | Inr None \<Rightarrow>
                     (Inl (AdminApiError
                       ''Administrator request verification could not be refreshed.'' 500),
                      clear_admin_session_state s1)
                 | Inr (Some t) \<Rightarrow>
                     (case current_identity payload of
                        None \<Rightarrow>
                          (Inl (AdminApiError
                            ''Administrator session returned an invalid identity.'' 500), s1)
                      | Some ident \<Rightarrow> (Inr ident, s1\<lparr>csrf_token := Some t\<rparr>)))))"

definition get_current_admin_session ::
  "admin_env \<Rightarrow> 'w server \<Rightarrow> ('w admin_page, current_session) act" where
  "get_current_admin_session env srv =
     act_bind (ensure_admin_session env srv) (\<lambda>_. read_current_session env srv)"

definition step_up_admin_session :: "admin_env \<Rightarrow> 'w server \<Rightarrow> ('w admin_page, unit) act" where
  "step_up_admin_session env srv =
     act_bind (ensure_admin_session env srv)
       (\<lambda>_ s. if \<not> truthy (csrf_token s)
              then (Inl (AdminApiError ''Administrator request verification is unavailable.'' 403), s)
              else (Inr (), s))"

definition logout_admin_session :: "admin_env \<Rightarrow> 'w server \<Rightarrow> ('w admin_page, unit) act" where
  "logout_admin_session env srv =
     act_bind (ensure_admin_session env srv)
       (\<lambda>_ s. if \<not> truthy (csrf_token s)
              then (Inl (AdminApiError ''Administrator request verification is unavailable.'' 403), s)
              else case do_fetch srv (session_request (admin_url env admin_session_path) ''DELETE''
                          [(admin_csrf_header, coalesce (csrf_token s) [])]) s of
                     (Unreached _, s1) \<Rightarrow>
                       (Inl (AdminApiError ''Unable to reach the SCANLY administrator API.'' 0), s1)
                   | (Responded r, s1) \<Rightarrow>
                       if \<not> rsp_ok r then
                         (Inl (AdminApiError
                            (response_error_message r ''Unable to end administrator session.'')
                            (rsp_status r)), s1)
                       else (Inr (), clear_admin_session_state s1))"

section \<open>The session invariant\<close>

text \<open>
  A stored, fulfilled initialisation comes with a token, and the token is never blank. The
  token a call leaves behind is what \<open>step_up_admin_session\<close> and \<open>adminFetch\<close> rely on.
\<close>

definition page_inv :: "'w admin_page \<Rightarrow> bool" where
  "page_inv s \<longleftrightarrow>
     (session_init s \<longrightarrow> truthy (csrf_token s)) \<and>
     (\<forall>t. csrf_token s = Some t \<longrightarrow> t \<noteq> [] \<and> trim t = t)"

named_theorems admin_simps \<open>frame facts of the administrator client\<close>

lemma clear_admin_frame [admin_simps]:
  "csrf_token (clear_admin_session_state s) = None"
  "session_init (clear_admin_session_state s) = False"
  "sent (clear_admin_session_state s) = sent s"
  "events (clear_admin_session_state s) = events s"
  "has_window (clear_admin_session_state s) = has_window s"
  by (simp_all add: clear_admin_session_state_def)

lemma signal_admin_frame [admin_simps]:
  "csrf_token (signal_admin_session_expired s) = csrf_token s"
  "session_init (signal_admin_session_expired s) = session_init s"
  "sent (signal_admin_session_expired s) = sent s"
  "has_window (signal_admin_session_expired s) = has_window s"
  "events (signal_admin_session_expired s) =
     (if has_window s then events s @ [admin_session_expired_event] else events s)"
  by (simp_all add: signal_admin_session_expired_def dispatch_def)

lemma admin_fetch_frame [admin_simps]:
  "csrf_token (snd (do_fetch srv rq (s :: 'w admin_page))) = csrf_token s"
  "session_init (snd (do_fetch srv rq (s :: 'w admin_page))) = session_init s"
  by (simp_all add: do_fetch_def split: prod.split)

lemma do_fetch_split:
  "(case do_fetch srv rq b of (Unreached m, s1) \<Rightarrow> f m s1 | (Responded r, s1) \<Rightarrow> g r s1) =
   (case fst (do_fetch srv rq b) of Unreached m \<Rightarrow> f m (snd (do_fetch srv rq b))
      | Responded r \<Rightarrow> g r (snd (do_fetch srv rq b)))"
  by (simp split: prod.split fetch_result.split)

lemma truthy_Some: "truthy x \<longleftrightarrow> (\<exists>t. x = Some t \<and> t \<noteq> [])"
  by (auto simp: truthy_def split: option.split)

lemma extract_csrf_some:
  "extract_csrf_token p = Inr (Some t) \<Longrightarrow> t \<noteq> [] \<and> trim t = t"
  by (auto simp: extract_csrf_token_def split: sum.splits option.splits json.splits if_splits)

lemmas session_result_splits = sum.split option.split fetch_result.split

lemma restore_result:
  "(case fst (restore_admin_session env srv s) of
      Inr True \<Rightarrow> (\<exists>t. csrf_token (snd (restore_admin_session env srv s)) = Some t \<and> t \<noteq> [] \<and> trim t = t)
    | _ \<Rightarrow> csrf_token (snd (restore_admin_session env srv s)) = csrf_token s)
   \<and> session_init (snd (restore_admin_session env srv s)) = session_init s
   \<and> sent (snd (restore_admin_session env srv s)) =
       sent s @ [session_request (admin_url env admin_session_path) ''GET'' []]
   \<and> has_window (snd (restore_admin_session env srv s)) = has_window s"
  unfolding restore_admin_session_def do_fetch_split
  by (auto simp: admin_simps extract_csrf_some split: session_result_splits)

lemma establish_result:
  "(case fst (establish_admin_session env srv s) of
      Inr _ \<Rightarrow> (\<exists>t. csrf_token (snd (establish_admin_session env srv s)) = Some t \<and> t \<noteq> [] \<and> trim t = t)
             \<and> session_init (snd (establish_admin_session env srv s)) = session_init s
    | _ \<Rightarrow> csrf_token (snd (establish_admin_session env srv s)) \<in> {None, csrf_token s})
   \<and> sent (snd (establish_admin_session env srv s)) = sent s @ [establish_request env]
   \<and> has_window (snd (establish_admin_session env srv s)) = has_window s"
  unfolding establish_admin_session_def do_fetch_split
  by (auto simp: admin_simps extract_csrf_some split: session_result_splits)

lemma initialize_result:
  "(case fst (initialize_admin_session env srv s) of
      Inr _ \<Rightarrow> (\<exists>t. csrf_token (snd (initialize_admin_session env srv s)) = Some t \<and> t \<noteq> [] \<and> trim t = t)
             \<and> session_init (snd (initialize_admin_session env srv s)) = session_init s
    | _ \<Rightarrow> csrf_token (snd (initialize_admin_session env srv s)) \<in> {None, csrf_token s})
   \<and> sent (snd (initialize_admin_session env srv s)) \<in>
       {sent s @ [session_request (admin_url env admin_session_path) ''GET'' []],
        sent s @ [session_request (admin_url env admin_session_path) ''GET'' [], establish_request env]}
   \<and> has_window (snd (initialize_admin_session env srv s)) = has_window s"
proof -
  define s1 where "s1 = snd (restore_admin_session env srv s)"
  have r: "(case fst (restore_admin_session env srv s) of
      Inr True \<Rightarrow> (\<exists>t. csrf_token s1 = Some t \<and> t \<noteq> [] \<and> trim t = t)
    | _ \<Rightarrow> csrf_token s1 = csrf_token s)"
    "session_init s1 = session_init s" "has_window s1 = has_window s"
    "sent s1 = sent s @ [session_request (admin_url env admin_session_path) ''GET'' []]"
    using restore_result [of env srv s] unfolding s1_def by blast+
  show ?thesis
  proof (cases "fst (restore_admin_session env srv s) = Inr False")
    case True
    then have "initialize_admin_session env srv s = establish_admin_session env srv s1"
      by (simp add: initialize_admin_session_def act_bind_cases s1_def)
    with True r show ?thesis
      using establish_result [of env srv s1] by (auto split: sum.splits)
  next
    case False
    then have "initialize_admin_session env srv s =
        (case fst (restore_admin_session env srv s) of Inl e \<Rightarrow> (Inl e, s1) | Inr _ \<Rightarrow> (Inr (), s1))"
      by (auto simp: initialize_admin_session_def act_bind_cases s1_def split: sum.split)
    with False r show ?thesis by (auto split: sum.splits bool.splits)
  qed
qed

text \<open>
  What \<open>ensureAdminSession\<close> gives its callers: the invariant, a usable token whenever it
  succeeds, and at most the restore request followed by the establishing one.
\<close>

lemma ensure_result:
  assumes "page_inv s"
  shows "page_inv (snd (ensure_admin_session env srv s))"
    and "fst (ensure_admin_session env srv s) = Inr u
      \<Longrightarrow> truthy (csrf_token (snd (ensure_admin_session env srv s)))"
    and "sent (snd (ensure_admin_session env srv s)) \<in>
       {sent s, sent s @ [session_request (admin_url env admin_session_path) ''GET'' []],
        sent s @ [session_request (admin_url env admin_session_path) ''GET'' [], establish_request env]}"
    and "has_window (snd (ensure_admin_session env srv s)) = has_window s"
    and "truthy (csrf_token s) \<Longrightarrow> ensure_admin_session env srv s = (Inr (), s)"
proof -
  define i where "i = initialize_admin_session env srv (s\<lparr>session_init := True\<rparr>)"
  have ens: "ensure_admin_session env srv s =
      (if truthy (csrf_token s) then (Inr (), s)
       else case fst i of Inl e \<Rightarrow> (Inl e, (snd i)\<lparr>session_init := False\<rparr>) | Inr u \<Rightarrow> (Inr u, snd i))"
    using assms by (auto simp: ensure_admin_session_def i_def page_inv_def split: prod.split sum.split)
  have i: "(case fst i of
      Inr _ \<Rightarrow> (\<exists>t. csrf_token (snd i) = Some t \<and> t \<noteq> [] \<and> trim t = t) \<and> session_init (snd i)
    | _ \<Rightarrow> csrf_token (snd i) \<in> {None, csrf_token s})"
    "sent (snd i) \<in> {sent s @ [session_request (admin_url env admin_session_path) ''GET'' []],
        sent s @ [session_request (admin_url env admin_session_path) ''GET'' [], establish_request env]}"
    "has_window (snd i) = has_window s"
    using initialize_result [of env srv "s\<lparr>session_init := True\<rparr>"] unfolding i_def
    by (auto split: sum.splits)
  show "page_inv (snd (ensure_admin_session env srv s))"
    using assms i unfolding ens by (auto simp: page_inv_def truthy_Some split: sum.splits)
  show "truthy (csrf_token (snd (ensure_admin_session env srv s)))"
    if "fst (ensure_admin_session env srv s) = Inr u"
    using that i unfolding ens by (auto simp: truthy_Some split: sum.splits if_splits)
  show "sent (snd (ensure_admin_session env srv s)) \<in>
       {sent s, sent s @ [session_request (admin_url env admin_session_path) ''GET'' []],
        sent s @ [session_request (admin_url env admin_session_path) ''GET'' [], establish_request env]}"
    using i unfolding ens by (auto split: sum.splits)
  show "has_window (snd (ensure_admin_session env srv s)) = has_window s"
    using i unfolding ens by (auto split: sum.splits)
  show "ensure_admin_session env srv s = (Inr (), s)" if "truthy (csrf_token s)"
    using that by (simp add: ensure_admin_session_def)
qed

text \<open>Every reported message is a text: the server's, without surrounding white space, or the
  caller's fallback.\<close>

lemma first_text_some: "first_text vs = Some m \<Longrightarrow> m \<noteq> [] \<and> trim m = m"
  by (induction vs rule: first_text.induct) (auto split: if_splits)

lemma response_error_message_nonempty:
  "fallback \<noteq> [] \<Longrightarrow> response_error_message r fallback \<noteq> []"
  by (auto simp: response_error_message_def extract_error_message_def coalesce_def
      dest: first_text_some split: option.splits sum.splits)

section \<open>What the administrator client sends\<close>

text \<open>
  Every request goes with credentials, past the cache and without an Authorization header; a
  request that changes state carries the session's CSRF token, except the one POST that
  establishes the session.
\<close>

definition admin_request_ok :: "admin_env \<Rightarrow> http_request \<Rightarrow> bool" where
  "admin_request_ok env rq \<longleftrightarrow>
     rq_credentials rq = ''include'' \<and> rq_cache rq = ''no-store''
     \<and> header_get (rq_headers rq) ''Authorization'' = None
     \<and> (method_requires_csrf (rq_method rq)
          \<longrightarrow> truthy (header_get (rq_headers rq) admin_csrf_header) \<or> rq = establish_request env)"

lemma session_request_ok:
  "admin_request_ok env (session_request url ''GET'' [])"
  "admin_request_ok env (establish_request env)"
  by (simp_all add: admin_request_ok_def session_request_def establish_request_def headers_new_def
      header_get_def header_set_def to_lower_def is_upper_def method_requires_csrf_def safe_methods_def)

lemma rq_admin_request [simp]:
  "rq_method (admin_request env path opts t) = normalize_method (opt_method opts)"
  "rq_url (admin_request env path opts t) = admin_url env path"
  "rq_body (admin_request env path opts t) = opt_body opts"
  "rq_credentials (admin_request env path opts t) = ''include''"
  "rq_cache (admin_request env path opts t) = ''no-store''"
  by (simp_all add: admin_request_def Let_def)

lemma admin_request_headers:
  "header_get (rq_headers (admin_request env path opts t)) ''Authorization'' = None"
  "method_requires_csrf (normalize_method (opt_method opts)) \<Longrightarrow>
     header_get (rq_headers (admin_request env path opts t)) admin_csrf_header = Some (coalesce t [])"
  "header_get (rq_headers (admin_request env path opts t)) ''Accept'' = Some ''application/json''"
  by (cases "opt_body opts";
      simp add: admin_request_def Let_def header_get_set header_get_delete admin_csrf_header_def
        to_lower_def is_upper_def)+

lemma admin_request_accepted:
  "\<not> (method_requires_csrf (normalize_method (opt_method opts)) \<and> \<not> truthy t) \<Longrightarrow>
     admin_request_ok env (admin_request env path opts t)"
  by (auto simp: admin_request_ok_def admin_request_headers truthy_Some coalesce_def)

lemma admin_failure_state:
  "snd (admin_failure r s) =
     (if rsp_status r = 401 then signal_admin_session_expired (clear_admin_session_state s) else s)"
  by (simp add: admin_failure_def Let_def)

lemma admin_success_state [simp]: "snd (admin_success r s) = s"
  by (simp add: admin_success_def Let_def split: option.split)

lemma admin_send_result:
  "page_inv s \<Longrightarrow> page_inv (snd (admin_send env srv path opts s))"
  "\<exists>rs. sent (snd (admin_send env srv path opts s)) = sent s @ rs \<and> list_all (admin_request_ok env) rs"
proof -
  let ?f = "do_fetch srv (admin_request env path opts (csrf_token s)) s"
  have send: "admin_send env srv path opts s =
      (if method_requires_csrf (normalize_method (opt_method opts)) \<and> \<not> truthy (csrf_token s)
       then (Inl (AdminApiError ''Administrator request verification is unavailable.'' 403), s)
       else case fst ?f of
          Unreached m \<Rightarrow> (Inl (AdminApiError ''Unable to reach the SCANLY administrator API.'' 0), snd ?f)
        | Responded r \<Rightarrow> if \<not> rsp_ok r then admin_failure r (snd ?f) else admin_success r (snd ?f))"
    unfolding admin_send_def do_fetch_split ..
  show "page_inv (snd (admin_send env srv path opts s))" if "page_inv s"
    using that unfolding send
    by (auto simp: page_inv_def admin_failure_state admin_simps truthy_Some split: fetch_result.split)
  show "\<exists>rs. sent (snd (admin_send env srv path opts s)) = sent s @ rs \<and> list_all (admin_request_ok env) rs"
    using admin_request_accepted [of opts "csrf_token s" env path] unfolding send
    by (auto simp: admin_failure_state admin_simps split: fetch_result.split)
qed

lemma admin_fetch_run:
  "admin_fetch env srv path opts s =
     (case fst (ensure_admin_session env srv s) of
        Inl e \<Rightarrow> (Inl e, snd (ensure_admin_session env srv s))
      | Inr _ \<Rightarrow> admin_send env srv path opts (snd (ensure_admin_session env srv s)))"
  by (simp add: admin_fetch_def act_bind_cases)

interpretation administrator: api_client "admin_fetch env srv" sent page_inv "admin_request_ok env"
  for env :: admin_env and srv :: "'w server"
proof unfold_locales
  fix s :: "'w admin_page" and p opts
  assume inv: "page_inv s"
  let ?s = "snd (ensure_admin_session env srv s)"
  have inv': "page_inv ?s" using inv by (rule ensure_result)
  then show "page_inv (snd (admin_fetch env srv p opts s))"
    by (simp add: admin_fetch_run admin_send_result split: sum.split)
  have "\<exists>rs. sent ?s = sent s @ rs \<and> list_all (admin_request_ok env) rs"
    using ensure_result(3) [OF inv, of env srv] by (auto simp: session_request_ok)
  then obtain rs where rs: "sent ?s = sent s @ rs" "list_all (admin_request_ok env) rs"
    by blast
  obtain rs' where
    rs': "sent (snd (admin_send env srv p opts ?s)) = sent ?s @ rs'" "list_all (admin_request_ok env) rs'"
    using admin_send_result(2) by blast
  show "\<exists>rs. sent (snd (admin_fetch env srv p opts s)) = sent s @ rs \<and> list_all (admin_request_ok env) rs"
  proof (cases "fst (ensure_admin_session env srv s)")
    case (Inl e)
    with rs show ?thesis by (simp add: admin_fetch_run)
  next
    case (Inr u)
    with rs rs' show ?thesis by (intro exI [of _ "rs @ rs'"]) (simp add: admin_fetch_run)
  qed
qed

section \<open>Properties\<close>

text \<open>The page as it is first loaded: no token, no initialisation, nothing sent.\<close>

definition fresh_page :: "'w \<Rightarrow> 'w admin_page" where
  "fresh_page w = \<lparr>has_window = True, cookies = [], events = [], sent = [], remote = w,
     csrf_token = None, session_init = False\<rparr>"

lemma fresh_page_inv [simp]: "page_inv (fresh_page w)" "sent (fresh_page w) = []"
  by (simp_all add: page_inv_def fresh_page_def)


text \<open>In every state a sequence of calls can reach, a successful \<open>ensureAdminSession\<close> leaves a
  usable token, so \<open>stepUpAdminSession\<close> succeeds exactly when \<open>ensureAdminSession\<close> does and its
  "verification is unavailable" branch, like that of \<open>adminFetch\<close>, is never taken.\<close>

theorem step_up_agrees_with_ensure:
  "step_up_admin_session env srv (run_calls (admin_fetch env srv) cs (fresh_page w)) =
     ensure_admin_session env srv (run_calls (admin_fetch env srv) cs (fresh_page w))"
proof -
  define s where "s = run_calls (admin_fetch env srv) cs (fresh_page w)"
  have inv: "page_inv s" unfolding s_def by (rule administrator.run_inv) simp
  show ?thesis
    unfolding s_def [symmetric] step_up_admin_session_def act_bind_cases
    using ensure_result(2) [OF inv, of env srv] by (auto split: sum.split simp: prod_eq_iff)
qed

text \<open>A 401 answer to an administrator call forgets the token and the stored initialisation,
  dispatches the session-expired event once, and is reported with status 401 and a text; the next
  call must restore or establish a session before it sends anything else.\<close>

theorem admin_401_forgets_session:
  fixes s :: "'w admin_page"
  assumes "page_inv s" and "truthy (csrf_token s)" and "has_window s"
    and "srv (admin_request env path opts (csrf_token s)) (remote s) = (Responded r, w)"
    and "rsp_status r = 401"
  shows "(\<exists>m. fst (admin_fetch env srv path opts s) = Inl (AdminApiError m 401) \<and> m \<noteq> [])
    \<and> csrf_token (snd (admin_fetch env srv path opts s)) = None
    \<and> \<not> session_init (snd (admin_fetch env srv path opts s))
    \<and> events (snd (admin_fetch env srv path opts s)) = events s @ [admin_session_expired_event]
    \<and> sent (snd (admin_fetch env srv path opts s)) =
        sent s @ [admin_request env path opts (csrf_token s)]"
proof -
  have ens: "ensure_admin_session env srv s = (Inr (), s)"
    using assms(1,2) by (rule ensure_result)
  have fetch: "admin_fetch env srv path opts s =
      admin_failure r (s\<lparr>sent := sent s @ [admin_request env path opts (csrf_token s)], remote := w\<rparr>)"
    using assms by (simp add: admin_fetch_run ens admin_send_def do_fetch_def rsp_ok_def)
  have "\<exists>m. fst (admin_failure r s') = Inl (AdminApiError m 401) \<and> m \<noteq> []" for s' :: "'w admin_page"
    using assms(5) response_error_message_nonempty [of "''Administrator request failed.''" r]
    by (simp add: admin_failure_def Let_def)
  with assms(3,5) show ?thesis
    unfolding fetch by (simp add: admin_failure_state admin_simps)
qed

theorem admin_401_forgets_session_witness:
  "\<exists>m. fst (admin_fetch \<lparr>node_env = ''production'', env_api_base = None\<rparr>
         (\<lambda>rq w. (Responded \<lparr>rsp_status = 401, rsp_headers = [], rsp_json = None\<rparr>, w))
         ''/admin/team'' get_options ((fresh_page ())\<lparr>csrf_token := Some ''t''\<rparr>)) = Inl (AdminApiError m 401)"
proof -
  have "page_inv ((fresh_page ())\<lparr>csrf_token := Some ''t''\<rparr>)"
    by (simp add: page_inv_def fresh_page_def trim_def is_ws_def)
  then show ?thesis
    using admin_401_forgets_session [of "(fresh_page ())\<lparr>csrf_token := Some ''t''\<rparr>"
        "\<lambda>rq w. (Responded \<lparr>rsp_status = 401, rsp_headers = [], rsp_json = None\<rparr>, w)"
        "\<lparr>node_env = ''production'', env_api_base = None\<rparr>" "''/admin/team''" get_options
        "\<lparr>rsp_status = 401, rsp_headers = [], rsp_json = None\<rparr>" "()"]
    by (auto simp: truthy_def fresh_page_def)
qed

end
