(* ===== verification/Admin_Session_Steps.thy ===== *)
theory Admin_Session_Steps
  imports Admin_Session
begin

text \<open>
  The session initialisation of lib/admin-api.ts under concurrent callers. \<open>adminCsrfToken\<close> and
  \<open>adminSessionInitialization\<close> are module variables, and the awaits of \<open>ensureAdminSession\<close>,
  \<open>restoreAdminSession\<close>, \<open>establishAdminSession\<close> and of every other call interleave; a step is
  what runs between two awaits. A started initialisation is identified by a number, and its
  phase says which await it is suspended at or how it settled.
\<close>

section \<open>State and steps\<close>

datatype init_phase =
    Restoring      \<comment> \<open>the GET of \<open>restoreAdminSession\<close> is under way\<close>
  | Establishing   \<comment> \<open>the POST of \<open>establishAdminSession\<close> is under way\<close>
  | Rejecting      \<comment> \<open>it has thrown, the \<open>.catch\<close> handler has not run yet\<close>
  | Fulfilled
  | Rejected

record session_vars =
  v_token :: "string option"
  v_init :: "nat option"
  v_phase :: "nat \<Rightarrow> init_phase option"

definition no_session :: session_vars where
  "no_session = \<lparr>v_token = None, v_init = None, v_phase = (\<lambda>_. None)\<rparr>"

definition set_phase :: "nat \<Rightarrow> init_phase \<Rightarrow> session_vars \<Rightarrow> session_vars" where
  "set_phase p ph v = v\<lparr>v_phase := (v_phase v)(p \<mapsto> ph)\<rparr>"

text \<open>What a call of \<open>ensureAdminSession\<close> does before its first await: return, wait for a stored
  initialisation, or start the initialisation \<open>fresh\<close>.\<close>

datatype ensure_choice = Return_now | Await nat

definition ensure_entry :: "nat \<Rightarrow> session_vars \<Rightarrow> ensure_choice \<times> session_vars" where
  "ensure_entry fresh v =
     (if truthy (v_token v) then (Return_now, v)
      else case v_init v of
             Some p \<Rightarrow> (Await p, v)
           | None \<Rightarrow> (Await fresh, set_phase fresh Restoring (v\<lparr>v_init := Some fresh\<rparr>)))"

definition clear_vars :: "session_vars \<Rightarrow> session_vars" where
  "clear_vars v = v\<lparr>v_token := None, v_init := None\<rparr>"

text \<open>The answer to a session request, as \<open>restoreAdminSession\<close> and \<open>establishAdminSession\<close> tell
  them apart: a token, 401, 403, or any other failure.\<close>

datatype session_answer = Token string | Unauthorized | Forbidden | Other_failure

fun restore_settles :: "nat \<Rightarrow> session_answer \<Rightarrow> session_vars \<Rightarrow> session_vars" where
  "restore_settles p (Token t) v = set_phase p Fulfilled (v\<lparr>v_token := Some t\<rparr>)"
| "restore_settles p Unauthorized v = set_phase p Establishing v"
| "restore_settles p Forbidden v = set_phase p Rejecting v"
| "restore_settles p Other_failure v = set_phase p Rejecting v"

fun establish_settles :: "nat \<Rightarrow> session_answer \<Rightarrow> session_vars \<Rightarrow> session_vars" where
  "establish_settles p (Token t) v = set_phase p Fulfilled (v\<lparr>v_token := Some t\<rparr>)"
| "establish_settles p Unauthorized v = set_phase p Rejecting (clear_vars v)"
| "establish_settles p Forbidden v = set_phase p Rejecting (clear_vars v)"
| "establish_settles p Other_failure v = set_phase p Rejecting v"

definition catch_runs :: "nat \<Rightarrow> session_vars \<Rightarrow> session_vars" where
  "catch_runs p v = set_phase p Rejected (v\<lparr>v_init := None\<rparr>)"

text \<open>A token the server hands out is kept only when it is not blank.\<close>

fun good_answer :: "session_answer \<Rightarrow> bool" where
  "good_answer (Token t) \<longleftrightarrow> t \<noteq> []"
| "good_answer _ \<longleftrightarrow> True"

inductive session_step :: "session_vars \<Rightarrow> session_vars \<Rightarrow> bool" where
  Ensure: "v_phase v fresh = None \<Longrightarrow> session_step v (snd (ensure_entry fresh v))"
| Restore: "v_phase v p = Some Restoring \<Longrightarrow> good_answer a \<Longrightarrow> session_step v (restore_settles p a v)"
| Establish: "v_phase v p = Some Establishing \<Longrightarrow> good_answer a
    \<Longrightarrow> session_step v (establish_settles p a v)"
| Catch: "v_phase v p = Some Rejecting \<Longrightarrow> session_step v (catch_runs p v)"
| Other_clears: "session_step v (clear_vars v)"
| Other_refreshes: "t \<noteq> [] \<Longrightarrow> session_step v (v\<lparr>v_token := Some t\<rparr>)"

inductive session_reachable :: "session_vars \<Rightarrow> bool" where
  Start: "session_reachable no_session"
| Next: "session_reachable v \<Longrightarrow> session_step v v' \<Longrightarrow> session_reachable v'"

inductive_cases session_step_cases: "session_step v v'"

section \<open>The invariant\<close>

text \<open>
  A stored initialisation has been started, has not been rejected, and once fulfilled there is a
  token; a token is never empty.
\<close>

definition session_inv :: "session_vars \<Rightarrow> bool" where
  "session_inv v \<longleftrightarrow>
     (\<forall>p. v_init v = Some p \<longrightarrow>
        (\<exists>ph. v_phase v p = Some ph \<and> ph \<noteq> Rejected \<and> (ph = Fulfilled \<longrightarrow> truthy (v_token v))))
     \<and> (\<forall>t. v_token v = Some t \<longrightarrow> t \<noteq> [])"

named_theorems session_simps \<open>the session variables after each step\<close>

lemma set_phase_simps [session_simps]:
  "v_token (set_phase p ph v) = v_token v"
  "v_init (set_phase p ph v) = v_init v"
  "v_phase (set_phase p ph v) = (v_phase v)(p \<mapsto> ph)"
  "v_token (clear_vars v) = None"
  "v_init (clear_vars v) = None"
  "v_phase (clear_vars v) = v_phase v"
  "v_token (catch_runs p v) = v_token v"
  "v_init (catch_runs p v) = None"
  "v_phase (catch_runs p v) = (v_phase v)(p \<mapsto> Rejected)"
  by (simp_all add: set_phase_def clear_vars_def catch_runs_def)

lemma truthy_token: "(\<forall>t. x = Some t \<longrightarrow> t \<noteq> []) \<Longrightarrow> truthy x \<longleftrightarrow> x \<noteq> None"
  by (auto simp: truthy_def split: option.split)

lemma ensure_entry_snd:
  "snd (ensure_entry fresh v) =
     (if truthy (v_token v) \<or> v_init v \<noteq> None then v
      else set_phase fresh Restoring (v\<lparr>v_init := Some fresh\<rparr>))"
  by (auto simp: ensure_entry_def split: option.split)

lemma session_step_inv: "session_step v v' \<Longrightarrow> session_inv v \<Longrightarrow> session_inv v'"
proof (induction rule: session_step.induct)
  case (Ensure v fresh)
  then show ?case
    by (auto simp: ensure_entry_snd session_inv_def session_simps)
next
  case (Restore v p a)
  then show ?case
    by (cases a) (auto simp: session_inv_def session_simps truthy_def split: option.split)
next
  case (Establish v p a)
  then show ?case
    by (cases a) (auto simp: session_inv_def session_simps truthy_def split: option.split)
next
  case (Catch v p)
  then show ?case by (auto simp: session_inv_def session_simps)
next
  case (Other_clears v)
  then show ?case by (simp add: session_inv_def session_simps)
next
  case (Other_refreshes t v)
  then show ?case
    by (auto simp: session_inv_def truthy_def)
qed

lemma session_reachable_inv: "session_reachable v \<Longrightarrow> session_inv v"
proof (induction rule: session_reachable.induct)
  case Start
  then show ?case by (simp add: session_inv_def no_session_def)
next
  case (Next v v')
  then show ?case using session_step_inv by blast
qed

section \<open>The sequential model is a run of these steps\<close>

text \<open>The answer as a function of the outcome of the request.\<close>

definition answer_of :: "fetch_result \<Rightarrow> session_answer" where
  "answer_of r =
     (case r of
        Unreached _ \<Rightarrow> Other_failure
      | Responded rsp \<Rightarrow>
          if rsp_status rsp = 401 then Unauthorized
          else if rsp_status rsp = 403 then Forbidden
          else if \<not> rsp_ok rsp then Other_failure
          else case rsp_json rsp of
                 None \<Rightarrow> Other_failure
               | Some j \<Rightarrow> (case extract_csrf_token j of Inr (Some t) \<Rightarrow> Token t | _ \<Rightarrow> Other_failure))"

lemma answer_of_good: "good_answer (answer_of r)"
  by (auto simp: answer_of_def extract_csrf_token_def
      split: fetch_result.split option.split sum.split json.split if_splits)

text \<open>The variables of a page between calls; \<open>phases\<close> is the history of the initialisations.\<close>

definition vars_of :: "(nat \<Rightarrow> init_phase option) \<Rightarrow> nat \<Rightarrow> 'w admin_page \<Rightarrow> session_vars" where
  "vars_of phases p s =
     \<lparr>v_token = csrf_token s, v_init = (if session_init s then Some p else None), v_phase = phases\<rparr>"

definition run_initialization ::
  "nat \<Rightarrow> session_answer \<Rightarrow> session_answer \<Rightarrow> session_vars \<Rightarrow> session_vars" where
  "run_initialization p a1 a2 v =
     (let v1 = restore_settles p a1 v;
          v2 = (if v_phase v1 p = Some Establishing then establish_settles p a2 v1 else v1)
      in if v_phase v2 p = Some Rejecting then catch_runs p v2 else v2)"

lemma run_initialization_steps:
  assumes "v_phase v p = Some Restoring" and "good_answer a1" and "good_answer a2"
  shows "session_step\<^sup>*\<^sup>* v (run_initialization p a1 a2 v)"
proof -
  define v1 where "v1 = restore_settles p a1 v"
  define v2 where "v2 = (if v_phase v1 p = Some Establishing then establish_settles p a2 v1 else v1)"
  have "session_step v v1" unfolding v1_def using assms by (intro Restore)
  moreover have "session_step\<^sup>*\<^sup>* v1 v2"
    unfolding v2_def using assms(3) by (auto intro: Establish)
  moreover have "session_step\<^sup>*\<^sup>* v2 (if v_phase v2 p = Some Rejecting then catch_runs p v2 else v2)"
    by (auto intro: Catch)
  ultimately have "session_step\<^sup>*\<^sup>* v (if v_phase v2 p = Some Rejecting then catch_runs p v2 else v2)"
    by (meson converse_rtranclp_into_rtranclp rtranclp_trans)
  then show ?thesis unfolding run_initialization_def Let_def v1_def v2_def .
qed

text \<open>The two outcomes that the server gives the initialisation of a page \<open>s\<close>.\<close>

definition restore_outcome :: "admin_env \<Rightarrow> 'w server \<Rightarrow> 'w admin_page \<Rightarrow> fetch_result \<times> 'w" where
  "restore_outcome env srv s =
     srv (session_request (admin_url env admin_session_path) ''GET'' []) (remote s)"

definition establish_outcome :: "admin_env \<Rightarrow> 'w server \<Rightarrow> 'w admin_page \<Rightarrow> fetch_result" where
  "establish_outcome env srv s =
     fst (srv (establish_request env) (snd (restore_outcome env srv s)))"

lemma restore_page:
  "csrf_token (snd (restore_admin_session env srv s)) =
     (case answer_of (fst (restore_outcome env srv s)) of Token t \<Rightarrow> Some t | _ \<Rightarrow> csrf_token s)"
  "session_init (snd (restore_admin_session env srv s)) = session_init s"
  "remote (snd (restore_admin_session env srv s)) = snd (restore_outcome env srv s)"
  "fst (restore_admin_session env srv s) = Inr b \<longleftrightarrow>
     (case answer_of (fst (restore_outcome env srv s)) of
        Token _ \<Rightarrow> b | Unauthorized \<Rightarrow> \<not> b | _ \<Rightarrow> False)"
  by (auto simp: restore_admin_session_def restore_outcome_def do_fetch_def answer_of_def rsp_ok_def
      split: prod.split fetch_result.split option.split sum.split)

lemma establish_page:
  "remote s = w \<Longrightarrow> csrf_token (snd (establish_admin_session env srv s)) =
     (case answer_of (fst (srv (establish_request env) w)) of
        Token t \<Rightarrow> Some t | Unauthorized \<Rightarrow> None | Forbidden \<Rightarrow> None | _ \<Rightarrow> csrf_token s)"
  "remote s = w \<Longrightarrow> fst (establish_admin_session env srv s) = Inr () \<longleftrightarrow>
     (case answer_of (fst (srv (establish_request env) w)) of Token _ \<Rightarrow> True | _ \<Rightarrow> False)"
  "remote s = w \<Longrightarrow> session_init (snd (establish_admin_session env srv s)) \<longleftrightarrow>
     (case answer_of (fst (srv (establish_request env) w)) of
        Unauthorized \<Rightarrow> False | Forbidden \<Rightarrow> False | _ \<Rightarrow> session_init s)"
  by (auto simp: establish_admin_session_def do_fetch_def answer_of_def rsp_ok_def admin_simps
      split: prod.split fetch_result.split option.split sum.split)

lemma initialize_page:
  assumes "\<not> truthy (csrf_token s)"
  shows "initialize_admin_session env srv s =
     (case fst (restore_admin_session env srv s) of
        Inl e \<Rightarrow> (Inl e, snd (restore_admin_session env srv s))
      | Inr b \<Rightarrow> if b then (Inr (), snd (restore_admin_session env srv s))
                 else establish_admin_session env srv (snd (restore_admin_session env srv s)))"
  by (simp add: initialize_admin_session_def act_bind_cases split: sum.split)

lemma ensure_page:
  assumes "\<not> truthy (csrf_token s)" and "\<not> session_init s"
  shows "ensure_admin_session env srv s =
     (case fst (initialize_admin_session env srv (s\<lparr>session_init := True\<rparr>)) of
        Inl e \<Rightarrow> (Inl e, (snd (initialize_admin_session env srv (s\<lparr>session_init := True\<rparr>)))\<lparr>session_init := False\<rparr>)
      | Inr u \<Rightarrow> (Inr u, snd (initialize_admin_session env srv (s\<lparr>session_init := True\<rparr>))))"
  using assms by (simp add: ensure_admin_session_def split: prod.split sum.split)

text \<open>The variables after the sequential initialisation, answer by answer.\<close>

lemma initialization_vars:
  fixes env srv
  assumes "csrf_token s = None" and "\<not> session_init s"
  defines "a1 \<equiv> answer_of (fst (restore_outcome env srv s))"
    and "a2 \<equiv> answer_of (establish_outcome env srv s)"
    and "s' \<equiv> snd (ensure_admin_session env srv s)"
  shows "csrf_token s' =
      (case a1 of Token t \<Rightarrow> Some t
       | Unauthorized \<Rightarrow> (case a2 of Token t \<Rightarrow> Some t | _ \<Rightarrow> None)
       | _ \<Rightarrow> None)"
    and "session_init s' \<longleftrightarrow> csrf_token s' \<noteq> None"
proof -
  let ?s = "s\<lparr>session_init := True\<rparr>"
  let ?r = "restore_admin_session env srv ?s"
  let ?e = "establish_admin_session env srv (snd ?r)"
  have tok: "\<not> truthy (csrf_token s)" "\<not> truthy (csrf_token ?s)" using assms(1) by (simp_all add: truthy_def)
  have "restore_outcome env srv ?s = restore_outcome env srv s" by (simp add: restore_outcome_def)
  note r = restore_page [of env srv ?s, unfolded this, folded a1_def]
  have e: "csrf_token (snd ?e) = (case a2 of Token t \<Rightarrow> Some t | Unauthorized \<Rightarrow> None
        | Forbidden \<Rightarrow> None | _ \<Rightarrow> csrf_token (snd ?r))"
    "fst ?e = Inr () \<longleftrightarrow> (case a2 of Token _ \<Rightarrow> True | _ \<Rightarrow> False)"
    "session_init (snd ?e) \<longleftrightarrow> (case a2 of Unauthorized \<Rightarrow> False | Forbidden \<Rightarrow> False | _ \<Rightarrow> session_init (snd ?r))"
    unfolding a2_def establish_outcome_def by (rule establish_page [OF r(3)])+
  note run = ensure_page [OF tok(1) assms(2)] initialize_page [OF tok(2)]
  have err: "\<And>x :: js_error + unit. x \<noteq> Inr () \<Longrightarrow> \<exists>m. x = Inl m" by (metis old.sum.exhaust old.unit.exhaust)
  have fr: "fst ?r = Inr True \<longleftrightarrow> (\<exists>t. a1 = Token t)" "fst ?r = Inr False \<longleftrightarrow> a1 = Unauthorized"
    using r(4) [of True] r(4) [of False] by (auto split: session_answer.splits)
  have both: "csrf_token s' =
      (case a1 of Token t \<Rightarrow> Some t
       | Unauthorized \<Rightarrow> (case a2 of Token t \<Rightarrow> Some t | _ \<Rightarrow> None)
       | _ \<Rightarrow> None) \<and> (session_init s' \<longleftrightarrow> csrf_token s' \<noteq> None)"
  proof (cases "fst ?r")
    case (Inl m)
    with fr have "\<And>t. a1 \<noteq> Token t" "a1 \<noteq> Unauthorized" by auto
    with Inl r(1) assms(1) show ?thesis unfolding s'_def run by (cases a1) auto
  next
    case (Inr b)
    show ?thesis
    proof (cases b)
      case True
      with Inr fr r(1,2) show ?thesis unfolding s'_def run by (auto split: session_answer.splits)
    next
      case False
      with Inr fr have a1: "a1 = Unauthorized" by simp
      then have "csrf_token (snd ?r) = None" using r(1) assms(1) by simp
      with Inr False a1 e r(2) err show ?thesis
        unfolding s'_def run by (cases a2; cases "fst ?e") auto
    qed
  qed
  then show "csrf_token s' =
      (case a1 of Token t \<Rightarrow> Some t
       | Unauthorized \<Rightarrow> (case a2 of Token t \<Rightarrow> Some t | _ \<Rightarrow> None)
       | _ \<Rightarrow> None)" and "session_init s' \<longleftrightarrow> csrf_token s' \<noteq> None"
    by blast+
qed

lemma run_initialization_vars:
  assumes "v_token v = None" and "v_init v = Some p"
  shows "v_token (run_initialization p a1 a2 v) =
      (case a1 of Token t \<Rightarrow> Some t
       | Unauthorized \<Rightarrow> (case a2 of Token t \<Rightarrow> Some t | _ \<Rightarrow> None)
       | _ \<Rightarrow> None)"
    and "v_init (run_initialization p a1 a2 v) \<noteq> None
      \<longleftrightarrow> v_token (run_initialization p a1 a2 v) \<noteq> None"
  using assms
  by (cases a1; cases a2; simp add: run_initialization_def Let_def session_simps)+

section \<open>One initialisation at a time\<close>

text \<open>
  Runs in which nothing clears the session under an initialisation: no 401 of another call, no
  logout, and no 401 or 403 to the establishing request.
\<close>

inductive undisturbed :: "session_vars \<Rightarrow> bool" where
  U_start: "undisturbed no_session"
| U_ensure: "undisturbed v \<Longrightarrow> v_phase v fresh = None \<Longrightarrow> undisturbed (snd (ensure_entry fresh v))"
| U_restore: "undisturbed v \<Longrightarrow> v_phase v p = Some Restoring \<Longrightarrow> good_answer a
    \<Longrightarrow> undisturbed (restore_settles p a v)"
| U_establish: "undisturbed v \<Longrightarrow> v_phase v p = Some Establishing \<Longrightarrow> good_answer a
    \<Longrightarrow> a \<noteq> Unauthorized \<Longrightarrow> a \<noteq> Forbidden \<Longrightarrow> undisturbed (establish_settles p a v)"
| U_catch: "undisturbed v \<Longrightarrow> v_phase v p = Some Rejecting \<Longrightarrow> undisturbed (catch_runs p v)"
| U_refresh: "undisturbed v \<Longrightarrow> t \<noteq> [] \<Longrightarrow> undisturbed (v\<lparr>v_token := Some t\<rparr>)"

definition unsettled :: "session_vars \<Rightarrow> nat \<Rightarrow> bool" where
  "unsettled v p \<longleftrightarrow> v_phase v p \<in> {Some Restoring, Some Establishing, Some Rejecting}"

lemma undisturbed_stored: "undisturbed v \<Longrightarrow> unsettled v p \<Longrightarrow> v_init v = Some p"
proof (induction arbitrary: p rule: undisturbed.induct)
  case U_start
  then show ?case by (simp add: unsettled_def no_session_def)
next
  case (U_ensure v fresh)
  then show ?case
    by (cases "p = fresh") (auto simp: ensure_entry_snd unsettled_def session_simps split: if_splits)
next
  case (U_restore v q a)
  then show ?case by (cases a; cases "p = q") (auto simp: unsettled_def session_simps)
next
  case (U_establish v q a)
  then show ?case by (cases a; cases "p = q") (auto simp: unsettled_def session_simps)
next
  case (U_catch v q)
  have "v_init v = Some q" using U_catch.hyps(2) by (intro U_catch.IH) (simp add: unsettled_def)
  moreover have "p \<noteq> q \<Longrightarrow> v_init v = Some p"
    using U_catch.prems by (intro U_catch.IH) (simp add: unsettled_def session_simps)
  ultimately show ?case using U_catch.prems by (cases "p = q") (auto simp: unsettled_def session_simps)
next
  case (U_refresh v t)
  then show ?case by (simp add: unsettled_def)
qed

section \<open>Properties\<close>


text \<open>C18: no interleaving of concurrent calls, 401 answers, logouts and refreshes leads to a stuck
  page: a caller that finds no token waits for an initialisation that has yet to settle.\<close>

theorem never_awaits_settled:
  assumes "session_reachable v" and "v_phase v fresh = None"
    and "fst (ensure_entry fresh v) = Await p"
  shows "v_phase (snd (ensure_entry fresh v)) p \<in> {Some Restoring, Some Establishing, Some Rejecting}"
proof -
  have inv: "session_inv v" using assms(1) by (rule session_reachable_inv)
  from assms(3) have tok: "\<not> truthy (v_token v)" by (auto simp: ensure_entry_def split: if_splits)
  show ?thesis
  proof (cases "v_init v")
    case None
    with tok assms(3) show ?thesis by (simp add: ensure_entry_def session_simps)
  next
    case (Some q)
    with tok assms(3) inv show ?thesis
      by (cases "v_phase v q") (auto simp: ensure_entry_def session_inv_def intro: init_phase.exhaust)
  qed
qed


theorem never_awaits_settled_witness:
  "fst (ensure_entry 0 no_session) = Await 0
   \<and> v_phase (snd (ensure_entry 0 no_session)) 0 \<in> {Some Restoring, Some Establishing, Some Rejecting}"
proof -
  have "fst (ensure_entry 0 no_session) = Await 0"
    by (simp add: ensure_entry_def no_session_def truthy_def)
  then show ?thesis
    using never_awaits_settled [OF session_reachable.Start, of 0 0] by (simp add: no_session_def)
qed

text \<open>As long as nothing clears the session under it, all concurrent callers share one
  initialisation; once something does, a second one can run beside the first.\<close>

theorem one_initialization:
  "(\<forall>v p q. \<not> (undisturbed v \<and> unsettled v p \<and> unsettled v q \<and> p \<noteq> q))
   \<and> (\<exists>v. session_reachable v \<and> unsettled v 0 \<and> unsettled v 1)"
proof
  show "\<forall>v p q. \<not> (undisturbed v \<and> unsettled v p \<and> unsettled v q \<and> p \<noteq> q)"
    using undisturbed_stored by (metis option.inject)
  define v1 where "v1 = clear_vars (snd (ensure_entry 0 no_session))"
  have "session_reachable (snd (ensure_entry 0 no_session))"
    by (rule Next [OF Start Ensure]) (simp add: no_session_def)
  then have "session_reachable v1" unfolding v1_def by (rule Next) (rule Other_clears)
  moreover have v1: "v_phase v1 1 = None" "v_token v1 = None" "v_init v1 = None" "v_phase v1 0 = Some Restoring"
    by (simp_all add: v1_def session_simps ensure_entry_snd no_session_def truthy_def)
  ultimately have "session_reachable (snd (ensure_entry 1 v1))" by (meson Next Ensure)
  moreover have "unsettled (snd (ensure_entry 1 v1)) 0 \<and> unsettled (snd (ensure_entry 1 v1)) 1"
    using v1 by (simp add: unsettled_def ensure_entry_snd session_simps truthy_def)
  ultimately show "\<exists>v. session_reachable v \<and> unsettled v 0 \<and> unsettled v 1" by blast
qed

end
