(* ===== verification/Admin_Api.thy ===== *)
theory Admin_Api
  imports Admin_Session Status
begin

text \<open>
  The administrator endpoints of lib/admin-api.ts: each wrapper is the path and the options it
  hands to \<open>adminFetch\<close>, the query strings of the queue and of the audit activity, the note
  that is refused before anything is sent, and \<open>acceptAdminInvitation\<close>, which bypasses
  \<open>adminFetch\<close>. The payload types are those of types/admin-actions.ts, types/admin-review.ts,
  types/admin-team.ts and types/admin-audit.ts.
\<close>

section \<open>Verification requests\<close>

definition request_path :: "string \<Rightarrow> string \<Rightarrow> string" where
  "request_path request_id action = ''/admin/verification-requests/'' @ request_id @ action"

definition claim_admin_case :: "string \<Rightarrow> string \<times> request_options" where
  "claim_admin_case request_id = (request_path request_id ''/claim'', method_options ''POST'' NoBody)"

text \<open>\<open>reason?.trim() || null\<close>\<close>

definition reason_json :: "string option \<Rightarrow> json" where
  "reason_json reason =
     (case reason of
        None \<Rightarrow> JNull
      | Some r \<Rightarrow> (case or_null (trim r) of None \<Rightarrow> JNull | Some t \<Rightarrow> JStr t))"

definition revoke_verification_request :: "string \<Rightarrow> string option \<Rightarrow> string \<times> request_options" where
  "revoke_verification_request request_id reason =
     (request_path request_id ''/revoke'',
      method_options ''POST'' (JsonText (JObj [(''reason'', reason_json reason)])))"

record create_payload =
  c_assigned_discord_user_id :: string
  c_discord_username_snapshot :: "string option"
  c_required_evidence :: required_evidence
  c_expires_at :: "string option"
  c_max_submissions :: int

definition required_evidence_json :: "required_evidence \<Rightarrow> json" where
  "required_evidence_json r =
     JObj [(''legal_name'', JBool (needs_legal_name r)),
           (''date_of_birth'', JBool (needs_date_of_birth r)),
           (''age_confirmation'', JBool (needs_age_confirmation r)),
           (''issuing_country'', JBool (needs_issuing_country r)),
           (''document_type'', JBool (needs_document_type r)),
           (''document_front'', JBool (needs_document_front r)),
           (''document_back'', JBool (needs_document_back r)),
           (''selfie'', JBool (needs_selfie r)),
           (''liveness'', JBool (needs_liveness r))]"

definition create_verification_request :: "create_payload \<Rightarrow> string \<times> request_options" where
  "create_verification_request p =
     (''/admin/verification-requests'',
      method_options ''POST'' (JsonText (JObj
        [(''assigned_discord_user_id'', JStr (c_assigned_discord_user_id p)),
         (''discord_username_snapshot'', json_opt (c_discord_username_snapshot p)),
         (''required_evidence'', required_evidence_json (c_required_evidence p)),
         (''expires_at'', json_opt (c_expires_at p)),
         (''max_submissions'', JNum (c_max_submissions p))])))"

definition extend_verification_expiration :: "string \<Rightarrow> string \<Rightarrow> string \<times> request_options" where
  "extend_verification_expiration request_id expires_at =
     (request_path request_id ''/extend-expiration'',
      method_options ''POST'' (JsonText (JObj [(''expires_at'', JStr expires_at)])))"

definition assign_verification_reviewer :: "string \<Rightarrow> string \<Rightarrow> string \<times> request_options" where
  "assign_verification_reviewer request_id reviewer =
     (request_path request_id ''/assign-reviewer'',
      method_options ''POST'' (JsonText (JObj [(''reviewer_admin_id'', JStr reviewer)])))"

definition get_review_detail :: "string \<Rightarrow> string \<times> request_options" where
  "get_review_detail request_id = (request_path request_id [], get_options)"

definition get_evidence_preview :: "string \<Rightarrow> string \<times> request_options" where
  "get_evidence_preview evidence_id =
     (''/admin/verification-requests/evidence/'' @ evidence_id @ ''/preview'',
      method_options ''POST'' NoBody)"

definition get_admin_notes :: "string \<Rightarrow> string \<times> request_options" where
  "get_admin_notes request_id = (request_path request_id ''/notes'', get_options)"

text \<open>A blank note is refused before \<open>adminFetch\<close> is called.\<close>

definition create_admin_note ::
  "admin_env \<Rightarrow> 'w server \<Rightarrow> string \<Rightarrow> string \<Rightarrow> ('w admin_page, json option) act" where
  "create_admin_note env srv request_id note =
     (let normalized = trim note
      in if normalized = [] then act_throw (AdminApiError ''Administrator note cannot be empty.'' 400)
         else admin_fetch env srv (request_path request_id ''/notes'')
                (method_options ''POST'' (JsonText (JObj [(''note'', JStr normalized)]))))"

definition get_audit_history :: "string \<Rightarrow> string \<times> request_options" where
  "get_audit_history request_id = (request_path request_id ''/audit'', get_options)"

record decision_payload =
  d_reason_code :: "string option"
  d_internal_note :: "string option"
  d_user_message :: "string option"

definition decision_body :: "decision_payload \<Rightarrow> body" where
  "decision_body p =
     JsonText (JObj [(''reason_code'', json_opt (d_reason_code p)),
                     (''internal_note'', json_opt (d_internal_note p)),
                     (''user_message'', json_opt (d_user_message p))])"

definition approve_case :: "string \<Rightarrow> decision_payload \<Rightarrow> string \<times> request_options" where
  "approve_case request_id p =
     (request_path request_id ''/approve'', method_options ''POST'' (decision_body p))"

definition reject_case :: "string \<Rightarrow> decision_payload \<Rightarrow> string \<times> request_options" where
  "reject_case request_id p =
     (request_path request_id ''/reject'', method_options ''POST'' (decision_body p))"

definition request_more_info :: "string \<Rightarrow> decision_payload \<Rightarrow> string \<times> request_options" where
  "request_more_info request_id p =
     (request_path request_id ''/more-info'', method_options ''POST'' (decision_body p))"

definition grant_discord_access :: "string \<Rightarrow> string \<times> request_options" where
  "grant_discord_access request_id =
     (request_path request_id ''/grant-access'', method_options ''POST'' NoBody)"

definition revoke_discord_access :: "string \<Rightarrow> string \<times> request_options" where
  "revoke_discord_access request_id =
     (request_path request_id ''/revoke-access'', method_options ''POST'' NoBody)"

definition delete_verification_evidence :: "string \<Rightarrow> string \<times> request_options" where
  "delete_verification_evidence request_id =
     (request_path request_id ''/evidence'', method_options ''DELETE'' NoBody)"

definition get_reviewers :: "string \<times> request_options" where
  "get_reviewers = (''/admin/reviewers'', get_options)"

section \<open>The queue\<close>

definition queue_params ::
  "string option \<Rightarrow> verification_status list option \<Rightarrow> int \<Rightarrow> int \<Rightarrow> params" where
  "queue_params search statuses limit offset =
     (let p0 = (case search of
                  None \<Rightarrow> []
                | Some s \<Rightarrow> if trim s \<noteq> [] then params_set ''search'' (trim s) [] else []);
          p1 = (case statuses of
                  None \<Rightarrow> p0
                | Some sts \<Rightarrow> fold (\<lambda>st. params_append ''status'' (status_name st)) sts p0);
          p2 = params_set ''limit'' (show_int limit) p1
      in params_set ''offset'' (show_int offset) p2)"

definition get_admin_queue ::
  "string option \<Rightarrow> verification_status list option \<Rightarrow> int option \<Rightarrow> int option
     \<Rightarrow> string \<times> request_options" where
  "get_admin_queue search statuses limit offset =
     (''/admin/verification-queue?''
        @ params_to_string (queue_params search statuses (coalesce limit 50) (coalesce offset 0)),
      get_options)"

section \<open>Team, invitations, audit activity, settings\<close>

definition get_admin_team :: "string \<times> request_options" where
  "get_admin_team = (''/admin/team'', get_options)"

definition get_admin_invitations :: "string \<times> request_options" where
  "get_admin_invitations = (''/admin/team/invitations'', get_options)"

record invitation_payload =
  i_email :: string
  i_role :: admin_role
  i_expires_at :: string

definition create_admin_invitation :: "invitation_payload \<Rightarrow> string \<times> request_options" where
  "create_admin_invitation p =
     (''/admin/team/invitations'',
      method_options ''POST'' (JsonText (JObj
        [(''email'', JStr (i_email p)), (''role'', JStr (role_name (i_role p))),
         (''expires_at'', JStr (i_expires_at p))])))"

definition resend_admin_invitation :: "string \<Rightarrow> string \<times> request_options" where
  "resend_admin_invitation i =
     (''/admin/team/invitations/'' @ i @ ''/resend'', method_options ''POST'' NoBody)"

definition revoke_admin_invitation :: "string \<Rightarrow> string option \<Rightarrow> string \<times> request_options" where
  "revoke_admin_invitation i reason =
     (''/admin/team/invitations/'' @ i @ ''/revoke'',
      method_options ''POST'' (JsonText (JObj [(''reason'', reason_json reason)])))"

definition change_admin_role :: "string \<Rightarrow> admin_role \<Rightarrow> string \<times> request_options" where
  "change_admin_role i r =
     (''/admin/team/'' @ i @ ''/role'',
      method_options ''POST'' (JsonText (JObj [(''role'', JStr (role_name r))])))"

definition disable_team_admin :: "string \<Rightarrow> string \<times> request_options" where
  "disable_team_admin i = (''/admin/team/'' @ i @ ''/disable'', method_options ''POST'' NoBody)"

definition enable_team_admin :: "string \<Rightarrow> string \<times> request_options" where
  "enable_team_admin i = (''/admin/team/'' @ i @ ''/enable'', method_options ''POST'' NoBody)"

definition revoke_team_admin_sessions :: "string \<Rightarrow> string \<times> request_options" where
  "revoke_team_admin_sessions i =
     (''/admin/team/'' @ i @ ''/revoke-sessions'', method_options ''POST'' NoBody)"

record audit_query =
  q_page :: "int option"
  q_page_size :: "int option"
  q_action :: "string option"
  q_outcome :: "string option"
  q_actor_type :: "string option"
  q_actor_id :: "string option"
  q_verification_request_id :: "string option"
  q_request_id :: "string option"

definition set_number :: "string \<Rightarrow> int option \<Rightarrow> params \<Rightarrow> params" where
  "set_number k v ps = (case v of None \<Rightarrow> ps | Some n \<Rightarrow> params_set k (show_int n) ps)"

text \<open>\<open>if (v?.trim()) params.set(k, v.trim())\<close>\<close>

definition set_text :: "string \<Rightarrow> string option \<Rightarrow> params \<Rightarrow> params" where
  "set_text k v ps =
     (case v of None \<Rightarrow> ps | Some s \<Rightarrow> if trim s \<noteq> [] then params_set k (trim s) ps else ps)"

definition audit_params :: "audit_query \<Rightarrow> params" where
  "audit_params q =
     set_text ''request_id'' (q_request_id q)
      (set_text ''verification_request_id'' (q_verification_request_id q)
        (set_text ''actor_id'' (q_actor_id q)
          (set_text ''actor_type'' (q_actor_type q)
            (set_text ''outcome'' (q_outcome q)
              (set_text ''action'' (q_action q)
                (set_number ''page_size'' (q_page_size q)
                  (set_number ''page'' (q_page q) [])))))))"

definition get_admin_audit_activity :: "audit_query \<Rightarrow> string \<times> request_options" where
  "get_admin_audit_activity q =
     (let ps = audit_params q
      in (''/admin/audit'' @ (if length ps > 0 then ''?'' @ params_to_string ps else []), get_options))"

definition get_admin_settings :: "string \<times> request_options" where
  "get_admin_settings = (''/admin/settings'', get_options)"

section \<open>Accepting an invitation\<close>

definition accept_request :: "admin_env \<Rightarrow> string \<Rightarrow> http_request" where
  "accept_request env token =
     \<lparr>rq_method = ''POST'', rq_url = admin_url env ''/admin/team/invitations/accept'',
      rq_headers = headers_new [(''Accept'', ''application/json''), (''Content-Type'', ''application/json'')],
      rq_body = JsonText (JObj [(''invitation_token'', JStr token)]),
      rq_credentials = ''include'', rq_cache = ''no-store''\<rparr>"

definition accept_admin_invitation ::
  "admin_env \<Rightarrow> 'w server \<Rightarrow> string \<Rightarrow> ('w admin_page, json) act" where
  "accept_admin_invitation env srv token s =
     (let normalized = trim token
      in if length normalized < 32 \<or> length normalized > 1024
         then (Inl (AdminApiError ''Administrator invitation is invalid.'' 400), s)
         else case do_fetch srv (accept_request env normalized) s of
                (Unreached _, s1) \<Rightarrow>
                  (Inl (AdminApiError ''Unable to reach the SCANLY administrator API.'' 0), s1)
              | (Responded r, s1) \<Rightarrow>
                  if \<not> rsp_ok r then
                    (Inl (AdminApiError
                        (response_error_message r ''Administrator invitation could not be accepted.'')
                        (rsp_status r)), s1)
                  else case rsp_json r of
                         None \<Rightarrow>
                           (Inl (AdminApiError
                             ''Administrator invitation service returned an invalid response.'' 500), s1)
                       | Some j \<Rightarrow> (Inr j, s1))"

section \<open>Query strings read back\<close>

text \<open>
  How a server reads a query string (the URL standard's form-urlencoded parser): split at
  \<open>&\<close>, at the first \<open>=\<close>, and decode \<open>+\<close> and the escapes.
\<close>

definition form_decode :: "string \<Rightarrow> string option" where
  "form_decode s = percent_decode (replace_char CHR ''+'' CHR '' '' s)"

definition read_pair :: "string \<Rightarrow> (string option \<times> string option)" where
  "read_pair w = (form_decode (takeWhile (\<lambda>c. c \<noteq> CHR ''='') w),
                  form_decode (drop 1 (dropWhile (\<lambda>c. c \<noteq> CHR ''='') w)))"

definition read_query :: "string \<Rightarrow> (string option \<times> string option) list" where
  "read_query s = map read_pair (filter (\<lambda>w. w \<noteq> []) (split_char CHR ''&'' s))"

lemma form_decode_encode: "form_decode (form_encode s) = Some s"
proof (induction s)
  case Nil
  then show ?case by (simp add: form_decode_def form_encode_def replace_char_def)
next
  case (Cons c s)
  have tl: "form_encode (c # s) = (if form_plain c then [c] else if c = CHR '' '' then ''+'' else percent c)
      @ form_encode s"
    by (simp add: form_encode_def)
  have plain: "form_plain c \<Longrightarrow> c \<noteq> CHR ''+'' \<and> c \<noteq> CHR ''%''"
    by (auto simp: form_plain_def is_letter_def is_upper_def is_lower_def is_digit_def)
  have hex: "hex_digit n \<noteq> CHR ''+''" if "n < 16" for n
    using hex_digit_unreserved [OF that]
    by (auto simp: uri_unreserved_def is_letter_def is_upper_def is_lower_def is_digit_def)
  have esc: "replace_char CHR ''+'' CHR '' '' (percent c) = percent c"
    by (simp add: replace_char_def percent_def hex code_less less_mult_imp_div_less)
  have app: "replace_char a b (x @ y) = replace_char a b x @ replace_char a b y" for a b x y
    by (simp add: replace_char_def)
  show ?case
    using Cons plain percent_decode_percent [of c]
    by (simp add: form_decode_def tl app esc) (auto simp: replace_char_def)
qed

lemma form_encode_chars: "c \<in> set (form_encode s) \<Longrightarrow> c \<noteq> CHR ''&'' \<and> c \<noteq> CHR ''=''"
proof -
  have "\<forall>c \<in> set (form_encode s). uri_safe c \<or> c = CHR ''+''"
  proof -
    have "form_plain c \<Longrightarrow> uri_safe c" for c
      by (auto simp: form_plain_def uri_safe_def uri_unreserved_def)
    then show ?thesis
      by (auto simp: form_encode_def percent_def uri_safe_def hex_digit_unreserved code_less
          less_mult_imp_div_less)
  qed
  then show "c \<in> set (form_encode s) \<Longrightarrow> c \<noteq> CHR ''&'' \<and> c \<noteq> CHR ''=''"
    using uri_safe_ne by auto
qed

lemma read_pair_written: "read_pair (form_encode k @ CHR ''='' # form_encode v) = (Some k, Some v)"
proof -
  have "\<forall>c \<in> set (form_encode k). c \<noteq> CHR ''=''" using form_encode_chars by blast
  then show ?thesis
    by (simp add: read_pair_def takeWhile_append2 dropWhile_append2 form_decode_encode)
qed

lemma read_query_written:
  "read_query (params_to_string ps) = map (\<lambda>(k, v). (Some k, Some v)) ps"
proof (cases "ps = []")
  case True
  then show ?thesis by (simp add: read_query_def params_to_string_def)
next
  case False
  define ws where "ws = map (\<lambda>(k, v). form_encode k @ ''='' @ form_encode v) ps"
  have "CHR ''&'' \<notin> set w" if "w \<in> set ws" for w
    using that form_encode_chars by (fastforce simp: ws_def)
  with False have "split_char CHR ''&'' (params_to_string ps) = ws"
    unfolding params_to_string_def ws_def [symmetric] by (intro split_join) (auto simp: ws_def)
  moreover have "filter (\<lambda>w. w \<noteq> []) ws = ws" by (auto simp: ws_def filter_id_conv)
  ultimately show ?thesis
    by (auto simp: read_query_def ws_def read_pair_written)
qed

section \<open>Properties\<close>

lemma map_of_set_text:
  "map_of (set_text k v ps) =
     (case v of None \<Rightarrow> map_of ps | Some s \<Rightarrow> if trim s \<noteq> [] then (map_of ps)(k \<mapsto> trim s) else map_of ps)"
  by (simp add: set_text_def map_of_params_set split: option.split)

lemma fold_append_params:
  "fold (\<lambda>st. params_append k (f st)) sts ps = ps @ map (\<lambda>st. (k, f st)) sts"
  by (induction sts arbitrary: ps) (simp_all add: params_append_def)

text \<open>The query string of the review queue reads back, pair by pair, as the trimmed search text
  when it is not blank, every requested status in order, the limit (50 by default) and the offset
  (0 by default), whatever bytes the search text holds.\<close>

theorem queue_query_reads_back:
  "\<exists>q. get_admin_queue search statuses limit offset = (''/admin/verification-queue?'' @ q, get_options)
     \<and> read_query q = map (\<lambda>(k, v). (Some k, Some v))
         ((if trim (coalesce search []) = [] then [] else [(''search'', trim (coalesce search []))])
          @ map (\<lambda>st. (''status'', status_name st)) (coalesce statuses [])
          @ [(''limit'', show_int (coalesce limit 50)), (''offset'', show_int (coalesce offset 0))])"
proof -
  have "queue_params search statuses l o' =
     (if trim (coalesce search []) = [] then [] else [(''search'', trim (coalesce search []))])
       @ map (\<lambda>st. (''status'', status_name st)) (coalesce statuses [])
       @ [(''limit'', show_int l), (''offset'', show_int o')]" for l o'
    by (cases search; cases statuses)
      (auto simp: queue_params_def Let_def coalesce_def fold_append_params params_set_fresh image_image image_constant_conv)
  then show ?thesis by (simp add: get_admin_queue_def read_query_written)
qed

text \<open>An invitation token is sent at most once and only when 32 to 1024 characters remain after
  trimming; the administrator session is not read, created or changed by it; and every outcome
  other than a JSON answer with a success status is an error with a text.\<close>

lemma accept_invitation_outcome:
  fixes s :: "'w admin_page"
  shows "(let n = length (trim token); result = accept_admin_invitation env srv token s in
     sent (snd result) = sent s @ (if 32 \<le> n \<and> n \<le> 1024 then [accept_request env (trim token)] else [])
     \<and> csrf_token (snd result) = csrf_token s \<and> session_init (snd result) = session_init s
     \<and> events (snd result) = events s
     \<and> (case fst result of
          Inr j \<Rightarrow> \<exists>r. fst (srv (accept_request env (trim token)) (remote s)) = Responded r
                    \<and> rsp_ok r \<and> rsp_json r = Some j
        | Inl e \<Rightarrow> \<exists>m st. e = AdminApiError m st \<and> m \<noteq> []))"
  using response_error_message_nonempty [of "''Administrator invitation could not be accepted.''"]
  by (auto simp: accept_admin_invitation_def Let_def do_fetch_def
      split: prod.split fetch_result.split option.split)

end
