(* ===== verification/Calendar.thy ===== *)
theory Calendar
  imports Prelude
begin

text \<open>
  The part of the language's Date objects the sources use: the proleptic Gregorian calendar as
  ECMAScript computes it (day numbers from 1970-01-01, year, month and day from a day number,
  time values in milliseconds) and \<open>new Date(y, m, d, h, mi, 0, 0)\<close> with its getters. The browser's
  time zone is a parameter: a map from local time values to UTC ones and one back.
\<close>

section \<open>Years and months\<close>

definition ms_per_day :: int where
  "ms_per_day = 86400000"

definition leap :: "int \<Rightarrow> bool" where
  "leap y \<longleftrightarrow> y mod 4 = 0 \<and> (y mod 100 \<noteq> 0 \<or> y mod 400 = 0)"

definition days_in_year :: "int \<Rightarrow> int" where
  "days_in_year y = (if leap y then 366 else 365)"

definition day_from_year :: "int \<Rightarrow> int" where
  "day_from_year y =
     365 * (y - 1970) + (y - 1969) div 4 - (y - 1901) div 100 + (y - 1601) div 400"

text \<open>Months are numbered from 0 as in JavaScript.\<close>

definition days_in_month :: "int \<Rightarrow> int \<Rightarrow> int" where
  "days_in_month y m =
     (if m = 1 then (if leap y then 29 else 28)
      else if m = 3 \<or> m = 5 \<or> m = 8 \<or> m = 10 then 30 else 31)"

definition month_start :: "int \<Rightarrow> int \<Rightarrow> int" where
  "month_start y m = (\<Sum>k \<leftarrow> [0..<nat m]. days_in_month y (int k))"

text \<open>Day numbers overflow into the neighbouring months and years, as \<open>MakeDay\<close> lets them.\<close>

definition make_day :: "int \<Rightarrow> int \<Rightarrow> int \<Rightarrow> int" where
  "make_day y m d =
     day_from_year (y + m div 12) + month_start (y + m div 12) (m mod 12) + d - 1"

definition make_local :: "int \<Rightarrow> int \<Rightarrow> int \<Rightarrow> int \<Rightarrow> int \<Rightarrow> int" where
  "make_local y m d h mi = make_day y m d * ms_per_day + h * 3600000 + mi * 60000"

lemma div_next:
  fixes a n :: int
  assumes "0 < n"
  shows "(a + 1) div n = a div n + (if n dvd a + 1 then 1 else 0)"
proof -
  define q r where "q = a div n" and "r = a mod n"
  have a: "a = n * q + r" and r: "0 \<le> r" "r < n" using assms by (simp_all add: q_def r_def)
  show ?thesis
  proof (cases "r + 1 = n")
    case True
    then have "a + 1 = n * (q + 1)" by (simp add: a algebra_simps)
    then show ?thesis using assms by (simp add: q_def)
  next
    case False
    with r have "(a + 1) div n = q" and "(a + 1) mod n = r + 1"
      by (auto intro: int_div_pos_eq [of _ _ _ "r + 1"] int_mod_pos_eq simp: a)
    with r show ?thesis by (auto simp: q_def dvd_eq_mod_eq_0)
  qed
qed

lemma dvd_shift:
  "(4 :: int) dvd y - 1968 \<longleftrightarrow> y mod 4 = 0"
  "(100 :: int) dvd y - 1900 \<longleftrightarrow> y mod 100 = 0"
  "(400 :: int) dvd y - 1600 \<longleftrightarrow> y mod 400 = 0"
proof -
  have "(n :: int) dvd y - n * k \<longleftrightarrow> y mod n = 0" for n k
    using mod_mult_self2 [of y n "- k"] by (simp add: dvd_eq_mod_eq_0)
  from this [of 4 492] this [of 100 19] this [of 400 4]
  show "(4 :: int) dvd y - 1968 \<longleftrightarrow> y mod 4 = 0"
    "(100 :: int) dvd y - 1900 \<longleftrightarrow> y mod 100 = 0"
    "(400 :: int) dvd y - 1600 \<longleftrightarrow> y mod 400 = 0" by simp_all
qed

lemma mod_multiples:
  fixes y :: int
  shows "y mod 400 = 0 \<Longrightarrow> y mod 100 = 0" and "y mod 100 = 0 \<Longrightarrow> y mod 4 = 0"
proof -
  show "y mod 400 = 0 \<Longrightarrow> y mod 100 = 0"
    using dvd_trans [of 100 400 y] by (simp add: mod_eq_0_iff_dvd)
  show "y mod 100 = 0 \<Longrightarrow> y mod 4 = 0"
    using dvd_trans [of 4 100 y] by (simp add: mod_eq_0_iff_dvd)
qed

lemma day_from_year_Suc: "day_from_year (y + 1) = day_from_year y + days_in_year y"
proof -
  have next_year: "y - 1969 + 1 = y - 1968" "y - 1901 + 1 = y - 1900" "y - 1601 + 1 = y - 1600"
    by simp_all
  note quotients =
    div_next [of 4 "y - 1969", OF zero_less_numeral, unfolded next_year dvd_shift]
    div_next [of 100 "y - 1901", OF zero_less_numeral, unfolded next_year dvd_shift]
    div_next [of 400 "y - 1601", OF zero_less_numeral, unfolded next_year dvd_shift]
  have year: "y + 1 - 1970 = y - 1970 + 1" "y + 1 - 1969 = y - 1968" "y + 1 - 1901 = y - 1900"
    "y + 1 - 1601 = y - 1600"
    by simp_all
  have sum: "365 * (y - 1970 + 1) + (a + (if P then 1 else 0)) - (b + (if Q then 1 else 0))
        + (c + (if R then 1 else 0))
      = 365 * (y - 1970) + a - b + c + (if P \<and> (\<not> Q \<or> R) then 366 else 365)"
    if "R \<Longrightarrow> Q" and "Q \<Longrightarrow> P" for a b c :: int and P Q R
    using that by (cases P; cases Q; cases R; simp)
  show ?thesis
    unfolding day_from_year_def year quotients days_in_year_def leap_def
    by (rule sum) (rule mod_multiples, assumption)+
qed

lemma days_in_year_pos: "365 \<le> days_in_year y"
  by (simp add: days_in_year_def)

text \<open>The year of a day: start at a year not after it and walk up.\<close>

function find_year :: "int \<Rightarrow> int \<Rightarrow> int" where
  "find_year d y = (if day_from_year (y + 1) \<le> d then find_year d (y + 1) else y)"
  by pat_completeness auto
termination
proof (relation "measure (\<lambda>(d, y). nat (d - day_from_year y))")
  fix d y :: int
  assume "day_from_year (y + 1) \<le> d"
  then show "((d, y + 1), d, y) \<in> measure (\<lambda>(d, y). nat (d - day_from_year y))"
    using day_from_year_Suc [of y] days_in_year_pos [of y] by auto
qed simp

declare find_year.simps [simp del]

definition year_from_day :: "int \<Rightarrow> int" where
  "year_from_day d = find_year d (if 0 \<le> d then 1970 + d div 366 else 1969 + d div 365)"

fun find_month :: "int \<Rightarrow> int \<Rightarrow> nat \<Rightarrow> nat" where
  "find_month y r 0 = 0"
| "find_month y r (Suc m) = (if month_start y (int (Suc m)) \<le> r then Suc m else find_month y r m)"

definition month_from_day :: "int \<Rightarrow> int" where
  "month_from_day d =
     (let y = year_from_day d in int (find_month y (d - day_from_year y) 11))"

definition date_from_day :: "int \<Rightarrow> int" where
  "date_from_day d =
     (let y = year_from_day d in d - day_from_year y - month_start y (month_from_day d) + 1)"

text \<open>The getters, on a local time value.\<close>

definition local_year :: "int \<Rightarrow> int" where "local_year t = year_from_day (t div ms_per_day)"
definition local_month :: "int \<Rightarrow> int" where "local_month t = month_from_day (t div ms_per_day)"
definition local_date :: "int \<Rightarrow> int" where "local_date t = date_from_day (t div ms_per_day)"
definition local_hours :: "int \<Rightarrow> int" where "local_hours t = t div 3600000 mod 24"
definition local_minutes :: "int \<Rightarrow> int" where "local_minutes t = t div 60000 mod 60"

section \<open>Reading a day back\<close>

lemma day_from_year_mono: "y \<le> y' \<Longrightarrow> day_from_year y \<le> day_from_year y'"
proof (induction "nat (y' - y)" arbitrary: y')
  case 0
  then show ?case by simp
next
  case (Suc n)
  then have "day_from_year y \<le> day_from_year (y' - 1)" by simp
  also have "\<dots> \<le> day_from_year y'"
    using day_from_year_Suc [of "y' - 1"] days_in_year_pos [of "y' - 1"] by simp
  finally show ?case .
qed

lemma find_year_eq:
  "y0 \<le> y \<Longrightarrow> day_from_year y \<le> d \<Longrightarrow> d < day_from_year (y + 1) \<Longrightarrow> find_year d y0 = y"
proof (induction "nat (y - y0)" arbitrary: y0)
  case 0
  then show ?case by (subst find_year.simps) simp
next
  case (Suc n)
  then have "day_from_year (y0 + 1) \<le> d"
    using day_from_year_mono [of "y0 + 1" y] by linarith
  with Suc show ?case by (subst find_year.simps) simp
qed

lemma div_bounds:
  fixes a n :: int
  assumes "0 < n"
  shows "n * (a div n) \<le> a" and "a < n * (a div n) + n"
proof -
  have "a = n * (a div n) + a mod n" and "0 \<le> a mod n" and "a mod n < n" using assms by simp_all
  then show "n * (a div n) \<le> a" and "a < n * (a div n) + n" by linarith+
qed

lemma day_from_year_estimate:
  "0 \<le> k \<Longrightarrow> day_from_year (1970 + k) \<le> 366 * k"
  "k < 0 \<Longrightarrow> day_from_year (1969 + k) \<le> 365 * k"
proof -
  define a b c where "a = (k + 1) div 4" and "b = (k + 69) div 100" and "c = (k + 369) div 400"
  have year: "day_from_year (1970 + k) = 365 * k + a - b + c"
    by (simp add: day_from_year_def a_def b_def c_def add.commute)
  have bounds: "4 * a \<le> k + 1" "100 * b \<le> k + 69" "k + 69 < 100 * b + 100" "400 * c \<le> k + 369"
    unfolding a_def b_def c_def by (intro div_bounds zero_less_numeral)+
  show "day_from_year (1970 + k) \<le> 366 * k" if "0 \<le> k"
  proof -
    have "a \<le> k" using bounds that by linarith
    moreover have "c \<le> b"
    proof (rule ccontr)
      assume "\<not> c \<le> b"
      then have "b + 1 \<le> c" by simp
      moreover have "0 \<le> b" using bounds that by linarith
      ultimately show False using bounds by linarith
    qed
    ultimately show ?thesis by (simp add: year)
  qed
next
  define a b c where "a = k div 4" and "b = (k + 68) div 100" and "c = (k + 368) div 400"
  have year: "day_from_year (1969 + k) = 365 * (k - 1) + a - b + c"
    by (simp add: day_from_year_def a_def b_def c_def add.commute)
  have bounds: "4 * a \<le> k" "k + 68 < 100 * b + 100" "400 * c \<le> k + 368"
    unfolding a_def b_def c_def by (intro div_bounds zero_less_numeral)+
  show "day_from_year (1969 + k) \<le> 365 * k" if "k < 0"
  proof -
    have "a - b + c \<le> 365" using bounds that by linarith
    then show ?thesis unfolding year right_diff_distrib by simp
  qed
qed

text \<open>The year of a day is the one whose days contain it.\<close>

lemma year_from_day_eq:
  assumes "day_from_year y \<le> d" and "d < day_from_year (y + 1)"
  shows "year_from_day d = y"
proof -
  define y0 where "y0 = (if 0 \<le> d then 1970 + d div 366 else 1969 + d div 365)"
  have "day_from_year y0 \<le> d"
  proof (cases "0 \<le> d")
    case True
    then have "day_from_year y0 \<le> 366 * (d div 366)"
      unfolding y0_def by (simp add: day_from_year_estimate)
    also have "\<dots> \<le> d" by (rule div_bounds) simp
    finally show ?thesis .
  next
    case False
    then have "day_from_year y0 \<le> 365 * (d div 365)"
      unfolding y0_def by (simp add: day_from_year_estimate)
    also have "\<dots> \<le> d" by (rule div_bounds) simp
    finally show ?thesis .
  qed
  with assms have "day_from_year y0 < day_from_year (y + 1)" by simp
  then have "y0 \<le> y" using day_from_year_mono [of "y + 1" y0] by linarith
  then show ?thesis
    unfolding year_from_day_def y0_def [symmetric] using assms by (rule find_year_eq)
qed

lemma month_start_values:
  "month_start y 0 = 0" "month_start y 1 = 31"
  "month_start y 2 = 59 + (if leap y then 1 else 0)"
  "month_start y 3 = 90 + (if leap y then 1 else 0)"
  "month_start y 4 = 120 + (if leap y then 1 else 0)"
  "month_start y 5 = 151 + (if leap y then 1 else 0)"
  "month_start y 6 = 181 + (if leap y then 1 else 0)"
  "month_start y 7 = 212 + (if leap y then 1 else 0)"
  "month_start y 8 = 243 + (if leap y then 1 else 0)"
  "month_start y 9 = 273 + (if leap y then 1 else 0)"
  "month_start y 10 = 304 + (if leap y then 1 else 0)"
  "month_start y 11 = 334 + (if leap y then 1 else 0)"
  by (simp_all add: month_start_def days_in_month_def upt_rec)

lemma month_cases:
  fixes m :: int
  assumes "0 \<le> m" and "m \<le> 11"
  obtains "m = 0" | "m = 1" | "m = 2" | "m = 3" | "m = 4" | "m = 5" | "m = 6" | "m = 7"
    | "m = 8" | "m = 9" | "m = 10" | "m = 11"
proof -
  have "m = 0 \<or> m = 1 \<or> m = 2 \<or> m = 3 \<or> m = 4 \<or> m = 5 \<or> m = 6 \<or> m = 7
      \<or> m = 8 \<or> m = 9 \<or> m = 10 \<or> m = 11"
    using assms by presburger
  then show ?thesis using that by blast
qed

lemma find_month_eq:
  assumes "0 \<le> m" and "m \<le> 11" and "0 \<le> r" and "r < days_in_month y m"
  shows "int (find_month y (month_start y m + r) 11) = m"
  using assms(1,2)
  by (cases m rule: month_cases)
    (use assms(3,4) in \<open>auto simp: eval_nat_numeral month_start_values days_in_month_def\<close>)

lemma month_end: "0 \<le> m \<Longrightarrow> m \<le> 11 \<Longrightarrow> month_start y m + days_in_month y m \<le> days_in_year y"
  by (cases m rule: month_cases) (auto simp: month_start_values days_in_month_def days_in_year_def)

lemma month_start_nonneg: "0 \<le> m \<Longrightarrow> m \<le> 11 \<Longrightarrow> 0 \<le> month_start y m"
  by (cases m rule: month_cases) (auto simp: month_start_values)

text \<open>Reading back a day that exists in the calendar gives its year, month and date.\<close>

lemma day_fields:
  assumes "0 \<le> m" and "m \<le> 11" and "1 \<le> d" and "d \<le> days_in_month y m"
  shows "year_from_day (make_day y m d) = y"
    and "month_from_day (make_day y m d) = m"
    and "date_from_day (make_day y m d) = d"
proof -
  have day: "make_day y m d = day_from_year y + (month_start y m + (d - 1))"
    using assms by (simp add: make_day_def)
  have "day_from_year y \<le> make_day y m d" and "make_day y m d < day_from_year (y + 1)"
    using month_end [of m y] month_start_nonneg [of m y] assms
    by (simp_all add: day day_from_year_Suc)
  then show y: "year_from_day (make_day y m d) = y" by (rule year_from_day_eq)
  show "month_from_day (make_day y m d) = m"
    unfolding month_from_day_def Let_def y
    using find_month_eq [of m "d - 1" y] assms by (simp add: day)
  then show "date_from_day (make_day y m d) = d"
    by (simp add: date_from_day_def Let_def y) (simp add: day)
qed

lemma days_in_month_range: "28 \<le> days_in_month y m \<and> days_in_month y m \<le> 31"
  by (simp add: days_in_month_def)

text \<open>A date up to the 31st that its month does not have falls into the next month: its date
  reads back as a different one.\<close>

lemma day_overflow:
  assumes "0 \<le> m" and "m \<le> 11" and "days_in_month y m < d" and "d \<le> 31"
  shows "date_from_day (make_day y m d) \<noteq> d"
proof (cases "m = 11")
  case True
  with assms show ?thesis by (simp add: days_in_month_def)
next
  case False
  with assms have m: "0 \<le> m + 1" "m + 1 \<le> 11" by auto
  have next_start: "month_start y (m + 1) = month_start y m + days_in_month y m"
    using assms(1,2) False
    by (cases m rule: month_cases) (auto simp: month_start_values days_in_month_def)
  define e where "e = d - days_in_month y m"
  have e: "1 \<le> e" "e \<le> 3" "e < d"
    using assms days_in_month_range [of y m] by (auto simp: e_def)
  then have e28: "e \<le> days_in_month y (m + 1)"
    using days_in_month_range [of y "m + 1"] by linarith
  have "make_day y m d = make_day y (m + 1) e"
    using assms m by (simp add: make_day_def next_start e_def)
  then have "date_from_day (make_day y m d) = e"
    using day_fields(3) [OF m e(1) e28] by simp
  with e show ?thesis by simp
qed

lemma local_time_split:
  assumes "0 \<le> h" and "h < 24" and "0 \<le> mi" and "mi < 60"
  shows "make_local y m d h mi div ms_per_day = make_day y m d"
    and "local_hours (make_local y m d h mi) = h"
    and "local_minutes (make_local y m d h mi) = mi"
proof -
  define D where "D = make_day y m d"
  have "make_local y m d h mi = ms_per_day * D + (h * 3600000 + mi * 60000)"
    by (simp add: make_local_def D_def)
  moreover have "0 \<le> h * 3600000 + mi * 60000" "h * 3600000 + mi * 60000 < ms_per_day"
    using assms by (simp_all add: ms_per_day_def)
  ultimately show "make_local y m d h mi div ms_per_day = make_day y m d"
    unfolding D_def [symmetric] by (intro int_div_pos_eq)
  have "make_local y m d h mi = 3600000 * (24 * D + h) + mi * 60000"
    by (simp add: make_local_def D_def ms_per_day_def)
  then have "make_local y m d h mi div 3600000 = 24 * D + h"
    using assms by (intro int_div_pos_eq [where r = "mi * 60000"]) simp_all
  then show "local_hours (make_local y m d h mi) = h" using assms by (simp add: local_hours_def)
  have "make_local y m d h mi = 60000 * (60 * (24 * D + h) + mi) + 0"
    by (simp add: make_local_def D_def ms_per_day_def)
  then have "make_local y m d h mi div 60000 = 60 * (24 * D + h) + mi"
    by (intro int_div_pos_eq [where r = 0]) simp_all
  then have "local_minutes (make_local y m d h mi) = (60 * (24 * D + h) + mi) mod 60"
    by (simp only: local_minutes_def)
  also have "\<dots> = mi" using assms by (intro int_mod_pos_eq [of _ _ "24 * D + h"]) simp_all
  finally show "local_minutes (make_local y m d h mi) = mi" .
qed

end
