(* ===== verification/Dates.thy ===== *)
theory Dates
  imports Calendar
begin

text \<open>
  Durations and dates: \<open>getTimeRemaining\<close> and \<open>formatWaitingDuration\<close> of lib/date.ts,
  \<open>formatDuration\<close> of components/admin/admin-settings.tsx, and the expiration fields of
  components/admin/create-verification-request-form.tsx (their input masks, the blur
  normalisation and \<open>parseExpirationDateTime\<close>). What \<open>new Date(text).getTime()\<close> reads (\<open>None\<close>
  for NaN), the current time and the browser's time zone are parameters.
\<close>

section \<open>Durations\<close>

definition em_dash :: string where
  "em_dash = [CHR 0xE2, CHR 0x80, CHR 0x94]"

definition get_time_remaining :: "(string \<Rightarrow> int option) \<Rightarrow> int \<Rightarrow> string \<Rightarrow> string" where
  "get_time_remaining date_value now value =
     (case date_value value of
        None \<Rightarrow> ''NaNd remaining''
      | Some target \<Rightarrow>
          let difference = target - now
          in if difference \<le> 0 then ''Expired''
             else let minutes = difference div 60000
               in if minutes < 60 then show_int minutes @ ''m remaining''
               else let hours = minutes div 60
                 in if hours < 24 then show_int hours @ ''h remaining''
                 else let days = hours div 24
                   in show_int days @ ''d remaining'')"

definition format_waiting_duration ::
  "(string \<Rightarrow> int option) \<Rightarrow> int \<Rightarrow> string option \<Rightarrow> string" where
  "format_waiting_duration date_value now value =
     (if \<not> truthy value then em_dash
      else case date_value (the value) of
        None \<Rightarrow> ''NaNd NaNh''
      | Some started \<Rightarrow>
          let seconds = max 0 ((now - started) div 1000)
          in if seconds < 60 then show_int seconds @ ''s''
             else let minutes = seconds div 60
               in if minutes < 60 then show_int minutes @ ''m''
               else let hours = minutes div 60; remaining_minutes = minutes mod 60
                 in if hours < 24
                    then show_int hours @ ''h '' @ show_int remaining_minutes @ ''m''
                    else let days = hours div 24
                      in show_int days @ ''d '' @ show_int (hours mod 24) @ ''h'')"

definition format_duration :: "int \<Rightarrow> string" where
  "format_duration seconds =
     (if seconds > 0 \<and> seconds mod 3600 = 0 then
        (let hours = seconds div 3600
         in show_int hours @ '' '' @ (if hours = 1 then ''hour'' else ''hours''))
      else if seconds > 0 \<and> seconds mod 60 = 0 then
        (let minutes = seconds div 60
         in show_int minutes @ '' '' @ (if minutes = 1 then ''minute'' else ''minutes''))
      else show_int seconds @ '' seconds'')"

section \<open>The expiration fields\<close>

definition date_layout :: "string \<Rightarrow> string" where
  "date_layout digits =
     (if length digits \<le> 2 then digits
      else if length digits \<le> 4 then slice 0 2 digits @ ''/'' @ drop 2 digits
      else slice 0 2 digits @ ''/'' @ slice 2 4 digits @ ''/'' @ slice 4 8 digits)"

definition normalize_date_input :: "string \<Rightarrow> string" where
  "normalize_date_input value = date_layout (take 8 (filter is_digit value))"

definition time_layout :: "string \<Rightarrow> string" where
  "time_layout digits =
     (if length digits \<le> 2 then digits else slice 0 2 digits @ '':'' @ slice 2 4 digits)"

definition normalize_time_input :: "string \<Rightarrow> string" where
  "normalize_time_input value = time_layout (take 4 (filter is_digit value))"

text \<open>
  The patterns \<open>/^(\d{1,2})\/(\d{1,2})\/(\d{4})$/\<close> and \<open>/^(\d{1,2}):(\d{2})$/\<close> with their groups.
\<close>

definition all_digits :: "string \<Rightarrow> bool" where
  "all_digits s \<longleftrightarrow> list_all is_digit s"

definition match_date :: "string \<Rightarrow> (string \<times> string \<times> string) option" where
  "match_date s =
     (case split_char CHR ''/'' s of
        [d, m, y] \<Rightarrow>
          if all_digits d \<and> length d \<in> {1, 2} \<and> all_digits m \<and> length m \<in> {1, 2}
             \<and> all_digits y \<and> length y = 4
          then Some (d, m, y) else None
      | _ \<Rightarrow> None)"

definition match_time :: "string \<Rightarrow> (string \<times> string) option" where
  "match_time s =
     (case split_char CHR '':'' s of
        [h, mi] \<Rightarrow>
          if all_digits h \<and> length h \<in> {1, 2} \<and> all_digits mi \<and> length mi = 2
          then Some (h, mi) else None
      | _ \<Rightarrow> None)"

definition pad2 :: "string \<Rightarrow> string" where
  "pad2 s = replicate (2 - length s) CHR ''0'' @ s"

definition date_on_blur :: "string \<Rightarrow> string" where
  "date_on_blur value =
     (let trimmed = trim value
      in if trimmed = [] then []
         else case match_date trimmed of
           None \<Rightarrow> trimmed
         | Some (d, m, y) \<Rightarrow> pad2 d @ ''/'' @ pad2 m @ ''/'' @ y)"

definition time_on_blur :: "string \<Rightarrow> string" where
  "time_on_blur value =
     (let trimmed = trim value
      in if trimmed = [] then []
         else case match_time trimmed of
           Some (h, mi) \<Rightarrow> pad2 h @ '':'' @ mi
         | None \<Rightarrow>
             (let digits = filter is_digit trimmed
              in if length digits = 3 then ''0'' @ [digits ! 0] @ '':'' @ drop 1 digits
                 else if length digits = 4 then slice 0 2 digits @ '':'' @ drop 2 digits
                 else trimmed))"

datatype expiration_period = AM | PM

text \<open>
  \<open>to_utc\<close> is what the Date constructor applies to a local time value and \<open>to_local\<close> what the
  getters apply to a Date; the result is the Date's time value.
\<close>

definition parse_expiration ::
  "(int \<Rightarrow> int) \<Rightarrow> (int \<Rightarrow> int) \<Rightarrow> string \<Rightarrow> string \<Rightarrow> expiration_period \<Rightarrow> int option" where
  "parse_expiration to_utc to_local raw_date raw_time period =
     (case match_date (trim raw_date) of
        None \<Rightarrow> None
      | Some (ds, ms, ys) \<Rightarrow>
     (case match_time (trim raw_time) of
        None \<Rightarrow> None
      | Some (hs, mins) \<Rightarrow>
          let day = int (parse_digits ds); month = int (parse_digits ms);
              year = int (parse_digits ys);
              hour12 = int (parse_digits hs); minute = int (parse_digits mins)
          in if year < 2000 \<or> year > 9999 then None
             else if month < 1 \<or> month > 12 then None
             else if day < 1 \<or> day > 31 then None
             else if hour12 < 1 \<or> hour12 > 12 then None
             else if minute < 0 \<or> minute > 59 then None
             else
               let hour24 = hour12 mod 12 + (if period = PM then 12 else 0);
                   result = to_utc (make_local year (month - 1) day hour24 minute);
                   back = to_local result
               in if local_year back \<noteq> year \<or> local_month back \<noteq> month - 1
                     \<or> local_date back \<noteq> day \<or> local_hours back \<noteq> hour24
                     \<or> local_minutes back \<noteq> minute
                  then None else Some result))"

section \<open>Input masks\<close>

lemma digit_not_sep [simp]:
  "\<not> is_digit CHR ''/''" "\<not> is_digit CHR '':''"
  by (simp_all add: is_digit_def)

lemma filter_all: "list_all P xs \<Longrightarrow> filter P xs = xs"
  by (induction xs) auto

lemma list_all_slice: "list_all P xs \<Longrightarrow> list_all P (slice a b xs)"
  by (auto simp: slice_def list_all_iff dest!: in_set_takeD in_set_dropD)

lemma list_all_drop: "list_all P xs \<Longrightarrow> list_all P (drop n xs)"
  by (auto simp: list_all_iff dest!: in_set_dropD)

lemma slices_append:
  "slice 0 a xs @ drop a xs = xs"
  "length xs \<le> c \<Longrightarrow> a \<le> b \<Longrightarrow> b \<le> c \<Longrightarrow> slice 0 a xs @ slice a b xs @ slice b c xs = xs"
proof -
  show "slice 0 a xs @ drop a xs = xs" by (simp add: slice_def)
  assume "length xs \<le> c" "a \<le> b" "b \<le> c"
  then have "slice b c xs = drop b xs" and "slice a b xs @ drop b xs = drop a xs"
    by (simp_all add: slice_def) (metis append_take_drop_id drop_drop le_add_diff_inverse2)
  then show "slice 0 a xs @ slice a b xs @ slice b c xs = xs" by (simp add: slice_def)
qed

interpretation date_mask: masked_input is_digit 8 date_layout
proof
  fix ds :: string
  assume "length ds \<le> 8" "list_all is_digit ds"
  then show "filter is_digit (date_layout ds) = ds"
    using slices_append(1) [of 2 ds] slices_append(2) [of ds 8 2 4]
    by (simp add: date_layout_def filter_all list_all_slice list_all_drop)
qed

interpretation time_mask: masked_input is_digit 4 time_layout
proof
  fix ds :: string
  assume h: "length ds \<le> 4" "list_all is_digit ds"
  then have "slice 0 2 ds @ slice 2 4 ds = ds" by (simp add: slice_def)
  with h show "filter is_digit (time_layout ds) = ds"
    by (simp add: time_layout_def filter_all list_all_slice)
qed

section \<open>Reading an expiration\<close>

text \<open>The fields of a text that passes the patterns and the range checks.\<close>

definition typed_fields :: "string \<Rightarrow> string \<Rightarrow> (int \<times> int \<times> int \<times> int \<times> int) option" where
  "typed_fields raw_date raw_time =
     (case match_date (trim raw_date) of
        None \<Rightarrow> None
      | Some (ds, ms, ys) \<Rightarrow>
          (case match_time (trim raw_time) of
             None \<Rightarrow> None
           | Some (hs, mins) \<Rightarrow>
               Some (int (parse_digits ys), int (parse_digits ms), int (parse_digits ds),
                     int (parse_digits hs), int (parse_digits mins))))"

definition hour24 :: "int \<Rightarrow> expiration_period \<Rightarrow> int" where
  "hour24 h period = h mod 12 + (if period = PM then 12 else 0)"

text \<open>A wall-clock moment that exists: a real calendar date and a 12-hour time.\<close>

definition wall_clock :: "int \<Rightarrow> int \<Rightarrow> int \<Rightarrow> int \<Rightarrow> int \<Rightarrow> bool" where
  "wall_clock y m d h mi \<longleftrightarrow>
     2000 \<le> y \<and> y \<le> 9999 \<and> 1 \<le> m \<and> m \<le> 12 \<and> 1 \<le> d \<and> d \<le> days_in_month y (m - 1)
     \<and> 1 \<le> h \<and> h \<le> 12 \<and> 0 \<le> mi \<and> mi \<le> 59"

lemma parse_expiration_fields:
  "parse_expiration to_utc to_local raw_date raw_time period =
     (case typed_fields raw_date raw_time of
        None \<Rightarrow> None
      | Some (y, m, d, h, mi) \<Rightarrow>
          let result = to_utc (make_local y (m - 1) d (hour24 h period) mi); back = to_local result
          in if 2000 \<le> y \<and> y \<le> 9999 \<and> 1 \<le> m \<and> m \<le> 12 \<and> 1 \<le> d \<and> d \<le> 31
                \<and> 1 \<le> h \<and> h \<le> 12 \<and> 0 \<le> mi \<and> mi \<le> 59
                \<and> local_year back = y \<and> local_month back = m - 1 \<and> local_date back = d
                \<and> local_hours back = hour24 h period \<and> local_minutes back = mi
             then Some result else None)"
  by (auto simp: parse_expiration_def typed_fields_def hour24_def Let_def
      split: option.split prod.split)

lemma hour24_range: "0 \<le> hour24 h p" "hour24 h p < 24"
proof -
  define r where "r = h mod 12"
  have "0 \<le> r" "r < 12" by (simp_all add: r_def)
  then show "0 \<le> hour24 h p" "hour24 h p < 24" unfolding hour24_def r_def [symmetric] by simp_all
qed

text \<open>Without a gap in the time zone, the comparison of the components accepts exactly the
  calendar's dates.\<close>

lemma components_agree:
  fixes y m d h mi :: int and period :: expiration_period
  assumes "1 \<le> m" "m \<le> 12" "1 \<le> d" "d \<le> 31" "1 \<le> h" "h \<le> 12" "0 \<le> mi" "mi \<le> 59"
  defines "t \<equiv> make_local y (m - 1) d (hour24 h period) mi"
  shows "(local_year t = y \<and> local_month t = m - 1 \<and> local_date t = d
            \<and> local_hours t = hour24 h period \<and> local_minutes t = mi)
     \<longleftrightarrow> d \<le> days_in_month y (m - 1)"
proof -
  note range = assms(1-8)
  have m: "0 \<le> m - 1" "m - 1 \<le> 11" using range by simp_all
  have time: "t div ms_per_day = make_day y (m - 1) d" "local_hours t = hour24 h period"
    "local_minutes t = mi"
    unfolding t_def using range hour24_range [of h period] by (auto intro!: local_time_split)
  show ?thesis
  proof (cases "d \<le> days_in_month y (m - 1)")
    case True
    with m range show ?thesis
      by (simp add: time local_year_def local_month_def local_date_def day_fields)
  next
    case False
    with m range show ?thesis
      using day_overflow [of "m - 1" y d] by (simp add: time local_date_def)
  qed
qed

section \<open>Properties\<close>



text \<open>Whatever the time zone does, an accepted expiration reads back, through the getters, as
  the very date and time that was typed.\<close>

theorem parse_expiration_reads_back:
  assumes "parse_expiration to_utc to_local raw_date raw_time period = Some r"
  shows "\<exists>y m d h mi. typed_fields raw_date raw_time = Some (y, m, d, h, mi)
     \<and> local_year (to_local r) = y \<and> local_month (to_local r) = m - 1
     \<and> local_date (to_local r) = d \<and> local_hours (to_local r) = hour24 h period
     \<and> local_minutes (to_local r) = mi"
  using assms
  by (auto simp: parse_expiration_fields Let_def split: option.splits prod.splits if_splits)

theorem parse_expiration_reads_back_witness:
  "\<exists>r. local_date (r + 19800000) = 31 \<and> local_hours (r + 19800000) = 21"
proof -
  have "parse_expiration (\<lambda>t. t - 19800000) (\<lambda>t. t + 19800000) ''31/08/2026'' ''09:30'' PM
      = Some (make_local 2026 7 31 16 0)"
    by code_simp
  from parse_expiration_reads_back [OF this] show ?thesis
    by (auto simp: typed_fields_def match_date_def match_time_def all_digits_def js_string
        parse_digits_def digit_value_def hour24_def intro!: exI [of _ "make_local 2026 7 31 16 0"])
qed

subsection \<open>The input masks and the blur handlers\<close>

lemma digits_no_sep: "list_all is_digit ds \<Longrightarrow> CHR ''/'' \<notin> set ds" "list_all is_digit ds \<Longrightarrow> CHR '':'' \<notin> set ds"
  by (auto simp: list_all_iff is_digit_def)

lemma digit_not_ws: "is_digit c \<Longrightarrow> \<not> is_ws c"
  by (auto simp: is_digit_def is_ws_def)

lemma date_layout_trim: "list_all is_digit ds \<Longrightarrow> trim (date_layout ds) = date_layout ds"
proof (rule trim_no_ws)
  assume h: "list_all is_digit ds"
  have digits: "list_all (\<lambda>c. \<not> is_ws c) xs" if "list_all is_digit xs" for xs
    using that digit_not_ws by (auto simp: list_all_iff)
  have "\<not> is_ws CHR ''/''" by (simp add: is_ws_def)
  with h show "list_all (\<lambda>c. \<not> is_ws c) (date_layout ds)"
    by (simp add: date_layout_def digits list_all_slice list_all_drop)
qed

text \<open>A date of more than four digits shows its day and month with two digits each.\<close>

lemma split_date_layout:
  assumes "list_all is_digit ds" and "length ds \<le> 8"
  shows "split_char CHR ''/'' (date_layout ds) =
     (if length ds \<le> 2 then [ds]
      else if length ds \<le> 4 then [slice 0 2 ds, drop 2 ds]
      else [slice 0 2 ds, slice 2 4 ds, slice 4 8 ds])"
  using assms digits_no_sep(1) [OF assms(1)]
    digits_no_sep(1) [OF list_all_slice [OF assms(1)]] digits_no_sep(1) [OF list_all_drop [OF assms(1)]]
  by (simp add: date_layout_def split_char_plain split_char_sep)

lemma date_on_blur_layout:
  assumes "list_all is_digit ds" and "length ds \<le> 8"
  shows "date_on_blur (date_layout ds) = date_layout ds"
proof -
  have long: "pad2 (slice 0 2 ds) = slice 0 2 ds" "pad2 (slice 2 4 ds) = slice 2 4 ds"
    if "\<not> length ds \<le> 4"
    using that by (simp_all add: pad2_def slice_def)
  show ?thesis
    using assms long
    by (auto simp: date_on_blur_def Let_def date_layout_trim match_date_def split_date_layout)
      (simp_all add: date_layout_def)
qed

text \<open>Typing one more text into an expiration field gives what typing all of it at once gives,
  and the field keeps exactly the first eight (four) digits typed.\<close>

lemma expiration_masks_type_on:
  "normalize_date_input (normalize_date_input s @ t) = normalize_date_input (s @ t)
   \<and> filter is_digit (normalize_date_input s) = take 8 (filter is_digit s)
   \<and> normalize_time_input (normalize_time_input s @ t) = normalize_time_input (s @ t)
   \<and> filter is_digit (normalize_time_input s) = take 4 (filter is_digit s)"
  unfolding normalize_date_input_def normalize_time_input_def
  by (intro conjI date_mask.type_on time_mask.type_on date_mask.kept time_mask.kept)

text \<open>The blur handler of the date field never changes a value the field can hold; in
  particular a user who types \<open>1/9/2026\<close> gets \<open>19/20/26\<close> and keeps it, so the padding to
  \<open>01/09/2026\<close> that the handler's comment promises cannot happen.\<close>

lemma date_blur_is_identity:
  "date_on_blur (normalize_date_input s) = normalize_date_input s
   \<and> date_on_blur (normalize_date_input ''1/9/2026'') = ''19/20/26''
   \<and> date_on_blur ''1/9/2026'' = ''01/09/2026''"
proof -
  have blur: "date_on_blur (normalize_date_input t) = normalize_date_input t" for t
    unfolding normalize_date_input_def
    by (rule date_on_blur_layout) (auto simp: list_all_iff dest: in_set_takeD)
  have "normalize_date_input ''1/9/2026'' = ''19/20/26''"
    by (simp add: normalize_date_input_def date_layout_def slice_def is_digit_def)
  moreover have "date_on_blur ''1/9/2026'' = ''01/09/2026''"
    by (simp add: date_on_blur_def match_date_def all_digits_def js_string pad2_def)
  ultimately show ?thesis using blur [of s] blur [of "''1/9/2026''"] by simp
qed

subsection \<open>Durations\<close>

lemma div_chain:
  fixes a :: int
  assumes "0 \<le> c"
  shows "a div b div c = a div (b * c)"
  using assms by (rule zdiv_zmult2_eq [symmetric])

lemma div_less_const:
  fixes a :: int
  assumes "0 < k"
  shows "a div k < n \<longleftrightarrow> a < n * k"
proof
  assume "a div k < n"
  then have "(a div k + 1) * k \<le> n * k" using assms by (intro mult_right_mono) simp_all
  moreover have "a < (a div k + 1) * k"
    unfolding distrib_right using div_mult_mod_eq [of a k] pos_mod_bound [OF assms, of a] by linarith
  ultimately show "a < n * k" by linarith
next
  assume "a < n * k"
  show "a div k < n"
  proof (rule ccontr)
    assume "\<not> a div k < n"
    then have "n * k \<le> a div k * k" using assms by (intro mult_right_mono) simp_all
    moreover have "a div k * k \<le> a"
      using div_mult_mod_eq [of a k] pos_mod_sign [OF assms, of a] by linarith
    ultimately show False using \<open>a < n * k\<close> by linarith
  qed
qed

text \<open>The waiting time shown is exact in its unit: the age in whole seconds (never negative)
  as seconds, minutes, hours and minutes, or days and hours, each the largest unit that fits.\<close>

lemma waiting_duration_closed_form:
  assumes "value \<noteq> []" and "date_value value = Some started"
  shows "format_waiting_duration date_value now (Some value) =
     (let s = max 0 ((now - started) div 1000)
      in if s < 60 then show_int s @ ''s''
         else if s < 3600 then show_int (s div 60) @ ''m''
         else if s < 86400 then show_int (s div 3600) @ ''h '' @ show_int (s div 60 mod 60) @ ''m''
         else show_int (s div 86400) @ ''d '' @ show_int (s div 3600 mod 24) @ ''h'')"
proof -
  define s where "s = max 0 ((now - started) div 1000)"
  have "s div 60 div 60 = s div 3600" and "s div 60 div 60 div 24 = s div 86400"
    by (simp_all add: div_chain)
  moreover have "s div 60 < 60 \<longleftrightarrow> s < 3600" and "s div 3600 < 24 \<longleftrightarrow> s < 86400"
    using div_less_const [of 60 s 60] div_less_const [of 3600 s 24] by simp_all
  ultimately show ?thesis
    using assms
    by (simp only: format_waiting_duration_def s_def [symmetric] Let_def truthy_def option.case
        option.sel not_not if_False simp_thms cong: if_cong)
qed

theorem waiting_duration_closed_form_witness:
  "format_waiting_duration (\<lambda>_. Some 0) 90061000 (Some ''x'') = ''1d 1h''"
  using waiting_duration_closed_form [of "''x''" "\<lambda>_. Some 0" 0 90061000]
  by (simp add: show_int_def show_nat.simps digit_char_def char_of_def bit_0)

text \<open>A deadline is shown as "Expired" exactly when it has passed, and otherwise as the whole
  minutes, hours or days left, rounded down.\<close>

lemma time_remaining_closed_form:
  assumes "date_value value = Some target"
  shows "get_time_remaining date_value now value =
     (let ms = target - now
      in if target \<le> now then ''Expired''
         else if ms < 3600000 then show_int (ms div 60000) @ ''m remaining''
         else if ms < 86400000 then show_int (ms div 3600000) @ ''h remaining''
         else show_int (ms div 86400000) @ ''d remaining'')
   \<and> (get_time_remaining date_value now value = ''Expired'' \<longleftrightarrow> target \<le> now)"
proof -
  define ms where "ms = target - now"
  have "ms div 60000 div 60 = ms div 3600000" and "ms div 60000 div 60 div 24 = ms div 86400000"
    by (simp_all add: div_chain)
  moreover have "ms div 60000 < 60 \<longleftrightarrow> ms < 3600000" and "ms div 3600000 < 24 \<longleftrightarrow> ms < 86400000"
    using div_less_const [of 60000 ms 60] div_less_const [of 3600000 ms 24] by simp_all
  moreover have "target \<le> now \<longleftrightarrow> ms \<le> 0" by (simp add: ms_def)
  moreover have "show_int i @ u \<noteq> ''Expired''" if "0 \<le> i" for i u
    using that show_nat_digits [of "nat i"]
    by (cases "show_nat (nat i)") (auto simp: show_int_def is_digit_def)
  ultimately show ?thesis
    using assms
    by (simp only: get_time_remaining_def ms_def [symmetric] Let_def option.case) auto
qed

theorem time_remaining_closed_form_witness:
  "get_time_remaining (\<lambda>_. Some 7200000) 0 ''x'' = ''2h remaining''"
  using time_remaining_closed_form [of "\<lambda>_. Some 7200000" "''x''" 7200000 0]
  by (simp add: show_int_def show_nat.simps digit_char_def char_of_def bit_0)

subsection \<open>What the fields and the texts show\<close>

text \<open>An expiration field holds what its mask makes of everything typed so far, and exactly the
  first eight (four) digits of it; and leaving the date field changes nothing it can hold, so that the
  padding of \<open>1/9/2026\<close> to \<open>01/09/2026\<close>, which its comment promises, cannot happen.\<close>

theorem expiration_fields_hold:
  "normalize_date_input (normalize_date_input s @ t) = normalize_date_input (s @ t)
   \<and> filter is_digit (normalize_date_input s) = take 8 (filter is_digit s)
   \<and> normalize_time_input (normalize_time_input s @ t) = normalize_time_input (s @ t)
   \<and> filter is_digit (normalize_time_input s) = take 4 (filter is_digit s)
   \<and> date_on_blur (normalize_date_input s) = normalize_date_input s
   \<and> date_on_blur (normalize_date_input ''1/9/2026'') = ''19/20/26''
   \<and> date_on_blur ''1/9/2026'' = ''01/09/2026''"
  using expiration_masks_type_on [of s t] date_blur_is_identity [of s] by blast

text \<open>The waiting time of a case is exact in the largest unit that fits and never negative; a
  deadline is "Expired" exactly when it has passed, and otherwise shown as the whole minutes, hours or
  days left, rounded down.\<close>

lemma durations_shown_exactly:
  assumes "v \<noteq> []" and "date_value v = Some instant"
  shows "format_waiting_duration date_value now (Some v) =
     (let s = max 0 ((now - instant) div 1000)
      in if s < 60 then show_int s @ ''s''
         else if s < 3600 then show_int (s div 60) @ ''m''
         else if s < 86400 then show_int (s div 3600) @ ''h '' @ show_int (s div 60 mod 60) @ ''m''
         else show_int (s div 86400) @ ''d '' @ show_int (s div 3600 mod 24) @ ''h'')
   \<and> get_time_remaining date_value now v =
     (let ms = instant - now
      in if instant \<le> now then ''Expired''
         else if ms < 3600000 then show_int (ms div 60000) @ ''m remaining''
         else if ms < 86400000 then show_int (ms div 3600000) @ ''h remaining''
         else show_int (ms div 86400000) @ ''d remaining'')
   \<and> (get_time_remaining date_value now v = ''Expired'' \<longleftrightarrow> instant \<le> now)"
  using waiting_duration_closed_form [of v date_value instant now]
    time_remaining_closed_form [of date_value v instant now] assms by blast

theorem durations_shown_exactly_witness:
  "format_waiting_duration (\<lambda>_. Some 0) 90061000 (Some ''x'') = ''1d 1h''
   \<and> get_time_remaining (\<lambda>_. Some 0) (-7200000) ''x'' = ''2h remaining''"
  using durations_shown_exactly [of "''x''" "\<lambda>_. Some 0" 0 90061000]
    durations_shown_exactly [of "''x''" "\<lambda>_. Some 0" 0 "-7200000"]
  by (simp add: show_int_def show_nat.simps digit_char_def char_of_def bit_0)

end
