(* ===== verification/Handlers.thy ===== *)
theory Handlers
  imports Prelude
begin

text \<open>
  Event handlers of a component that call the server. A handler runs up to its first await
  (\<open>start\<close>: the guards, the state it sets and the request it captures, if any), and its
  continuation runs when the answer is there (\<open>settle\<close>), which may go on to a further request.
  In between, other events change the
  component. React renders between two events, so a handler sees the state the last one left.
  The contracts: a handler with a busy flag is single-flight, and one that issues a request only
  from acceptable states issues acceptable requests only.
\<close>

datatype ('i, 'o, 'e) move = Start 'i | Settle nat 'o | Other 'e

text \<open>The component, the requests under way (oldest first) and all requests it has issued.\<close>

record ('s, 'q) flight =
  fl_state :: 's
  fl_pending :: "'q list"
  fl_issued :: "'q list"

fun flight_step ::
  "('i \<Rightarrow> 's \<Rightarrow> 's \<times> 'q option) \<Rightarrow> ('q \<Rightarrow> 'o \<Rightarrow> 's \<Rightarrow> 's \<times> 'q option)
     \<Rightarrow> ('e \<Rightarrow> 's \<Rightarrow> 's)
     \<Rightarrow> ('i, 'o, 'e) move \<Rightarrow> ('s, 'q) flight \<Rightarrow> ('s, 'q) flight" where
  "flight_step start settle other (Start i) f =
     (case start i (fl_state f) of
        (s, None) \<Rightarrow> f\<lparr>fl_state := s\<rparr>
      | (s, Some q) \<Rightarrow> \<lparr>fl_state = s, fl_pending = fl_pending f @ [q], fl_issued = fl_issued f @ [q]\<rparr>)"
| "flight_step start settle other (Settle k r) f =
     (if k < length (fl_pending f)
      then (let rest = take k (fl_pending f) @ drop (Suc k) (fl_pending f)
            in case settle (fl_pending f ! k) r (fl_state f) of
                 (s, None) \<Rightarrow> f\<lparr>fl_state := s, fl_pending := rest\<rparr>
               | (s, Some q) \<Rightarrow>
                   \<lparr>fl_state = s, fl_pending = rest @ [q], fl_issued = fl_issued f @ [q]\<rparr>)
      else f)"
| "flight_step start settle other (Other e) f = f\<lparr>fl_state := other e (fl_state f)\<rparr>"

definition flight_run ::
  "('i \<Rightarrow> 's \<Rightarrow> 's \<times> 'q option) \<Rightarrow> ('q \<Rightarrow> 'o \<Rightarrow> 's \<Rightarrow> 's \<times> 'q option)
     \<Rightarrow> ('e \<Rightarrow> 's \<Rightarrow> 's)
     \<Rightarrow> ('i, 'o, 'e) move list \<Rightarrow> 's \<Rightarrow> ('s, 'q) flight" where
  "flight_run start settle other ms s =
     fold (flight_step start settle other) ms \<lparr>fl_state = s, fl_pending = [], fl_issued = []\<rparr>"

text \<open>Busy exactly while one request is under way.\<close>

definition one_at_a_time :: "('s \<Rightarrow> bool) \<Rightarrow> ('s, 'q) flight \<Rightarrow> bool" where
  "one_at_a_time busy f \<longleftrightarrow> length (fl_pending f) = (if busy (fl_state f) then 1 else 0)"

section \<open>Acceptable requests\<close>

text \<open>An invariant of the component under which every request that is issued is acceptable.\<close>

locale guarded_handler =
  fixes start :: "'i \<Rightarrow> 's \<Rightarrow> 's \<times> 'q option"
    and settle :: "'q \<Rightarrow> 'o \<Rightarrow> 's \<Rightarrow> 's \<times> 'q option"
    and other :: "'e \<Rightarrow> 's \<Rightarrow> 's"
    and inv :: "'s \<Rightarrow> bool"
    and good :: "'q \<Rightarrow> bool"
  assumes start_inv: "inv s \<Longrightarrow> start i s = (s', oq) \<Longrightarrow> inv s'"
    and start_good: "inv s \<Longrightarrow> start i s = (s', Some q) \<Longrightarrow> good q"
    and settle_inv: "inv s \<Longrightarrow> good q \<Longrightarrow> settle q r s = (s', oq) \<Longrightarrow> inv s'"
    and settle_good: "inv s \<Longrightarrow> good q \<Longrightarrow> settle q r s = (s', Some q') \<Longrightarrow> good q'"
    and other_inv: "inv s \<Longrightarrow> inv (other e s)"
begin

definition fine :: "('s, 'q) flight \<Rightarrow> bool" where
  "fine f \<longleftrightarrow> inv (fl_state f) \<and> list_all good (fl_pending f) \<and> list_all good (fl_issued f)"

lemma step_fine: "fine f \<Longrightarrow> fine (flight_step start settle other m f)"
proof (cases m)
  case (Start i)
  assume "fine f"
  with Start start_inv [of "fl_state f" i] start_good [of "fl_state f" i] show ?thesis
    by (cases "start i (fl_state f)") (auto simp: fine_def split: option.split)
next
  case (Settle k r)
  assume h: "fine f"
  show ?thesis
  proof (cases "k < length (fl_pending f)")
    case True
    with h have "good (fl_pending f ! k)" by (simp add: fine_def list_all_length)
    obtain s' oq where st: "settle (fl_pending f ! k) r (fl_state f) = (s', oq)"
      by (cases "settle (fl_pending f ! k) r (fl_state f)")
    from h have inv: "inv (fl_state f)" by (simp add: fine_def)
    have rest: "list_all good (take k (fl_pending f) @ drop (Suc k) (fl_pending f))"
      using h by (auto simp: fine_def list_all_iff dest: in_set_takeD in_set_dropD)
    have "inv s'" by (rule settle_inv [OF inv \<open>good (fl_pending f ! k)\<close> st])
    moreover have "good q'" if "oq = Some q'" for q'
      using settle_good [OF inv \<open>good (fl_pending f ! k)\<close>] st that by simp
    ultimately show ?thesis
      using h Settle st rest True by (cases oq) (simp_all add: fine_def Let_def)
  next
    case False
    with h Settle show ?thesis by simp
  qed
next
  case (Other e)
  assume "fine f"
  with Other show ?thesis by (simp add: fine_def other_inv)
qed

lemma steps_fine: "fine f \<Longrightarrow> fine (fold (flight_step start settle other) ms f)"
  by (induction ms arbitrary: f) (simp_all add: step_fine)

lemma run_fine: "inv s \<Longrightarrow> fine (flight_run start settle other ms s)"
  unfolding flight_run_def by (rule steps_fine) (simp add: fine_def)

lemma run_issued: "inv s \<Longrightarrow> list_all good (fl_issued (flight_run start settle other ms s))"
  using run_fine by (simp add: fine_def)

lemma run_state: "inv s \<Longrightarrow> inv (fl_state (flight_run start settle other ms s))"
  using run_fine by (simp add: fine_def)

end

section \<open>Single flight\<close>

text \<open>A busy flag that a request sets and that blocks further requests as long as it is set.\<close>

locale single_flight =
  fixes start :: "'i \<Rightarrow> 's \<Rightarrow> 's \<times> 'q option"
    and settle :: "'q \<Rightarrow> 'o \<Rightarrow> 's \<Rightarrow> 's \<times> 'q option"
    and other :: "'e \<Rightarrow> 's \<Rightarrow> 's"
    and busy :: "'s \<Rightarrow> bool"
  assumes blocked: "busy s \<Longrightarrow> start i s = (s', oq) \<Longrightarrow> oq = None \<and> busy s'"
    and taken: "\<not> busy s \<Longrightarrow> start i s = (s', oq) \<Longrightarrow> busy s' \<longleftrightarrow> oq \<noteq> None"
    and continued: "busy s \<Longrightarrow> settle q r s = (s', Some q') \<Longrightarrow> busy s'"
    and kept: "busy (other e s) \<longleftrightarrow> busy s"
begin

definition single :: "('s, 'q) flight \<Rightarrow> bool" where
  "single f \<longleftrightarrow> length (fl_pending f) \<le> (if busy (fl_state f) then 1 else 0)"

lemma step_single: "single f \<Longrightarrow> single (flight_step start settle other m f)"
proof (cases m)
  case (Start i)
  assume h: "single f"
  obtain s' oq where st: "start i (fl_state f) = (s', oq)" by (cases "start i (fl_state f)")
  show ?thesis
  proof (cases "busy (fl_state f)")
    case True
    with h Start st blocked [OF True st] show ?thesis by (simp add: single_def)
  next
    case False
    with h have "fl_pending f = []" by (simp add: single_def)
    with Start st taken [OF False st] show ?thesis by (cases oq) (simp_all add: single_def)
  qed
next
  case (Settle k r)
  assume h: "single f"
  show ?thesis
  proof (cases "k < length (fl_pending f)")
    case True
    with h have busy: "busy (fl_state f)" "length (fl_pending f) = 1" "k = 0"
      by (cases "busy (fl_state f)"; simp add: single_def; linarith)+
    obtain s' oq where st: "settle (fl_pending f ! k) r (fl_state f) = (s', oq)"
      by (cases "settle (fl_pending f ! k) r (fl_state f)")
    have "busy s'" if "oq = Some q'" for q' using continued [OF busy(1)] st that by simp
    with busy Settle True st show ?thesis by (cases oq) (simp_all add: single_def Let_def)
  next
    case False
    with h Settle show ?thesis by simp
  qed
next
  case (Other e)
  assume "single f"
  with Other show ?thesis by (simp add: single_def kept)
qed

lemma steps_single: "single f \<Longrightarrow> single (fold (flight_step start settle other) ms f)"
  by (induction ms arbitrary: f) (simp_all add: step_single)

lemma run_single: "\<not> busy s \<Longrightarrow> single (flight_run start settle other ms s)"
  unfolding flight_run_def by (rule steps_single) (simp add: single_def)

lemma at_most_one: "\<not> busy s \<Longrightarrow> length (fl_pending (flight_run start settle other ms s)) \<le> 1"
  using run_single [of s ms] by (simp add: single_def split: if_splits)

lemma pending_busy:
  "\<not> busy s \<Longrightarrow> fl_pending (flight_run start settle other ms s) \<noteq> []
     \<Longrightarrow> busy (fl_state (flight_run start settle other ms s))"
  using run_single [of s ms] by (auto simp: single_def split: if_splits)

end

text \<open>When the answer also clears the flag, the component is busy exactly while a request is under
  way, so it never stays blocked.\<close>

locale releasing_flight = single_flight start settle other busy
  for start :: "'i \<Rightarrow> 's \<Rightarrow> 's \<times> 'q option"
    and settle :: "'q \<Rightarrow> 'o \<Rightarrow> 's \<Rightarrow> 's \<times> 'q option"
    and other :: "'e \<Rightarrow> 's \<Rightarrow> 's"
    and busy :: "'s \<Rightarrow> bool" +
  assumes freed: "settle q r s = (s', None) \<Longrightarrow> \<not> busy s'"
begin

definition exact :: "('s, 'q) flight \<Rightarrow> bool" where
  "exact f \<longleftrightarrow> single f \<and> (busy (fl_state f) \<longrightarrow> fl_pending f \<noteq> [])"

lemma step_exact: "exact f \<Longrightarrow> exact (flight_step start settle other m f)"
proof -
  assume h: "exact f"
  then have s: "single (flight_step start settle other m f)" by (simp add: exact_def step_single)
  have "fl_pending (flight_step start settle other m f) \<noteq> []"
    if b: "busy (fl_state (flight_step start settle other m f))"
  proof (cases m)
    case (Start i)
    obtain s' oq where st: "start i (fl_state f) = (s', oq)" by (cases "start i (fl_state f)")
    with Start b h show ?thesis
      using taken [OF _ st] by (cases oq; cases "busy (fl_state f)") (simp_all add: exact_def)
  next
    case (Settle k r)
    show ?thesis
    proof (cases "k < length (fl_pending f)")
      case True
      obtain s' oq where st: "settle (fl_pending f ! k) r (fl_state f) = (s', oq)"
        by (cases "settle (fl_pending f ! k) r (fl_state f)")
      with Settle b True show ?thesis
        using freed [of "fl_pending f ! k" r "fl_state f" s'] by (cases oq) (simp_all add: Let_def)
    next
      case False
      with h Settle b show ?thesis by (simp add: exact_def)
    qed
  next
    case (Other e)
    with h b show ?thesis by (simp add: exact_def kept)
  qed
  with s show ?thesis by (simp add: exact_def)
qed

lemma steps_exact: "exact f \<Longrightarrow> exact (fold (flight_step start settle other) ms f)"
  by (induction ms arbitrary: f) (simp_all add: step_exact)

lemma busy_iff:
  "\<not> busy s \<Longrightarrow> busy (fl_state (flight_run start settle other ms s))
     \<longleftrightarrow> fl_pending (flight_run start settle other ms s) \<noteq> []"
proof -
  assume h: "\<not> busy s"
  then have "exact (flight_run start settle other ms s)"
    unfolding flight_run_def by (intro steps_exact) (simp add: exact_def single_def)
  with h show ?thesis using pending_busy by (auto simp: exact_def)
qed

lemma run_one_at_a_time:
  "\<not> busy s \<Longrightarrow> one_at_a_time busy (flight_run start settle other ms s)"
  using at_most_one [of s ms] busy_iff [of s ms]
  by (cases "fl_pending (flight_run start settle other ms s)") (auto simp: one_at_a_time_def)

end

end
