(* ===== verification/Review_Panels.thy ===== *)
theory Review_Panels
  imports Admin_Api Handlers
begin

text \<open>
  The panels of the review workspace: the decision panel, the request actions panel, the internal
  notes panel, Discord access management, evidence deletion and the evidence card's preview
  (components/admin/decision-panel.tsx, request-actions-panel.tsx, internal-notes-panel.tsx,
  access-management-panel.tsx, evidence-deletion-panel.tsx, evidence-review-card.tsx). Each is a
  record of its \<open>useState\<close> variables with \<open>start\<close>, \<open>settle\<close> and the other events in the sense of
  Handlers; the notices shown by \<open>useToast\<close> and the calls of the parent's callback are recorded.
  The \<open>maxLength\<close> of the text inputs, which the browser enforces, is not modelled.
\<close>

section \<open>What the panels share\<close>

datatype notice = Success string | Failure string

text \<open>A trimmed text or \<open>null\<close> when nothing is left: \<open>text.trim() || null\<close>.\<close>

definition text_or_null :: "string \<Rightarrow> string option" where
  "text_or_null s = or_null (trim s)"

definition neat :: "string option \<Rightarrow> bool" where
  "neat x \<longleftrightarrow> (\<forall>t. x = Some t \<longrightarrow> t \<noteq> [] \<and> trimmed t)"

lemma neat_text_or_null [simp]: "neat (text_or_null s)"
  by (simp add: neat_def text_or_null_def or_null_def)

lemma text_or_null_None [simp]:
  "text_or_null s = None \<longleftrightarrow> trim s = []"
  "(\<exists>t. text_or_null s = Some t) \<longleftrightarrow> trim s \<noteq> []"
  by (simp_all add: text_or_null_def or_null_def)

definition admin_call ::
  "admin_env \<Rightarrow> 'w server \<Rightarrow> string \<times> request_options \<Rightarrow> ('w admin_page, json option) act" where
  "admin_call env srv c = admin_fetch env srv (fst c) (snd c)"

section \<open>The decision panel\<close>

datatype decision = Approve | Reject | Ask_more

record decision_panel =
  dp_selected :: "decision option"
  dp_reason_code :: string
  dp_internal_note :: string
  dp_user_message :: string
  dp_saving :: bool
  dp_confirm_open :: bool
  dp_notices :: "notice list"
  dp_completed :: nat

definition decision_panel_new :: decision_panel where
  "decision_panel_new =
     \<lparr>dp_selected = None, dp_reason_code = [], dp_internal_note = [], dp_user_message = [],
      dp_saving = False, dp_confirm_open = False, dp_notices = [], dp_completed = 0\<rparr>"

definition more_info_needs_message :: "decision_panel \<Rightarrow> bool" where
  "more_info_needs_message s \<longleftrightarrow>
     dp_selected s = Some Ask_more \<and> trim (dp_user_message s) = []"

text \<open>The confirm button exists while the dialog is open and is disabled while saving.\<close>

definition decision_submit ::
  "unit \<Rightarrow> decision_panel \<Rightarrow> decision_panel \<times> (decision \<times> decision_payload) option" where
  "decision_submit _ s =
     (if \<not> dp_confirm_open s \<or> dp_saving s then (s, None)
      else case dp_selected s of
             None \<Rightarrow> (s, None)
           | Some d \<Rightarrow>
               (s\<lparr>dp_saving := True\<rparr>,
                Some (d, \<lparr>d_reason_code = text_or_null (dp_reason_code s),
                         d_internal_note = text_or_null (dp_internal_note s),
                         d_user_message = text_or_null (dp_user_message s)\<rparr>)))"

text \<open>What the handler awaits: the step-up, then the endpoint of the decision.\<close>

definition decision_effect ::
  "admin_env \<Rightarrow> 'w server \<Rightarrow> string \<Rightarrow> decision \<times> decision_payload \<Rightarrow> ('w admin_page, json option) act" where
  "decision_effect env srv request_id q =
     act_bind (step_up_admin_session env srv)
       (\<lambda>_. admin_call env srv
          (case fst q of
             Approve \<Rightarrow> approve_case request_id (snd q)
           | Reject \<Rightarrow> reject_case request_id (snd q)
           | Ask_more \<Rightarrow> request_more_info request_id (snd q)))"

fun decision_done :: "decision \<Rightarrow> string" where
  "decision_done Approve = ''Verification approved.''"
| "decision_done Reject = ''Verification rejected.''"
| "decision_done Ask_more = ''More information requested.''"

fun decision_settle ::
  "decision \<times> decision_payload \<Rightarrow> js_error + json option \<Rightarrow> decision_panel
     \<Rightarrow> decision_panel \<times> (decision \<times> decision_payload) option" where
  "decision_settle q (Inr _) s =
     (s\<lparr>dp_confirm_open := False, dp_notices := dp_notices s @ [Success (decision_done (fst q))],
        dp_selected := None, dp_reason_code := [], dp_internal_note := [], dp_user_message := [],
        dp_completed := Suc (dp_completed s), dp_saving := False\<rparr>, None)"
| "decision_settle q (Inl e) s =
     (s\<lparr>dp_notices := dp_notices s @ [Failure (cause_message e ''Unable to record decision.'')],
        dp_saving := False\<rparr>, None)"

text \<open>The texts of the confirmation dialog, which depend on the selected decision.\<close>

definition confirm_title :: "decision option \<Rightarrow> string" where
  "confirm_title d =
     (if d = Some Approve then ''Approve this verification?''
      else if d = Some Reject then ''Reject this verification?''
      else ''Request more information?'')"

definition confirm_description :: "decision option \<Rightarrow> string" where
  "confirm_description d =
     (if d = Some Approve then
        ''Approval makes the immutable Discord User ID eligible for controlled server access. Access is issued separately.''
      else if d = Some Reject then
        ''This verification request will be rejected and will not release Discord server access.''
      else
        ''The applicant will remain blocked from Discord server entry and will return to the verification submission flow.'')"

definition confirm_label :: "decision option \<Rightarrow> string" where
  "confirm_label d =
     (if d = Some Approve then ''Approve verification''
      else if d = Some Reject then ''Reject verification''
      else ''Request more info'')"

text \<open>What is sent is the decision that the dialog names at that moment.\<close>

lemma confirmed_is_named:
  "decision_submit i s = (s', Some (d, p)) \<Longrightarrow> confirm_label (dp_selected s) = confirm_label (Some d)
     \<and> (\<forall>d'. confirm_label (Some d') = confirm_label (dp_selected s) \<longrightarrow> d' = d)"
  by (cases d) (auto simp: decision_submit_def confirm_label_def split: if_splits option.splits
      intro: decision.exhaust)

datatype decision_input =
    Pick decision | Type_reason string | Type_note string | Type_message string
  | Review_selected | Cancel_confirm

fun decision_event :: "decision_input \<Rightarrow> decision_panel \<Rightarrow> decision_panel" where
  "decision_event (Pick d) s = s\<lparr>dp_selected := Some d\<rparr>"
| "decision_event (Type_reason t) s = s\<lparr>dp_reason_code := t\<rparr>"
| "decision_event (Type_note t) s = s\<lparr>dp_internal_note := t\<rparr>"
| "decision_event (Type_message t) s = s\<lparr>dp_user_message := t\<rparr>"
| "decision_event Review_selected s =
     (if dp_selected s = None \<or> dp_saving s \<or> more_info_needs_message s then s
      else s\<lparr>dp_confirm_open := True\<rparr>)"
| "decision_event Cancel_confirm s = (if dp_saving s then s else s\<lparr>dp_confirm_open := False\<rparr>)"

text \<open>With the pointer only the dialog can be reached while it covers the panel; the keyboard
  still reaches the fields behind it, since the dialog keeps no focus inside.\<close>

definition decision_pointer_event :: "decision_input \<Rightarrow> decision_panel \<Rightarrow> decision_panel" where
  "decision_pointer_event e s =
     (if dp_confirm_open s \<and> e \<noteq> Cancel_confirm then s else decision_event e s)"

definition good_decision :: "decision \<times> decision_payload \<Rightarrow> bool" where
  "good_decision q \<longleftrightarrow> neat (d_reason_code (snd q)) \<and> neat (d_internal_note (snd q))
     \<and> neat (d_user_message (snd q))"

definition explained_decision :: "decision \<times> decision_payload \<Rightarrow> bool" where
  "explained_decision q \<longleftrightarrow> good_decision q \<and> (fst q = Ask_more \<longrightarrow> d_user_message (snd q) \<noteq> None)"

lemma decision_submit_cases:
  "decision_submit i s = (s', oq) \<Longrightarrow>
     (s' = s \<and> oq = None) \<or>
     (\<exists>d. dp_selected s = Some d \<and> dp_confirm_open s \<and> \<not> dp_saving s \<and> s' = s\<lparr>dp_saving := True\<rparr>
        \<and> oq = Some (d, \<lparr>d_reason_code = text_or_null (dp_reason_code s),
            d_internal_note = text_or_null (dp_internal_note s),
            d_user_message = text_or_null (dp_user_message s)\<rparr>))"
  by (auto simp: decision_submit_def split: if_splits option.splits)

interpretation decision: releasing_flight decision_submit decision_settle decision_event dp_saving
proof
  show "dp_saving s \<Longrightarrow> decision_submit i s = (s', oq) \<Longrightarrow> oq = None \<and> dp_saving s'" for i s s' oq
    by (auto simp: decision_submit_def)
  show "\<not> dp_saving s \<Longrightarrow> decision_submit i s = (s', oq) \<Longrightarrow> dp_saving s' \<longleftrightarrow> oq \<noteq> None" for i s s' oq
    by (auto dest!: decision_submit_cases)
  show "decision_settle q r s = (s', Some q') \<Longrightarrow> dp_saving s'" for q r s s' q'
    by (cases r) auto
  show "decision_settle q r s = (s', None) \<Longrightarrow> \<not> dp_saving s'" for q r s s'
    by (cases r) auto
  show "dp_saving (decision_event e s) \<longleftrightarrow> dp_saving s" for e s
    by (cases e) auto
qed

interpretation any_decision: guarded_handler
  decision_submit decision_settle decision_event "\<lambda>_. True" good_decision
proof
  show "decision_submit i s = (s', Some q) \<Longrightarrow> good_decision q" for i s s' q
    by (auto simp: good_decision_def dest!: decision_submit_cases)
  show "decision_settle q r s = (s', Some q') \<Longrightarrow> good_decision q'" for q r s s' q'
    by (cases r) auto
qed simp_all

definition message_ready :: "decision_panel \<Rightarrow> bool" where
  "message_ready s \<longleftrightarrow> (dp_confirm_open s \<longrightarrow> \<not> more_info_needs_message s)"

interpretation pointer_decision: guarded_handler
  decision_submit decision_settle decision_pointer_event message_ready explained_decision
proof
  show "message_ready s \<Longrightarrow> decision_submit i s = (s', oq) \<Longrightarrow> message_ready s'" for i s s' oq
    by (auto simp: message_ready_def more_info_needs_message_def dest!: decision_submit_cases)
  show "message_ready s \<Longrightarrow> decision_submit i s = (s', Some q) \<Longrightarrow> explained_decision q" for i s s' q
    by (auto simp: message_ready_def more_info_needs_message_def explained_decision_def
        good_decision_def dest!: decision_submit_cases)
  show "message_ready s \<Longrightarrow> decision_settle q r s = (s', oq) \<Longrightarrow> message_ready s'" for q r s s' oq
    by (cases r) (auto simp: message_ready_def more_info_needs_message_def)
  show "decision_settle q r s = (s', Some q') \<Longrightarrow> explained_decision q'" for q r s s' q'
    by (cases r) auto
  show "message_ready s \<Longrightarrow> message_ready (decision_pointer_event e s)" for e s
    by (cases e) (auto simp: message_ready_def decision_pointer_event_def more_info_needs_message_def)
qed

text \<open>C32: in every interleaving of clicks, typing and answers, at most one review decision is under
  way and every decision recorded carries trimmed texts or null; with the pointer alone, a request
  for more information always carries an explanation, while the keyboard, which reaches the
  message behind the open dialog, can send one without.\<close>

theorem decisions_recorded:
  "one_at_a_time dp_saving (flight_run decision_submit decision_settle decision_event ms decision_panel_new)
   \<and> list_all good_decision
        (fl_issued (flight_run decision_submit decision_settle decision_event ms decision_panel_new))
   \<and> list_all explained_decision
        (fl_issued (flight_run decision_submit decision_settle decision_pointer_event ms decision_panel_new))
   \<and> map (\<lambda>q. (fst q, d_user_message (snd q)))
        (fl_issued (flight_run decision_submit decision_settle decision_event
          [Other (Pick Ask_more), Other (Type_message ''x''), Other Review_selected,
           Other (Type_message []), Start ()] decision_panel_new)) = [(Ask_more, None)]"
proof (intro conjI)
  show "one_at_a_time dp_saving
      (flight_run decision_submit decision_settle decision_event ms decision_panel_new)"
    by (rule decision.run_one_at_a_time) (simp add: decision_panel_new_def)
  show "list_all explained_decision
        (fl_issued (flight_run decision_submit decision_settle decision_pointer_event ms decision_panel_new))"
    by (rule pointer_decision.run_issued) (simp add: decision_panel_new_def message_ready_def)
  show "list_all good_decision
        (fl_issued (flight_run decision_submit decision_settle decision_event ms decision_panel_new))"
    by (rule any_decision.run_issued) simp
  show "map (\<lambda>q. (fst q, d_user_message (snd q)))
        (fl_issued (flight_run decision_submit decision_settle decision_event
          [Other (Pick Ask_more), Other (Type_message ''x''), Other Review_selected,
           Other (Type_message []), Start ()] decision_panel_new)) = [(Ask_more, None)]"
    by (simp add: flight_run_def decision_panel_new_def more_info_needs_message_def
        decision_submit_def text_or_null_def or_null_def trim_def is_ws_def)
qed

section \<open>The request actions panel\<close>

datatype running_action = Extending | Assigning | Revoking_request

record actions_panel =
  ap_expires_at :: string
  ap_reviewer_id :: string
  ap_revoke_reason :: string
  ap_action :: "running_action option"
  ap_dialog_open :: bool
  ap_notices :: "notice list"
  ap_changed :: nat

definition actions_panel_new :: actions_panel where
  "actions_panel_new =
     \<lparr>ap_expires_at = [], ap_reviewer_id = [], ap_revoke_reason = [], ap_action = None,
      ap_dialog_open = False, ap_notices = [], ap_changed = 0\<rparr>"

datatype lifecycle_call = Extend_to string | Assign_to string | Revoke_for "string option"

datatype lifecycle_click = Click_extend | Click_assign | Confirm_revoke

text \<open>\<open>iso_of\<close> is \<open>new Date(text).toISOString()\<close>, \<open>None\<close> for an invalid date.\<close>

definition actions_start ::
  "(string \<Rightarrow> string option) \<Rightarrow> lifecycle_click \<Rightarrow> actions_panel \<Rightarrow> actions_panel \<times> lifecycle_call option" where
  "actions_start iso_of c s =
     (case c of
        Click_extend \<Rightarrow>
          if ap_expires_at s = [] \<or> ap_action s \<noteq> None then (s, None)
          else (case iso_of (ap_expires_at s) of
                  None \<Rightarrow>
                    (s\<lparr>ap_notices := ap_notices s @ [Failure ''Choose a valid expiration date and time.'']\<rparr>, None)
                | Some t \<Rightarrow> (s\<lparr>ap_action := Some Extending\<rparr>, Some (Extend_to t)))
      | Click_assign \<Rightarrow>
          if ap_reviewer_id s = [] \<or> ap_action s \<noteq> None then (s, None)
          else (s\<lparr>ap_action := Some Assigning\<rparr>, Some (Assign_to (ap_reviewer_id s)))
      | Confirm_revoke \<Rightarrow>
          if \<not> ap_dialog_open s \<or> ap_action s \<noteq> None then (s, None)
          else (s\<lparr>ap_action := Some Revoking_request\<rparr>, Some (Revoke_for (text_or_null (ap_revoke_reason s)))))"

definition actions_effect ::
  "admin_env \<Rightarrow> 'w server \<Rightarrow> string \<Rightarrow> lifecycle_call \<Rightarrow> ('w admin_page, json option) act" where
  "actions_effect env srv request_id q =
     admin_call env srv
       (case q of
          Extend_to t \<Rightarrow> extend_verification_expiration request_id t
        | Assign_to r \<Rightarrow> assign_verification_reviewer request_id r
        | Revoke_for reason \<Rightarrow> revoke_verification_request request_id reason)"

fun actions_failed :: "lifecycle_call \<Rightarrow> string" where
  "actions_failed (Extend_to _) = ''Unable to extend verification expiration.''"
| "actions_failed (Assign_to _) = ''Unable to assign reviewer.''"
| "actions_failed (Revoke_for _) = ''Unable to revoke verification request.''"

definition actions_settle ::
  "lifecycle_call \<Rightarrow> js_error + json option \<Rightarrow> actions_panel \<Rightarrow> actions_panel \<times> lifecycle_call option" where
  "actions_settle q r s =
     (case r of
        Inl e \<Rightarrow>
          (s\<lparr>ap_notices := ap_notices s @ [Failure (cause_message e (actions_failed q))],
             ap_action := None\<rparr>, None)
      | Inr _ \<Rightarrow>
          (let s1 =
             (case q of
                Extend_to _ \<Rightarrow> s\<lparr>ap_expires_at := [],
                  ap_notices := ap_notices s @ [Success ''Verification expiration extended.'']\<rparr>
              | Assign_to _ \<Rightarrow> s\<lparr>ap_reviewer_id := [],
                  ap_notices := ap_notices s @ [Success ''Reviewer assigned successfully.'']\<rparr>
              | Revoke_for _ \<Rightarrow> s\<lparr>ap_revoke_reason := [], ap_dialog_open := False,
                  ap_notices := ap_notices s @ [Success ''Verification request revoked.'']\<rparr>)
           in (s1\<lparr>ap_changed := Suc (ap_changed s1), ap_action := None\<rparr>, None)))"

datatype actions_input =
  Type_expiration string | Choose_reviewer string | Type_reason_text string | Open_revoke | Cancel_revoke

fun actions_event :: "actions_input \<Rightarrow> actions_panel \<Rightarrow> actions_panel" where
  "actions_event (Type_expiration t) s = (if ap_action s \<noteq> None then s else s\<lparr>ap_expires_at := t\<rparr>)"
| "actions_event (Choose_reviewer r) s = s\<lparr>ap_reviewer_id := r\<rparr>"
| "actions_event (Type_reason_text t) s = (if ap_action s \<noteq> None then s else s\<lparr>ap_revoke_reason := t\<rparr>)"
| "actions_event Open_revoke s = (if ap_action s \<noteq> None then s else s\<lparr>ap_dialog_open := True\<rparr>)"
| "actions_event Cancel_revoke s = (if ap_action s = None then s\<lparr>ap_dialog_open := False\<rparr> else s)"

lemma actions_start_cases:
  "actions_start iso_of c s = (s', oq) \<Longrightarrow>
     (oq = None \<and> ap_action s' = ap_action s) \<or>
     (\<exists>q. oq = Some q \<and> ap_action s = None \<and> ap_action s' \<noteq> None
        \<and> (case q of Extend_to t \<Rightarrow> \<exists>u. u \<noteq> [] \<and> iso_of u = Some t
           | Assign_to r \<Rightarrow> r \<noteq> [] | Revoke_for reason \<Rightarrow> neat reason))"
  by (auto simp: actions_start_def split: lifecycle_click.splits if_splits option.splits)

interpretation actions: releasing_flight
  "actions_start iso_of" actions_settle actions_event "\<lambda>s. ap_action s \<noteq> None"
  for iso_of :: "string \<Rightarrow> string option"
proof
  show "ap_action s \<noteq> None \<Longrightarrow> actions_start iso_of i s = (s', oq) \<Longrightarrow> oq = None \<and> ap_action s' \<noteq> None"
    for i s s' oq
    by (auto dest!: actions_start_cases)
  show "\<not> ap_action s \<noteq> None \<Longrightarrow> actions_start iso_of i s = (s', oq) \<Longrightarrow> (ap_action s' \<noteq> None) \<longleftrightarrow> oq \<noteq> None"
    for i s s' oq
    by (auto dest!: actions_start_cases)
  show "actions_settle q r s = (s', Some q') \<Longrightarrow> ap_action s' \<noteq> None" for q r s s' q'
    by (cases r) (auto simp: actions_settle_def Let_def)
  show "actions_settle q r s = (s', None) \<Longrightarrow> \<not> ap_action s' \<noteq> None" for q r s s'
    by (cases r) (auto simp: actions_settle_def Let_def)
  show "(ap_action (actions_event e s) \<noteq> None) \<longleftrightarrow> ap_action s \<noteq> None" for e s
    by (cases e) auto
qed

definition good_lifecycle :: "(string \<Rightarrow> string option) \<Rightarrow> lifecycle_call \<Rightarrow> bool" where
  "good_lifecycle iso_of q \<longleftrightarrow>
     (case q of
        Extend_to t \<Rightarrow> t \<in> ran iso_of
      | Assign_to r \<Rightarrow> r \<noteq> []
      | Revoke_for reason \<Rightarrow> neat reason)"

interpretation actions_good: guarded_handler
  "actions_start iso_of" actions_settle actions_event "\<lambda>_. True" "good_lifecycle iso_of"
  for iso_of :: "string \<Rightarrow> string option"
proof
  show "actions_start iso_of i s = (s', Some q) \<Longrightarrow> good_lifecycle iso_of q" for i s s' q
    by (auto simp: good_lifecycle_def ran_def dest!: actions_start_cases split: lifecycle_call.splits)
  show "actions_settle q r s = (s', Some q') \<Longrightarrow> good_lifecycle iso_of q'" for q r s s' q'
    by (cases r) (auto simp: actions_settle_def Let_def)
qed simp_all

section \<open>Internal notes\<close>

type_synonym note_view = "string \<times> string \<times> string \<times> string"  \<comment> \<open>id, author, note, time\<close>

record notes_panel =
  np_notes :: "note_view list"
  np_draft :: string
  np_loading :: bool
  np_refreshing :: bool
  np_saving :: bool
  np_error :: "string option"

definition notes_panel_new :: notes_panel where
  "notes_panel_new =
     \<lparr>np_notes = [], np_draft = [], np_loading = True, np_refreshing = False, np_saving = False,
      np_error = None\<rparr>"

text \<open>Saving a note awaits its creation and then \<open>refreshNotes(false)\<close>.\<close>

datatype note_call = Create_note string | Reload_notes

datatype note_answer = Created | Listed "note_view list" | Notes_failed js_error

definition notes_save :: "unit \<Rightarrow> notes_panel \<Rightarrow> notes_panel \<times> note_call option" where
  "notes_save _ s =
     (let note = trim (np_draft s)
      in if note = [] \<or> np_saving s then (s, None)
         else (s\<lparr>np_saving := True, np_error := None\<rparr>, Some (Create_note note)))"

definition notes_settle ::
  "note_call \<Rightarrow> note_answer \<Rightarrow> notes_panel \<Rightarrow> notes_panel \<times> note_call option" where
  "notes_settle q r s =
     (case q of
        Create_note _ \<Rightarrow>
          (case r of
             Notes_failed e \<Rightarrow>
               (s\<lparr>np_error := Some (cause_message e ''Unable to create internal note.''),
                  np_saving := False\<rparr>, None)
           | _ \<Rightarrow> (s\<lparr>np_draft := []\<rparr>, Some Reload_notes))
      | Reload_notes \<Rightarrow>
          (case r of
             Notes_failed e \<Rightarrow>
               (s\<lparr>np_error := Some (cause_message e ''Unable to load internal notes.''),
                  np_saving := False\<rparr>, None)
           | Listed items \<Rightarrow> (s\<lparr>np_notes := items, np_error := None, np_saving := False\<rparr>, None)
           | Created \<Rightarrow> (s\<lparr>np_saving := False\<rparr>, None)))"

text \<open>The initial load and the refresh button run beside it; their answers are events here.\<close>

datatype notes_input =
    Type_draft string
  | Click_refresh
  | Refreshed "js_error + note_view list"
  | Loaded bool "js_error + note_view list"  \<comment> \<open>whether the effect is still active\<close>

fun notes_event :: "notes_input \<Rightarrow> notes_panel \<Rightarrow> notes_panel" where
  "notes_event (Type_draft t) s = s\<lparr>np_draft := t\<rparr>"
| "notes_event Click_refresh s =
     (if np_loading s \<or> np_refreshing s then s else s\<lparr>np_refreshing := True\<rparr>)"
| "notes_event (Refreshed (Inr items)) s =
     s\<lparr>np_notes := items, np_error := None, np_refreshing := False\<rparr>"
| "notes_event (Refreshed (Inl e)) s =
     s\<lparr>np_error := Some (cause_message e ''Unable to load internal notes.''), np_refreshing := False\<rparr>"
| "notes_event (Loaded active (Inr items)) s =
     (if active then s\<lparr>np_notes := items, np_error := None, np_loading := False\<rparr> else s)"
| "notes_event (Loaded active (Inl e)) s =
     (if active then s\<lparr>np_error := Some (cause_message e ''Unable to load internal notes.''),
                      np_loading := False\<rparr> else s)"

definition notes_effect ::
  "admin_env \<Rightarrow> 'w server \<Rightarrow> string \<Rightarrow> note_call \<Rightarrow> ('w admin_page, json option) act" where
  "notes_effect env srv request_id q =
     (case q of
        Create_note note \<Rightarrow> create_admin_note env srv request_id note
      | Reload_notes \<Rightarrow> admin_call env srv (get_admin_notes request_id))"

interpretation note_saving: releasing_flight notes_save notes_settle notes_event np_saving
proof
  show "np_saving s \<Longrightarrow> notes_save i s = (s', oq) \<Longrightarrow> oq = None \<and> np_saving s'" for i s s' oq
    by (auto simp: notes_save_def Let_def split: if_splits)
  show "\<not> np_saving s \<Longrightarrow> notes_save i s = (s', oq) \<Longrightarrow> np_saving s' \<longleftrightarrow> oq \<noteq> None" for i s s' oq
    by (auto simp: notes_save_def Let_def split: if_splits)
  show "np_saving s \<Longrightarrow> notes_settle q r s = (s', Some q') \<Longrightarrow> np_saving s'" for q r s s' q'
    by (auto simp: notes_settle_def split: note_call.splits note_answer.splits)
  show "notes_settle q r s = (s', None) \<Longrightarrow> \<not> np_saving s'" for q r s s'
    by (auto simp: notes_settle_def split: note_call.splits note_answer.splits)
  show "np_saving (notes_event e s) \<longleftrightarrow> np_saving s" for e s
    by (cases "(e, s)" rule: notes_event.cases) auto
qed

definition good_note :: "note_call \<Rightarrow> bool" where
  "good_note q \<longleftrightarrow> (\<forall>t. q = Create_note t \<longrightarrow> t \<noteq> [] \<and> trimmed t)"

interpretation notes_good: guarded_handler notes_save notes_settle notes_event "\<lambda>_. True" good_note
proof
  show "notes_save i s = (s', Some q) \<Longrightarrow> good_note q" for i s s' q
    by (auto simp: notes_save_def good_note_def Let_def split: if_splits)
  show "notes_settle q r s = (s', Some q') \<Longrightarrow> good_note q'" for q r s s' q'
    by (auto simp: notes_settle_def good_note_def split: note_call.splits note_answer.splits)
qed simp_all

section \<open>Discord access\<close>

datatype access_action = Granting | Revoking_access

record access_panel =
  acp_confirm_revoke :: bool
  acp_action :: "access_action option"
  acp_notices :: "notice list"
  acp_changed :: nat

definition access_panel_new :: access_panel where
  "access_panel_new = \<lparr>acp_confirm_revoke = False, acp_action = None, acp_notices = [], acp_changed = 0\<rparr>"

datatype access_click = Click_grant | Confirm_access_revoke

text \<open>The panel renders nothing unless the request is approved.\<close>

definition access_start :: "bool \<Rightarrow> access_click \<Rightarrow> access_panel \<Rightarrow> access_panel \<times> access_action option" where
  "access_start approved c s =
     (if \<not> approved \<or> acp_action s \<noteq> None then (s, None)
      else case c of
             Click_grant \<Rightarrow> (s\<lparr>acp_action := Some Granting\<rparr>, Some Granting)
           | Confirm_access_revoke \<Rightarrow>
               if acp_confirm_revoke s
               then (s\<lparr>acp_action := Some Revoking_access\<rparr>, Some Revoking_access) else (s, None))"

definition access_effect ::
  "admin_env \<Rightarrow> 'w server \<Rightarrow> string \<Rightarrow> access_action \<Rightarrow> ('w admin_page, json option) act" where
  "access_effect env srv request_id q =
     admin_call env srv
       (case q of Granting \<Rightarrow> grant_discord_access request_id
        | Revoking_access \<Rightarrow> revoke_discord_access request_id)"

definition access_settle ::
  "access_action \<Rightarrow> js_error + json option \<Rightarrow> access_panel \<Rightarrow> access_panel \<times> access_action option" where
  "access_settle q r s =
     (case r of
        Inr _ \<Rightarrow>
          (case q of
             Granting \<Rightarrow>
               s\<lparr>acp_notices := acp_notices s @ [Success ''Controlled Discord access created.''],
                 acp_changed := Suc (acp_changed s), acp_action := None\<rparr>
           | Revoking_access \<Rightarrow>
               s\<lparr>acp_notices := acp_notices s @ [Success ''Discord access grant revoked.''],
                 acp_confirm_revoke := False, acp_changed := Suc (acp_changed s), acp_action := None\<rparr>)
      | Inl e \<Rightarrow>
          s\<lparr>acp_notices := acp_notices s @ [Failure (cause_message e
               (case q of Granting \<Rightarrow> ''Unable to grant Discord access.''
                | Revoking_access \<Rightarrow> ''Unable to revoke Discord access.''))],
            acp_action := None\<rparr>, None)"

datatype access_input = Open_access_revoke | Cancel_access_revoke

fun access_event :: "access_input \<Rightarrow> access_panel \<Rightarrow> access_panel" where
  "access_event Open_access_revoke s =
     (if acp_action s \<noteq> None then s else s\<lparr>acp_confirm_revoke := True\<rparr>)"
| "access_event Cancel_access_revoke s =
     (if acp_action s = None then s\<lparr>acp_confirm_revoke := False\<rparr> else s)"

interpretation access: releasing_flight
  "access_start approved" access_settle access_event "\<lambda>s. acp_action s \<noteq> None" for approved :: bool
proof
  show "acp_action s \<noteq> None \<Longrightarrow> access_start approved i s = (s', oq) \<Longrightarrow> oq = None \<and> acp_action s' \<noteq> None"
    for i s s' oq
    by (auto simp: access_start_def)
  show "\<not> acp_action s \<noteq> None \<Longrightarrow> access_start approved i s = (s', oq) \<Longrightarrow> (acp_action s' \<noteq> None) \<longleftrightarrow> oq \<noteq> None"
    for i s s' oq
    by (auto simp: access_start_def split: access_click.splits if_splits)
  show "access_settle q r s = (s', Some q') \<Longrightarrow> acp_action s' \<noteq> None" for q r s s' q'
    by (cases r; cases q) (auto simp: access_settle_def)
  show "access_settle q r s = (s', None) \<Longrightarrow> \<not> acp_action s' \<noteq> None" for q r s s'
    by (cases r; cases q) (auto simp: access_settle_def)
  show "(acp_action (access_event e s) \<noteq> None) \<longleftrightarrow> acp_action s \<noteq> None" for e s
    by (cases e) auto
qed

definition access_offered :: "bool \<Rightarrow> access_action \<Rightarrow> bool" where
  "access_offered approved q \<longleftrightarrow> approved"

interpretation access_good: guarded_handler
  "access_start approved" access_settle access_event "\<lambda>_. True" "access_offered approved"
  for approved :: bool
proof
  show "access_start approved i s = (s', Some q) \<Longrightarrow> access_offered approved q" for i s s' q
    by (auto simp: access_start_def access_offered_def split: if_splits)
  show "access_settle q r s = (s', Some q') \<Longrightarrow> access_offered approved q'" for q r s s' q'
    by (auto simp: access_settle_def)
qed simp_all

section \<open>Evidence deletion and preview\<close>

record deletion_panel =
  del_confirm_open :: bool
  del_deleting :: bool
  del_notices :: "notice list"
  del_changed :: nat

definition deletion_panel_new :: deletion_panel where
  "deletion_panel_new =
     \<lparr>del_confirm_open = False, del_deleting = False, del_notices = [], del_changed = 0\<rparr>"

definition deletion_start :: "unit \<Rightarrow> deletion_panel \<Rightarrow> deletion_panel \<times> unit option" where
  "deletion_start _ s =
     (if \<not> del_confirm_open s \<or> del_deleting s then (s, None)
      else (s\<lparr>del_deleting := True\<rparr>, Some ()))"

text \<open>The answer is the number of items processed.\<close>

definition deletion_settle ::
  "unit \<Rightarrow> js_error + int \<Rightarrow> deletion_panel \<Rightarrow> deletion_panel \<times> unit option" where
  "deletion_settle _ r s =
     (case r of
        Inr n \<Rightarrow>
          s\<lparr>del_notices := del_notices s
              @ [Success (show_int n @ '' evidence item(s) processed for deletion.'')],
            del_confirm_open := False, del_changed := Suc (del_changed s), del_deleting := False\<rparr>
      | Inl e \<Rightarrow>
          s\<lparr>del_notices := del_notices s @ [Failure (cause_message e ''Unable to delete evidence.'')],
            del_deleting := False\<rparr>, None)"

datatype deletion_input = Open_deletion | Cancel_deletion

fun deletion_event :: "deletion_input \<Rightarrow> deletion_panel \<Rightarrow> deletion_panel" where
  "deletion_event Open_deletion s = s\<lparr>del_confirm_open := True\<rparr>"
| "deletion_event Cancel_deletion s = (if \<not> del_deleting s then s\<lparr>del_confirm_open := False\<rparr> else s)"

interpretation deletion: releasing_flight deletion_start deletion_settle deletion_event del_deleting
proof
  show "del_deleting s \<Longrightarrow> deletion_start i s = (s', oq) \<Longrightarrow> oq = None \<and> del_deleting s'" for i s s' oq
    by (auto simp: deletion_start_def)
  show "\<not> del_deleting s \<Longrightarrow> deletion_start i s = (s', oq) \<Longrightarrow> del_deleting s' \<longleftrightarrow> oq \<noteq> None" for i s s' oq
    by (auto simp: deletion_start_def split: if_splits)
  show "deletion_settle q r s = (s', Some q') \<Longrightarrow> del_deleting s'" for q r s s' q'
    by (cases r) (auto simp: deletion_settle_def)
  show "deletion_settle q r s = (s', None) \<Longrightarrow> \<not> del_deleting s'" for q r s s'
    by (cases r) (auto simp: deletion_settle_def)
  show "del_deleting (deletion_event e s) \<longleftrightarrow> del_deleting s" for e s
    by (cases e) auto
qed

record evidence_card =
  ec_loading :: bool
  ec_error :: "string option"
  ec_opened :: "string list"  \<comment> \<open>the signed URLs opened in a new window\<close>

definition evidence_card_new :: evidence_card where
  "evidence_card_new = \<lparr>ec_loading = False, ec_error = None, ec_opened = []\<rparr>"

definition preview_start :: "unit \<Rightarrow> evidence_card \<Rightarrow> evidence_card \<times> unit option" where
  "preview_start _ s =
     (if ec_loading s then (s, None) else (s\<lparr>ec_loading := True, ec_error := None\<rparr>, Some ()))"

definition preview_effect ::
  "admin_env \<Rightarrow> 'w server \<Rightarrow> string \<Rightarrow> ('w admin_page, json option) act" where
  "preview_effect env srv evidence_id =
     act_bind (step_up_admin_session env srv) (\<lambda>_. admin_call env srv (get_evidence_preview evidence_id))"

definition preview_settle ::
  "unit \<Rightarrow> js_error + string \<Rightarrow> evidence_card \<Rightarrow> evidence_card \<times> unit option" where
  "preview_settle _ r s =
     (case r of
        Inr url \<Rightarrow> s\<lparr>ec_opened := ec_opened s @ [url], ec_loading := False\<rparr>
      | Inl e \<Rightarrow> s\<lparr>ec_error := Some (cause_message e ''Unable to preview evidence.''), ec_loading := False\<rparr>,
      None)"

interpretation preview: releasing_flight preview_start preview_settle "\<lambda>(_ :: unit) s. s" ec_loading
proof
  show "ec_loading s \<Longrightarrow> preview_start i s = (s', oq) \<Longrightarrow> oq = None \<and> ec_loading s'" for i s s' oq
    by (auto simp: preview_start_def)
  show "\<not> ec_loading s \<Longrightarrow> preview_start i s = (s', oq) \<Longrightarrow> ec_loading s' \<longleftrightarrow> oq \<noteq> None" for i s s' oq
    by (auto simp: preview_start_def)
  show "preview_settle q r s = (s', Some q') \<Longrightarrow> ec_loading s'" for q r s s' q'
    by (cases r) (auto simp: preview_settle_def)
  show "preview_settle q r s = (s', None) \<Longrightarrow> \<not> ec_loading s'" for q r s s'
    by (cases r) (auto simp: preview_settle_def)
qed simp

text \<open>The texts of the card.\<close>

definition readable_type :: "string \<Rightarrow> string" where
  "readable_type t = replace_char CHR ''_'' CHR '' '' t"

definition shows_pdf :: "string \<Rightarrow> bool" where
  "shows_pdf content_type = str_includes (lower content_type) ''pdf''"

section \<open>The panels together\<close>

text \<open>In every interleaving of clicks, typing and answers each panel is busy exactly while its
  one change is under way, so it neither sends a second one nor stays blocked; an extension carries
  a valid instant, an assignment a reviewer, a revocation a trimmed reason or null, a created note
  is trimmed and not blank, and Discord access is granted or revoked for approved requests only.\<close>

theorem panels_one_at_a_time:
  "one_at_a_time (\<lambda>s. ap_action s \<noteq> None)
     (flight_run (actions_start iso_of) actions_settle actions_event ms1 actions_panel_new)
   \<and> list_all (good_lifecycle iso_of)
       (fl_issued (flight_run (actions_start iso_of) actions_settle actions_event ms1 actions_panel_new))
   \<and> one_at_a_time np_saving (flight_run notes_save notes_settle notes_event ms2 notes_panel_new)
   \<and> list_all good_note (fl_issued (flight_run notes_save notes_settle notes_event ms2 notes_panel_new))
   \<and> one_at_a_time (\<lambda>s. acp_action s \<noteq> None)
       (flight_run (access_start approved) access_settle access_event ms3 access_panel_new)
   \<and> list_all (access_offered approved)
       (fl_issued (flight_run (access_start approved) access_settle access_event ms3 access_panel_new))
   \<and> one_at_a_time del_deleting (flight_run deletion_start deletion_settle deletion_event ms4 deletion_panel_new)
   \<and> one_at_a_time ec_loading
       (flight_run preview_start preview_settle (\<lambda>(_ :: unit) s. s) ms5 evidence_card_new)"
  by (intro conjI actions.run_one_at_a_time actions_good.run_issued note_saving.run_one_at_a_time
      notes_good.run_issued access.run_one_at_a_time access_good.run_issued
      deletion.run_one_at_a_time preview.run_one_at_a_time)
    (simp_all add: actions_panel_new_def notes_panel_new_def access_panel_new_def
      deletion_panel_new_def evidence_card_new_def)

text \<open>What is typed while a note is being created is erased by its success, although the field
  accepts it; a failure keeps the draft.\<close>

lemma note_typed_while_saving:
  "np_draft (fl_state (flight_run notes_save notes_settle notes_event
      [Other (Type_draft ''first''), Start (), Other (Type_draft ''second''), Settle 0 answer]
      notes_panel_new)) =
    (case answer of Notes_failed _ \<Rightarrow> ''second'' | _ \<Rightarrow> [])"
  by (cases answer)
    (simp_all add: flight_run_def notes_panel_new_def notes_save_def notes_settle_def Let_def
      trim_def is_ws_def)

end
