(* ===== verification/Identity_Form.thy ===== *)
theory Identity_Form
  imports Api_Client Handlers
begin

text \<open>
  The applicant's form of components/verification/identity-verification-form.tsx: its state, the
  load of the requirements, the evidence received from the upload cards and the phone, the
  validation, the submission and the completion figures the page shows.
\<close>

section \<open>State\<close>

record identity_form =
  if_config :: "required_evidence option"
  if_loading :: bool
  if_submitting :: bool
  if_load_error :: "string option"
  if_submit_error :: "string option"
  if_legal_name :: string
  if_date_of_birth :: string
  if_age_result :: string
  if_issuing_country :: string
  if_document_type :: string
  if_front :: "uploaded_evidence option"
  if_back :: "uploaded_evidence option"
  if_selfie :: "uploaded_evidence option"
  if_liveness :: "uploaded_evidence option"
  if_consent :: bool
  if_accuracy :: bool
  if_route :: "string option"  \<comment> \<open>the last \<open>router.replace\<close>\<close>

definition identity_form_new :: identity_form where
  "identity_form_new =
     \<lparr>if_config = None, if_loading = True, if_submitting = False, if_load_error = None,
      if_submit_error = None, if_legal_name = [], if_date_of_birth = [], if_age_result = [],
      if_issuing_country = [], if_document_type = [], if_front = None, if_back = None,
      if_selfie = None, if_liveness = None, if_consent = False, if_accuracy = False, if_route = None\<rparr>"

text \<open>The form is on the page once its requirements are loaded.\<close>

definition form_open :: "identity_form \<Rightarrow> bool" where
  "form_open s \<longleftrightarrow> \<not> if_loading s \<and> \<not> truthy (if_load_error s) \<and> if_config s \<noteq> None"

definition form_asks :: "(required_evidence \<Rightarrow> bool) \<Rightarrow> identity_form \<Rightarrow> bool" where
  "form_asks needs s \<longleftrightarrow> form_open s \<and> needs (the (if_config s))"

text \<open>The answer to \<open>getIdentityFormConfig\<close>; \<open>active\<close> is false once the form is unmounted.\<close>

definition form_loaded :: "bool \<Rightarrow> js_error + required_evidence \<Rightarrow> identity_form \<Rightarrow> identity_form" where
  "form_loaded active r s =
     (if \<not> active then s
      else case r of
             Inr c \<Rightarrow> s\<lparr>if_config := Some c, if_loading := False\<rparr>
           | Inl e \<Rightarrow>
               s\<lparr>if_load_error := Some (cause_message e ''We could not load your verification requirements.''),
                 if_loading := False\<rparr>)"

definition handle_mobile_evidence :: "uploaded_evidence \<Rightarrow> identity_form \<Rightarrow> identity_form" where
  "handle_mobile_evidence e s =
     (case up_type e of
        Document_front \<Rightarrow> s\<lparr>if_front := Some e\<rparr>
      | Document_back \<Rightarrow> s\<lparr>if_back := Some e\<rparr>
      | Selfie \<Rightarrow> s\<lparr>if_selfie := Some e\<rparr>
      | Liveness \<Rightarrow> s\<lparr>if_liveness := Some e\<rparr>)"

definition form_evidence_ids :: "identity_form \<Rightarrow> string list" where
  "form_evidence_ids s =
     map up_id (List.map_filter id [if_front s, if_back s, if_selfie s, if_liveness s])"

section \<open>Validation and submission\<close>

definition validate_required_fields :: "identity_form \<Rightarrow> string option" where
  "validate_required_fields s =
     (case if_config s of
        None \<Rightarrow> Some ''Verification requirements are unavailable.''
      | Some required \<Rightarrow>
          if needs_legal_name required \<and> trim (if_legal_name s) = [] then Some ''Enter your legal name.''
          else if needs_date_of_birth required \<and> if_date_of_birth s = []
            then Some ''Enter your date of birth.''
          else if needs_age_confirmation required \<and> if_age_result s = []
            then Some ''Complete the age confirmation.''
          else if needs_issuing_country required \<and> trim (if_issuing_country s) = []
            then Some ''Enter the document issuing country.''
          else if needs_document_type required \<and> if_document_type s = []
            then Some ''Select the document type.''
          else if needs_document_front required \<and> if_front s = None
            then Some ''Upload the required document front.''
          else if needs_document_back required \<and> if_back s = None
            then Some ''Upload the required document back.''
          else if needs_selfie required \<and> if_selfie s = None
            then Some ''Complete the required live selfie capture.''
          else if needs_liveness required \<and> if_liveness s = None
            then Some ''Complete the required live face capture.''
          else if \<not> if_consent s then Some ''Confirm consent before submitting.''
          else if \<not> if_accuracy s then Some ''Confirm that the submitted information is accurate.''
          else None)"

definition form_payload :: "identity_form \<Rightarrow> submission_payload" where
  "form_payload s =
     \<lparr>p_legal_name = or_null (trim (if_legal_name s)),
      p_date_of_birth = or_null (if_date_of_birth s),
      p_age_result = or_null (if_age_result s),
      p_issuing_country =
        (if trim (if_issuing_country s) \<noteq> [] then Some (upper (trim (if_issuing_country s))) else None),
      p_document_type = or_null (if_document_type s),
      p_evidence_ids = form_evidence_ids s,
      p_consent_confirmed = if_consent s,
      p_accuracy_confirmed = if_accuracy s\<rparr>"

text \<open>The submit button is part of the form and disabled while submitting.\<close>

definition handle_submit :: "unit \<Rightarrow> identity_form \<Rightarrow> identity_form \<times> submission_payload option" where
  "handle_submit _ s =
     (if \<not> form_open s \<or> if_submitting s then (s, None)
      else case validate_required_fields s of
             Some message \<Rightarrow> (s\<lparr>if_submit_error := Some message\<rparr>, None)
           | None \<Rightarrow> (s\<lparr>if_submit_error := None, if_submitting := True\<rparr>, Some (form_payload s)))"

text \<open>A successful submission leaves the page; the form stays disabled until it is gone.\<close>

definition submit_settle ::
  "submission_payload \<Rightarrow> js_error + json option \<Rightarrow> identity_form
     \<Rightarrow> identity_form \<times> submission_payload option" where
  "submit_settle _ r s =
     (case r of
        Inr _ \<Rightarrow> s\<lparr>if_route := Some ''/verification/waiting''\<rparr>
      | Inl e \<Rightarrow>
          s\<lparr>if_submit_error := Some (cause_message e
               ''We could not submit your verification. Review the required information and try again.''),
            if_submitting := False\<rparr>, None)"

text \<open>The country field keeps at most two letters, upper-cased.\<close>

definition normalize_country :: "string \<Rightarrow> string" where
  "normalize_country value = slice 0 2 (upper (filter is_letter value))"

text \<open>The options of the two select elements, their values and their texts.\<close>

definition age_options :: "(string \<times> string) list" where
  "age_options =
     [([], ''Select''), (''meets_requirement'', ''I meet the required age''),
      (''does_not_meet_requirement'', ''I do not meet the required age'')]"

definition document_options :: "(string \<times> string) list" where
  "document_options =
     [([], ''Select document''), (''passport'', ''Passport''), (''driver_license'', ''Driver license''),
      (''national_id'', ''National ID''), (''other'', ''Other accepted document'')]"

datatype form_input =
    Type_name string | Type_birth string | Choose_age string | Type_country string
  | Choose_document string
  | Capture evidence_type "uploaded_evidence option"
  | From_phone uploaded_evidence
  | Set_consent bool | Set_accuracy bool
  | Config_answer bool "js_error + required_evidence"

text \<open>A field is there when the request asks for what it holds.\<close>

definition when_asked ::
  "(required_evidence \<Rightarrow> bool) \<Rightarrow> (identity_form \<Rightarrow> identity_form) \<Rightarrow> identity_form \<Rightarrow> identity_form" where
  "when_asked needs f s = (if form_asks needs s then f s else s)"

fun form_event :: "form_input \<Rightarrow> identity_form \<Rightarrow> identity_form" where
  "form_event (Type_name t) s = when_asked needs_legal_name (if_legal_name_update (\<lambda>_. t)) s"
| "form_event (Type_birth t) s = when_asked needs_date_of_birth (if_date_of_birth_update (\<lambda>_. t)) s"
| "form_event (Choose_age t) s =
     (if t \<in> fst ` set age_options
      then when_asked needs_age_confirmation (if_age_result_update (\<lambda>_. t)) s else s)"
| "form_event (Type_country t) s =
     when_asked needs_issuing_country (if_issuing_country_update (\<lambda>_. normalize_country t)) s"
| "form_event (Choose_document t) s =
     (if t \<in> fst ` set document_options
      then when_asked needs_document_type (if_document_type_update (\<lambda>_. t)) s else s)"
| "form_event (Capture Document_front x) s = s\<lparr>if_front := x\<rparr>"
| "form_event (Capture Document_back x) s = s\<lparr>if_back := x\<rparr>"
| "form_event (Capture Selfie x) s = s\<lparr>if_selfie := x\<rparr>"
| "form_event (Capture Liveness x) s = s\<lparr>if_liveness := x\<rparr>"
| "form_event (From_phone e) s = handle_mobile_evidence e s"
| "form_event (Set_consent b) s = when_asked (\<lambda>_. True) (if_consent_update (\<lambda>_. b)) s"
| "form_event (Set_accuracy b) s = when_asked (\<lambda>_. True) (if_accuracy_update (\<lambda>_. b)) s"
| "form_event (Config_answer active r) s = form_loaded active r s"

section \<open>What the page shows\<close>

text \<open>The required items of a group, as (completed) flags.\<close>

definition evidence_requirements :: "required_evidence \<Rightarrow> identity_form \<Rightarrow> bool list" where
  "evidence_requirements required s =
     map snd (filter fst
       [(needs_document_front required, if_front s \<noteq> None),
        (needs_document_back required, if_back s \<noteq> None),
        (needs_selfie required, if_selfie s \<noteq> None),
        (needs_liveness required, if_liveness s \<noteq> None)])"

definition details_requirements :: "required_evidence \<Rightarrow> identity_form \<Rightarrow> bool list" where
  "details_requirements required s =
     map snd (filter fst
       [(needs_legal_name required, trim (if_legal_name s) \<noteq> []),
        (needs_date_of_birth required, if_date_of_birth s \<noteq> []),
        (needs_age_confirmation required, if_age_result s \<noteq> []),
        (needs_issuing_country required, trim (if_issuing_country s) \<noteq> []),
        (needs_document_type required, if_document_type s \<noteq> [])])"

definition count_true :: "bool list \<Rightarrow> nat" where
  "count_true xs = length (filter id xs)"

definition total_required_count :: "required_evidence \<Rightarrow> identity_form \<Rightarrow> nat" where
  "total_required_count required s =
     length (details_requirements required s) + length (evidence_requirements required s) + 2"

definition completed_required_count :: "required_evidence \<Rightarrow> identity_form \<Rightarrow> nat" where
  "completed_required_count required s =
     count_true (details_requirements required s) + count_true (evidence_requirements required s)
       + (if if_consent s then 1 else 0) + (if if_accuracy s then 1 else 0)"

text \<open>\<open>Math.round(100 * c / t)\<close> for integers with \<open>t > 0\<close>: halves round up.\<close>

definition rounded_percent :: "nat \<Rightarrow> nat \<Rightarrow> nat" where
  "rounded_percent c t = (200 * c + t) div (2 * t)"

definition completion_percent :: "required_evidence \<Rightarrow> identity_form \<Rightarrow> nat" where
  "completion_percent required s =
     (if total_required_count required s > 0
      then rounded_percent (completed_required_count required s) (total_required_count required s)
      else 100)"

definition ready_to_submit :: "identity_form \<Rightarrow> bool" where
  "ready_to_submit s \<longleftrightarrow> validate_required_fields s = None"

section \<open>The country field\<close>

definition country_text :: "string \<Rightarrow> bool" where
  "country_text c \<longleftrightarrow> length c \<le> 2 \<and> list_all is_upper c"

lemma to_upper_letter: "is_letter c \<Longrightarrow> is_upper (to_upper c)"
  by (auto simp: to_upper_def is_letter_def is_upper_def is_lower_def)

lemma to_upper_upper [simp]: "is_upper c \<Longrightarrow> to_upper c = c"
  by (auto simp: to_upper_def is_upper_def is_lower_def)

lemma upper_of_upper: "list_all is_upper c \<Longrightarrow> upper c = c"
  by (simp add: list_all_iff map_idI)

lemma filter_letters: "list_all is_upper c \<Longrightarrow> filter is_letter c = c"
  by (auto simp: list_all_iff is_letter_def filter_id_conv)

interpretation country_field: normaliser normalize_country country_text
proof
  show "country_text (normalize_country x)" for x
    by (auto simp: country_text_def normalize_country_def slice_def list_all_iff to_upper_letter
        dest!: in_set_takeD)
  show "country_text x \<Longrightarrow> normalize_country x = x" for x
    by (simp add: country_text_def normalize_country_def slice_def filter_letters upper_of_upper)
qed

section \<open>Submissions over all interleavings\<close>

text \<open>
  With the requirements \<open>c\<close>, which the server does not change while the form is open, what a
  submission holds.
\<close>

definition payload_complete :: "required_evidence \<Rightarrow> submission_payload \<Rightarrow> bool" where
  "payload_complete c p \<longleftrightarrow>
     (needs_legal_name c \<longrightarrow> p_legal_name p \<noteq> None)
     \<and> (needs_date_of_birth c \<longrightarrow> p_date_of_birth p \<noteq> None)
     \<and> (needs_age_confirmation c \<longrightarrow> p_age_result p \<noteq> None)
     \<and> (needs_issuing_country c \<longrightarrow> p_issuing_country p \<noteq> None)
     \<and> (needs_document_type c \<longrightarrow> p_document_type p \<noteq> None)
     \<and> length (filter id [needs_document_front c, needs_document_back c, needs_selfie c, needs_liveness c])
         \<le> length (p_evidence_ids p)
     \<and> p_consent_confirmed p \<and> p_accuracy_confirmed p
     \<and> (\<forall>t. p_issuing_country p = Some t \<longrightarrow> t \<noteq> [] \<and> length t \<le> 2 \<and> list_all is_upper t)
     \<and> (\<forall>t. p_legal_name p = Some t \<longrightarrow> t \<noteq> [] \<and> trimmed t)"

definition form_event_under :: "required_evidence \<Rightarrow> form_input \<Rightarrow> identity_form \<Rightarrow> identity_form" where
  "form_event_under c e s =
     (case e of
        Config_answer active r \<Rightarrow> form_loaded active (case r of Inl x \<Rightarrow> Inl x | Inr _ \<Rightarrow> Inr c) s
      | _ \<Rightarrow> form_event e s)"

definition form_inv :: "required_evidence \<Rightarrow> identity_form \<Rightarrow> bool" where
  "form_inv c s \<longleftrightarrow> if_config s \<in> {None, Some c} \<and> country_text (if_issuing_country s)"

lemma form_event_frame:
  "if_submitting (form_event e s) = if_submitting s"
  "country_text (if_issuing_country s) \<Longrightarrow> country_text (if_issuing_country (form_event e s))"
  "(\<And>a r. e \<noteq> Config_answer a r) \<Longrightarrow> if_config (form_event e s) = if_config s"
  by (cases "(e, s)" rule: form_event.cases;
      simp add: handle_mobile_evidence_def form_loaded_def when_asked_def country_field.normal_norm
        split: evidence_type.split sum.split)+

lemma form_loaded_frame:
  "if_submitting (form_loaded a r s) = if_submitting s"
  "if_issuing_country (form_loaded a r s) = if_issuing_country s"
  "if_config (form_loaded a (Inr c) s) \<in> {if_config s, Some c}"
  "if_config (form_loaded a (Inl e) s) = if_config s"
  by (auto simp: form_loaded_def split: sum.split)

lemma form_event_under_frame:
  "if_submitting (form_event_under c e s) = if_submitting s"
  "form_inv c s \<Longrightarrow> form_inv c (form_event_under c e s)"
proof -
  show "if_submitting (form_event_under c e s) = if_submitting s"
    by (cases e) (simp_all add: form_event_under_def form_loaded_frame form_event_frame del: form_event.simps)
  assume h: "form_inv c s"
  show "form_inv c (form_event_under c e s)"
  proof (cases "\<exists>a r. e = Config_answer a r")
    case True
    then obtain a r where e: "e = Config_answer a r" by blast
    with h show ?thesis
      using form_loaded_frame(3) [of a c s]
      by (cases r) (auto simp: form_event_under_def form_inv_def form_loaded_frame)
  next
    case False
    then have "form_event_under c e s = form_event e s"
      by (cases e) (simp_all add: form_event_under_def)
    with False h show ?thesis
      using form_event_frame(2) [of s e] form_event_frame(3) [of e s] by (simp add: form_inv_def)
  qed
qed

lemma handle_submit_cases:
  "handle_submit i s = (s', oq) \<Longrightarrow>
     (if_submitting s' = if_submitting s \<and> oq = None \<and> if_config s' = if_config s
        \<and> if_issuing_country s' = if_issuing_country s) \<or>
     (\<not> if_submitting s \<and> if_submitting s' \<and> validate_required_fields s = None
        \<and> oq = Some (form_payload s) \<and> if_config s' = if_config s
        \<and> if_issuing_country s' = if_issuing_country s)"
  by (auto simp: handle_submit_def split: if_splits option.splits)

lemma validated:
  "validate_required_fields s = None \<longleftrightarrow>
     (\<exists>c. if_config s = Some c
        \<and> (needs_legal_name c \<longrightarrow> trim (if_legal_name s) \<noteq> [])
        \<and> (needs_date_of_birth c \<longrightarrow> if_date_of_birth s \<noteq> [])
        \<and> (needs_age_confirmation c \<longrightarrow> if_age_result s \<noteq> [])
        \<and> (needs_issuing_country c \<longrightarrow> trim (if_issuing_country s) \<noteq> [])
        \<and> (needs_document_type c \<longrightarrow> if_document_type s \<noteq> [])
        \<and> (needs_document_front c \<longrightarrow> if_front s \<noteq> None)
        \<and> (needs_document_back c \<longrightarrow> if_back s \<noteq> None)
        \<and> (needs_selfie c \<longrightarrow> if_selfie s \<noteq> None)
        \<and> (needs_liveness c \<longrightarrow> if_liveness s \<noteq> None)
        \<and> if_consent s \<and> if_accuracy s)"
  by (cases "if_config s") (simp_all add: validate_required_fields_def)

lemma config_of_valid:
  "validate_required_fields s = None \<Longrightarrow> form_inv c s
    \<Longrightarrow> if_config s = Some c \<and> country_text (if_issuing_country s)"
  by (cases "if_config s") (simp_all add: form_inv_def validate_required_fields_def)

lemma payload_of_valid:
  assumes "validate_required_fields s = None" and "form_inv c s"
  shows "payload_complete c (form_payload s)"
proof -
  from assms have v: "if_config s = Some c" "country_text (if_issuing_country s)"
    using config_of_valid by blast+
  note valid = assms(1) [unfolded validated v(1)]
  have "length (filter id [needs_document_front c, needs_document_back c, needs_selfie c, needs_liveness c])
      \<le> length (form_evidence_ids s)"
    using valid
    by (cases "if_front s"; cases "if_back s"; cases "if_selfie s"; cases "if_liveness s";
        simp add: form_evidence_ids_def map_filter_def)
  moreover have "length (trim (if_issuing_country s)) \<le> 2"
    using v(2) length_trim [of "if_issuing_country s"] by (simp add: country_text_def)
  moreover have "list_all is_upper (upper (trim (if_issuing_country s)))"
    using v(2) set_trim [of "if_issuing_country s"] by (auto simp: country_text_def list_all_iff)
  ultimately show ?thesis
    using valid by (auto simp: payload_complete_def form_payload_def or_null_def)
qed

interpretation submission: single_flight
  handle_submit submit_settle "form_event_under c" if_submitting for c :: required_evidence
proof
  show "if_submitting s \<Longrightarrow> handle_submit i s = (s', oq) \<Longrightarrow> oq = None \<and> if_submitting s'" for i s s' oq
    by (auto simp: handle_submit_def split: if_splits)
  show "\<not> if_submitting s \<Longrightarrow> handle_submit i s = (s', oq) \<Longrightarrow> if_submitting s' \<longleftrightarrow> oq \<noteq> None" for i s s' oq
    by (auto dest!: handle_submit_cases)
  show "submit_settle q r s = (s', Some q') \<Longrightarrow> if_submitting s'" for q r s s' q'
    by (simp add: submit_settle_def)
  show "if_submitting (form_event_under c e s) \<longleftrightarrow> if_submitting s" for c e s
    by (simp add: form_event_under_frame)
qed

interpretation complete_submission: guarded_handler
  handle_submit submit_settle "form_event_under c" "form_inv c" "payload_complete c"
  for c :: required_evidence
proof
  show "form_inv c s \<Longrightarrow> handle_submit i s = (s', oq) \<Longrightarrow> form_inv c s'" for c i s s' oq
    by (auto simp: form_inv_def dest!: handle_submit_cases)
  show "form_inv c s \<Longrightarrow> handle_submit i s = (s', Some q) \<Longrightarrow> payload_complete c q" for c i s s' q
    by (auto dest!: handle_submit_cases intro: payload_of_valid)
  show "form_inv c s \<Longrightarrow> submit_settle q r s = (s', oq) \<Longrightarrow> form_inv c s'" for c q r s s' oq
    by (auto simp: submit_settle_def form_inv_def split: sum.splits)
  show "submit_settle q r s = (s', Some q') \<Longrightarrow> payload_complete c q'" for c q r s s' q'
    by (simp add: submit_settle_def)
  show "form_inv c s \<Longrightarrow> form_inv c (form_event_under c e s)" for c e s
    by (rule form_event_under_frame)
qed

section \<open>Properties\<close>

text \<open>In every interleaving of typing, captures, phone evidence, answers and clicks, at most one
  submission is under way, and every submission sent holds everything its requirements ask for,
  both confirmations, a trimmed name and a country code of one or two capital letters.\<close>

lemma submissions_complete:
  "length (fl_pending (flight_run handle_submit submit_settle (form_event_under c) ms identity_form_new)) \<le> 1
   \<and> list_all (payload_complete c)
       (fl_issued (flight_run handle_submit submit_settle (form_event_under c) ms identity_form_new))"
proof
  show "length (fl_pending (flight_run handle_submit submit_settle (form_event_under c) ms identity_form_new)) \<le> 1"
    by (rule submission.at_most_one) (simp add: identity_form_new_def)
  show "list_all (payload_complete c)
      (fl_issued (flight_run handle_submit submit_settle (form_event_under c) ms identity_form_new))"
    by (rule complete_submission.run_issued) (simp add: identity_form_new_def form_inv_def country_text_def)
qed

lemma count_all: "count_true xs = length xs \<longleftrightarrow> list_all id xs" "count_true xs \<le> length xs"
proof -
  show le: "count_true xs \<le> length xs" for xs by (simp add: count_true_def)
  show "count_true xs = length xs \<longleftrightarrow> list_all id xs"
  proof (induction xs)
    case (Cons x xs)
    moreover have "length (filter id xs) \<noteq> Suc (length xs)"
      by (metis length_filter_le not_less_eq_eq le_refl)
    ultimately show ?case by (cases x) (simp_all add: count_true_def)
  qed (simp add: count_true_def)
qed

lemma rounded_percent_full:
  assumes "c \<le> t" and "0 < t" and "t < 200"
  shows "rounded_percent c t = 100 \<longleftrightarrow> c = t"
proof
  assume "rounded_percent c t = 100"
  then have "100 * (2 * t) \<le> 200 * c + t"
    unfolding rounded_percent_def by (metis div_times_less_eq_dividend mult.commute)
  with assms show "c = t" by linarith
next
  assume "c = t"
  then have "200 * c + t = 100 * (2 * t) + t" by simp
  with assms show "rounded_percent c t = 100" by (simp add: rounded_percent_def \<open>c = t\<close>)
qed

text \<open>The figures agree with the validation: the form is ready to submit exactly when the number
  of completed items is the number of required items, and that is exactly when 100% is shown.\<close>

theorem ready_iff_complete:
  "(case if_config s of
      None \<Rightarrow> \<not> ready_to_submit s
    | Some c \<Rightarrow>
        (ready_to_submit s \<longleftrightarrow> completed_required_count c s = total_required_count c s)
        \<and> (completion_percent c s = 100 \<longleftrightarrow> ready_to_submit s))"
proof (cases "if_config s")
  case None
  then show ?thesis by (simp add: ready_to_submit_def validate_required_fields_def)
next
  case (Some c)
  define d where "d = details_requirements c s"
  define e where "e = evidence_requirements c s"
  have le: "count_true d \<le> length d" "count_true e \<le> length e" by (rule count_all)+
  have "length d \<le> 5" "length e \<le> 4"
    by (simp_all add: d_def e_def details_requirements_def evidence_requirements_def)
  then have small: "total_required_count c s < 200" "0 < total_required_count c s"
    by (simp_all add: total_required_count_def d_def [symmetric] e_def [symmetric])
  have all: "ready_to_submit s \<longleftrightarrow> list_all id d \<and> list_all id e \<and> if_consent s \<and> if_accuracy s"
    using Some by (auto simp: ready_to_submit_def validated d_def e_def details_requirements_def
        evidence_requirements_def)
  have ready: "ready_to_submit s \<longleftrightarrow> completed_required_count c s = total_required_count c s"
    unfolding all completed_required_count_def total_required_count_def d_def [symmetric] e_def [symmetric]
    using le count_all(1) [of d] count_all(1) [of e]
    by (cases "if_consent s"; cases "if_accuracy s") auto
  have "completed_required_count c s \<le> total_required_count c s"
    using le by (simp add: completed_required_count_def total_required_count_def d_def e_def)
  with small rounded_percent_full have
    "completion_percent c s = 100 \<longleftrightarrow> completed_required_count c s = total_required_count c s"
    by (simp add: completion_percent_def)
  with ready Some show ?thesis by simp
qed

end
