(* ===== verification/Camera.thy ===== *)
theory Camera
  imports Http
begin

text \<open>
  What the two capture cards share: the camera stream held in \<open>streamRef\<close>, the object URL of the
  preview held in \<open>previewUrlRef\<close> and the captured file held in \<open>capturedFileRef\<close>, with
  \<open>stopCamera\<close> and \<open>clearPreview\<close>; how a stream is acquired; the file names; and the contract of a
  card: in a run without overlapping operations, no stream and no object URL outlives its owner.
  Streams and object URLs are numbers; the running streams and the live URLs are what the browser
  keeps for the page.
\<close>

section \<open>The camera and the preview\<close>

record camera =
  cam_stream :: "nat option"
  cam_running :: "nat list"
  cam_url :: "nat option"
  cam_urls :: "nat list"
  cam_file :: "js_file option"

definition no_camera :: camera where
  "no_camera = \<lparr>cam_stream = None, cam_running = [], cam_url = None, cam_urls = [], cam_file = None\<rparr>"

definition stop_camera :: "camera \<Rightarrow> camera" where
  "stop_camera c =
     (case cam_stream c of
        None \<Rightarrow> c
      | Some s \<Rightarrow> c\<lparr>cam_running := removeAll s (cam_running c), cam_stream := None\<rparr>)"

definition clear_preview :: "camera \<Rightarrow> camera" where
  "clear_preview c =
     (case cam_url c of None \<Rightarrow> c | Some u \<Rightarrow> c\<lparr>cam_urls := removeAll u (cam_urls c)\<rparr>)
       \<lparr>cam_url := None, cam_file := None\<rparr>"

text \<open>\<open>streamRef.current = stream\<close> for a stream the browser has just started.\<close>

definition attach_stream :: "nat \<Rightarrow> camera \<Rightarrow> camera" where
  "attach_stream s c = c\<lparr>cam_running := cam_running c @ [s], cam_stream := Some s\<rparr>"

definition show_file :: "nat \<Rightarrow> js_file \<Rightarrow> camera \<Rightarrow> camera" where
  "show_file u f c = c\<lparr>cam_url := Some u, cam_urls := cam_urls c @ [u], cam_file := Some f\<rparr>"

text \<open>Nothing runs but the stream held, no URL lives but the preview's.\<close>

definition tidy :: "camera \<Rightarrow> bool" where
  "tidy c \<longleftrightarrow> set (cam_running c) = set_option (cam_stream c)
     \<and> set (cam_urls c) = set_option (cam_url c)
     \<and> (cam_url c = None \<longleftrightarrow> cam_file c = None)"

named_theorems camera_simps \<open>the camera after each operation\<close>

lemma camera_op_simps [camera_simps]:
  "cam_stream (stop_camera c) = None"
  "cam_url (stop_camera c) = cam_url c"
  "cam_urls (stop_camera c) = cam_urls c"
  "cam_file (stop_camera c) = cam_file c"
  "cam_stream (clear_preview c) = cam_stream c"
  "cam_running (clear_preview c) = cam_running c"
  "cam_url (clear_preview c) = None"
  "cam_file (clear_preview c) = None"
  "cam_stream (attach_stream s c) = Some s"
  "cam_running (attach_stream s c) = cam_running c @ [s]"
  "cam_url (attach_stream s c) = cam_url c"
  "cam_urls (attach_stream s c) = cam_urls c"
  "cam_file (attach_stream s c) = cam_file c"
  "cam_stream (show_file u f c) = cam_stream c"
  "cam_running (show_file u f c) = cam_running c"
  "cam_url (show_file u f c) = Some u"
  "cam_urls (show_file u f c) = cam_urls c @ [u]"
  "cam_file (show_file u f c) = Some f"
  by (simp_all add: stop_camera_def clear_preview_def attach_stream_def show_file_def split: option.split)

lemma stop_running: "cam_running (stop_camera c) =
     (case cam_stream c of None \<Rightarrow> cam_running c | Some s \<Rightarrow> removeAll s (cam_running c))"
  by (simp add: stop_camera_def split: option.split)

lemma clear_urls: "cam_urls (clear_preview c) =
     (case cam_url c of None \<Rightarrow> cam_urls c | Some u \<Rightarrow> removeAll u (cam_urls c))"
  by (simp add: clear_preview_def split: option.split)

lemma removeAll_single: "set xs \<subseteq> {x} \<Longrightarrow> removeAll x xs = []"
  by (induction xs) auto

lemma tidy_stopped: "tidy c \<Longrightarrow> cam_running (stop_camera c) = []"
  by (cases "cam_stream c") (auto simp: tidy_def stop_running removeAll_single)

lemma tidy_cleared: "tidy c \<Longrightarrow> cam_urls (clear_preview c) = []"
  by (cases "cam_url c") (auto simp: tidy_def clear_urls removeAll_single)

lemma tidy_ops [camera_simps]:
  "tidy no_camera"
  "tidy c \<Longrightarrow> tidy (stop_camera c)"
  "tidy c \<Longrightarrow> tidy (clear_preview c)"
  "tidy c \<Longrightarrow> cam_stream c = None \<Longrightarrow> tidy (attach_stream s c)"
  "tidy c \<Longrightarrow> cam_url c = None \<Longrightarrow> tidy (show_file u f c)"
proof -
  show "tidy no_camera" by (simp add: tidy_def no_camera_def)
  show "tidy (stop_camera c)" if "tidy c"
    using that tidy_stopped [OF that] by (simp add: tidy_def camera_simps)
  show "tidy (clear_preview c)" if "tidy c"
    using that tidy_cleared [OF that] by (simp add: tidy_def camera_simps)
  show "tidy c \<Longrightarrow> cam_stream c = None \<Longrightarrow> tidy (attach_stream s c)"
    and "tidy c \<Longrightarrow> cam_url c = None \<Longrightarrow> tidy (show_file u f c)"
    by (simp_all add: tidy_def camera_simps)
qed

section \<open>Acquiring a stream\<close>

text \<open>The attempts in order: the first stream is taken; a permission error ends the search at once;
  any other error is remembered and the next attempt made.\<close>

definition camera_access_blocking :: "js_error \<Rightarrow> bool" where
  "camera_access_blocking e \<longleftrightarrow>
     (case e of
        DomError name _ \<Rightarrow> name \<in> {''NotAllowedError'', ''PermissionDeniedError'', ''SecurityError''}
      | _ \<Rightarrow> False)"

datatype camera_search = Got nat | Thrown js_error | Nothing "js_error option"

fun try_cameras :: "(js_error + nat) list \<Rightarrow> js_error option \<Rightarrow> camera_search" where
  "try_cameras [] recent = Nothing recent"
| "try_cameras (Inr s # as) recent = Got s"
| "try_cameras (Inl e # as) recent =
     (if camera_access_blocking e then Thrown e else try_cameras as (Some e))"

text \<open>
  \<open>first\<close> are the answers to the two general requests, \<open>devices\<close> the enumeration of the cameras
  with the answers to the request of each.
\<close>

definition acquire_face_camera ::
  "(js_error + nat) list \<Rightarrow> js_error + (js_error + nat) list \<Rightarrow> js_error + nat" where
  "acquire_face_camera first devices =
     (case try_cameras first None of
        Got s \<Rightarrow> Inr s
      | Thrown e \<Rightarrow> Inl e
      | Nothing recent \<Rightarrow>
          (case (case devices of
                   Inl e \<Rightarrow> if camera_access_blocking e then Thrown e else Nothing (Some e)
                 | Inr answers \<Rightarrow> try_cameras answers recent) of
             Got s \<Rightarrow> Inr s
           | Thrown e \<Rightarrow> Inl e
           | Nothing (Some e) \<Rightarrow> Inl e
           | Nothing None \<Rightarrow> Inl (DomError ''NotFoundError'' ''No usable camera was found.'')))"

section \<open>File names\<close>

text \<open>\<open>new Date().toISOString().replace(/[:.]/g, "-")\<close>, and \<open>replace(/\.[^.]+$/, ext)\<close>.\<close>

definition name_timestamp :: "string \<Rightarrow> string" where
  "name_timestamp iso_time = map (\<lambda>c. if c = CHR '':'' \<or> c = CHR ''.'' then CHR ''-'' else c) iso_time"

definition replace_extension :: "string \<Rightarrow> string \<Rightarrow> string" where
  "replace_extension ext s =
     (let tail = takeWhile (\<lambda>c. c \<noteq> CHR ''.'') (rev s);
          rest = dropWhile (\<lambda>c. c \<noteq> CHR ''.'') (rev s)
      in if rest = [] \<or> tail = [] then s else rev (tl rest) @ ext)"

section \<open>The contract of a capture card\<close>

text \<open>
  \<open>orderly e s\<close> says that the event does not overlap an operation under way. Then the camera stays
  tidy, and it is off whenever the card shows no live picture.
\<close>

fun orderly_run :: "('e \<Rightarrow> 's \<Rightarrow> 's) \<Rightarrow> ('e \<Rightarrow> 's \<Rightarrow> bool) \<Rightarrow> 'e list \<Rightarrow> 's \<Rightarrow> bool" where
  "orderly_run card_step orderly [] s = True"
| "orderly_run card_step orderly (e # es) s =
     (orderly e s \<and> orderly_run card_step orderly es (card_step e s))"

locale camera_card =
  fixes card_step :: "'e \<Rightarrow> 's \<Rightarrow> 's"
    and cam :: "'s \<Rightarrow> camera"
    and live :: "'s \<Rightarrow> bool"
    and orderly :: "'e \<Rightarrow> 's \<Rightarrow> bool"
    and inv :: "'s \<Rightarrow> bool"
  assumes step_inv: "inv s \<Longrightarrow> orderly e s \<Longrightarrow> inv (card_step e s)"
    and inv_tidy: "inv s \<Longrightarrow> tidy (cam s)"
    and inv_dark: "inv s \<Longrightarrow> \<not> live s \<Longrightarrow> cam_stream (cam s) = None"
begin

lemma run_inv: "inv s \<Longrightarrow> orderly_run card_step orderly es s \<Longrightarrow> inv (fold card_step es s)"
  by (induction es arbitrary: s) (auto simp: step_inv)

lemma run_dark:
  assumes "inv s" and "orderly_run card_step orderly es s" and "\<not> live (fold card_step es s)"
  shows "cam_running (cam (fold card_step es s)) = []"
proof -
  have "inv (fold card_step es s)" using assms(1,2) by (rule run_inv)
  then have "tidy (cam (fold card_step es s))" and "cam_stream (cam (fold card_step es s)) = None"
    using assms(3) by (auto intro: inv_tidy inv_dark)
  then show ?thesis by (simp add: tidy_def)
qed

lemma run_urls:
  assumes "inv s" and "orderly_run card_step orderly es s"
  shows "set (cam_urls (cam (fold card_step es s))) = set_option (cam_url (cam (fold card_step es s)))"
  using inv_tidy [OF run_inv [OF assms]] by (simp add: tidy_def)

end

end
