(* ===== verification/Face_Capture.thy ===== *)
theory Face_Capture
  imports Camera Api_Client
begin

text \<open>
  The selfie and liveness card of components/verification/face-capture-card.tsx as a state machine:
  its \<open>useState\<close> variables and refs, the awaits and timers under way, and one event per click,
  answer and timer. The browser decides the answers: streams and object URLs are numbers it hands
  out, a frame probe says what \<open>captureFrame\<close> finds, and the time a tick sees is an argument.
\<close>

section \<open>State\<close>

datatype capture_state = Closed | Starting | Live | Challenge | Preview

datatype challenge_direction = Left_turn | Right_turn

text \<open>Label and duration in milliseconds of each step.\<close>

definition challenge_steps :: "challenge_direction \<Rightarrow> (string \<times> int) list" where
  "challenge_steps d =
     [(''Look straight at the camera'', 2200),
      (if d = Left_turn then ''Slowly turn your head left'' else ''Slowly turn your head right'', 2800),
      (''Face the camera again and hold still'', 2200)]"

text \<open>
  \<open>fc_opens\<close> counts the calls of \<open>openCamera\<close> that wait for a stream, \<open>fc_reopens\<close> the timeouts set
  by \<open>retake\<close>, \<open>fc_grabs\<close> the calls of \<open>captureFrame\<close> that wait for a blob, each with the steps of
  the challenge that had been completed; \<open>fc_tick\<close> is the run of the pending tick, \<open>fc_initial\<close> that
  of the timer that shows the first seconds, and \<open>fc_capture_due\<close> the timer that captures at the
  end. \<open>fc_trace\<close> records the completed steps with the time each took and has no counterpart in the
  code beyond \<open>challengeStepIndex\<close>, which is its length.
\<close>

record face_card =
  fc_liveness :: bool
  fc_value :: "uploaded_evidence option"
  fc_mounted :: bool
  fc_state :: capture_state
  fc_uploading :: bool
  fc_error :: "string option"
  fc_camera_error :: "string option"
  fc_direction :: challenge_direction
  fc_step :: nat
  fc_seconds :: "int option"
  fc_run :: nat
  fc_tick :: "nat option"
  fc_initial :: "nat option"
  fc_capture_due :: bool
  fc_cam :: camera
  fc_opens :: nat
  fc_reopens :: nat
  fc_grabs :: "(nat \<times> int) list list"
  fc_upload :: "js_file option"
  fc_trace :: "(nat \<times> int) list"

definition face_card_new :: "bool \<Rightarrow> face_card" where
  "face_card_new liveness =
     \<lparr>fc_liveness = liveness, fc_value = None, fc_mounted = True, fc_state = Closed,
      fc_uploading = False, fc_error = None, fc_camera_error = None, fc_direction = Left_turn,
      fc_step = 0, fc_seconds = None, fc_run = 0, fc_tick = None, fc_initial = None,
      fc_capture_due = False, fc_cam = no_camera, fc_opens = 0, fc_reopens = 0, fc_grabs = [],
      fc_upload = None, fc_trace = []\<rparr>"

section \<open>Helpers\<close>

fun face_type_name :: "bool \<Rightarrow> string" where
  "face_type_name True = ''liveness''"
| "face_type_name False = ''selfie''"

definition build_face_filename :: "bool \<Rightarrow> string \<Rightarrow> string" where
  "build_face_filename liveness iso_time =
     face_type_name liveness @ ''-'' @ name_timestamp iso_time @ ''.jpg''"

definition face_camera_error :: "js_error \<Rightarrow> string" where
  "face_camera_error e =
     (case e of
        DomError name _ \<Rightarrow>
          if name \<in> {''NotAllowedError'', ''PermissionDeniedError''} then
            ''Camera permission was denied. Allow camera access in your browser settings and try again.''
          else if name \<in> {''NotFoundError'', ''DevicesNotFoundError''} then
            ''No front camera could be found on this device.''
          else if name \<in> {''NotReadableError'', ''TrackStartError''} then
            ''The camera is already being used by another application or could not be started.''
          else if name = ''OverconstrainedError'' then
            ''The requested camera configuration is unavailable on this device.''
          else if name = ''SecurityError'' then
            ''Camera access was blocked by the browser security policy. Open this verification page over HTTPS.''
          else if name = ''AbortError'' then ''Camera startup was interrupted. Try again.''
          else ''The front camera could not be started. Check camera permissions and try again.''
      | _ \<Rightarrow> ''The front camera could not be started. Check camera permissions and try again.'')"

text \<open>\<open>stopChallengeTimer\<close>: the pending tick is cleared and outstanding callbacks are made stale.\<close>

definition stop_challenge_timer :: "face_card \<Rightarrow> face_card" where
  "stop_challenge_timer s = s\<lparr>fc_tick := None, fc_run := Suc (fc_run s), fc_seconds := None\<rparr>"

text \<open>\<open>Math.ceil(ms / 1000)\<close>, at least 1.\<close>

definition whole_seconds :: "int \<Rightarrow> int" where
  "whole_seconds ms = max 1 ((ms + 999) div 1000)"

text \<open>
  The effect on \<open>captureState\<close> and \<open>challengeStepIndex\<close>: its cleanup clears the timers of the run
  before; then, during a challenge, it either sets the capture timer or starts the step.
\<close>

definition challenge_effect :: "face_card \<Rightarrow> face_card" where
  "challenge_effect s =
     (let s0 = s\<lparr>fc_tick := None, fc_initial := None, fc_capture_due := False\<rparr>
      in if fc_state s0 \<noteq> Challenge then s0
         else if fc_step s0 \<ge> length (challenge_steps (fc_direction s0)) then s0\<lparr>fc_capture_due := True\<rparr>
         else (let run_id = Suc (fc_run s0)
               in s0\<lparr>fc_run := run_id, fc_initial := Some run_id, fc_tick := Some run_id\<rparr>))"

definition reset_capture :: "face_card \<Rightarrow> face_card" where
  "reset_capture s =
     (let s1 = stop_challenge_timer s;
          s2 = s1\<lparr>fc_cam := clear_preview (stop_camera (fc_cam s1))\<rparr>
      in challenge_effect
           (s2\<lparr>fc_state := Closed, fc_camera_error := None, fc_step := 0, fc_trace := []\<rparr>))"

definition open_camera :: "bool \<Rightarrow> face_card \<Rightarrow> face_card" where
  "open_camera available s =
     (if fc_uploading s then s
      else
        let s1 = s\<lparr>fc_error := None, fc_camera_error := None, fc_cam := clear_preview (fc_cam s)\<rparr>;
            s2 = stop_challenge_timer s1;
            s3 = s2\<lparr>fc_cam := stop_camera (fc_cam s2)\<rparr>
        in if \<not> available then
             challenge_effect (s3\<lparr>
               fc_camera_error := Some ''Live camera capture is not available in this browser.'',
               fc_state := Closed\<rparr>)
           else challenge_effect (s3\<lparr>fc_state := Starting, fc_opens := Suc (fc_opens s3)\<rparr>))"

definition camera_answered :: "js_error + nat \<Rightarrow> face_card \<Rightarrow> face_card" where
  "camera_answered r s =
     (case r of
        Inr stream \<Rightarrow>
          challenge_effect (s\<lparr>fc_cam := attach_stream stream (fc_cam s), fc_state := Live\<rparr>)
      | Inl e \<Rightarrow>
          challenge_effect (s\<lparr>fc_cam := stop_camera (fc_cam s), fc_state := Closed,
            fc_camera_error := Some (face_camera_error e)\<rparr>))"

text \<open>What \<open>captureFrame\<close> finds before it asks for the blob.\<close>

datatype frame_probe = No_video | Not_ready | No_context | Drawn

definition capture_frame :: "frame_probe \<Rightarrow> face_card \<Rightarrow> face_card" where
  "capture_frame p s =
     (case p of
        No_video \<Rightarrow> s
      | Not_ready \<Rightarrow>
          s\<lparr>fc_camera_error := Some ''The camera is still preparing. Wait a moment and try again.''\<rparr>
      | No_context \<Rightarrow>
          s\<lparr>fc_camera_error := Some ''We could not prepare the captured image. Try again.''\<rparr>
      | Drawn \<Rightarrow> s\<lparr>fc_grabs := fc_grabs s @ [fc_trace s]\<rparr>)"

definition captured_file :: "bool \<Rightarrow> string \<Rightarrow> int \<Rightarrow> js_file" where
  "captured_file liveness iso_time bytes =
     \<lparr>file_name = replace_extension ''.png'' (build_face_filename liveness iso_time),
      file_type = ''image/png'', file_size = bytes\<rparr>"

text \<open>The blob is there (its object URL, the time and its size), or \<open>toBlob\<close> gave \<open>null\<close>.\<close>

definition blob_answered :: "(nat \<times> string \<times> int) option \<Rightarrow> face_card \<Rightarrow> face_card" where
  "blob_answered r s =
     (case r of
        None \<Rightarrow> s\<lparr>fc_camera_error := Some ''We could not capture the image. Try again.''\<rparr>
      | Some (url, iso_time, bytes) \<Rightarrow>
          let file = captured_file (fc_liveness s) iso_time bytes;
              s1 = s\<lparr>fc_cam := show_file url file (clear_preview (fc_cam s))\<rparr>;
              s2 = stop_challenge_timer s1;
              s3 = s2\<lparr>fc_cam := stop_camera (fc_cam s2)\<rparr>
          in challenge_effect (s3\<lparr>fc_state := Preview\<rparr>))"

section \<open>Events\<close>

datatype face_event =
    Face_open bool  \<comment> \<open>whether \<open>getUserMedia\<close> exists\<close>
  | Face_camera "js_error + nat"
  | Face_play_failed
  | Face_close
  | Face_selfie frame_probe
  | Face_begin challenge_direction
  | Face_initial_timer
  | Face_tick int  \<comment> \<open>milliseconds since the step started\<close>
  | Face_capture_timer frame_probe
  | Face_blob "(nat \<times> string \<times> int) option"
  | Face_retake
  | Face_reopen_timer bool
  | Face_use
  | Face_uploaded "js_error + evidence_response"
  | Face_value "uploaded_evidence option"  \<comment> \<open>set by the parent\<close>
  | Face_replace
  | Face_unmount

text \<open>The card's own buttons and its dialog are shown while there is no value.\<close>

definition face_shown :: "face_card \<Rightarrow> bool" where
  "face_shown s \<longleftrightarrow> fc_mounted s \<and> fc_value s = None"

definition face_ticks :: "int \<Rightarrow> face_card \<Rightarrow> face_card" where
  "face_ticks elapsed s =
     (case fc_tick s of
        None \<Rightarrow> s
      | Some run_id \<Rightarrow>
          if fc_run s \<noteq> run_id then s\<lparr>fc_tick := None\<rparr>
          else
            let remaining = snd (challenge_steps (fc_direction s) ! fc_step s) - elapsed
            in if remaining \<le> 0
               then challenge_effect (s\<lparr>fc_seconds := None, fc_step := Suc (fc_step s),
                      fc_trace := fc_trace s @ [(fc_step s, elapsed)]\<rparr>)
               else s\<lparr>fc_seconds := Some (whole_seconds remaining)\<rparr>)"

definition begin_liveness_challenge :: "challenge_direction \<Rightarrow> face_card \<Rightarrow> face_card" where
  "begin_liveness_challenge d s =
     (if \<not> fc_liveness s \<or> fc_state s \<noteq> Live then s
      else challenge_effect (s\<lparr>fc_camera_error := None, fc_error := None, fc_direction := d,
             fc_step := 0, fc_trace := [], fc_state := Challenge\<rparr>))"

definition retake_face :: "face_card \<Rightarrow> face_card" where
  "retake_face s =
     (let s1 = stop_challenge_timer s;
          s2 = s1\<lparr>fc_cam := clear_preview (stop_camera (fc_cam s1))\<rparr>
      in challenge_effect (s2\<lparr>fc_camera_error := None, fc_step := 0, fc_trace := [],
           fc_state := Closed, fc_reopens := Suc (fc_reopens s2)\<rparr>))"

definition upload_captured_face :: "face_card \<Rightarrow> face_card" where
  "upload_captured_face s =
     (case cam_file (fc_cam s) of
        None \<Rightarrow> s
      | Some f \<Rightarrow>
          if fc_uploading s then s
          else s\<lparr>fc_uploading := True, fc_error := None, fc_upload := Some f\<rparr>)"

definition face_upload_answered :: "js_error + evidence_response \<Rightarrow> face_card \<Rightarrow> face_card" where
  "face_upload_answered r s =
     (case fc_upload s of
        None \<Rightarrow> s
      | Some f \<Rightarrow>
          (case r of
             Inr er \<Rightarrow>
               (reset_capture (s\<lparr>fc_value := Some (uploaded_from f er), fc_upload := None\<rparr>))
                 \<lparr>fc_uploading := False\<rparr>
           | Inl e \<Rightarrow>
               s\<lparr>fc_error := Some (cause_message_or e ''Face capture upload failed. Try again.''),
                 fc_upload := None, fc_uploading := False\<rparr>))"

definition unmount_face :: "face_card \<Rightarrow> face_card" where
  "unmount_face s =
     (let s1 = stop_challenge_timer s
      in s1\<lparr>fc_cam := clear_preview (stop_camera (fc_cam s1)), fc_mounted := False,
            fc_tick := None, fc_initial := None, fc_capture_due := False\<rparr>)"

fun face_step :: "face_event \<Rightarrow> face_card \<Rightarrow> face_card" where
  "face_step (Face_open available) s =
     (if face_shown s \<and> \<not> fc_uploading s \<and> fc_state s = Closed then open_camera available s else s)"
| "face_step (Face_camera r) s =
     (if fc_opens s = 0 then s else camera_answered r (s\<lparr>fc_opens := fc_opens s - 1\<rparr>))"
| "face_step Face_play_failed s =
     s\<lparr>fc_camera_error := Some ''The camera started but the preview could not be shown. Close the camera and try again.''\<rparr>"
| "face_step Face_close s =
     (if face_shown s \<and> \<not> fc_uploading s \<and> fc_state s \<noteq> Closed then reset_capture s else s)"
| "face_step (Face_selfie p) s =
     (if face_shown s \<and> fc_state s = Live \<and> \<not> fc_liveness s
      then capture_frame p (s\<lparr>fc_camera_error := None\<rparr>) else s)"
| "face_step (Face_begin d) s = (if face_shown s then begin_liveness_challenge d s else s)"
| "face_step Face_initial_timer s =
     (case fc_initial s of
        None \<Rightarrow> s
      | Some run_id \<Rightarrow>
          if fc_run s = run_id
          then s\<lparr>fc_initial := None,
                 fc_seconds := Some (whole_seconds (snd (challenge_steps (fc_direction s) ! fc_step s)))\<rparr>
          else s\<lparr>fc_initial := None\<rparr>)"
| "face_step (Face_tick elapsed) s = face_ticks elapsed s"
| "face_step (Face_capture_timer p) s =
     (if fc_capture_due s then capture_frame p (s\<lparr>fc_capture_due := False\<rparr>) else s)"
| "face_step (Face_blob r) s =
     (if fc_grabs s = [] then s else blob_answered r (s\<lparr>fc_grabs := tl (fc_grabs s)\<rparr>))"
| "face_step Face_retake s =
     (if face_shown s \<and> fc_state s = Preview \<and> \<not> fc_uploading s then retake_face s else s)"
| "face_step (Face_reopen_timer available) s =
     (if fc_reopens s = 0 then s else open_camera available (s\<lparr>fc_reopens := fc_reopens s - 1\<rparr>))"
| "face_step Face_use s =
     (if face_shown s \<and> fc_state s = Preview then upload_captured_face s else s)"
| "face_step (Face_uploaded r) s = face_upload_answered r s"
| "face_step (Face_value v) s = s\<lparr>fc_value := v\<rparr>"
| "face_step Face_replace s =
     (if fc_mounted s \<and> fc_value s \<noteq> None then s\<lparr>fc_error := None, fc_value := None\<rparr> else s)"
| "face_step Face_unmount s = unmount_face s"

section \<open>Liveness captures\<close>

text \<open>The first \<open>k\<close> steps, in order, each at least as long as it has to be.\<close>

definition steps_done :: "nat \<Rightarrow> (nat \<times> int) list \<Rightarrow> bool" where
  "steps_done k t \<longleftrightarrow> length t = k
     \<and> (\<forall>i < k. fst (t ! i) = i \<and> snd (challenge_steps Left_turn ! i) \<le> snd (t ! i))"

lemma length_challenge_steps [simp]: "length (challenge_steps d) = 3"
  by (simp add: challenge_steps_def)

lemma duration_any: "snd (challenge_steps d ! i) = snd (challenge_steps Left_turn ! i)"
  by (cases "i = 0"; cases "i = 1"; cases "i = 2"; simp add: challenge_steps_def nth_Cons')

named_theorems face_simps \<open>the card's variables after each operation\<close>

lemma challenge_effect_frame [face_simps]:
  "fc_liveness (challenge_effect s) = fc_liveness s"
  "fc_value (challenge_effect s) = fc_value s"
  "fc_mounted (challenge_effect s) = fc_mounted s"
  "fc_state (challenge_effect s) = fc_state s"
  "fc_uploading (challenge_effect s) = fc_uploading s"
  "fc_step (challenge_effect s) = fc_step s"
  "fc_trace (challenge_effect s) = fc_trace s"
  "fc_cam (challenge_effect s) = fc_cam s"
  "fc_opens (challenge_effect s) = fc_opens s"
  "fc_reopens (challenge_effect s) = fc_reopens s"
  "fc_grabs (challenge_effect s) = fc_grabs s"
  "fc_upload (challenge_effect s) = fc_upload s"
  "fc_direction (challenge_effect s) = fc_direction s"
  "fc_capture_due (challenge_effect s) \<longleftrightarrow> fc_state s = Challenge \<and> 3 \<le> fc_step s"
  "fc_tick (challenge_effect s) =
     (if fc_state s = Challenge \<and> fc_step s < 3 then Some (Suc (fc_run s)) else None)"
  "fc_initial (challenge_effect s) = fc_tick (challenge_effect s)"
  by (simp_all add: challenge_effect_def Let_def)

lemma stop_timer_frame [face_simps]:
  "fc_liveness (stop_challenge_timer s) = fc_liveness s"
  "fc_value (stop_challenge_timer s) = fc_value s"
  "fc_mounted (stop_challenge_timer s) = fc_mounted s"
  "fc_state (stop_challenge_timer s) = fc_state s"
  "fc_uploading (stop_challenge_timer s) = fc_uploading s"
  "fc_step (stop_challenge_timer s) = fc_step s"
  "fc_trace (stop_challenge_timer s) = fc_trace s"
  "fc_cam (stop_challenge_timer s) = fc_cam s"
  "fc_opens (stop_challenge_timer s) = fc_opens s"
  "fc_reopens (stop_challenge_timer s) = fc_reopens s"
  "fc_grabs (stop_challenge_timer s) = fc_grabs s"
  "fc_upload (stop_challenge_timer s) = fc_upload s"
  "fc_capture_due (stop_challenge_timer s) = fc_capture_due s"
  "fc_tick (stop_challenge_timer s) = None"
  by (simp_all add: stop_challenge_timer_def)

lemmas face_defs = reset_capture_def open_camera_def camera_answered_def capture_frame_def
  blob_answered_def face_ticks_def begin_liveness_challenge_def retake_face_def
  upload_captured_face_def face_upload_answered_def unmount_face_def

text \<open>What holds of the timers and the recorded captures in every run.\<close>

definition liveness_inv :: "face_card \<Rightarrow> bool" where
  "liveness_inv s \<longleftrightarrow>
     steps_done (fc_step s) (fc_trace s)
     \<and> (fc_tick s \<noteq> None \<longrightarrow> fc_step s < 3)
     \<and> (fc_capture_due s \<longrightarrow> 3 \<le> fc_step s)
     \<and> fc_step s \<le> 3
     \<and> (fc_liveness s \<longrightarrow> list_all (steps_done 3) (fc_grabs s))"

lemma steps_done_Nil [simp]: "steps_done 0 []"
  by (simp add: steps_done_def)

lemma steps_done_snoc:
  "steps_done k t \<Longrightarrow> snd (challenge_steps Left_turn ! k) \<le> e \<Longrightarrow> steps_done (Suc k) (t @ [(k, e)])"
  by (auto simp: steps_done_def nth_append less_Suc_eq)

lemma liveness_tick: "liveness_inv s \<Longrightarrow> liveness_inv (face_ticks elapsed s)"
  by (cases "fc_tick s")
    (auto simp: face_ticks_def liveness_inv_def face_simps duration_any [of "fc_direction s"] Let_def
      intro!: steps_done_snoc)

lemma liveness_grab:
  "liveness_inv s \<Longrightarrow> (fc_liveness s \<Longrightarrow> fc_step s = 3) \<Longrightarrow> liveness_inv (capture_frame p s)"
  by (cases p) (auto simp: liveness_inv_def capture_frame_def)

lemma liveness_reset: "liveness_inv s \<Longrightarrow> liveness_inv (reset_capture s)"
  by (simp add: liveness_inv_def reset_capture_def face_simps Let_def)

lemma liveness_open: "liveness_inv s \<Longrightarrow> liveness_inv (open_camera a s)"
  by (simp add: liveness_inv_def open_camera_def face_simps Let_def)

lemma liveness_blob:
  "liveness_inv s \<Longrightarrow> fc_grabs s \<noteq> [] \<Longrightarrow> liveness_inv (blob_answered r (s\<lparr>fc_grabs := tl (fc_grabs s)\<rparr>))"
  by (cases "fc_grabs s")
    (auto simp: liveness_inv_def blob_answered_def face_simps Let_def split: option.split prod.split)

lemma liveness_step: "liveness_inv s \<Longrightarrow> liveness_inv (face_step e s)"
proof (cases e)
  case (Face_capture_timer p)
  assume h: "liveness_inv s"
  show ?thesis
  proof (cases "fc_capture_due s")
    case True
    with h have "fc_step s = 3" by (auto simp: liveness_inv_def)
    moreover from h have "liveness_inv (s\<lparr>fc_capture_due := False\<rparr>)" by (simp add: liveness_inv_def)
    ultimately show ?thesis using Face_capture_timer True by (simp add: liveness_grab)
  next
    case False
    with h Face_capture_timer show ?thesis by simp
  qed
next
  case (Face_selfie p)
  assume h: "liveness_inv s"
  then have "liveness_inv (s\<lparr>fc_camera_error := None\<rparr>)" by (simp add: liveness_inv_def)
  with h Face_selfie show ?thesis by (auto intro: liveness_grab)
next
  case (Face_camera r)
  assume h: "liveness_inv s"
  with Face_camera show ?thesis
    by (cases r) (auto simp: liveness_inv_def camera_answered_def face_simps)
next
  case (Face_reopen_timer a)
  assume h: "liveness_inv s"
  then have "liveness_inv (s\<lparr>fc_reopens := fc_reopens s - 1\<rparr>)" by (simp add: liveness_inv_def)
  with h Face_reopen_timer show ?thesis by (simp add: liveness_open)
next
  case (Face_uploaded r)
  assume h: "liveness_inv s"
  have "liveness_inv (s\<lparr>fc_value := v, fc_upload := u\<rparr>)" for v u
    using h by (simp add: liveness_inv_def)
  then have "liveness_inv ((reset_capture (s\<lparr>fc_value := v, fc_upload := u\<rparr>))\<lparr>fc_uploading := False\<rparr>)" for v u
    using liveness_reset [of "s\<lparr>fc_value := v, fc_upload := u\<rparr>"] by (simp add: liveness_inv_def)
  with h Face_uploaded show ?thesis
    by (cases r) (auto simp: face_upload_answered_def liveness_inv_def split: option.split)
next
  case Face_initial_timer
  assume "liveness_inv s"
  with Face_initial_timer show ?thesis by (auto simp: liveness_inv_def split: option.split)
qed (auto simp: liveness_tick liveness_reset liveness_open liveness_blob,
     auto simp: liveness_inv_def begin_liveness_challenge_def retake_face_def unmount_face_def
       upload_captured_face_def face_simps Let_def split: option.split)

section \<open>The camera in orderly runs\<close>

definition face_live :: "face_card \<Rightarrow> bool" where
  "face_live s \<longleftrightarrow> face_shown s \<and> fc_state s \<in> {Live, Challenge}"

definition face_idle :: "face_card \<Rightarrow> bool" where
  "face_idle s \<longleftrightarrow> fc_opens s = 0 \<and> fc_reopens s = 0 \<and> fc_grabs s = []"

text \<open>
  No overlap: the card is opened, closed and unmounted while no camera is being opened and no frame
  is being taken, a frame is taken while no other is, and the parent sets a value (the phone's
  evidence) only while the camera is off.
\<close>

definition face_orderly :: "face_event \<Rightarrow> face_card \<Rightarrow> bool" where
  "face_orderly e s \<longleftrightarrow>
     (case e of
        Face_open _ \<Rightarrow> face_idle s
      | Face_close \<Rightarrow> face_idle s
      | Face_unmount \<Rightarrow> face_idle s
      | Face_selfie _ \<Rightarrow> face_idle s
      | Face_begin _ \<Rightarrow> face_idle s
      | Face_capture_timer _ \<Rightarrow> face_idle s
      | Face_value v \<Rightarrow> v = None \<or> face_idle s \<and> fc_state s \<in> {Closed, Preview}
      | _ \<Rightarrow> True)"

definition face_inv :: "face_card \<Rightarrow> bool" where
  "face_inv s \<longleftrightarrow>
     tidy (fc_cam s)
     \<and> (cam_stream (fc_cam s) \<noteq> None \<longrightarrow> face_live s)
     \<and> (cam_url (fc_cam s) \<noteq> None \<longrightarrow> fc_state s = Preview)
     \<and> (fc_opens s \<noteq> 0 \<longrightarrow> fc_opens s = 1 \<and> fc_reopens s = 0 \<and> fc_grabs s = []
          \<and> fc_state s = Starting \<and> face_shown s)
     \<and> (fc_reopens s \<noteq> 0 \<longrightarrow> fc_reopens s = 1 \<and> fc_grabs s = [] \<and> fc_state s = Closed \<and> face_shown s)
     \<and> (fc_grabs s \<noteq> [] \<longrightarrow> length (fc_grabs s) = 1 \<and> fc_state s \<in> {Live, Challenge})
     \<and> (fc_upload s \<noteq> None \<longrightarrow> fc_uploading s \<and> fc_state s = Preview)
     \<and> (fc_uploading s \<longrightarrow> fc_upload s \<noteq> None)
     \<and> (fc_capture_due s \<longrightarrow> fc_state s = Challenge)"

lemma face_shown_frame [face_simps]:
  "face_shown (challenge_effect s) = face_shown s"
  "face_shown (stop_challenge_timer s) = face_shown s"
  by (simp_all add: face_shown_def face_simps)

lemma camera_step_inv:
  "face_inv s \<Longrightarrow> fc_opens s \<noteq> 0 \<Longrightarrow> face_inv (camera_answered r (s\<lparr>fc_opens := fc_opens s - 1\<rparr>))"
  by (cases r)
    (auto simp: face_inv_def camera_answered_def face_simps camera_simps face_live_def face_shown_def)

lemma open_inv:
  "face_inv s \<Longrightarrow> face_idle s \<Longrightarrow> face_shown s \<Longrightarrow> fc_state s = Closed \<Longrightarrow> face_inv (open_camera a s)"
  by (auto simp: face_inv_def open_camera_def face_simps camera_simps face_live_def face_shown_def
      face_idle_def Let_def)

lemma blob_inv:
  "face_inv s \<Longrightarrow> fc_grabs s \<noteq> [] \<Longrightarrow> face_inv (blob_answered r (s\<lparr>fc_grabs := tl (fc_grabs s)\<rparr>))"
proof -
  assume h: "face_inv s" "fc_grabs s \<noteq> []"
  obtain g gs where "fc_grabs s = g # gs" using h(2) by (cases "fc_grabs s") auto
  with h have z: "fc_opens s = 0" "fc_reopens s = 0" "tl (fc_grabs s) = []" "fc_upload s = None"
    "\<not> fc_uploading s"
    by (auto simp: face_inv_def)
  have t: "tidy (fc_cam s)" using h by (simp add: face_inv_def)
  show ?thesis
  proof (cases r)
    case None
    with h z show ?thesis
      by (simp add: face_inv_def blob_answered_def face_live_def face_shown_def)
  next
    case (Some x)
    obtain url iso_time bytes where "x = (url, iso_time, bytes)" by (cases x)
    with Some z t show ?thesis
      by (simp add: face_inv_def blob_answered_def face_simps camera_simps Let_def)
  qed
qed

lemma reset_inv:
  "face_inv s \<Longrightarrow> face_idle s \<Longrightarrow> fc_upload s = None \<Longrightarrow> face_inv (reset_capture s)"
  by (auto simp: face_inv_def reset_capture_def face_simps camera_simps face_idle_def Let_def)

lemma grab_inv:
  "face_inv s \<Longrightarrow> face_idle s \<Longrightarrow> fc_state s \<in> {Live, Challenge} \<Longrightarrow> face_inv (capture_frame p s)"
  by (cases p)
    (auto simp: face_inv_def capture_frame_def face_idle_def face_live_def face_shown_def)

text \<open>An upload is answered while the preview is shown, so nothing else is under way.\<close>

lemma uploaded_inv: "face_inv s \<Longrightarrow> face_inv (face_upload_answered r s)"
proof (cases "fc_upload s")
  case None
  assume "face_inv s"
  with None show ?thesis by (simp add: face_upload_answered_def)
next
  case (Some u)
  assume h: "face_inv s"
  with Some have idle: "face_idle s" "fc_state s = Preview" "cam_stream (fc_cam s) = None"
    by (auto simp: face_inv_def face_idle_def face_live_def)
  show ?thesis
  proof (cases r)
    case (Inl e)
    with h Some show ?thesis
      by (auto simp: face_upload_answered_def face_inv_def face_live_def face_shown_def)
  next
    case (Inr er)
    with h Some idle show ?thesis
      by (auto simp: face_upload_answered_def face_inv_def face_idle_def reset_capture_def face_simps
          camera_simps Let_def)
  qed
qed

lemma face_step_inv: "face_inv s \<Longrightarrow> face_orderly e s \<Longrightarrow> face_inv (face_step e s)"
proof (cases e)
  case (Face_camera r)
  assume "face_inv s"
  with Face_camera show ?thesis using camera_step_inv [of s r] by auto
next
  case (Face_open a)
  assume "face_inv s" "face_orderly e s"
  with Face_open show ?thesis by (simp add: open_inv face_orderly_def)
next
  case Face_close
  assume h: "face_inv s" "face_orderly e s"
  then have "\<not> fc_uploading s \<Longrightarrow> fc_upload s = None" by (cases "fc_upload s") (auto simp: face_inv_def)
  with h Face_close show ?thesis using reset_inv [of s] by (simp add: face_orderly_def)
next
  case (Face_blob r)
  assume "face_inv s"
  with Face_blob show ?thesis by (simp add: blob_inv)
next
  case (Face_selfie p)
  assume h: "face_inv s" "face_orderly e s"
  then have "face_inv (s\<lparr>fc_camera_error := None\<rparr>)" by (simp add: face_inv_def face_live_def face_shown_def)
  with h Face_selfie show ?thesis by (auto simp: face_orderly_def face_idle_def intro!: grab_inv)
next
  case (Face_reopen_timer a)
  assume h: "face_inv s"
  show ?thesis
  proof (cases "fc_reopens s = 0")
    case True
    with h Face_reopen_timer show ?thesis by simp
  next
    case False
    with h have z: "fc_reopens s = 1" "fc_grabs s = []" "fc_state s = Closed" "face_shown s"
      "fc_opens s = 0"
      by (auto simp: face_inv_def)
    let ?s = "s\<lparr>fc_reopens := 0\<rparr>"
    have "face_inv ?s" using h z by (auto simp: face_inv_def face_live_def face_shown_def)
    moreover have "face_idle ?s" "face_shown ?s" "fc_state ?s = Closed"
      using z by (simp_all add: face_idle_def face_shown_def)
    ultimately have "face_inv (open_camera a ?s)" by (rule open_inv)
    with z Face_reopen_timer show ?thesis by simp
  qed
next
  case (Face_capture_timer p)
  assume h: "face_inv s" "face_orderly e s"
  then have "face_inv (s\<lparr>fc_capture_due := False\<rparr>)" by (simp add: face_inv_def face_live_def face_shown_def)
  moreover have "face_idle (s\<lparr>fc_capture_due := False\<rparr>)"
    using h Face_capture_timer by (simp add: face_orderly_def face_idle_def)
  moreover have "fc_capture_due s \<Longrightarrow> fc_state (s\<lparr>fc_capture_due := False\<rparr>) \<in> {Live, Challenge}"
    using h by (simp add: face_inv_def)
  ultimately show ?thesis
    using h Face_capture_timer grab_inv [of "s\<lparr>fc_capture_due := False\<rparr>" p] by simp
next
  case (Face_uploaded r)
  assume "face_inv s"
  with Face_uploaded show ?thesis by (simp add: uploaded_inv)
next
  case (Face_tick elapsed)
  assume "face_inv s"
  with Face_tick show ?thesis
    by (cases "fc_tick s")
      (auto simp: face_ticks_def face_inv_def face_simps face_live_def face_shown_def Let_def)
next
  case (Face_begin d)
  assume "face_inv s" "face_orderly e s"
  with Face_begin show ?thesis
    by (auto simp: begin_liveness_challenge_def face_inv_def face_simps face_live_def face_shown_def
        face_orderly_def face_idle_def)
next
  case Face_retake
  assume "face_inv s"
  with Face_retake show ?thesis
    by (auto simp: retake_face_def face_inv_def face_simps face_live_def face_shown_def camera_simps Let_def)
next
  case Face_use
  assume h: "face_inv s"
  have "face_inv (s\<lparr>fc_uploading := True, fc_error := None, fc_upload := Some f\<rparr>)"
    if "fc_state s = Preview" for f
    using h that by (simp add: face_inv_def face_live_def face_shown_def)
  with h Face_use show ?thesis by (simp add: upload_captured_face_def split: option.split)
next
  case (Face_value v)
  assume h: "face_inv s" "face_orderly e s"
  show ?thesis
  proof (cases v)
    case None
    have "face_shown s \<Longrightarrow> face_shown (s\<lparr>fc_value := None\<rparr>)"
      "face_live s \<Longrightarrow> face_live (s\<lparr>fc_value := None\<rparr>)"
      by (simp_all add: face_live_def face_shown_def)
    with h(1) Face_value None show ?thesis by (simp add: face_inv_def)
  next
    case (Some x)
    with h Face_value have idle: "face_idle s" "fc_state s = Closed \<or> fc_state s = Preview"
      by (auto simp: face_orderly_def)
    with h(1) have "cam_stream (fc_cam s) = None" by (auto simp: face_inv_def face_live_def)
    with h(1) idle Face_value Some show ?thesis by (simp add: face_inv_def face_idle_def)
  qed
next
  case Face_unmount
  assume "face_inv s" "face_orderly e s"
  with Face_unmount show ?thesis
    by (simp add: unmount_face_def face_inv_def face_orderly_def face_idle_def face_simps camera_simps
        Let_def)
next
  case Face_replace
  assume h: "face_inv s"
  show ?thesis
  proof (cases "fc_mounted s \<and> fc_value s \<noteq> None")
    case True
    then have "\<not> face_shown s" "\<not> face_live s" by (auto simp: face_live_def face_shown_def)
    with h have "cam_stream (fc_cam s) = None" "fc_opens s = 0" "fc_reopens s = 0"
      by (auto simp: face_inv_def)
    with h True Face_replace show ?thesis by (simp add: face_inv_def)
  next
    case False
    with h Face_replace show ?thesis by auto
  qed
next
  case Face_play_failed
  assume "face_inv s"
  with Face_play_failed show ?thesis by (simp add: face_inv_def face_live_def face_shown_def)
next
  case Face_initial_timer
  assume "face_inv s"
  with Face_initial_timer show ?thesis
    by (simp add: face_inv_def face_live_def face_shown_def split: option.split)
qed

interpretation face: camera_card face_step fc_cam face_live face_orderly face_inv
proof
  show "face_inv s \<Longrightarrow> face_orderly e s \<Longrightarrow> face_inv (face_step e s)" for e s
    by (rule face_step_inv)
  show "face_inv s \<Longrightarrow> tidy (fc_cam s)" for s by (simp add: face_inv_def)
  show "face_inv s \<Longrightarrow> \<not> face_live s \<Longrightarrow> cam_stream (fc_cam s) = None" for s
    by (auto simp: face_inv_def)
qed

section \<open>Properties\<close>

lemma liveness_run: "liveness_inv (fold face_step es (face_card_new l))"
proof -
  have "liveness_inv (face_card_new l)" by (simp add: liveness_inv_def face_card_new_def)
  moreover have "liveness_inv (fold face_step es s)" if "liveness_inv s" for s
    using that by (induction es arbitrary: s) (simp_all add: liveness_step)
  ultimately show ?thesis by blast
qed

lemma fc_liveness_step: "fc_liveness (face_step e s) = fc_liveness s"
proof (cases e)
  case (Face_camera r)
  then show ?thesis by (cases r) (simp_all add: camera_answered_def face_simps)
next
  case (Face_selfie p)
  then show ?thesis by (cases p) (simp_all add: capture_frame_def)
next
  case (Face_capture_timer p)
  then show ?thesis by (cases p) (simp_all add: capture_frame_def)
next
  case (Face_blob r)
  then show ?thesis by (simp add: blob_answered_def face_simps Let_def split: option.split prod.split)
next
  case (Face_uploaded r)
  then show ?thesis
    by (simp add: face_upload_answered_def reset_capture_def face_simps Let_def split: option.split sum.split)
next
  case (Face_tick t)
  then show ?thesis by (simp add: face_ticks_def face_simps Let_def split: option.split)
qed (simp_all add: face_defs face_simps Let_def split: option.split)

lemma fc_liveness_run: "fc_liveness (fold face_step es s) = fc_liveness s"
  by (induction es arbitrary: s) (simp_all add: fc_liveness_step)

text \<open>C9: whatever the order of clicks, timers and answers, a liveness card takes a picture only at
  the end of a challenge whose three steps were completed in order, each for at least its duration.\<close>

theorem liveness_needs_challenge:
  "list_all (steps_done 3) (fc_grabs (fold face_step es (face_card_new True)))"
proof -
  have "fc_liveness (fold face_step es (face_card_new True))"
    by (simp add: fc_liveness_run face_card_new_def)
  then show ?thesis using liveness_run [of es True] by (simp add: liveness_inv_def)
qed


end
