(* ===== verification/Evidence_Upload.thy ===== *)
theory Evidence_Upload
  imports Camera Api_Client
begin

text \<open>
  The document card of components/verification/evidence-upload-card.tsx: choosing a file or taking
  a picture, the client-side checks of \<open>handleFile\<close>, the upload and the preview. The state machine
  follows the same conventions as Face_Capture; a stream and an object URL are numbers the browser
  hands out.
\<close>

section \<open>Files\<close>

definition accepted_file_types :: "string list" where
  "accepted_file_types = [''image/jpeg'', ''image/png'', ''image/webp'', ''application/pdf'']"

definition max_client_file_size_bytes :: int where
  "max_client_file_size_bytes = 15 * 1024 * 1024"

definition build_camera_filename :: "evidence_type \<Rightarrow> string \<Rightarrow> string" where
  "build_camera_filename t iso_time = evidence_name t @ ''-'' @ name_timestamp iso_time @ ''.png''"

definition document_camera_error :: "js_error \<Rightarrow> string" where
  "document_camera_error e =
     (case e of
        DomError name _ \<Rightarrow>
          if name \<in> {''NotAllowedError'', ''PermissionDeniedError''} then
            ''Camera permission was denied. Allow camera access in your browser settings or use Upload from device.''
          else if name \<in> {''NotFoundError'', ''DevicesNotFoundError''} then
            ''No camera was found on this device. Use Upload from device instead.''
          else if name \<in> {''NotReadableError'', ''TrackStartError''} then
            ''The camera is already in use or could not be started. Close other camera apps and try again.''
          else if name = ''OverconstrainedError'' then
            ''The preferred camera is unavailable. Try again or use Upload from device.''
          else if name = ''SecurityError'' then ''Camera access is blocked by the browser security policy.''
          else if name = ''AbortError'' then ''Camera startup was interrupted. Try again.''
          else ''The camera could not be started. Check browser permission and try again, or use Upload from device.''
      | _ \<Rightarrow> ''The camera could not be started. Check browser permission and try again, or use Upload from device.'')"

text \<open>The rear camera is asked for first; whatever the refusal, any camera is asked for next.\<close>

definition acquire_document_camera :: "js_error + nat \<Rightarrow> js_error + nat \<Rightarrow> js_error + nat" where
  "acquire_document_camera rear any = (case rear of Inr s \<Rightarrow> Inr s | Inl _ \<Rightarrow> any)"

definition native_camera_capture :: "bool \<Rightarrow> nat \<Rightarrow> bool \<Rightarrow> bool" where
  "native_camera_capture in_browser touch_points coarse \<longleftrightarrow> in_browser \<and> touch_points > 0 \<and> coarse"

text \<open>
  \<open>x.toFixed(1)\<close> for \<open>x = n / d\<close> with \<open>d\<close> a power of two, which the quotients here are exactly:
  the nearest tenth, the larger one on a tie.
\<close>

definition to_fixed_1 :: "nat \<Rightarrow> nat \<Rightarrow> string" where
  "to_fixed_1 n d =
     (let tenths = (20 * n + d) div (2 * d)
      in show_nat (tenths div 10) @ ''.'' @ show_nat (tenths mod 10))"

definition format_file_size :: "int \<Rightarrow> string" where
  "format_file_size bytes =
     (if bytes \<le> 0 then ''Uploaded''
      else if bytes < 1024 then show_int bytes @ '' B''
      else if bytes < 1024 * 1024 then to_fixed_1 (nat bytes) 1024 @ '' KB''
      else to_fixed_1 (nat bytes) (1024 * 1024) @ '' MB'')"

section \<open>State\<close>

datatype document_state = Doc_closed | Doc_starting | Doc_live | Doc_preview

text \<open>\<open>dc_uploads\<close> are the files whose upload is under way, with whether each came from the preview;
  \<open>dc_sent\<close> all files ever handed to \<open>uploadEvidence\<close>.\<close>

record document_card =
  dc_type :: evidence_type
  dc_value :: "uploaded_evidence option"
  dc_mounted :: bool
  dc_state :: document_state
  dc_uploading :: bool
  dc_error :: "string option"
  dc_camera_error :: "string option"
  dc_cam :: camera
  dc_opens :: nat
  dc_grabs :: nat
  dc_uploads :: "(js_file \<times> bool) list"
  dc_sent :: "js_file list"

definition document_card_new :: "evidence_type \<Rightarrow> document_card" where
  "document_card_new t =
     \<lparr>dc_type = t, dc_value = None, dc_mounted = True, dc_state = Doc_closed, dc_uploading = False,
      dc_error = None, dc_camera_error = None, dc_cam = no_camera, dc_opens = 0, dc_grabs = 0,
      dc_uploads = [], dc_sent = []\<rparr>"

definition is_document :: "document_card \<Rightarrow> bool" where
  "is_document s \<longleftrightarrow> dc_type s = Document_front \<or> dc_type s = Document_back"

definition close_camera :: "document_card \<Rightarrow> document_card" where
  "close_camera s =
     s\<lparr>dc_cam := clear_preview (stop_camera (dc_cam s)), dc_camera_error := None,
       dc_state := Doc_closed\<rparr>"

text \<open>\<open>handleFile\<close> up to its await.\<close>

definition handle_file :: "js_file \<Rightarrow> bool \<Rightarrow> document_card \<Rightarrow> document_card" where
  "handle_file f from_preview s =
     (let s1 = s\<lparr>dc_error := None\<rparr>
      in if file_type f \<notin> set accepted_file_types then
           s1\<lparr>dc_error := Some ''Unsupported file type. Use JPEG, PNG, WebP or PDF.''\<rparr>
         else if file_size f \<le> 0 then s1\<lparr>dc_error := Some ''The selected file is empty.''\<rparr>
         else if file_size f > max_client_file_size_bytes then
           s1\<lparr>dc_error := Some ''The selected file is too large. Choose a file smaller than 15 MB.''\<rparr>
         else s1\<lparr>dc_uploading := True, dc_uploads := dc_uploads s1 @ [(f, from_preview)],
                dc_sent := dc_sent s1 @ [f]\<rparr>)"

text \<open>Its continuation, with the \<open>closeCamera\<close> of \<open>uploadCapturedPhoto\<close> after a success.\<close>

definition file_answered ::
  "js_file \<Rightarrow> bool \<Rightarrow> js_error + evidence_response \<Rightarrow> document_card \<Rightarrow> document_card" where
  "file_answered f from_preview r s =
     (case r of
        Inr er \<Rightarrow>
          (let s1 = s\<lparr>dc_value := Some (uploaded_from f er), dc_uploading := False\<rparr>
           in if from_preview then close_camera s1 else s1)
      | Inl e \<Rightarrow>
          s\<lparr>dc_error := Some (cause_message_or e
               ''Upload failed. Check the file type and size, then try again.''),
            dc_uploading := False\<rparr>)"

definition open_document_camera :: "bool \<Rightarrow> document_card \<Rightarrow> document_card" where
  "open_document_camera available s =
     (if dc_uploading s \<or> \<not> is_document s then s
      else
        let s1 = s\<lparr>dc_error := None, dc_camera_error := None,
                   dc_cam := stop_camera (clear_preview (dc_cam s))\<rparr>
        in if \<not> available then
             s1\<lparr>dc_camera_error := Some
                  ''Live camera capture is not available in this browser. Use Upload from device instead.'',
                dc_state := Doc_closed\<rparr>
           else s1\<lparr>dc_state := Doc_starting, dc_opens := Suc (dc_opens s1)\<rparr>)"

definition document_camera_answered :: "js_error + nat \<Rightarrow> document_card \<Rightarrow> document_card" where
  "document_camera_answered r s =
     (case r of
        Inr stream \<Rightarrow> s\<lparr>dc_cam := attach_stream stream (dc_cam s), dc_state := Doc_live\<rparr>
      | Inl e \<Rightarrow> s\<lparr>dc_cam := stop_camera (dc_cam s), dc_state := Doc_closed,
                  dc_camera_error := Some (document_camera_error e)\<rparr>)"

datatype photo_probe = Photo_no_video | Photo_not_ready | Photo_no_context | Photo_drawn

definition capture_photo :: "photo_probe \<Rightarrow> document_card \<Rightarrow> document_card" where
  "capture_photo p s =
     (if dc_state s \<noteq> Doc_live then s
      else case p of
        Photo_no_video \<Rightarrow> s
      | Photo_not_ready \<Rightarrow>
          s\<lparr>dc_camera_error := Some ''The camera is still preparing. Wait a moment and capture again.''\<rparr>
      | Photo_no_context \<Rightarrow>
          s\<lparr>dc_camera_error := Some ''Unable to prepare the captured image. Try again.''\<rparr>
      | Photo_drawn \<Rightarrow> s\<lparr>dc_camera_error := None, dc_grabs := Suc (dc_grabs s)\<rparr>)"

definition photo_answered :: "(nat \<times> string \<times> int) option \<Rightarrow> document_card \<Rightarrow> document_card" where
  "photo_answered r s =
     (case r of
        None \<Rightarrow> s\<lparr>dc_camera_error := Some ''Unable to capture the photo. Try again.''\<rparr>
      | Some (url, iso_time, bytes) \<Rightarrow>
          let f = \<lparr>file_name = replace_extension ''.png'' (build_camera_filename (dc_type s) iso_time),
                   file_type = ''image/png'', file_size = bytes\<rparr>
          in s\<lparr>dc_cam := stop_camera (show_file url f (clear_preview (dc_cam s))),
               dc_state := Doc_preview\<rparr>)"

section \<open>Events\<close>

datatype document_event =
    Doc_camera_button bool bool  \<comment> \<open>native capture; \<open>getUserMedia\<close> exists\<close>
  | Doc_camera "js_error + nat"
  | Doc_play_failed
  | Doc_close
  | Doc_capture photo_probe
  | Doc_photo "(nat \<times> string \<times> int) option"
  | Doc_retake bool
  | Doc_use
  | Doc_choose  \<comment> \<open>the button that opens the file picker\<close>
  | Doc_pick js_file  \<comment> \<open>a file chosen in the picker\<close>
  | Doc_uploaded nat "js_error + evidence_response"
  | Doc_value "uploaded_evidence option"
  | Doc_replace
  | Doc_unmount

definition doc_shown :: "document_card \<Rightarrow> bool" where
  "doc_shown s \<longleftrightarrow> dc_mounted s \<and> dc_value s = None"

fun document_step :: "document_event \<Rightarrow> document_card \<Rightarrow> document_card" where
  "document_step (Doc_camera_button native available) s =
     (if doc_shown s \<and> is_document s \<and> \<not> dc_uploading s \<and> dc_state s \<noteq> Doc_starting
      then if native
           then s\<lparr>dc_error := None, dc_camera_error := None, dc_cam := stop_camera (clear_preview (dc_cam s))\<rparr>
           else open_document_camera available s
      else s)"
| "document_step (Doc_camera r) s =
     (if dc_opens s = 0 then s else document_camera_answered r (s\<lparr>dc_opens := dc_opens s - 1\<rparr>))"
| "document_step Doc_play_failed s =
     s\<lparr>dc_camera_error := Some
         ''The camera started, but the live preview could not play. Close the camera and try again.''\<rparr>"
| "document_step Doc_close s =
     (if doc_shown s \<and> dc_state s \<noteq> Doc_closed then close_camera s else s)"
| "document_step (Doc_capture p) s = (if doc_shown s then capture_photo p s else s)"
| "document_step (Doc_photo r) s =
     (if dc_grabs s = 0 then s else photo_answered r (s\<lparr>dc_grabs := dc_grabs s - 1\<rparr>))"
| "document_step (Doc_retake available) s =
     (if doc_shown s \<and> dc_state s = Doc_preview \<and> \<not> dc_uploading s
      then open_document_camera available
             (s\<lparr>dc_cam := clear_preview (dc_cam s), dc_camera_error := None, dc_state := Doc_closed\<rparr>)
      else s)"
| "document_step Doc_use s =
     (if doc_shown s \<and> dc_state s = Doc_preview \<and> \<not> dc_uploading s
      then (case cam_file (dc_cam s) of None \<Rightarrow> s | Some f \<Rightarrow> handle_file f True s)
      else s)"
| "document_step Doc_choose s = (if doc_shown s \<and> \<not> dc_uploading s then s\<lparr>dc_error := None\<rparr> else s)"
| "document_step (Doc_pick f) s = (if doc_shown s then handle_file f False s else s)"
| "document_step (Doc_uploaded k r) s =
     (if k < length (dc_uploads s)
      then (case dc_uploads s ! k of
              (f, from_preview) \<Rightarrow>
                file_answered f from_preview r
                  (s\<lparr>dc_uploads := take k (dc_uploads s) @ drop (Suc k) (dc_uploads s)\<rparr>))
      else s)"
| "document_step (Doc_value v) s = s\<lparr>dc_value := v\<rparr>"
| "document_step Doc_replace s =
     (if dc_mounted s \<and> dc_value s \<noteq> None then s\<lparr>dc_error := None, dc_value := None\<rparr> else s)"
| "document_step Doc_unmount s =
     s\<lparr>dc_cam := clear_preview (stop_camera (dc_cam s)), dc_mounted := False\<rparr>"

section \<open>What is uploaded\<close>

definition file_accepted :: "js_file \<Rightarrow> bool" where
  "file_accepted f \<longleftrightarrow>
     file_type f \<in> set accepted_file_types \<and> 0 < file_size f \<and> file_size f \<le> max_client_file_size_bytes"

lemma handle_file_sent:
  "dc_sent (handle_file f b s) = dc_sent s @ (if file_accepted f then [f] else [])"
  by (auto simp: handle_file_def Let_def file_accepted_def)

lemma document_step_sent:
  "list_all file_accepted (dc_sent s) \<Longrightarrow> list_all file_accepted (dc_sent (document_step e s))"
proof (cases e)
  case (Doc_capture p)
  assume "list_all file_accepted (dc_sent s)"
  with Doc_capture show ?thesis by (cases p) (simp_all add: capture_photo_def)
qed (auto simp: handle_file_sent open_document_camera_def document_camera_answered_def close_camera_def
    photo_answered_def file_answered_def Let_def split: option.split sum.split prod.split)

section \<open>The camera in orderly runs\<close>

definition document_live :: "document_card \<Rightarrow> bool" where
  "document_live s \<longleftrightarrow> doc_shown s \<and> dc_state s = Doc_live"

definition document_idle :: "document_card \<Rightarrow> bool" where
  "document_idle s \<longleftrightarrow> dc_opens s = 0 \<and> dc_grabs s = 0"

definition document_orderly :: "document_event \<Rightarrow> document_card \<Rightarrow> bool" where
  "document_orderly e s \<longleftrightarrow>
     (case e of
        Doc_camera_button _ _ \<Rightarrow> document_idle s
      | Doc_close \<Rightarrow> document_idle s
      | Doc_unmount \<Rightarrow> document_idle s
      | Doc_capture _ \<Rightarrow> document_idle s
      | Doc_pick _ \<Rightarrow> document_idle s \<and> dc_state s = Doc_closed \<and> \<not> dc_uploading s
      | Doc_value v \<Rightarrow> v = None \<or> document_idle s \<and> dc_state s \<in> {Doc_closed, Doc_preview}
      | _ \<Rightarrow> True)"

definition document_inv :: "document_card \<Rightarrow> bool" where
  "document_inv s \<longleftrightarrow>
     tidy (dc_cam s)
     \<and> (cam_stream (dc_cam s) \<noteq> None \<longrightarrow> document_live s)
     \<and> (cam_url (dc_cam s) \<noteq> None \<longrightarrow> dc_state s = Doc_preview)
     \<and> (dc_opens s \<noteq> 0 \<longrightarrow> dc_opens s = 1 \<and> dc_grabs s = 0 \<and> dc_state s = Doc_starting \<and> doc_shown s)
     \<and> (dc_grabs s \<noteq> 0 \<longrightarrow> dc_grabs s = 1 \<and> dc_state s = Doc_live)
     \<and> (dc_uploads s \<noteq> [] \<longrightarrow> length (dc_uploads s) = 1 \<and> dc_state s \<in> {Doc_closed, Doc_preview})
     \<and> (dc_uploading s \<longleftrightarrow> dc_uploads s \<noteq> [])"

lemma doc_open_inv:
  "document_inv s \<Longrightarrow> document_idle s \<Longrightarrow> doc_shown s \<Longrightarrow> document_inv (open_document_camera a s)"
  by (simp add: document_inv_def open_document_camera_def document_idle_def doc_shown_def camera_simps Let_def)

lemma doc_close_inv: "document_inv s \<Longrightarrow> document_idle s \<Longrightarrow> document_inv (close_camera s)"
  by (auto simp: document_inv_def close_camera_def document_idle_def camera_simps)

lemma doc_file_inv:
  "document_inv s \<Longrightarrow> document_idle s \<Longrightarrow> \<not> dc_uploading s \<Longrightarrow> dc_state s \<in> {Doc_closed, Doc_preview}
     \<Longrightarrow> document_inv (handle_file f b s)"
  by (auto simp: document_inv_def handle_file_def document_idle_def document_live_def doc_shown_def Let_def)

lemma doc_camera_inv:
  "document_inv s \<Longrightarrow> dc_opens s \<noteq> 0 \<Longrightarrow> document_inv (document_camera_answered r (s\<lparr>dc_opens := dc_opens s - 1\<rparr>))"
  by (cases r)
    (auto simp: document_inv_def document_camera_answered_def camera_simps document_live_def doc_shown_def)

lemma doc_photo_inv:
  "document_inv s \<Longrightarrow> dc_grabs s \<noteq> 0 \<Longrightarrow> document_inv (photo_answered r (s\<lparr>dc_grabs := dc_grabs s - 1\<rparr>))"
proof -
  assume h: "document_inv s" "dc_grabs s \<noteq> 0"
  then have z: "dc_opens s = 0" "dc_grabs s = 1" "dc_uploads s = []" "\<not> dc_uploading s" "tidy (dc_cam s)"
    by (auto simp: document_inv_def)
  show ?thesis
  proof (cases r)
    case None
    with h z show ?thesis
      by (auto simp: document_inv_def photo_answered_def document_live_def doc_shown_def)
  next
    case (Some x)
    obtain url iso_time bytes where "x = (url, iso_time, bytes)" by (cases x)
    with Some z show ?thesis
      by (simp add: document_inv_def photo_answered_def camera_simps Let_def)
  qed
qed

lemma doc_answer_inv: "document_inv s \<Longrightarrow> document_inv (document_step (Doc_uploaded k r) s)"
proof (cases "k < length (dc_uploads s)")
  case False
  assume "document_inv s"
  with False show ?thesis by simp
next
  case True
  assume h: "document_inv s"
  with True have "length (dc_uploads s) = 1" by (auto simp: document_inv_def)
  with True obtain f b where u: "dc_uploads s = [(f, b)]" "k = 0"
    by (cases "dc_uploads s") auto
  with h have z: "dc_opens s = 0" "dc_grabs s = 0" "dc_state s \<in> {Doc_closed, Doc_preview}"
    "cam_stream (dc_cam s) = None" "tidy (dc_cam s)"
    "cam_url (dc_cam s) \<noteq> None \<Longrightarrow> dc_state s = Doc_preview"
    by (auto simp: document_inv_def document_live_def)
  show ?thesis
  proof (cases r)
    case (Inl e)
    with u z show ?thesis by (simp add: document_inv_def file_answered_def)
  next
    case (Inr er)
    with u z show ?thesis
      by (simp add: document_inv_def file_answered_def close_camera_def camera_simps Let_def)
  qed
qed

lemma document_step_inv:
  "document_inv s \<Longrightarrow> document_orderly e s \<Longrightarrow> document_inv (document_step e s)"
proof (cases e)
  case (Doc_camera_button native a)
  assume h: "document_inv s" "document_orderly e s"
  have "document_inv (s\<lparr>dc_error := None, dc_camera_error := None,
      dc_cam := stop_camera (clear_preview (dc_cam s))\<rparr>)"
    using h(1) by (simp add: document_inv_def camera_simps document_live_def doc_shown_def)
  with h Doc_camera_button show ?thesis by (auto simp: document_orderly_def intro: doc_open_inv)
next
  case (Doc_camera r)
  assume "document_inv s"
  with Doc_camera show ?thesis using doc_camera_inv [of s r] by auto
next
  case (Doc_photo r)
  assume "document_inv s"
  with Doc_photo show ?thesis using doc_photo_inv [of s r] by auto
next
  case Doc_close
  assume "document_inv s" "document_orderly e s"
  with Doc_close show ?thesis by (simp add: doc_close_inv document_orderly_def)
next
  case (Doc_capture p)
  assume "document_inv s" "document_orderly e s"
  with Doc_capture show ?thesis
    by (cases p) (auto simp: capture_photo_def document_inv_def document_orderly_def document_idle_def
        document_live_def doc_shown_def)
next
  case (Doc_retake a)
  assume h: "document_inv s" "document_orderly e s"
  let ?s = "s\<lparr>dc_cam := clear_preview (dc_cam s), dc_camera_error := None, dc_state := Doc_closed\<rparr>"
  show ?thesis
  proof (cases "doc_shown s \<and> dc_state s = Doc_preview \<and> \<not> dc_uploading s")
    case True
    with h have "document_inv ?s" "document_idle ?s" "doc_shown ?s"
      by (auto simp: document_inv_def document_idle_def camera_simps document_live_def doc_shown_def)
    with True Doc_retake show ?thesis by (simp add: doc_open_inv)
  next
    case False
    with h Doc_retake show ?thesis by auto
  qed
next
  case Doc_use
  assume h: "document_inv s"
  then have "dc_state s = Doc_preview \<Longrightarrow> document_idle s"
    by (auto simp: document_inv_def document_idle_def)
  with h Doc_use show ?thesis by (auto split: option.split intro!: doc_file_inv)
next
  case (Doc_pick f)
  assume "document_inv s" "document_orderly e s"
  with Doc_pick show ?thesis by (simp add: document_orderly_def doc_file_inv)
next
  case (Doc_uploaded k r)
  assume "document_inv s"
  with Doc_uploaded show ?thesis using doc_answer_inv by blast
next
  case (Doc_value v)
  assume h: "document_inv s" "document_orderly e s"
  show ?thesis
  proof (cases v)
    case None
    have "doc_shown s \<Longrightarrow> doc_shown (s\<lparr>dc_value := None\<rparr>)"
      "document_live s \<Longrightarrow> document_live (s\<lparr>dc_value := None\<rparr>)"
      by (simp_all add: document_live_def doc_shown_def)
    with h(1) Doc_value None show ?thesis by (simp add: document_inv_def)
  next
    case (Some x)
    with h Doc_value have idle: "document_idle s" "dc_state s = Doc_closed \<or> dc_state s = Doc_preview"
      by (auto simp: document_orderly_def)
    with h(1) have "cam_stream (dc_cam s) = None" by (auto simp: document_inv_def document_live_def)
    with h(1) idle Doc_value Some show ?thesis by (simp add: document_inv_def document_idle_def)
  qed
next
  case Doc_replace
  assume h: "document_inv s"
  show ?thesis
  proof (cases "dc_mounted s \<and> dc_value s \<noteq> None")
    case True
    then have "\<not> doc_shown s" "\<not> document_live s" by (auto simp: document_live_def doc_shown_def)
    with h have "cam_stream (dc_cam s) = None" "dc_opens s = 0" by (auto simp: document_inv_def)
    with h True Doc_replace show ?thesis by (simp add: document_inv_def)
  next
    case False
    with h Doc_replace show ?thesis by auto
  qed
next
  case Doc_choose
  assume "document_inv s"
  with Doc_choose show ?thesis by (simp add: document_inv_def document_live_def doc_shown_def)
next
  case Doc_play_failed
  assume "document_inv s"
  with Doc_play_failed show ?thesis by (simp add: document_inv_def document_live_def doc_shown_def)
next
  case Doc_unmount
  assume "document_inv s" "document_orderly e s"
  with Doc_unmount show ?thesis
    by (simp add: document_inv_def document_orderly_def document_idle_def camera_simps)
qed

interpretation document: camera_card document_step dc_cam document_live document_orderly document_inv
proof
  show "document_inv s \<Longrightarrow> document_orderly e s \<Longrightarrow> document_inv (document_step e s)" for e s
    by (rule document_step_inv)
  show "document_inv s \<Longrightarrow> tidy (dc_cam s)" for s by (simp add: document_inv_def)
  show "document_inv s \<Longrightarrow> \<not> document_live s \<Longrightarrow> cam_stream (dc_cam s) = None" for s
    by (auto simp: document_inv_def)
qed

section \<open>Properties\<close>

text \<open>In every run, every file handed to the upload has an accepted type and between 1 byte and
  15 MiB, whether it was picked or photographed.\<close>

theorem uploads_checked:
  "list_all file_accepted (dc_sent (fold document_step es (document_card_new t)))"
proof -
  have "list_all file_accepted (dc_sent s) \<Longrightarrow> list_all file_accepted (dc_sent (fold document_step es s))" for s
    by (induction es arbitrary: s) (simp_all add: document_step_sent del: document_step.simps)
  then show ?thesis by (simp add: document_card_new_def)
qed

text \<open>Without overlapping operations the document camera runs only while the card shows the live
  picture, and the only object URL kept is the preview's; but evidence that arrives from the phone
  while the picture is live hides the card with its camera on, and a card that is left while the
  browser asks for the camera leaves it running for good.\<close>

theorem document_camera_off:
  "(\<forall>es. let s = fold document_step es (document_card_new t) in
      if orderly_run document_step document_orderly es (document_card_new t)
      then (document_live s \<or> cam_running (dc_cam s) = [])
        \<and> set (cam_urls (dc_cam s)) = set_option (cam_url (dc_cam s)) else True)
   \<and> (let s = fold document_step
          [Doc_camera_button False True, Doc_camera (Inr 7), Doc_value (Some e)] (document_card_new Document_front)
      in \<not> document_live s \<and> cam_running (dc_cam s) = [7])
   \<and> (let s = fold document_step
          [Doc_camera_button False True, Doc_unmount, Doc_camera (Inr 7)] (document_card_new Document_front)
      in \<not> dc_mounted s \<and> cam_running (dc_cam s) = [7])"
proof (intro conjI allI)
  have inv: "document_inv (document_card_new t)"
    by (simp add: document_inv_def document_card_new_def camera_simps) (simp add: no_camera_def)
  show "let s = fold document_step es (document_card_new t) in
      if orderly_run document_step document_orderly es (document_card_new t)
      then (document_live s \<or> cam_running (dc_cam s) = [])
        \<and> set (cam_urls (dc_cam s)) = set_option (cam_url (dc_cam s)) else True" for es
    using document.run_dark [OF inv, of es] document.run_urls [OF inv, of es] by (auto simp: Let_def)
  show "let s = fold document_step
          [Doc_camera_button False True, Doc_camera (Inr 7), Doc_value (Some e)] (document_card_new Document_front)
      in \<not> document_live s \<and> cam_running (dc_cam s) = [7]"
    by (simp add: document_card_new_def open_document_camera_def document_camera_answered_def
        is_document_def document_live_def doc_shown_def no_camera_def stop_running clear_preview_def
        camera_simps Let_def)
  show "let s = fold document_step
          [Doc_camera_button False True, Doc_unmount, Doc_camera (Inr 7)] (document_card_new Document_front)
      in \<not> dc_mounted s \<and> cam_running (dc_cam s) = [7]"
    by (simp add: document_card_new_def open_document_camera_def document_camera_answered_def
        is_document_def doc_shown_def no_camera_def stop_running clear_preview_def camera_simps Let_def)
qed

end
