(* ===== verification/Mobile_Capture.thy ===== *)
theory Mobile_Capture
  imports Api_Client Handlers
begin

text \<open>
  The page on the phone, components/verification/mobile-capture-page.tsx: the load that restores what
  the server already has, the uploads of the requested pictures, which run beside each other, and
  finishing the session. An upload or the completion under way is a pending request in the sense of
  Handlers.
\<close>

section \<open>State\<close>

datatype camera_facing = Environment_facing | User_facing

fun capture_facing :: "evidence_type \<Rightarrow> camera_facing" where
  "capture_facing Document_front = Environment_facing"
| "capture_facing Document_back = Environment_facing"
| "capture_facing Selfie = User_facing"
| "capture_facing Liveness = User_facing"

fun capture_title :: "evidence_type \<Rightarrow> string" where
  "capture_title Document_front = ''Document front''"
| "capture_title Document_back = ''Document back''"
| "capture_title Selfie = ''Selfie''"
| "capture_title Liveness = ''Face capture''"

record capture_requirements =
  cr_document_front :: bool
  cr_document_back :: bool
  cr_selfie :: bool
  cr_liveness :: bool

definition get_required_kinds :: "capture_requirements \<Rightarrow> evidence_type list" where
  "get_required_kinds r =
     (if cr_document_front r then [Document_front] else [])
     @ (if cr_document_back r then [Document_back] else [])
     @ (if cr_selfie r then [Selfie] else [])
     @ (if cr_liveness r then [Liveness] else [])"

text \<open>An evidence type as the server names it; an upload of any other type is not restored.\<close>

definition capture_kind :: "string \<Rightarrow> evidence_type option" where
  "capture_kind t =
     (if t = ''document_front'' then Some Document_front
      else if t = ''document_back'' then Some Document_back
      else if t = ''selfie'' then Some Selfie
      else if t = ''liveness'' then Some Liveness
      else None)"

record mobile_session =
  ms_requirements :: capture_requirements
  ms_uploads :: "string list"  \<comment> \<open>the types of the uploads the server has\<close>

record mobile_page =
  mp_session :: "mobile_session option"
  mp_uploaded :: "evidence_type set"
  mp_files :: "evidence_type \<Rightarrow> js_file option"
  mp_uploading :: "evidence_type set"
  mp_errors :: "evidence_type \<Rightarrow> string option"
  mp_loading :: bool
  mp_load_error :: "string option"
  mp_completing :: bool
  mp_complete_error :: "string option"
  mp_completed :: bool

definition mobile_page_new :: mobile_page where
  "mobile_page_new =
     \<lparr>mp_session = None, mp_uploaded = {}, mp_files = (\<lambda>_. None), mp_uploading = {},
      mp_errors = (\<lambda>_. None), mp_loading = True, mp_load_error = None, mp_completing = False,
      mp_complete_error = None, mp_completed = False\<rparr>"

definition restored_kinds :: "string list \<Rightarrow> evidence_type set" where
  "restored_kinds uploads = set (List.map_filter capture_kind uploads)"

definition mobile_loaded :: "bool \<Rightarrow> js_error + mobile_session \<Rightarrow> mobile_page \<Rightarrow> mobile_page" where
  "mobile_loaded active r s =
     (if \<not> active then s
      else case r of
        Inr session \<Rightarrow>
          s\<lparr>mp_session := Some session, mp_uploaded := restored_kinds (ms_uploads session),
            mp_load_error := None, mp_loading := False\<rparr>
      | Inl _ \<Rightarrow>
          s\<lparr>mp_load_error := Some ''This secure phone session is unavailable or has expired. Return to your computer and generate a new QR code.'',
            mp_loading := False\<rparr>)"

definition required_kinds :: "mobile_page \<Rightarrow> evidence_type list" where
  "required_kinds s =
     (case mp_session s of None \<Rightarrow> [] | Some session \<Rightarrow> get_required_kinds (ms_requirements session))"

definition all_captured :: "mobile_page \<Rightarrow> bool" where
  "all_captured s \<longleftrightarrow> required_kinds s \<noteq> [] \<and> list_all (\<lambda>k. k \<in> mp_uploaded s) (required_kinds s)"

definition uploaded_count :: "mobile_page \<Rightarrow> nat" where
  "uploaded_count s = length (filter (\<lambda>k. k \<in> mp_uploaded s) (required_kinds s))"

section \<open>Uploads and completion\<close>

datatype mobile_request = Upload_capture evidence_type js_file | Complete

datatype mobile_click = Pick_capture evidence_type "js_file option" | Click_finish

text \<open>The capture views are shown once the session is loaded and until it is completed.\<close>

definition mobile_shown :: "mobile_page \<Rightarrow> bool" where
  "mobile_shown s \<longleftrightarrow> \<not> mp_loading s \<and> \<not> truthy (mp_load_error s) \<and> mp_session s \<noteq> None \<and> \<not> mp_completed s"

text \<open>\<open>handleCapture\<close> with the synchronous part of \<open>uploadCapture\<close>; the input of a kind is not there
  while that kind is being uploaded.\<close>

definition handle_capture ::
  "evidence_type \<Rightarrow> js_file option \<Rightarrow> mobile_page \<Rightarrow> mobile_page \<times> mobile_request option" where
  "handle_capture k file s =
     (case file of
        None \<Rightarrow> (s, None)
      | Some f \<Rightarrow>
          if \<not> starts_with (file_type f) ''image/'' then
            (s\<lparr>mp_errors := (mp_errors s)(k \<mapsto> ''Please capture or select an image.'')\<rparr>, None)
          else
            (s\<lparr>mp_files := (mp_files s)(k \<mapsto> f), mp_errors := (mp_errors s)(k := None),
               mp_uploading := insert k (mp_uploading s)\<rparr>,
             Some (Upload_capture k f)))"

definition finish_capture :: "mobile_page \<Rightarrow> mobile_page \<times> mobile_request option" where
  "finish_capture s =
     (if \<not> all_captured s \<or> mp_completing s then (s, None)
      else (s\<lparr>mp_completing := True, mp_complete_error := None\<rparr>, Some Complete))"

text \<open>The finish button is disabled while a picture is being uploaded.\<close>

definition mobile_start :: "mobile_click \<Rightarrow> mobile_page \<Rightarrow> mobile_page \<times> mobile_request option" where
  "mobile_start c s =
     (if \<not> mobile_shown s then (s, None)
      else case c of
        Pick_capture k file \<Rightarrow>
          if k \<in> set (required_kinds s) \<and> k \<notin> mp_uploading s then handle_capture k file s else (s, None)
      | Click_finish \<Rightarrow> if mp_uploading s \<noteq> {} then (s, None) else finish_capture s)"

definition mobile_settle ::
  "mobile_request \<Rightarrow> js_error + json option \<Rightarrow> mobile_page \<Rightarrow> mobile_page \<times> mobile_request option" where
  "mobile_settle q r s =
     (case q of
        Upload_capture k f \<Rightarrow>
          (case r of
             Inr _ \<Rightarrow> s\<lparr>mp_uploaded := insert k (mp_uploaded s), mp_uploading := mp_uploading s - {k}\<rparr>
           | Inl e \<Rightarrow>
               s\<lparr>mp_errors := (mp_errors s)(k \<mapsto> cause_message e
                    ''Upload failed. Please capture this image again.''),
                 mp_uploading := mp_uploading s - {k}\<rparr>)
      | Complete \<Rightarrow>
          (case r of
             Inr _ \<Rightarrow> s\<lparr>mp_completed := True, mp_completing := False\<rparr>
           | Inl e \<Rightarrow>
               s\<lparr>mp_complete_error := Some (cause_message e ''Unable to finish secure capture.''),
                 mp_completing := False\<rparr>),
      None)"

datatype mobile_input = Session_answer bool "js_error + mobile_session"

text \<open>The session is loaded once, when the page is mounted.\<close>

fun mobile_event :: "mobile_input \<Rightarrow> mobile_page \<Rightarrow> mobile_page" where
  "mobile_event (Session_answer active r) s = (if mp_loading s then mobile_loaded active r s else s)"

section \<open>The requests under way\<close>

fun upload_kinds :: "mobile_request list \<Rightarrow> evidence_type list" where
  "upload_kinds [] = []"
| "upload_kinds (Upload_capture k f # qs) = k # upload_kinds qs"
| "upload_kinds (Complete # qs) = upload_kinds qs"

definition completions :: "mobile_request list \<Rightarrow> nat" where
  "completions qs = length (filter (\<lambda>q. q = Complete) qs)"

text \<open>
  \<open>uploadingKinds\<close> are the kinds of the uploads under way, each at most once; the completion is
  under way exactly while \<open>completing\<close>; and nothing was captured before the session was loaded.
\<close>

definition mobile_flight_ok :: "(mobile_page, mobile_request) flight \<Rightarrow> bool" where
  "mobile_flight_ok f \<longleftrightarrow>
     distinct (upload_kinds (fl_pending f))
     \<and> set (upload_kinds (fl_pending f)) = mp_uploading (fl_state f)
     \<and> completions (fl_pending f) = (if mp_completing (fl_state f) then 1 else 0)"

lemma upload_kinds_append [simp]: "upload_kinds (ps @ qs) = upload_kinds ps @ upload_kinds qs"
  by (induction ps rule: upload_kinds.induct) simp_all

lemma completions_simps [simp]:
  "completions [] = 0"
  "completions (Upload_capture k f # qs) = completions qs"
  "completions (Complete # qs) = Suc (completions qs)"
  "completions (ps @ qs) = completions ps + completions qs"
  by (simp_all add: completions_def)

lemma mobile_loaded_frame:
  "mp_uploading (mobile_loaded a r s) = mp_uploading s"
  "mp_completing (mobile_loaded a r s) = mp_completing s"
  by (simp_all add: mobile_loaded_def split: sum.split)

lemma mobile_start_cases:
  assumes "mobile_start c s = (s', oq)"
  shows "oq = None \<and> mp_uploading s' = mp_uploading s \<and> mp_completing s' = mp_completing s
    \<or> (\<exists>k f. oq = Some (Upload_capture k f) \<and> k \<in> set (required_kinds s) \<and> k \<notin> mp_uploading s
        \<and> starts_with (file_type f) ''image/''
        \<and> mp_uploading s' = insert k (mp_uploading s) \<and> mp_completing s' = mp_completing s)
    \<or> (oq = Some Complete \<and> all_captured s \<and> mp_uploading s = {} \<and> \<not> mp_completing s
        \<and> mp_uploading s' = {} \<and> mp_completing s')"
  using assms
  by (auto simp: mobile_start_def handle_capture_def finish_capture_def
      split: if_splits mobile_click.splits option.splits)

lemma mobile_step_ok:
  "mobile_flight_ok f \<Longrightarrow> mobile_flight_ok (flight_step mobile_start mobile_settle mobile_event m f)"
proof (cases m)
  case (Start c)
  assume h: "mobile_flight_ok f"
  obtain s' oq where st: "mobile_start c (fl_state f) = (s', oq)" by (cases "mobile_start c (fl_state f)")
  show ?thesis
    using mobile_start_cases [OF st] h Start st by (cases oq) (auto simp: mobile_flight_ok_def)
next
  case (Settle k r)
  assume h: "mobile_flight_ok f"
  show ?thesis
  proof (cases "k < length (fl_pending f)")
    case False
    with h Settle show ?thesis by simp
  next
    case True
    then have split: "fl_pending f = take k (fl_pending f) @ fl_pending f ! k # drop (Suc k) (fl_pending f)"
      by (simp add: id_take_nth_drop)
    define a where "a = take k (fl_pending f)"
    define b where "b = drop (Suc k) (fl_pending f)"
    define q where "q = fl_pending f ! k"
    have p: "fl_pending f = a @ q # b" using split by (simp add: a_def b_def q_def)
    have step: "flight_step mobile_start mobile_settle mobile_event m f =
        f\<lparr>fl_state := fst (mobile_settle q r (fl_state f)), fl_pending := a @ b\<rparr>"
      using True Settle by (simp add: a_def b_def q_def mobile_settle_def)
    show ?thesis
    proof (cases q)
      case (Upload_capture k' f')
      with h p show ?thesis
        unfolding step by (cases r) (auto simp: mobile_flight_ok_def mobile_settle_def)
    next
      case Complete
      with h p show ?thesis
        unfolding step by (cases r) (auto simp: mobile_flight_ok_def mobile_settle_def split: if_splits)
    qed
  qed
next
  case (Other e)
  assume "mobile_flight_ok f"
  with Other show ?thesis by (cases e) (simp add: mobile_flight_ok_def mobile_loaded_frame)
qed

lemma mobile_run_ok:
  "mobile_flight_ok (flight_run mobile_start mobile_settle mobile_event ms mobile_page_new)"
proof -
  have "mobile_flight_ok f \<Longrightarrow> mobile_flight_ok (fold (flight_step mobile_start mobile_settle mobile_event) ms f)" for f
    by (induction ms arbitrary: f) (simp_all add: mobile_step_ok)
  then show ?thesis by (simp add: flight_run_def mobile_flight_ok_def mobile_page_new_def)
qed

section \<open>Properties\<close>

text \<open>C21: in every interleaving, the session is finished only when every picture it asks for has been
  stored and no request at all is under way, and each upload is an image of a requested kind that is
  not already being uploaded.\<close>

theorem mobile_requests:
  "let f = flight_run mobile_start mobile_settle mobile_event ms mobile_page_new;
       s = fl_state f
   in case snd (mobile_start c s) of
        None \<Rightarrow> True
      | Some Complete \<Rightarrow> fl_pending f = [] \<and> required_kinds s \<noteq> [] \<and> set (required_kinds s) \<subseteq> mp_uploaded s
      | Some (Upload_capture k file) \<Rightarrow>
          k \<in> set (required_kinds s) \<and> k \<notin> set (upload_kinds (fl_pending f))
          \<and> starts_with (file_type file) ''image/''"
proof -
  define f where "f = flight_run mobile_start mobile_settle mobile_event ms mobile_page_new"
  have ok: "mobile_flight_ok f" unfolding f_def by (rule mobile_run_ok)
  obtain s' oq where st: "mobile_start c (fl_state f) = (s', oq)" by (cases "mobile_start c (fl_state f)")
  have none: "qs = []" if "upload_kinds qs = []" "completions qs = 0" for qs
  proof (cases qs)
    case (Cons q qs')
    with that show ?thesis by (cases q) simp_all
  qed
  show ?thesis
    unfolding Let_def f_def [symmetric] st
    using mobile_start_cases [OF st] ok none [of "fl_pending f"]
    by (auto simp: mobile_flight_ok_def all_captured_def list_all_iff)
qed

text \<open>A reload restores the progress: after the load the page counts a requested picture as
  received exactly when the server lists an upload of its kind, and it offers to finish exactly when
  all of them are there.\<close>

lemma mobile_restores:
  "let s = fl_state (flight_run mobile_start mobile_settle mobile_event
             [Other (Session_answer True (Inr \<lparr>ms_requirements = q, ms_uploads = us\<rparr>))] mobile_page_new)
   in uploaded_count s = length (filter (\<lambda>k. evidence_name k \<in> set us) (get_required_kinds q))
      \<and> (all_captured s \<longleftrightarrow>
           get_required_kinds q \<noteq> [] \<and> list_all (\<lambda>k. evidence_name k \<in> set us) (get_required_kinds q))"
proof -
  have kind: "capture_kind t = Some k \<longleftrightarrow> t = evidence_name k" for t k
    by (cases k) (auto simp: capture_kind_def)
  have "restored_kinds us = {k. \<exists>t \<in> set us. capture_kind t = Some k}"
    unfolding restored_kinds_def
    by (induction us) (auto simp: map_filter_simps split: option.split)
  then have "k \<in> restored_kinds us \<longleftrightarrow> evidence_name k \<in> set us" for k
    using kind by auto
  then show ?thesis
    by (simp add: flight_run_def mobile_page_new_def mobile_loaded_def Let_def uploaded_count_def
        all_captured_def required_kinds_def list_all_iff Ball_def)
qed

end
