(* ===== verification/Polling.thy ===== *)
theory Polling
  imports Main
begin

text \<open>
  Effects that poll: a request is made, its answer ends the polling or sets a timer, and the timer
  makes the next request. The clean-up of the effect clears the timer and marks the run inactive; an
  answer that is still under way then has no effect. The contract says that such a loop neither stops
  by itself nor goes on when it should not.
\<close>

datatype poll_wait = Poll_answer | Poll_timer | Poll_done

datatype 'r poll_event = Answered 'r | Ticks | Leaves

fun poll_step ::
  "('r \<Rightarrow> 's \<Rightarrow> 's) \<Rightarrow> ('s \<Rightarrow> 's) \<Rightarrow> ('s \<Rightarrow> 's) \<Rightarrow> ('s \<Rightarrow> poll_wait) \<Rightarrow> 'r poll_event \<Rightarrow> 's \<Rightarrow> 's" where
  "poll_step answer tick leave wait (Answered r) s = (if wait s = Poll_answer then answer r s else s)"
| "poll_step answer tick leave wait Ticks s = (if wait s = Poll_timer then tick s else s)"
| "poll_step answer tick leave wait Leaves s = leave s"

text \<open>One answer after the other, each followed by the timer it set.\<close>

definition poll_rounds :: "'r list \<Rightarrow> 'r poll_event list" where
  "poll_rounds rs = concat (map (\<lambda>r. [Answered r, Ticks]) rs)"

text \<open>\<open>over r\<close>: the answer \<open>r\<close> ends the polling.\<close>

locale polling =
  fixes answer :: "'r \<Rightarrow> 's \<Rightarrow> 's"
    and tick :: "'s \<Rightarrow> 's"
    and leave :: "'s \<Rightarrow> 's"
    and wait :: "'s \<Rightarrow> poll_wait"
    and mounted :: "'s \<Rightarrow> bool"
    and finished :: "'s \<Rightarrow> bool"
    and over :: "'r \<Rightarrow> bool"
  assumes answered: "mounted s \<Longrightarrow> wait s = Poll_answer \<Longrightarrow> \<not> finished s \<Longrightarrow> mounted (answer r s)
      \<and> wait (answer r s) = (if over r then Poll_done else Poll_timer)
      \<and> finished (answer r s) = over r"
    and answered_late: "\<not> mounted s \<Longrightarrow> wait s = Poll_answer
      \<Longrightarrow> \<not> mounted (answer r s) \<and> wait (answer r s) = Poll_done"
    and ticked: "mounted s \<Longrightarrow> wait s = Poll_timer
      \<Longrightarrow> mounted (tick s) \<and> wait (tick s) = Poll_answer \<and> finished (tick s) = finished s"
    and left: "\<not> mounted (leave s) \<and> wait (leave s) = (if wait s = Poll_timer then Poll_done else wait s)"
begin

abbreviation step :: "'r poll_event \<Rightarrow> 's \<Rightarrow> 's" where
  "step \<equiv> poll_step answer tick leave wait"

definition alive :: "'s \<Rightarrow> bool" where
  "alive s \<longleftrightarrow> (if mounted s then (wait s = Poll_done \<longleftrightarrow> finished s) else wait s \<noteq> Poll_timer)"

lemma step_alive: "alive s \<Longrightarrow> alive (step e s)"
proof (cases e)
  case (Answered r)
  assume "alive s"
  with Answered answered [of s r] answered_late [of s r] show ?thesis
    by (cases "mounted s"; cases "wait s") (auto simp: alive_def)
next
  case Ticks
  assume "alive s"
  with Ticks ticked [of s] show ?thesis by (cases "mounted s"; cases "wait s") (auto simp: alive_def)
next
  case Leaves
  assume "alive s"
  with Leaves left [of s] show ?thesis by (auto simp: alive_def)
qed

lemma run_alive: "alive s \<Longrightarrow> alive (fold step es s)"
  by (induction es arbitrary: s) (simp_all add: step_alive)

text \<open>Any number of answers that do not end the polling, then one that does.\<close>

lemma rounds_go_on:
  "mounted s \<Longrightarrow> wait s = Poll_answer \<Longrightarrow> \<not> finished s \<Longrightarrow> list_all (\<lambda>r. \<not> over r) rs
    \<Longrightarrow> mounted (fold step (poll_rounds rs) s) \<and> wait (fold step (poll_rounds rs) s) = Poll_answer
      \<and> \<not> finished (fold step (poll_rounds rs) s)"
proof (induction rs arbitrary: s)
  case Nil
  then show ?case by (simp add: poll_rounds_def)
next
  case (Cons r rs)
  let ?s1 = "answer r s"
  have 1: "mounted ?s1" "wait ?s1 = Poll_timer" "\<not> finished ?s1"
    using answered [of s r] Cons.prems by auto
  then have 2: "mounted (tick ?s1)" "wait (tick ?s1) = Poll_answer" "\<not> finished (tick ?s1)"
    using ticked [of ?s1] by auto
  from Cons.IH [OF 2] Cons.prems 1 2 show ?case by (simp add: poll_rounds_def)
qed

lemma rounds_finish:
  assumes "mounted s" and "wait s = Poll_answer" and "\<not> finished s" and "list_all (\<lambda>r. \<not> over r) rs" and "over r"
  shows "finished (fold step (poll_rounds rs @ [Answered r]) s)"
  using rounds_go_on [OF assms(1-4)] answered [of "fold step (poll_rounds rs) s" r] assms(5) by simp

end

end
