(* ===== verification/Mobile_Handoff.thy ===== *)
theory Mobile_Handoff
  imports Api_Client Polling
begin

text \<open>
  The hand-over to a phone: the desktop card of components/verification/mobile-capture-handoff.tsx,
  which shows a QR code and polls for the pictures taken on the phone, and the phone's entry page of
  components/verification/mobile-handoff-entry.tsx, which exchanges the QR code's token once. The
  entry page keeps its token and its exchange in module variables, which survive the double run of
  an effect.
\<close>

section \<open>The desktop card\<close>

record capture_upload =
  cu_id :: string
  cu_type :: evidence_type
  cu_content_type :: string
  cu_size :: int

record capture_status =
  cs_status :: string
  cs_connected :: bool
  cs_completed_at :: "string option"
  cs_uploads :: "capture_upload list"

record capture_session =
  hs_id :: string
  hs_token :: string

text \<open>
  A poller belongs to one run of the effect: the session it polls, whether the run is still active,
  and what it waits for. \<open>ho_delivered\<close> is the set kept in \<open>deliveredEvidenceIds\<close>; \<open>ho_received\<close>
  records the calls of \<open>onEvidenceReceived\<close> since that set was last cleared.
\<close>

record poller =
  po_session :: string
  po_active :: bool
  po_wait :: poll_wait

record handoff_card =
  ho_capture :: "capture_session option"
  ho_status :: "capture_status option"
  ho_creating :: bool
  ho_error :: "string option"
  ho_delivered :: "string set"
  ho_received :: "uploaded_evidence list"
  ho_pollers :: "poller list"

definition handoff_new :: handoff_card where
  "handoff_new =
     \<lparr>ho_capture = None, ho_status = None, ho_creating = False, ho_error = None, ho_delivered = {},
      ho_received = [], ho_pollers = []\<rparr>"

fun evidence_label :: "evidence_type \<Rightarrow> string" where
  "evidence_label Document_front = ''Document front''"
| "evidence_label Document_back = ''Document back''"
| "evidence_label Selfie = ''Selfie''"
| "evidence_label Liveness = ''Face capture''"

definition middle_dot :: string where
  "middle_dot = [CHR 0xC2, CHR 0xB7]"

definition phone_evidence :: "capture_upload \<Rightarrow> uploaded_evidence" where
  "phone_evidence u =
     \<lparr>up_id = cu_id u, up_type = cu_type u,
      up_filename = ''Phone capture '' @ middle_dot @ '' '' @ evidence_label (cu_type u),
      up_content_type = cu_content_type u, up_size = cu_size u\<rparr>"

definition status_completed :: "capture_status \<Rightarrow> bool" where
  "status_completed r \<longleftrightarrow> truthy (cs_completed_at r) \<or> cs_status r = ''completed''"

definition reset_local_capture_state :: "handoff_card \<Rightarrow> handoff_card" where
  "reset_local_capture_state s = s\<lparr>ho_status := None, ho_delivered := {}, ho_received := []\<rparr>"

text \<open>The effect on \<open>capture\<close>: the run before is deactivated and its timer cleared, and a session is
  polled at once.\<close>

definition stop_poller :: "poller \<Rightarrow> poller" where
  "stop_poller p = p\<lparr>po_active := False, po_wait := (if po_wait p = Poll_timer then Poll_done else po_wait p)\<rparr>"

definition capture_changed :: "capture_session option \<Rightarrow> handoff_card \<Rightarrow> handoff_card" where
  "capture_changed c s =
     s\<lparr>ho_capture := c,
       ho_pollers := map stop_poller (ho_pollers s) @
         (case c of
            None \<Rightarrow> []
          | Some session \<Rightarrow> [\<lparr>po_session = hs_id session, po_active = True, po_wait = Poll_answer\<rparr>])\<rparr>"

definition handoff_create :: "handoff_card \<Rightarrow> handoff_card" where
  "handoff_create s = reset_local_capture_state (s\<lparr>ho_creating := True, ho_error := None\<rparr>)"

definition handoff_created :: "js_error + capture_session \<Rightarrow> handoff_card \<Rightarrow> handoff_card" where
  "handoff_created r s =
     (case r of
        Inr session \<Rightarrow> (capture_changed (Some session) s)\<lparr>ho_creating := False\<rparr>
      | Inl e \<Rightarrow>
          s\<lparr>ho_error := Some (cause_message e ''Unable to create mobile capture session.''),
            ho_creating := False\<rparr>)"

fun deliver :: "capture_upload list \<Rightarrow> handoff_card \<Rightarrow> handoff_card" where
  "deliver [] s = s"
| "deliver (u # us) s =
     (if cu_id u \<in> ho_delivered s then deliver us s
      else deliver us (s\<lparr>ho_delivered := insert (cu_id u) (ho_delivered s),
                         ho_received := ho_received s @ [phone_evidence u]\<rparr>))"

text \<open>The answer to a poll; a failure is ignored, and only a completed session ends the polling.\<close>

definition poll_answered :: "nat \<Rightarrow> js_error + capture_status \<Rightarrow> handoff_card \<Rightarrow> handoff_card" where
  "poll_answered k r s =
     (if k < length (ho_pollers s) \<and> po_wait (ho_pollers s ! k) = Poll_answer then
        let p = ho_pollers s ! k;
            again = (\<lambda>t. t\<lparr>ho_pollers := (ho_pollers t)[k := p\<lparr>po_wait :=
                       (if po_active p then Poll_timer else Poll_done)\<rparr>]\<rparr>)
        in (case r of
              Inl _ \<Rightarrow> again s
            | Inr status \<Rightarrow>
                if \<not> po_active p then s\<lparr>ho_pollers := (ho_pollers s)[k := p\<lparr>po_wait := Poll_done\<rparr>]\<rparr>
                else
                  let s1 = deliver (cs_uploads status) (s\<lparr>ho_status := Some status\<rparr>)
                  in if status_completed status
                     then s1\<lparr>ho_pollers := (ho_pollers s1)[k := p\<lparr>po_wait := Poll_done\<rparr>]\<rparr>
                     else again s1)
      else s)"

definition poll_timer :: "nat \<Rightarrow> handoff_card \<Rightarrow> handoff_card" where
  "poll_timer k s =
     (if k < length (ho_pollers s) \<and> po_wait (ho_pollers s ! k) = Poll_timer
      then s\<lparr>ho_pollers := (ho_pollers s)[k := (ho_pollers s ! k)\<lparr>po_wait := Poll_answer\<rparr>]\<rparr> else s)"

text \<open>\<open>close\<close> after \<open>revokeMobileCapture\<close> has answered, whatever it answered.\<close>

definition handoff_closed :: "handoff_card \<Rightarrow> handoff_card" where
  "handoff_closed s = reset_local_capture_state ((capture_changed None s)\<lparr>ho_error := None\<rparr>)"

datatype handoff_event =
    Handoff_create
  | Handoff_created "js_error + capture_session"
  | Handoff_poll nat "js_error + capture_status"
  | Handoff_timer nat
  | Handoff_closed
  | Handoff_unmount

fun handoff_step :: "handoff_event \<Rightarrow> handoff_card \<Rightarrow> handoff_card" where
  "handoff_step Handoff_create s = (if ho_creating s then s else handoff_create s)"
| "handoff_step (Handoff_created r) s = (if ho_creating s then handoff_created r s else s)"
| "handoff_step (Handoff_poll k r) s = poll_answered k r s"
| "handoff_step (Handoff_timer k) s = poll_timer k s"
| "handoff_step Handoff_closed s = handoff_closed s"
| "handoff_step Handoff_unmount s = s\<lparr>ho_pollers := map stop_poller (ho_pollers s)\<rparr>"

text \<open>What the card shows.\<close>

definition handoff_connected :: "handoff_card \<Rightarrow> bool" where
  "handoff_connected s \<longleftrightarrow> (case ho_status s of None \<Rightarrow> False | Some r \<Rightarrow> cs_connected r)"

definition handoff_completed :: "handoff_card \<Rightarrow> bool" where
  "handoff_completed s \<longleftrightarrow> (case ho_status s of None \<Rightarrow> False | Some r \<Rightarrow> status_completed r)"

datatype timeline_row = Row string bool bool  \<comment> \<open>label, complete, active\<close>

definition capture_timeline :: "bool \<Rightarrow> bool \<Rightarrow> capture_upload list \<Rightarrow> timeline_row list" where
  "capture_timeline connected completed uploads =
     [Row ''Phone connected'' (connected \<or> completed) (\<not> connected \<and> \<not> completed)]
     @ map (\<lambda>u. Row (evidence_label (cu_type u)) True False) uploads
     @ (if connected \<and> \<not> completed
        then [Row (if uploads \<noteq> [] then ''Waiting for remaining evidence''
                   else ''Waiting for first capture'') False True] else [])
     @ (if completed then [Row ''Ready on desktop'' True False] else [])"

definition status_pill :: "bool \<Rightarrow> bool \<Rightarrow> string" where
  "status_pill connected completed =
     (if completed then ''Complete'' else if connected then ''Phone connected'' else ''Waiting for phone'')"

text \<open>The address in the QR code.\<close>

definition mobile_url :: "string \<Rightarrow> capture_session option \<Rightarrow> string" where
  "mobile_url origin c =
     (case c of None \<Rightarrow> [] | Some session \<Rightarrow> origin @ ''/mobile#'' @ encode_uri_component (hs_token session))"

section \<open>The phone's entry page\<close>

text \<open>\<open>location.hash\<close> of an address: the fragment with its \<open>#\<close>, empty when there is none.\<close>

definition url_hash :: "string \<Rightarrow> string" where
  "url_hash url = (let h = dropWhile (\<lambda>c. c \<noteq> CHR ''#'') url in if length h \<le> 1 then [] else h)"

datatype exchange_state = Exchanging | Exchanged | Exchange_failed

text \<open>A run of the effect: still active, waiting for the exchange, about to report a missing token.\<close>

record entry_run =
  er_active :: bool
  er_waits :: bool
  er_missing :: bool

record entry_page =
  en_url :: string  \<comment> \<open>the address shown\<close>
  en_pending_token :: "string option"
  en_pending_exchange :: "exchange_state option"
  en_sent :: "string list"  \<comment> \<open>the tokens handed to \<open>exchangeMobileHandoff\<close>\<close>
  en_runs :: "entry_run list"
  en_failed :: bool
  en_missing_token :: bool
  en_route :: "string option"

definition entry_new :: "string \<Rightarrow> entry_page" where
  "entry_new url =
     \<lparr>en_url = url, en_pending_token = None, en_pending_exchange = None, en_sent = [], en_runs = [],
      en_failed = False, en_missing_token = False, en_route = None\<rparr>"

definition read_and_scrub_token :: "entry_page \<Rightarrow> string option \<times> entry_page" where
  "read_and_scrub_token s =
     (if truthy (en_pending_token s) then (en_pending_token s, s)
      else
        let raw_hash = trim (drop 1 (url_hash (en_url s)))
        in if raw_hash = [] then (None, s)
           else case decode_uri_component raw_hash of
                  None \<Rightarrow> (None, s)
                | Some token \<Rightarrow>
                    if token = [] then (None, s)
                    else (Some token, s\<lparr>en_pending_token := Some token, en_url := ''/mobile''\<rparr>))"

definition exchange_once :: "string \<Rightarrow> entry_page \<Rightarrow> entry_page" where
  "exchange_once token s =
     (if en_pending_exchange s \<noteq> None then s
      else s\<lparr>en_pending_exchange := Some Exchanging, en_sent := en_sent s @ [token]\<rparr>)"

definition entry_effect :: "entry_page \<Rightarrow> entry_page" where
  "entry_effect s =
     (case read_and_scrub_token s of
        (None, s1) \<Rightarrow>
          s1\<lparr>en_runs := en_runs s1 @ [\<lparr>er_active = True, er_waits = False, er_missing = True\<rparr>]\<rparr>
      | (Some token, s1) \<Rightarrow>
          (let s2 = exchange_once token s1
           in s2\<lparr>en_runs := en_runs s2 @ [\<lparr>er_active = True, er_waits = True, er_missing = False\<rparr>]\<rparr>))"

text \<open>The continuation of a waiting run once the exchange it awaits has settled.\<close>

definition entry_continue :: "bool \<Rightarrow> nat \<Rightarrow> entry_page \<Rightarrow> entry_page" where
  "entry_continue ok k s =
     (let run = en_runs s ! k; s1 = s\<lparr>en_runs := (en_runs s)[k := run\<lparr>er_waits := False\<rparr>]\<rparr>
      in if \<not> er_active run then s1
         else if ok then s1\<lparr>en_pending_token := None, en_route := Some ''/mobile/capture''\<rparr>
         else s1\<lparr>en_pending_token := None, en_pending_exchange := None, en_failed := True\<rparr>)"

datatype entry_event =
    Entry_effect
  | Entry_cleanup nat
  | Entry_microtask nat
  | Entry_settles bool
  | Entry_continues nat

fun entry_step :: "entry_event \<Rightarrow> entry_page \<Rightarrow> entry_page" where
  "entry_step Entry_effect s = entry_effect s"
| "entry_step (Entry_cleanup k) s =
     (if k < length (en_runs s)
      then s\<lparr>en_runs := (en_runs s)[k := (en_runs s ! k)\<lparr>er_active := False\<rparr>]\<rparr> else s)"
| "entry_step (Entry_microtask k) s =
     (if k < length (en_runs s) \<and> er_missing (en_runs s ! k)
      then s\<lparr>en_runs := (en_runs s)[k := (en_runs s ! k)\<lparr>er_missing := False\<rparr>],
             en_missing_token := en_missing_token s \<or> er_active (en_runs s ! k)\<rparr>
      else s)"
| "entry_step (Entry_settles ok) s =
     (if en_pending_exchange s = Some Exchanging
      then s\<lparr>en_pending_exchange := Some (if ok then Exchanged else Exchange_failed)\<rparr> else s)"
| "entry_step (Entry_continues k) s =
     (if k < length (en_runs s) \<and> er_waits (en_runs s ! k)
      then (case en_pending_exchange s of
              Some Exchanged \<Rightarrow> entry_continue True k s
            | Some Exchange_failed \<Rightarrow> entry_continue False k s
            | _ \<Rightarrow> s)
      else s)"

section \<open>Polling\<close>

text \<open>The evidence received since the last reset is exactly the delivered set, each piece once; and
  only the poller of the session shown is active.\<close>

definition handoff_inv :: "handoff_card \<Rightarrow> bool" where
  "handoff_inv s \<longleftrightarrow>
     distinct (map up_id (ho_received s)) \<and> set (map up_id (ho_received s)) = ho_delivered s
     \<and> length (filter po_active (ho_pollers s)) \<le> (if ho_capture s = None then 0 else 1)"

lemma deliver_frame:
  "ho_pollers (deliver us s) = ho_pollers s" "ho_capture (deliver us s) = ho_capture s"
  "ho_delivered (deliver us s) = ho_delivered s \<union> cu_id ` set us"
  by (induction us arbitrary: s) auto

lemma deliver_inv: "handoff_inv s \<Longrightarrow> handoff_inv (deliver us s)"
proof (induction us arbitrary: s)
  case (Cons u us)
  show ?case
  proof (cases "cu_id u \<in> ho_delivered s")
    case True
    with Cons show ?thesis by simp
  next
    case False
    with Cons.prems have "handoff_inv (s\<lparr>ho_delivered := insert (cu_id u) (ho_delivered s),
        ho_received := ho_received s @ [phone_evidence u]\<rparr>)"
      by (auto simp: handoff_inv_def phone_evidence_def)
    with False Cons.IH show ?thesis by simp
  qed
qed simp

lemma active_update:
  "k < length ps \<Longrightarrow> po_active p = po_active (ps ! k)
     \<Longrightarrow> length (filter po_active (ps[k := p])) = length (filter po_active ps)"
proof (induction ps arbitrary: k)
  case (Cons q ps)
  then show ?case by (cases k) auto
qed simp

lemma stopped_inactive [simp]: "filter po_active (map stop_poller ps) = []"
  by (auto simp: filter_empty_conv stop_poller_def)

lemma update_poller_inv:
  "handoff_inv s \<Longrightarrow> k < length (ho_pollers s) \<Longrightarrow> po_active p = po_active (ho_pollers s ! k)
     \<Longrightarrow> handoff_inv (s\<lparr>ho_pollers := (ho_pollers s)[k := p]\<rparr>)"
  by (simp add: handoff_inv_def active_update)

lemma poll_inv: "handoff_inv s \<Longrightarrow> handoff_inv (poll_answered k r s)"
proof (cases "k < length (ho_pollers s) \<and> po_wait (ho_pollers s ! k) = Poll_answer")
  case False
  assume "handoff_inv s"
  with False show ?thesis by (auto simp: poll_answered_def)
next
  case True
  assume h: "handoff_inv s"
  show ?thesis
  proof (cases r)
    case (Inl e)
    with True h show ?thesis by (simp add: poll_answered_def Let_def update_poller_inv)
  next
    case (Inr st)
    define s1 where "s1 = deliver (cs_uploads st) (s\<lparr>ho_status := Some st\<rparr>)"
    have "handoff_inv (s\<lparr>ho_status := Some st\<rparr>)" using h by (simp add: handoff_inv_def)
    then have s1: "handoff_inv s1" "ho_pollers s1 = ho_pollers s"
      by (simp_all add: s1_def deliver_inv deliver_frame)
    with True h Inr show ?thesis
      by (auto simp: poll_answered_def Let_def s1_def [symmetric]
          intro!: update_poller_inv update_poller_inv [of s1, unfolded s1(2)])
  qed
qed

lemma capture_changed_inv: "handoff_inv s \<Longrightarrow> handoff_inv (capture_changed c s)"
  by (simp add: handoff_inv_def capture_changed_def split: option.split)

lemma handoff_reset_inv: "handoff_inv s \<Longrightarrow> handoff_inv (reset_local_capture_state s)"
  by (simp add: handoff_inv_def reset_local_capture_state_def)

lemma handoff_step_inv: "handoff_inv s \<Longrightarrow> handoff_inv (handoff_step e s)"
proof (cases e)
  case Handoff_create
  assume h: "handoff_inv s"
  then have "handoff_inv (s\<lparr>ho_creating := True, ho_error := None\<rparr>)" by (simp add: handoff_inv_def)
  with h Handoff_create show ?thesis by (simp add: handoff_create_def handoff_reset_inv)
next
  case (Handoff_created r)
  assume h: "handoff_inv s"
  have "handoff_inv (t\<lparr>ho_creating := b\<rparr>)" if "handoff_inv t" for t b
    using that by (simp add: handoff_inv_def)
  with h Handoff_created show ?thesis
    by (cases r) (simp_all add: handoff_created_def capture_changed_inv, simp add: handoff_inv_def)
next
  case Handoff_closed
  assume "handoff_inv s"
  then have "handoff_inv ((capture_changed None s)\<lparr>ho_error := None\<rparr>)"
    using capture_changed_inv [of s None] by (simp add: handoff_inv_def)
  with Handoff_closed show ?thesis by (simp add: handoff_closed_def handoff_reset_inv)
next
  case (Handoff_timer k)
  assume "handoff_inv s"
  with Handoff_timer show ?thesis by (simp add: poll_timer_def update_poller_inv)
next
  case Handoff_unmount
  assume "handoff_inv s"
  with Handoff_unmount show ?thesis by (simp add: handoff_inv_def)
qed (simp add: poll_inv)


section \<open>From the QR code to the exchange\<close>

lemma url_hash_mobile:
  assumes "CHR ''#'' \<notin> set origin" and "hs_token session \<noteq> []"
  shows "url_hash (mobile_url origin (Some session)) = CHR ''#'' # encode_uri_component (hs_token session)"
proof -
  have "\<forall>c \<in> set (origin @ ''/mobile''). c \<noteq> CHR ''#''" using assms(1) by auto
  then have "dropWhile (\<lambda>c. c \<noteq> CHR ''#'') ((origin @ ''/mobile'') @ CHR ''#'' # encode_uri_component (hs_token session))
      = CHR ''#'' # encode_uri_component (hs_token session)"
    by (subst dropWhile_append2) auto
  with assms(2) show ?thesis
    by (cases "encode_uri_component (hs_token session)")
      (simp_all add: url_hash_def mobile_url_def Let_def)
qed

lemma read_mobile_token:
  assumes "CHR ''#'' \<notin> set origin" and "hs_token session \<noteq> []" and "utf8_valid (hs_token session)"
    and "\<not> truthy (en_pending_token s)" and "en_url s = mobile_url origin (Some session)"
  shows "read_and_scrub_token s =
     (Some (hs_token session), s\<lparr>en_pending_token := Some (hs_token session), en_url := ''/mobile''\<rparr>)"
  using assms by (simp add: read_and_scrub_token_def url_hash_mobile decode_encode)



end
