(* ===== verification/Request_Form.thy ===== *)
theory Request_Form
  imports Admin_Api Dates Handlers
begin

text \<open>
  The form that creates a verification request,
  components/admin/create-verification-request-form.tsx: its state, the validation, the submission
  and the reset. The expiration fields themselves are in Dates. The browser's time zone, the current
  time and \<open>toISOString\<close> are parameters.
\<close>

section \<open>Requirements\<close>

datatype requirement_key =
    Legal_name | Date_of_birth | Age_confirmation | Issuing_country | Document_type
  | Front | Back | Selfie_photo | Live_capture

fun requirement_name :: "requirement_key \<Rightarrow> string" where
  "requirement_name Legal_name = ''legal_name''"
| "requirement_name Date_of_birth = ''date_of_birth''"
| "requirement_name Age_confirmation = ''age_confirmation''"
| "requirement_name Issuing_country = ''issuing_country''"
| "requirement_name Document_type = ''document_type''"
| "requirement_name Front = ''document_front''"
| "requirement_name Back = ''document_back''"
| "requirement_name Selfie_photo = ''selfie''"
| "requirement_name Live_capture = ''liveness''"

definition default_requirements :: required_evidence where
  "default_requirements =
     \<lparr>needs_legal_name = True, needs_date_of_birth = True, needs_age_confirmation = False,
      needs_issuing_country = True, needs_document_type = True, needs_document_front = True,
      needs_document_back = False, needs_selfie = False, needs_liveness = False\<rparr>"

definition requirement_groups :: "(string \<times> requirement_key list) list" where
  "requirement_groups =
     [(''Identity details'', [Legal_name, Date_of_birth, Age_confirmation, Issuing_country, Document_type]),
      (''Evidence capture'', [Front, Back, Selfie_photo, Live_capture])]"

fun requires :: "requirement_key \<Rightarrow> required_evidence \<Rightarrow> bool" where
  "requires Legal_name r = needs_legal_name r"
| "requires Date_of_birth r = needs_date_of_birth r"
| "requires Age_confirmation r = needs_age_confirmation r"
| "requires Issuing_country r = needs_issuing_country r"
| "requires Document_type r = needs_document_type r"
| "requires Front r = needs_document_front r"
| "requires Back r = needs_document_back r"
| "requires Selfie_photo r = needs_selfie r"
| "requires Live_capture r = needs_liveness r"

fun toggle_requirement :: "requirement_key \<Rightarrow> required_evidence \<Rightarrow> required_evidence" where
  "toggle_requirement Legal_name r = r\<lparr>needs_legal_name := \<not> needs_legal_name r\<rparr>"
| "toggle_requirement Date_of_birth r = r\<lparr>needs_date_of_birth := \<not> needs_date_of_birth r\<rparr>"
| "toggle_requirement Age_confirmation r = r\<lparr>needs_age_confirmation := \<not> needs_age_confirmation r\<rparr>"
| "toggle_requirement Issuing_country r = r\<lparr>needs_issuing_country := \<not> needs_issuing_country r\<rparr>"
| "toggle_requirement Document_type r = r\<lparr>needs_document_type := \<not> needs_document_type r\<rparr>"
| "toggle_requirement Front r = r\<lparr>needs_document_front := \<not> needs_document_front r\<rparr>"
| "toggle_requirement Back r = r\<lparr>needs_document_back := \<not> needs_document_back r\<rparr>"
| "toggle_requirement Selfie_photo r = r\<lparr>needs_selfie := \<not> needs_selfie r\<rparr>"
| "toggle_requirement Live_capture r = r\<lparr>needs_liveness := \<not> needs_liveness r\<rparr>"

definition selected_requirement_count :: "required_evidence \<Rightarrow> nat" where
  "selected_requirement_count r =
     length (filter id [needs_legal_name r, needs_date_of_birth r, needs_age_confirmation r,
       needs_issuing_country r, needs_document_type r, needs_document_front r, needs_document_back r,
       needs_selfie r, needs_liveness r])"

definition format_requirement_label :: "string \<Rightarrow> string" where
  "format_requirement_label key = capitalize_words False (replace_char CHR ''_'' CHR '' '' key)"

lemma requires_toggle: "requires k' (toggle_requirement k r) \<longleftrightarrow> (if k' = k then \<not> requires k r else requires k' r)"
  by (cases k; cases k') simp_all

section \<open>State\<close>

record request_form =
  rf_discord_id :: string
  rf_username :: string
  rf_date :: string
  rf_time :: string
  rf_period :: expiration_period
  rf_max :: int
  rf_requirements :: required_evidence
  rf_creating :: bool
  rf_error :: "string option"
  rf_created :: "json option"

definition request_form_new :: request_form where
  "request_form_new =
     \<lparr>rf_discord_id = [], rf_username = [], rf_date = [], rf_time = [], rf_period = PM, rf_max = 1,
      rf_requirements = default_requirements, rf_creating = False, rf_error = None, rf_created = None\<rparr>"

definition reset_form :: "request_form \<Rightarrow> request_form" where
  "reset_form s =
     s\<lparr>rf_created := None, rf_discord_id := [], rf_username := [], rf_date := [], rf_time := [],
       rf_period := PM, rf_max := 1, rf_requirements := default_requirements, rf_error := None\<rparr>"

text \<open>\<open>Number.parseInt(text, 10)\<close>: white space, a sign and the digits that follow; \<open>None\<close> is NaN.\<close>

definition parse_int :: "string \<Rightarrow> int option" where
  "parse_int text =
     (let t = dropWhile is_ws text;
          neg = (t \<noteq> [] \<and> hd t = CHR ''-'');
          u = (if t \<noteq> [] \<and> (hd t = CHR ''-'' \<or> hd t = CHR ''+'') then tl t else t);
          ds = takeWhile is_digit u
      in if ds = [] then None
         else Some (if neg then - int (parse_digits ds) else int (parse_digits ds)))"

definition clamp_submissions :: "string \<Rightarrow> int" where
  "clamp_submissions text =
     (case parse_int text of None \<Rightarrow> 1 | Some n \<Rightarrow> max 1 (min 10 n))"

section \<open>Validation and submission\<close>

text \<open>\<open>/^\d{17,20}$/\<close>\<close>

definition discord_id_ok :: "string \<Rightarrow> bool" where
  "discord_id_ok s \<longleftrightarrow> list_all is_digit s \<and> 17 \<le> length s \<and> length s \<le> 20"

definition validate_request ::
  "(int \<Rightarrow> int) \<Rightarrow> (int \<Rightarrow> int) \<Rightarrow> int \<Rightarrow> request_form \<Rightarrow> string option" where
  "validate_request to_utc to_local now s =
     (if \<not> discord_id_ok (trim (rf_discord_id s)) then Some ''Enter a valid 17-20 digit Discord User ID.''
      else if length (rf_username s) > 100 then Some ''Username snapshot is too long.''
      else if rf_max s < 1 \<or> rf_max s > 10 then Some ''Max submissions must be between 1 and 10.''
      else if selected_requirement_count (rf_requirements s) = 0
        then Some ''Select at least one verification requirement.''
      else
        let date = trim (rf_date s); time = trim (rf_time s)
        in if (date \<noteq> [] \<or> time \<noteq> []) \<and> (date = [] \<or> time = [])
           then Some ''Enter both the expiration date and expiration time.''
           else if date \<noteq> [] \<and> time \<noteq> []
           then (case parse_expiration to_utc to_local date time (rf_period s) of
                   None \<Rightarrow> Some ''Enter a valid expiration date and time.''
                 | Some expiration \<Rightarrow>
                     if expiration \<le> now then Some ''Expiration must be in the future.'' else None)
           else None)"

text \<open>The argument is the time of the click; the form is hidden while the result is shown.\<close>

definition request_submit ::
  "(int \<Rightarrow> int) \<Rightarrow> (int \<Rightarrow> int) \<Rightarrow> (int \<Rightarrow> string) \<Rightarrow> int \<Rightarrow> request_form
     \<Rightarrow> request_form \<times> create_payload option" where
  "request_submit to_utc to_local to_iso now s =
     (if rf_creating s \<or> rf_created s \<noteq> None then (s, None)
      else case validate_request to_utc to_local now s of
        Some message \<Rightarrow> (s\<lparr>rf_error := Some message\<rparr>, None)
      | None \<Rightarrow>
          let send = (\<lambda>expires.
            (s\<lparr>rf_error := None, rf_creating := True\<rparr>,
             Some \<lparr>c_assigned_discord_user_id = trim (rf_discord_id s),
                   c_discord_username_snapshot = or_null (trim (rf_username s)),
                   c_required_evidence = rf_requirements s,
                   c_expires_at = expires,
                   c_max_submissions = rf_max s\<rparr>))
          in if trim (rf_date s) \<noteq> [] \<and> trim (rf_time s) \<noteq> []
             then (case parse_expiration to_utc to_local (rf_date s) (rf_time s) (rf_period s) of
                     None \<Rightarrow>
                       (s\<lparr>rf_error := Some ''Enter a valid expiration date and time.''\<rparr>, None)
                   | Some expiration \<Rightarrow> send (Some (to_iso expiration)))
             else send None)"

definition request_settle ::
  "create_payload \<Rightarrow> js_error + json \<Rightarrow> request_form \<Rightarrow> request_form \<times> create_payload option" where
  "request_settle _ r s =
     (case r of
        Inr result \<Rightarrow> s\<lparr>rf_created := Some result, rf_creating := False\<rparr>
      | Inl e \<Rightarrow>
          s\<lparr>rf_error := Some (cause_message e ''Unable to create verification request.''),
            rf_creating := False\<rparr>, None)"

datatype request_input =
    Type_discord_id string | Type_username string
  | Type_date string | Blur_date | Type_time string | Blur_time | Choose_period expiration_period
  | Type_max string | Toggle requirement_key | Create_another | Back_to_queue | Copy_link

text \<open>
  The form's fields are there only while no result is shown. Going back to the queue leaves the page;
  copying the link concerns the panel of Created_Request alone.
\<close>

definition while_editing :: "(request_form \<Rightarrow> request_form) \<Rightarrow> request_form \<Rightarrow> request_form" where
  "while_editing f s = (if rf_created s = None then f s else s)"

fun request_event :: "request_input \<Rightarrow> request_form \<Rightarrow> request_form" where
  "request_event (Type_discord_id t) s = while_editing (rf_discord_id_update (\<lambda>_. t)) s"
| "request_event (Type_username t) s = while_editing (rf_username_update (\<lambda>_. t)) s"
| "request_event (Type_date t) s = while_editing (rf_date_update (\<lambda>_. normalize_date_input t)) s"
| "request_event Blur_date s = while_editing (rf_date_update date_on_blur) s"
| "request_event (Type_time t) s = while_editing (rf_time_update (\<lambda>_. normalize_time_input t)) s"
| "request_event Blur_time s = while_editing (rf_time_update time_on_blur) s"
| "request_event (Choose_period p) s = while_editing (rf_period_update (\<lambda>_. p)) s"
| "request_event (Type_max t) s = while_editing (rf_max_update (\<lambda>_. clamp_submissions t)) s"
| "request_event (Toggle k) s = while_editing (rf_requirements_update (toggle_requirement k)) s"
| "request_event Create_another s = (if rf_created s \<noteq> None then reset_form s else s)"
| "request_event Back_to_queue s = s"
| "request_event Copy_link s = s"

section \<open>What is sent\<close>

definition create_payload_ok ::
  "(int \<Rightarrow> int) \<Rightarrow> (int \<Rightarrow> int) \<Rightarrow> (int \<Rightarrow> string) \<Rightarrow> create_payload \<Rightarrow> bool" where
  "create_payload_ok to_utc to_local to_iso p \<longleftrightarrow>
     discord_id_ok (c_assigned_discord_user_id p)
     \<and> (\<forall>u. c_discord_username_snapshot p = Some u \<longrightarrow> u \<noteq> [] \<and> trimmed u \<and> length u \<le> 100)
     \<and> selected_requirement_count (c_required_evidence p) > 0
     \<and> 1 \<le> c_max_submissions p \<and> c_max_submissions p \<le> 10
     \<and> (\<forall>t. c_expires_at p = Some t \<longrightarrow>
          (\<exists>date time period r. parse_expiration to_utc to_local date time period = Some r \<and> t = to_iso r))"

lemma parse_expiration_trim:
  "parse_expiration u l (trim d) (trim t) p = parse_expiration u l d t p"
proof -
  have "typed_fields (trim d) (trim t) = typed_fields d t"
    by (simp only: typed_fields_def trim_idem)
  then show ?thesis by (simp add: parse_expiration_fields)
qed

lemma validate_request_None:
  "validate_request to_utc to_local now s = None \<Longrightarrow>
     discord_id_ok (trim (rf_discord_id s)) \<and> length (rf_username s) \<le> 100
     \<and> 1 \<le> rf_max s \<and> rf_max s \<le> 10 \<and> selected_requirement_count (rf_requirements s) > 0
     \<and> (trim (rf_date s) = [] \<longleftrightarrow> trim (rf_time s) = [])
     \<and> (trim (rf_date s) \<noteq> [] \<longrightarrow> (\<exists>r. parse_expiration to_utc to_local (rf_date s) (rf_time s) (rf_period s) = Some r
            \<and> now < r))"
  by (auto simp: validate_request_def Let_def parse_expiration_trim split: if_splits option.splits)

text \<open>The click in closed form: the second parse of the submission never fails.\<close>

lemma request_submit_valid:
  assumes "\<not> rf_creating s" and "rf_created s = None" and "validate_request to_utc to_local now s = None"
  shows "request_submit to_utc to_local to_iso now s =
     (s\<lparr>rf_error := None, rf_creating := True\<rparr>,
      Some \<lparr>c_assigned_discord_user_id = trim (rf_discord_id s),
            c_discord_username_snapshot = or_null (trim (rf_username s)),
            c_required_evidence = rf_requirements s,
            c_expires_at =
              (if trim (rf_date s) = [] then None
               else map_option to_iso (parse_expiration to_utc to_local (rf_date s) (rf_time s) (rf_period s))),
            c_max_submissions = rf_max s\<rparr>)"
  using assms validate_request_None [OF assms(3)]
  by (auto simp: request_submit_def Let_def)

lemma request_submit_cases:
  assumes "request_submit to_utc to_local to_iso now s = (s', oq)"
  shows "oq = None \<and> rf_creating s' = rf_creating s
    \<or> (\<not> rf_creating s \<and> rf_creating s' \<and> (\<exists>p. oq = Some p \<and> create_payload_ok to_utc to_local to_iso p))"
proof (cases "\<not> rf_creating s \<and> rf_created s = None \<and> validate_request to_utc to_local now s = None")
  case True
  note v = validate_request_None [of to_utc to_local now s]
  have len: "length (trim (rf_username s)) \<le> length (rf_username s)" by (rule length_trim)
  from True v have "create_payload_ok to_utc to_local to_iso
     \<lparr>c_assigned_discord_user_id = trim (rf_discord_id s),
      c_discord_username_snapshot = or_null (trim (rf_username s)),
      c_required_evidence = rf_requirements s,
      c_expires_at =
        (if trim (rf_date s) = [] then None
         else map_option to_iso (parse_expiration to_utc to_local (rf_date s) (rf_time s) (rf_period s))),
      c_max_submissions = rf_max s\<rparr>"
    using len by (auto simp: create_payload_ok_def or_null_def)
  moreover have "\<not> rf_creating s" "rf_creating s'"
    using True assms by (auto simp: request_submit_valid)
  ultimately show ?thesis using True assms by (auto simp: request_submit_valid)
next
  case False
  with assms show ?thesis
    by (auto simp: request_submit_def Let_def split: if_splits option.splits)
qed

interpretation creation: releasing_flight
  "request_submit to_utc to_local to_iso" request_settle request_event rf_creating
  for to_utc to_local :: "int \<Rightarrow> int" and to_iso :: "int \<Rightarrow> string"
proof
  show "rf_creating s \<Longrightarrow> request_submit to_utc to_local to_iso i s = (s', oq) \<Longrightarrow> oq = None \<and> rf_creating s'"
    for to_utc to_local to_iso i s s' oq
    by (simp add: request_submit_def)
  show "\<not> rf_creating s \<Longrightarrow> request_submit to_utc to_local to_iso i s = (s', oq)
      \<Longrightarrow> rf_creating s' \<longleftrightarrow> oq \<noteq> None" for to_utc to_local to_iso i s s' oq
    by (drule request_submit_cases) auto
  show "request_settle q r s = (s', Some q') \<Longrightarrow> rf_creating s'" for q r s s' q'
    by (simp add: request_settle_def)
  show "request_settle q r s = (s', None) \<Longrightarrow> \<not> rf_creating s'" for q r s s'
    by (auto simp: request_settle_def split: sum.splits)
  show "rf_creating (request_event e s) \<longleftrightarrow> rf_creating s" for e s
    by (cases e) (simp_all add: reset_form_def while_editing_def)
qed

interpretation creation_good: guarded_handler
  "request_submit to_utc to_local to_iso" request_settle request_event "\<lambda>_. True"
  "create_payload_ok to_utc to_local to_iso"
  for to_utc to_local :: "int \<Rightarrow> int" and to_iso :: "int \<Rightarrow> string"
proof
  show "request_submit to_utc to_local to_iso i s = (s', Some q) \<Longrightarrow> create_payload_ok to_utc to_local to_iso q"
    for to_utc to_local to_iso i s s' q
    by (drule request_submit_cases) auto
  show "request_settle q r s = (s', Some q') \<Longrightarrow> create_payload_ok to_utc to_local to_iso q'"
    for to_utc to_local to_iso q r s s' q'
    by (simp add: request_settle_def)
qed simp_all

section \<open>Properties\<close>

text \<open>C31: in every interleaving the form creates one request at a time and is blocked only meanwhile,
  and every request it creates has a Discord ID of 17 to 20 digits, a trimmed name of at most 100
  characters or none, at least one requirement, 1 to 10 submissions, and as its expiration, if any,
  the instant of a date and time that \<open>parseExpirationDateTime\<close> accepts.\<close>

theorem created_requests_valid:
  "one_at_a_time rf_creating
     (flight_run (request_submit to_utc to_local to_iso) request_settle request_event ms request_form_new)
   \<and> list_all (create_payload_ok to_utc to_local to_iso)
     (fl_issued (flight_run (request_submit to_utc to_local to_iso) request_settle request_event ms
       request_form_new))"
  by (intro conjI creation.run_one_at_a_time creation_good.run_issued)
    (simp_all add: request_form_new_def)

text \<open>The validation decides alone: a click with a valid form always sends a request (the second,
  untrimmed reading of the expiration in the submission never fails), whose expiration is in the
  future; a click with an invalid form sends nothing and shows the validation's message.\<close>

theorem submit_follows_validation:
  "case validate_request to_utc to_local now s of
     Some message \<Rightarrow>
       snd (request_submit to_utc to_local to_iso now (s\<lparr>rf_creating := False, rf_created := None\<rparr>)) = None
       \<and> rf_error (fst (request_submit to_utc to_local to_iso now
             (s\<lparr>rf_creating := False, rf_created := None\<rparr>))) = Some message
   | None \<Rightarrow>
       (\<exists>p. snd (request_submit to_utc to_local to_iso now
               (s\<lparr>rf_creating := False, rf_created := None\<rparr>)) = Some p
          \<and> (if trim (rf_date s) = [] then c_expires_at p = None
             else \<exists>r. parse_expiration to_utc to_local (rf_date s) (rf_time s) (rf_period s) = Some r
                    \<and> now < r \<and> c_expires_at p = Some (to_iso r)))"
proof -
  let ?s = "s\<lparr>rf_creating := False, rf_created := None\<rparr>"
  have v: "validate_request to_utc to_local now ?s = validate_request to_utc to_local now s"
    by (simp add: validate_request_def Let_def)
  show ?thesis
  proof (cases "validate_request to_utc to_local now s")
    case None
    with v have "validate_request to_utc to_local now ?s = None" by simp
    then show ?thesis
      using None validate_request_None [OF None] by (auto simp: request_submit_valid)
  next
    case (Some message)
    with v show ?thesis by (simp add: request_submit_def)
  qed
qed

end
