(* ===== verification/Created_Request.thy ===== *)
theory Created_Request
  imports Request_Form
begin

text \<open>
  What \<open>create-verification-request-form.tsx\<close> shows when a request has been created:
  \<open>CreatedRequestState\<close>, which shows the private link once and copies it. Whether the browser lets
  the page write to the clipboard is decided by each event.
\<close>

section \<open>State\<close>

text \<open>\<open>cl_writes\<close> counts the calls of \<open>writeText\<close> under way (they all write the same link);
  \<open>cl_timers\<close> holds the milliseconds each timer still has to run.\<close>

record copy_panel =
  cl_copied :: bool
  cl_error :: "string option"
  cl_writes :: nat
  cl_timers :: "nat list"

definition copy_panel_new :: copy_panel where
  "copy_panel_new = \<lparr>cl_copied = False, cl_error = None, cl_writes = 0, cl_timers = []\<rparr>"

datatype copy_event = Copy_clicked | Written | Refused | Waits nat

fun copy_step :: "copy_event \<Rightarrow> copy_panel \<Rightarrow> copy_panel" where
  "copy_step Copy_clicked s = s\<lparr>cl_error := None, cl_writes := Suc (cl_writes s)\<rparr>"
| "copy_step Written s =
     (if cl_writes s = 0 then s
      else s\<lparr>cl_copied := True, cl_writes := cl_writes s - 1, cl_timers := cl_timers s @ [2000]\<rparr>)"
| "copy_step Refused s =
     (if cl_writes s = 0 then s
      else s\<lparr>cl_error := Some ''Unable to copy automatically. Select and copy the link manually.'',
             cl_writes := cl_writes s - 1\<rparr>)"
| "copy_step (Waits d) s =
     s\<lparr>cl_copied := cl_copied s \<and> list_all (\<lambda>t. d < t) (cl_timers s),
       cl_timers := map (\<lambda>t. t - d) (filter (\<lambda>t. d < t) (cl_timers s))\<rparr>"

definition copy_run :: "copy_event list \<Rightarrow> copy_panel" where
  "copy_run es = fold copy_step es copy_panel_new"

definition copy_label :: "copy_panel \<Rightarrow> string" where
  "copy_label s = (if cl_copied s then ''Copied'' else ''Copy private link'')"

section \<open>Facts\<close>

text \<open>While the button says so, a timer that ends it is running.\<close>

definition copy_ok :: "copy_panel \<Rightarrow> bool" where
  "copy_ok s \<longleftrightarrow> (cl_copied s \<longrightarrow> cl_timers s \<noteq> []) \<and> list_all (\<lambda>t. t \<le> 2000) (cl_timers s)"

lemma copy_step_ok: "copy_ok s \<Longrightarrow> copy_ok (copy_step e s)"
  by (cases e) (auto simp: copy_ok_def list_all_iff filter_empty_conv)

lemma copy_run_ok: "copy_ok (copy_run es)"
proof -
  have "copy_ok s \<Longrightarrow> copy_ok (fold copy_step es s)" for s
    by (induction es arbitrary: s) (simp_all add: copy_step_ok)
  then show ?thesis
    by (simp add: copy_run_def copy_panel_new_def copy_ok_def)
qed

text \<open>Two seconds without an answer always bring the first label back and leave no timer.\<close>

lemma copied_ends:
  "copy_label (copy_step (Waits 2000) (copy_run es)) = ''Copy private link''
   \<and> cl_timers (copy_step (Waits 2000) (copy_run es)) = []"
  using copy_run_ok [of es]
  by (auto simp: copy_ok_def copy_label_def list_all_iff filter_empty_conv neq_Nil_conv)

text \<open>A timer is not cleared by a second copy: the first one's timer ends the second one's label,
  here after half a second.\<close>

lemma second_copy_cut_short:
  "copy_label (copy_run [Copy_clicked, Written, Waits 1500, Copy_clicked, Written, Waits 500])
     = ''Copy private link''
   \<and> copy_label (copy_run [Copy_clicked, Written, Waits 1500, Copy_clicked, Written, Waits 499])
     = ''Copied''"
  by (simp add: copy_run_def copy_panel_new_def copy_label_def)

text \<open>The link is said to be copied only after a write that succeeded.\<close>

lemma copied_was_written: "cl_copied (copy_run es) \<Longrightarrow> Written \<in> set es"
proof -
  have "cl_copied (fold copy_step es s) \<Longrightarrow> cl_copied s \<or> Written \<in> set es" for s
  proof (induction es arbitrary: s)
    case (Cons e es)
    then show ?case by (cases e) (fastforce split: if_splits)+
  qed simp
  then show "cl_copied (copy_run es) \<Longrightarrow> Written \<in> set es"
    by (fastforce simp: copy_run_def copy_panel_new_def)
qed

end
