(* ===== verification/Team_Access.thy ===== *)
theory Team_Access
  imports Admin_Api Handlers
begin

text \<open>
  The Team and Access page, components/admin/admin-team-access.tsx: loading the team, inviting an
  administrator, and the sensitive actions on members and invitations. Each action awaits the step-up
  and its endpoint and then the reload of the page, which is a second request in the sense of
  Handlers. \<open>toISOString\<close> is a parameter; \<open>iv_expires\<close> is the time value of \<open>iv_expires_at\<close>,
  \<open>None\<close> for an invalid date.
\<close>

section \<open>Data\<close>

record team_member =
  tm_id :: string
  tm_email :: string
  tm_display_name :: string
  tm_role :: admin_role
  tm_active :: bool
  tm_mfa :: bool
  tm_security_updated :: "string option"
  tm_last_login :: "string option"

record team_invitation =
  iv_id :: string
  iv_email :: string
  iv_role :: admin_role
  iv_created_at :: string
  iv_expires_at :: string
  iv_expires :: "int option"
  iv_accepted_at :: "string option"
  iv_revoked_at :: "string option"

datatype team_notice = Team_success string | Team_error string

record team_page =
  ta_admin :: "current_admin option"
  ta_members :: "team_member list"
  ta_invitations :: "team_invitation list"
  ta_loading :: bool
  ta_refreshing :: bool
  ta_notice :: "team_notice option"
  ta_invite_open :: bool
  ta_invite_email :: string
  ta_invite_role :: admin_role
  ta_invite_submitting :: bool
  ta_busy :: "string option"
  ta_time :: int

definition team_page_new :: "int \<Rightarrow> team_page" where
  "team_page_new now =
     \<lparr>ta_admin = None, ta_members = [], ta_invitations = [], ta_loading = True, ta_refreshing = False,
      ta_notice = None, ta_invite_open = False, ta_invite_email = [], ta_invite_role = Reviewer,
      ta_invite_submitting = False, ta_busy = None, ta_time = now\<rparr>"

definition is_super_admin :: "team_page \<Rightarrow> bool" where
  "is_super_admin s \<longleftrightarrow> map_option admin_role (ta_admin s) = Some Super_admin"

definition is_self :: "team_page \<Rightarrow> team_member \<Rightarrow> bool" where
  "is_self s m \<longleftrightarrow> map_option admin_id (ta_admin s) = Some (tm_id m)"

fun role_label :: "admin_role \<Rightarrow> string" where
  "role_label Super_admin = ''Super Admin''"
| "role_label Admin = ''Admin''"
| "role_label Reviewer = ''Reviewer''"

definition active_members :: "team_page \<Rightarrow> nat" where
  "active_members s = length (filter tm_active (ta_members s))"

text \<open>The metric and the row decide separately whether an invitation is pending.\<close>

definition counts_as_pending :: "int \<Rightarrow> team_invitation \<Rightarrow> bool" where
  "counts_as_pending now i \<longleftrightarrow>
     \<not> truthy (iv_accepted_at i) \<and> \<not> truthy (iv_revoked_at i)
     \<and> (case iv_expires i of None \<Rightarrow> False | Some t \<Rightarrow> t > now)"

definition pending_invitations :: "team_page \<Rightarrow> team_invitation list" where
  "pending_invitations s = filter (counts_as_pending (ta_time s)) (ta_invitations s)"

definition invitation_expired :: "int \<Rightarrow> team_invitation \<Rightarrow> bool" where
  "invitation_expired now i \<longleftrightarrow> (case iv_expires i of None \<Rightarrow> False | Some t \<Rightarrow> t \<le> now)"

definition invitation_pending :: "int \<Rightarrow> team_invitation \<Rightarrow> bool" where
  "invitation_pending now i \<longleftrightarrow>
     \<not> truthy (iv_accepted_at i) \<and> \<not> truthy (iv_revoked_at i) \<and> \<not> invitation_expired now i"

definition invitation_state :: "int \<Rightarrow> team_invitation \<Rightarrow> string" where
  "invitation_state now i =
     (if truthy (iv_accepted_at i) then ''Accepted''
      else if truthy (iv_revoked_at i) then ''Revoked''
      else if invitation_pending now i then ''Pending''
      else ''Expired'')"

definition team_error_message :: "js_error \<Rightarrow> string \<Rightarrow> string" where
  "team_error_message e fallback =
     (if is_error e \<and> trim (error_message e) \<noteq> [] then error_message e else fallback)"

section \<open>Loading\<close>

record team_data =
  td_admin :: current_admin
  td_members :: "team_member list"
  td_invitations :: "team_invitation list"

definition load_team :: "bool \<Rightarrow> team_page \<Rightarrow> team_page" where
  "load_team refresh s =
     (if refresh then s\<lparr>ta_refreshing := True, ta_notice := None\<rparr>
      else s\<lparr>ta_loading := True, ta_notice := None\<rparr>)"

text \<open>The three answers together, with the time at which they are there.\<close>

definition team_loaded :: "js_error + team_data \<times> int \<Rightarrow> team_page \<Rightarrow> team_page" where
  "team_loaded r s =
     (case r of
        Inr (d, now) \<Rightarrow>
          s\<lparr>ta_admin := Some (td_admin d), ta_members := td_members d,
            ta_invitations := td_invitations d, ta_time := now\<rparr>
      | Inl e \<Rightarrow> s\<lparr>ta_notice := Some (Team_error (team_error_message e ''Unable to load Team & Access.''))\<rparr>)
       \<lparr>ta_loading := False, ta_refreshing := False\<rparr>"

section \<open>Sensitive actions\<close>

datatype member_action = Change_role admin_role | Revoke_sessions | Disable | Enable

fun action_name :: "member_action \<Rightarrow> string" where
  "action_name (Change_role _) = ''role''"
| "action_name Revoke_sessions = ''sessions''"
| "action_name Disable = ''disable''"
| "action_name Enable = ''enable''"

definition action_prefix :: "string \<Rightarrow> string" where
  "action_prefix member = ''member:'' @ member @ '':''"

definition invite_key :: "string \<Rightarrow> string" where
  "invite_key i = ''invite:'' @ i"

datatype team_call =
    Member_call team_member member_action bool  \<comment> \<open>on the administrator's own row\<close>
  | Resend_call team_invitation
  | Revoke_call team_invitation
  | Invite_call invitation_payload
  | Reload_call bool  \<comment> \<open>after an action or an invitation (which holds its own flag)\<close>

fun member_success :: "team_member \<Rightarrow> member_action \<Rightarrow> bool \<Rightarrow> string" where
  "member_success m (Change_role r) _ = ''Role updated to '' @ role_label r @ ''.''"
| "member_success m Revoke_sessions self =
     (if self then ''Your other administrator sessions were revoked.''
      else ''Sessions revoked for '' @ tm_email m @ ''.'')"
| "member_success m Disable _ = tm_email m @ '' was disabled.''"
| "member_success m Enable _ = tm_email m @ '' was enabled.''"

datatype team_click =
    Click_member team_member member_action
  | Click_resend team_invitation
  | Click_revoke team_invitation
  | Submit_invite int  \<comment> \<open>the time of the submission\<close>

definition member_busy :: "team_page \<Rightarrow> team_member \<Rightarrow> bool" where
  "member_busy s m \<longleftrightarrow>
     (case ta_busy s of None \<Rightarrow> False | Some b \<Rightarrow> starts_with b (action_prefix (tm_id m)))"

text \<open>Which controls a row offers: the sessions button on every row, the others on other
  administrators' rows, a role other than the present one, and the button for the present state.\<close>

definition member_offers :: "team_page \<Rightarrow> team_member \<Rightarrow> member_action \<Rightarrow> bool" where
  "member_offers s m a \<longleftrightarrow>
     (case a of
        Revoke_sessions \<Rightarrow> True
      | Change_role r \<Rightarrow> \<not> is_self s m \<and> r \<noteq> tm_role m
      | Disable \<Rightarrow> \<not> is_self s m \<and> tm_active m
      | Enable \<Rightarrow> \<not> is_self s m \<and> \<not> tm_active m)"

definition perform_sensitive_action ::
  "team_member \<Rightarrow> member_action \<Rightarrow> team_page \<Rightarrow> team_page \<times> team_call option" where
  "perform_sensitive_action m a s =
     (if \<not> is_super_admin s \<or> member_busy s m then (s, None)
      else (s\<lparr>ta_notice := None, ta_busy := Some (action_prefix (tm_id m) @ action_name a)\<rparr>,
            Some (Member_call m a (is_self s m))))"

definition invitation_action ::
  "team_invitation \<Rightarrow> team_call \<Rightarrow> team_page \<Rightarrow> team_page \<times> team_call option" where
  "invitation_action i q s =
     (if \<not> is_super_admin s \<or> \<not> invitation_pending (ta_time s) i \<or> ta_busy s = Some (invite_key (iv_id i))
      then (s, None)
      else (s\<lparr>ta_busy := Some (invite_key (iv_id i)), ta_notice := None\<rparr>, Some q))"

definition submit_invite ::
  "(int \<Rightarrow> string) \<Rightarrow> int \<Rightarrow> team_page \<Rightarrow> team_page \<times> team_call option" where
  "submit_invite to_iso now s =
     (let email = lower (trim (ta_invite_email s))
      in if email = [] then
           (s\<lparr>ta_notice := Some (Team_error ''Enter the administrator email address.'')\<rparr>, None)
         else
           (s\<lparr>ta_invite_submitting := True, ta_notice := None\<rparr>,
            Some (Invite_call \<lparr>i_email = email, i_role = ta_invite_role s,
              i_expires_at = to_iso (now + 24 * 60 * 60 * 1000)\<rparr>)))"

text \<open>The members shown are those loaded; the dialog's submit button is disabled while submitting and
  without an address.\<close>

definition team_start ::
  "(int \<Rightarrow> string) \<Rightarrow> team_click \<Rightarrow> team_page \<Rightarrow> team_page \<times> team_call option" where
  "team_start to_iso c s =
     (case c of
        Click_member m a \<Rightarrow>
          if \<not> ta_loading s \<and> m \<in> set (ta_members s) \<and> member_offers s m a
          then perform_sensitive_action m a s else (s, None)
      | Click_resend i \<Rightarrow>
          if \<not> ta_loading s \<and> i \<in> set (ta_invitations s) then invitation_action i (Resend_call i) s
          else (s, None)
      | Click_revoke i \<Rightarrow>
          if \<not> ta_loading s \<and> i \<in> set (ta_invitations s) then invitation_action i (Revoke_call i) s
          else (s, None)
      | Submit_invite now \<Rightarrow>
          if ta_invite_open s \<and> \<not> ta_invite_submitting s \<and> trim (ta_invite_email s) \<noteq> []
          then submit_invite to_iso now s else (s, None))"

definition team_effect ::
  "admin_env \<Rightarrow> 'w server \<Rightarrow> string \<times> request_options \<Rightarrow> ('w admin_page, json option) act" where
  "team_effect env srv c =
     act_bind (step_up_admin_session env srv) (\<lambda>_. admin_fetch env srv (fst c) (snd c))"

fun team_endpoint :: "team_call \<Rightarrow> string \<times> request_options" where
  "team_endpoint (Member_call m (Change_role r) _) = change_admin_role (tm_id m) r"
| "team_endpoint (Member_call m Revoke_sessions _) = revoke_team_admin_sessions (tm_id m)"
| "team_endpoint (Member_call m Disable _) = disable_team_admin (tm_id m)"
| "team_endpoint (Member_call m Enable _) = enable_team_admin (tm_id m)"
| "team_endpoint (Resend_call i) = resend_admin_invitation (iv_id i)"
| "team_endpoint (Revoke_call i) = revoke_admin_invitation (iv_id i) (Some ''Revoked by Super Administrator.'')"
| "team_endpoint (Invite_call p) = create_admin_invitation p"
| "team_endpoint (Reload_call _) = get_admin_team"

text \<open>A success sets the notice and calls \<open>loadTeam(true)\<close>, both before anything is rendered.\<close>

datatype team_answer = Done | Team_failed js_error | Team_data "team_data \<times> int"

definition team_settle ::
  "team_call \<Rightarrow> team_answer \<Rightarrow> team_page \<Rightarrow> team_page \<times> team_call option" where
  "team_settle q r s =
     (case q of
        Member_call m a self \<Rightarrow>
          (case r of
             Team_failed e \<Rightarrow>
               (s\<lparr>ta_notice := Some (Team_error (team_error_message e ''Unable to update administrator access.'')),
                  ta_busy := None\<rparr>, None)
           | _ \<Rightarrow> (load_team True (s\<lparr>ta_notice := Some (Team_success (member_success m a self))\<rparr>),
                   Some (Reload_call False)))
      | Resend_call i \<Rightarrow>
          (case r of
             Team_failed e \<Rightarrow>
               (s\<lparr>ta_notice := Some (Team_error (team_error_message e ''Unable to resend administrator invitation.'')),
                  ta_busy := None\<rparr>, None)
           | _ \<Rightarrow> (load_team True (s\<lparr>ta_notice := Some (Team_success
                      (''Invitation for '' @ iv_email i @ '' was resent.''))\<rparr>), Some (Reload_call False)))
      | Revoke_call i \<Rightarrow>
          (case r of
             Team_failed e \<Rightarrow>
               (s\<lparr>ta_notice := Some (Team_error (team_error_message e ''Unable to revoke administrator invitation.'')),
                  ta_busy := None\<rparr>, None)
           | _ \<Rightarrow> (load_team True (s\<lparr>ta_notice := Some (Team_success
                      (''Invitation for '' @ iv_email i @ '' was revoked.''))\<rparr>), Some (Reload_call False)))
      | Invite_call p \<Rightarrow>
          (case r of
             Team_failed e \<Rightarrow>
               (s\<lparr>ta_invite_open := False,
                  ta_notice := Some (Team_error (team_error_message e ''Unable to create administrator invitation.'')),
                  ta_invite_submitting := False\<rparr>, None)
           | _ \<Rightarrow> (load_team True (s\<lparr>ta_invite_open := False, ta_invite_email := [], ta_invite_role := Reviewer,
                      ta_notice := Some (Team_success (''Invitation sent to '' @ i_email p @ ''.''))\<rparr>),
                   Some (Reload_call True)))
      | Reload_call invite \<Rightarrow>
          (let s1 = team_loaded (case r of Team_data d \<Rightarrow> Inr d | Team_failed e \<Rightarrow> Inl e
                                 | Done \<Rightarrow> Inl NotAnError) s
           in (if invite then s1\<lparr>ta_invite_submitting := False\<rparr> else s1\<lparr>ta_busy := None\<rparr>, None)))"

datatype team_input =
    Loaded_team "js_error + team_data \<times> int"  \<comment> \<open>the answer to the first load or a manual refresh\<close>
  | Click_reload
  | Open_invite | Close_invite
  | Type_invite_email string | Choose_invite_role admin_role

fun team_event :: "team_input \<Rightarrow> team_page \<Rightarrow> team_page" where
  "team_event (Loaded_team r) s = team_loaded r s"
| "team_event Click_reload s = (if ta_refreshing s \<or> ta_loading s then s else load_team True s)"
| "team_event Open_invite s = (if is_super_admin s then s\<lparr>ta_invite_open := True\<rparr> else s)"
| "team_event Close_invite s =
     (if \<not> ta_invite_open s \<or> ta_invite_submitting s then s
      else s\<lparr>ta_invite_open := False, ta_invite_email := [], ta_invite_role := Reviewer\<rparr>)"
| "team_event (Type_invite_email t) s =
     (if ta_invite_open s \<and> \<not> ta_invite_submitting s then s\<lparr>ta_invite_email := t\<rparr> else s)"
| "team_event (Choose_invite_role r) s =
     (if ta_invite_open s \<and> \<not> ta_invite_submitting s then s\<lparr>ta_invite_role := r\<rparr> else s)"

section \<open>What is sent and what is reported\<close>

definition team_call_ok :: "team_call \<Rightarrow> bool" where
  "team_call_ok q \<longleftrightarrow>
     (case q of
        Member_call m a self \<Rightarrow> self \<longrightarrow> a = Revoke_sessions
      | Invite_call p \<Rightarrow> i_email p \<noteq> [] \<and> trimmed (i_email p) \<and> lower (i_email p) = i_email p
      | _ \<Rightarrow> True)"

definition no_success_shown :: "team_page \<Rightarrow> bool" where
  "no_success_shown s \<longleftrightarrow> (case ta_notice s of Some (Team_success _) \<Rightarrow> False | _ \<Rightarrow> True)"

lemma code_to_lower: "code (to_lower c) = (if is_upper c then code c + 32 else code c)"
  by (auto simp: to_lower_def is_upper_def)

lemma to_lower_idem [simp]: "to_lower (to_lower c) = to_lower c"
  using code_to_lower [of c] by (auto simp: to_lower_def [of "to_lower c"] is_upper_def)

lemma trimmed_lower: "trimmed s \<Longrightarrow> trimmed (lower s)"
proof -
  assume h: "trimmed s"
  have ws: "is_ws (to_lower c) \<longleftrightarrow> is_ws c" for c
    using code_to_lower [of c] by (auto simp: is_ws_def is_upper_def split: if_splits)
  with h show ?thesis by (cases "s = []") (auto simp: trimmed_def hd_map last_map)
qed

lemma team_start_cases:
  assumes "team_start to_iso c s = (s', oq)"
  shows "(oq = None \<and> (ta_notice s' = ta_notice s \<or> (\<exists>m. ta_notice s' = Some (Team_error m))))
    \<or> (ta_notice s' = None \<and> (\<exists>q. oq = Some q \<and> team_call_ok q))"
proof (cases c)
  case (Click_member m a)
  with assms show ?thesis
    by (auto simp: team_start_def perform_sensitive_action_def team_call_ok_def member_offers_def
        split: if_splits member_action.splits)
next
  case (Submit_invite now)
  have "trimmed (lower (trim (ta_invite_email s)))" by (intro trimmed_lower trimmed_trim)
  with Submit_invite assms show ?thesis
    by (auto simp: team_start_def submit_invite_def team_call_ok_def Let_def split: if_splits)
qed (use assms in \<open>auto simp: team_start_def invitation_action_def team_call_ok_def split: if_splits\<close>)

lemma team_loaded_notice: "no_success_shown s \<Longrightarrow> no_success_shown (team_loaded r s)"
  by (auto simp: no_success_shown_def team_loaded_def split: sum.split prod.split)

lemma team_settle_cases:
  assumes "no_success_shown s" and "team_settle q r s = (s', oq)"
  shows "no_success_shown s' \<and> (\<forall>q'. oq = Some q' \<longrightarrow> team_call_ok q')"
proof (cases q)
  case (Reload_call b)
  with assms(2) have "s' = (if b then (\<lambda>t. t\<lparr>ta_invite_submitting := False\<rparr>) else (\<lambda>t. t\<lparr>ta_busy := None\<rparr>))
      (team_loaded (case r of Team_data d \<Rightarrow> Inr d | Team_failed e \<Rightarrow> Inl e | Done \<Rightarrow> Inl NotAnError) s)
    \<and> oq = None"
    by (auto simp: team_settle_def Let_def)
  with team_loaded_notice [OF assms(1)] show ?thesis by (simp add: no_success_shown_def)
qed (use assms in \<open>auto simp: team_settle_def load_team_def no_success_shown_def team_call_ok_def
    split: team_answer.splits\<close>)

interpretation team: guarded_handler
  "team_start to_iso" team_settle team_event no_success_shown team_call_ok
  for to_iso :: "int \<Rightarrow> string"
proof
  show "no_success_shown s \<Longrightarrow> team_start to_iso i s = (s', oq) \<Longrightarrow> no_success_shown s'" for to_iso i s s' oq
    by (drule team_start_cases) (auto simp: no_success_shown_def)
  show "team_start to_iso i s = (s', Some q) \<Longrightarrow> team_call_ok q" for to_iso i s s' q
    by (drule team_start_cases) auto
  show "no_success_shown s \<Longrightarrow> team_settle q r s = (s', oq) \<Longrightarrow> no_success_shown s'" for q r s s' oq
    using team_settle_cases by blast
  show "no_success_shown s \<Longrightarrow> team_settle q r s = (s', Some q') \<Longrightarrow> team_call_ok q'" for q r s s' q'
    using team_settle_cases by blast
  show "no_success_shown s \<Longrightarrow> no_success_shown (team_event e s)" for e s
    by (cases e) (auto simp: team_loaded_notice, auto simp: no_success_shown_def load_team_def)
qed

section \<open>Properties\<close>

text \<open>Whatever happens on the page, an administrator's own row sends nothing but the revocation of
  its sessions, an invitation goes to a trimmed lower-case address, and no state the page can be
  rendered in shows a success notice: the reload that follows every success clears it at once.\<close>

theorem team_calls_and_notices:
  "list_all team_call_ok
     (fl_issued (flight_run (team_start to_iso) team_settle team_event ms (team_page_new now)))
   \<and> no_success_shown
     (fl_state (flight_run (team_start to_iso) team_settle team_event ms (team_page_new now)))"
  by (intro conjI team.run_issued team.run_state) (simp_all add: no_success_shown_def team_page_new_def)

text \<open>A member or an existing invitation is only acted on by a super administrator, and not while
  the busy flag names it; but the page has one flag for all rows, so that acting on another member
  lifts it and the first action can be sent again while it is still under way.\<close>

theorem team_busy_flag:
  "(case snd (team_start to_iso c s) of
      Some (Member_call m a self) \<Rightarrow> is_super_admin s \<and> \<not> member_busy s m
    | Some (Resend_call i) \<Rightarrow> is_super_admin s \<and> ta_busy s \<noteq> Some (invite_key (iv_id i))
    | Some (Revoke_call i) \<Rightarrow> is_super_admin s \<and> ta_busy s \<noteq> Some (invite_key (iv_id i))
    | _ \<Rightarrow> True)
   \<and> (let me = \<lparr>admin_id = ''0'', admin_email = [], admin_display_name = [], admin_role = Super_admin\<rparr>;
         a = \<lparr>tm_id = ''1'', tm_email = [], tm_display_name = [], tm_role = Admin, tm_active = True,
               tm_mfa = True, tm_security_updated = None, tm_last_login = None\<rparr>;
         b = \<lparr>tm_id = ''2'', tm_email = [], tm_display_name = [], tm_role = Admin, tm_active = True,
               tm_mfa = True, tm_security_updated = None, tm_last_login = None\<rparr>
     in fl_pending (flight_run (team_start to_iso) team_settle team_event
          [Other (Loaded_team (Inr (\<lparr>td_admin = me, td_members = [a, b], td_invitations = []\<rparr>, 0))),
           Start (Click_member a Disable), Start (Click_member b Disable), Start (Click_member a Disable)]
          (team_page_new 0))
        = [Member_call a Disable False, Member_call b Disable False, Member_call a Disable False])"
proof
  show "case snd (team_start to_iso c s) of
      Some (Member_call m a self) \<Rightarrow> is_super_admin s \<and> \<not> member_busy s m
    | Some (Resend_call i) \<Rightarrow> is_super_admin s \<and> ta_busy s \<noteq> Some (invite_key (iv_id i))
    | Some (Revoke_call i) \<Rightarrow> is_super_admin s \<and> ta_busy s \<noteq> Some (invite_key (iv_id i))
    | _ \<Rightarrow> True"
    by (cases c) (auto simp: team_start_def perform_sensitive_action_def invitation_action_def
        submit_invite_def Let_def)
  show "let me = \<lparr>admin_id = ''0'', admin_email = [], admin_display_name = [], admin_role = Super_admin\<rparr>;
         a = \<lparr>tm_id = ''1'', tm_email = [], tm_display_name = [], tm_role = Admin, tm_active = True,
               tm_mfa = True, tm_security_updated = None, tm_last_login = None\<rparr>;
         b = \<lparr>tm_id = ''2'', tm_email = [], tm_display_name = [], tm_role = Admin, tm_active = True,
               tm_mfa = True, tm_security_updated = None, tm_last_login = None\<rparr>
     in fl_pending (flight_run (team_start to_iso) team_settle team_event
          [Other (Loaded_team (Inr (\<lparr>td_admin = me, td_members = [a, b], td_invitations = []\<rparr>, 0))),
           Start (Click_member a Disable), Start (Click_member b Disable), Start (Click_member a Disable)]
          (team_page_new 0))
        = [Member_call a Disable False, Member_call b Disable False, Member_call a Disable False]"
    by (simp add: Let_def flight_run_def team_page_new_def team_loaded_def team_start_def
        member_offers_def is_self_def perform_sensitive_action_def is_super_admin_def member_busy_def
        action_prefix_def starts_with_def)
qed

text \<open>With valid dates the number of pending invitations in the metric is the number of rows
  labelled Pending.\<close>

lemma pending_metric_agrees:
  assumes "list_all (\<lambda>i. iv_expires i \<noteq> None) (ta_invitations s)"
  shows "length (pending_invitations s) =
     length (filter (\<lambda>i. invitation_state (ta_time s) i = ''Pending'') (ta_invitations s))"
proof -
  have "counts_as_pending (ta_time s) i \<longleftrightarrow> invitation_state (ta_time s) i = ''Pending''"
    if "i \<in> set (ta_invitations s)" for i
    using that assms
    by (cases "iv_expires i")
      (auto simp: list_all_iff counts_as_pending_def invitation_state_def invitation_pending_def
        invitation_expired_def)
  then show ?thesis by (simp add: pending_invitations_def cong: filter_cong)
qed

theorem pending_metric_agrees_witness:
  "length (pending_invitations ((team_page_new 10)\<lparr>ta_invitations :=
     [\<lparr>iv_id = ''a'', iv_email = [], iv_role = Admin, iv_created_at = [], iv_expires_at = [], iv_expires = Some 11, iv_accepted_at = None,
       iv_revoked_at = None\<rparr>]\<rparr>)) = 1"
  by (subst pending_metric_agrees)
    (simp_all add: team_page_new_def invitation_state_def invitation_pending_def
      invitation_expired_def truthy_def)

end
