(* ===== verification/Filtered_Lists.thy ===== *)
theory Filtered_Lists
  imports Handlers
begin

text \<open>
  Pages that show a list under a filter. A change of the filter (re)sets a timer; the timer, or a
  refresh button, loads the list for the filter of that moment; the answer replaces the list. The
  contract says when such a page, once it is quiet, shows what its filter asks for: when answers
  arrive in the order of the requests. Nothing in the pages themselves enforces that order.
\<close>

fun in_order :: "('i \<Rightarrow> bool) \<Rightarrow> ('i, 'o, 'e) move \<Rightarrow> bool" where
  "in_order plain (Start i) \<longleftrightarrow> plain i"
| "in_order plain (Settle k _) \<longleftrightarrow> k = 0"
| "in_order plain (Other _) \<longleftrightarrow> True"

text \<open>
  \<open>current\<close> is the filter, \<open>timer\<close> the filter a pending timer will load, \<open>shown\<close> the filter of the
  list on the page, \<open>failed\<close> an error on the page, and \<open>asked\<close> the filter of a load (no other call
  has one). \<open>plain\<close> are the inputs that load.
\<close>

locale filtered_list =
  fixes start :: "'i \<Rightarrow> 's \<Rightarrow> 's \<times> 'q option"
    and settle :: "'q \<Rightarrow> 'o \<Rightarrow> 's \<Rightarrow> 's \<times> 'q option"
    and other :: "'e \<Rightarrow> 's \<Rightarrow> 's"
    and plain :: "'i \<Rightarrow> bool"
    and current :: "'s \<Rightarrow> 'f"
    and timer :: "'s \<Rightarrow> 'f option"
    and shown :: "'s \<Rightarrow> 'f option"
    and failed :: "'s \<Rightarrow> bool"
    and asked :: "'q \<Rightarrow> 'f option"
  assumes start_none: "plain i \<Longrightarrow> start i s = (s', None) \<Longrightarrow> s' = s"
    and start_load: "plain i \<Longrightarrow> start i s = (s', Some q) \<Longrightarrow> timer s = None \<or> timer s = Some (current s)
      \<Longrightarrow> asked q = Some (current s) \<and> current s' = current s \<and> (timer s' = None \<or> timer s' = timer s)"
    and settle_load: "asked q = Some f \<Longrightarrow> settle q r s = (s', oq)
      \<Longrightarrow> oq = None \<and> current s' = current s \<and> timer s' = timer s \<and> (failed s' \<or> shown s' = Some f)"
    and other_change: "timer (other e s) = Some (current (other e s))
      \<or> (current (other e s) = current s \<and> timer (other e s) = timer s
         \<and> shown (other e s) = shown s \<and> failed (other e s) = failed s)"
begin

definition awaited :: "('s, 'q) flight \<Rightarrow> bool" where
  "awaited f \<longleftrightarrow>
     (\<forall>q \<in> set (fl_pending f). asked q \<noteq> None)
     \<and> (timer (fl_state f) = Some (current (fl_state f))
        \<or> (timer (fl_state f) = None
           \<and> (if fl_pending f = []
              then failed (fl_state f) \<or> shown (fl_state f) = Some (current (fl_state f))
              else asked (List.last (fl_pending f)) = Some (current (fl_state f)))))"

lemma step_awaited:
  assumes h: "awaited f" and m: "in_order plain m"
  shows "awaited (flight_step start settle other m f)"
proof (cases m)
  case (Start i)
  obtain s' oq where st: "start i (fl_state f) = (s', oq)" by (cases "start i (fl_state f)")
  have p: "plain i" using m Start by simp
  show ?thesis
  proof (cases oq)
    case None
    with st start_none [OF p] have "s' = fl_state f" by simp
    with h Start st None show ?thesis by (simp add: awaited_def)
  next
    case (Some q)
    have "timer (fl_state f) = None \<or> timer (fl_state f) = Some (current (fl_state f))"
      using h by (auto simp: awaited_def)
    from start_load [OF p _ this] st Some
    have "asked q = Some (current (fl_state f))" "current s' = current (fl_state f)"
      "timer s' = None \<or> timer s' = timer (fl_state f)"
      by simp_all
    with h Start st Some show ?thesis by (auto simp: awaited_def)
  qed
next
  case (Settle k r)
  show ?thesis
  proof (cases "fl_pending f")
    case Nil
    with h Settle show ?thesis by simp
  next
    case (Cons q qs)
    obtain s' oq where st: "settle q r (fl_state f) = (s', oq)" by (cases "settle q r (fl_state f)")
    obtain g where g: "asked q = Some g" using h Cons by (auto simp: awaited_def)
    have "oq = None" "current s' = current (fl_state f)" "timer s' = timer (fl_state f)"
      "failed s' \<or> shown s' = Some g"
      using settle_load [OF g st] by simp_all
    with h m Settle st Cons g show ?thesis
      by (cases "qs = []") (auto simp: awaited_def)
  qed
next
  case (Other e)
  with h other_change [of e "fl_state f"] show ?thesis by (auto simp: awaited_def)
qed

lemma steps_awaited:
  "awaited f \<Longrightarrow> list_all (in_order plain) ms \<Longrightarrow> awaited (fold (flight_step start settle other) ms f)"
  by (induction ms arbitrary: f) (simp_all add: step_awaited)

lemma quiet_shows_current:
  assumes "timer s = Some (current s)" and "list_all (in_order plain) ms"
    and "f = flight_run start settle other ms s"
    and "fl_pending f = []" and "timer (fl_state f) = None" and "\<not> failed (fl_state f)"
  shows "shown (fl_state f) = Some (current (fl_state f))"
proof -
  have "awaited f"
    unfolding assms(3) flight_run_def by (rule steps_awaited) (use assms(1,2) in \<open>simp_all add: awaited_def\<close>)
  with assms(4-6) show ?thesis by (simp add: awaited_def)
qed

end

end
