(* ===== verification/Verification_Queue.thy ===== *)
theory Verification_Queue
  imports Filtered_Lists Review_Panels
begin

text \<open>
  \<open>components/admin/verification-queue.tsx\<close>: the review queue with its search text and status
  filters, and claiming a case. \<open>loadQueue\<close> is a closure over the filter of its render: the effect's
  timer, the refresh button and a failed claim each call the one they captured.
\<close>

section \<open>State\<close>

type_synonym queue_filter = "string \<times> verification_status list"

record queue_item =
  qi_id :: string
  qi_discord_user_id :: string
  qi_discord_username :: "string option"
  qi_status :: verification_status
  qi_queue_entered_at :: "string option"
  qi_review_started_at :: "string option"
  qi_created_at :: string
  qi_expires_at :: string
  qi_created_by_id :: "string option"
  qi_created_by_name :: "string option"
  qi_reviewer_id :: "string option"
  qi_reviewer_name :: "string option"
  qi_last_activity_at :: string

text \<open>\<open>vq_shown\<close> is the filter of the answer on the page; the code does not record it.\<close>

record queue_page =
  vq_items :: "queue_item list"
  vq_total :: int
  vq_loading :: bool
  vq_search :: string
  vq_statuses :: "verification_status list"
  vq_error :: "string option"
  vq_claiming :: "string option"
  vq_timer :: "queue_filter option"
  vq_routes :: "string list"
  vq_shown :: "queue_filter option"

definition status_filters :: "(verification_status \<times> string) list" where
  "status_filters =
     [(Queued, ''Queued''), (In_review, ''In Review''), (More_info, ''More Info''),
      (Approved, ''Approved''), (Rejected, ''Rejected'')]"

definition queue_filter_now :: "queue_page \<Rightarrow> queue_filter" where
  "queue_filter_now s = (vq_search s, vq_statuses s)"

text \<open>The first render, whose effect has set the timer.\<close>

definition queue_page_new :: queue_page where
  "queue_page_new =
     \<lparr>vq_items = [], vq_total = 0, vq_loading = True, vq_search = [], vq_statuses = [Queued],
      vq_error = None, vq_claiming = None, vq_timer = Some ([], [Queued]), vq_routes = [],
      vq_shown = None\<rparr>"

definition visible_queued_count :: "queue_page \<Rightarrow> nat" where
  "visible_queued_count s = length (filter (\<lambda>i. qi_status i = Queued) (vq_items s))"

section \<open>Handlers\<close>

datatype queue_call = Load_queue queue_filter | Claim_case string queue_filter

datatype queue_answer = Queue_result "queue_item list" int | Claimed | Queue_failed js_error

datatype queue_click = Queue_timer | Click_refresh | Click_claim string

definition load_queue :: "queue_filter \<Rightarrow> queue_page \<Rightarrow> queue_page \<times> queue_call option" where
  "load_queue f s = (s\<lparr>vq_loading := True, vq_error := None\<rparr>, Some (Load_queue f))"

text \<open>A row's claim button is there while the row is queued, and disabled while that row is the one
  being claimed.\<close>

definition queue_start :: "queue_click \<Rightarrow> queue_page \<Rightarrow> queue_page \<times> queue_call option" where
  "queue_start c s =
     (case c of
        Queue_timer \<Rightarrow>
          (case vq_timer s of None \<Rightarrow> (s, None) | Some f \<Rightarrow> load_queue f (s\<lparr>vq_timer := None\<rparr>))
      | Click_refresh \<Rightarrow> load_queue (queue_filter_now s) s
      | Click_claim i \<Rightarrow>
          if list_ex (\<lambda>item. qi_id item = i \<and> qi_status item = Queued) (vq_items s) \<and> vq_claiming s \<noteq> Some i
          then (s\<lparr>vq_claiming := Some i, vq_error := None\<rparr>, Some (Claim_case i (queue_filter_now s)))
          else (s, None))"

definition queue_endpoint :: "queue_call \<Rightarrow> string \<times> request_options" where
  "queue_endpoint q =
     (case q of
        Load_queue f \<Rightarrow>
          get_admin_queue (Some (trim (fst f))) (if length (snd f) > 0 then Some (snd f) else None) None None
      | Claim_case i _ \<Rightarrow> claim_admin_case i)"

definition queue_settle ::
  "queue_call \<Rightarrow> queue_answer \<Rightarrow> queue_page \<Rightarrow> queue_page \<times> queue_call option" where
  "queue_settle q r s =
     (case q of
        Load_queue f \<Rightarrow>
          (case r of
             Queue_result items n \<Rightarrow>
               (s\<lparr>vq_items := items, vq_total := n, vq_loading := False, vq_shown := Some f\<rparr>, None)
           | Queue_failed e \<Rightarrow>
               (s\<lparr>vq_error := Some (cause_message e ''Unable to load verification queue.''),
                  vq_loading := False\<rparr>, None)
           | Claimed \<Rightarrow> (s\<lparr>vq_error := Some ''Unable to load verification queue.'', vq_loading := False\<rparr>, None))
      | Claim_case i f \<Rightarrow>
          (case r of
             Queue_failed e \<Rightarrow>
               load_queue f (s\<lparr>vq_error := Some (cause_message e ''Unable to claim case.''),
                               vq_claiming := None\<rparr>)
           | _ \<Rightarrow> (s\<lparr>vq_routes := vq_routes s @ [''/admin/verification-requests/'' @ i]\<rparr>, None)))"

datatype queue_input =
    Type_search string | Toggle_status verification_status | Clear_filters | Open_case string
  | Create_request

definition toggle_status :: "verification_status \<Rightarrow> verification_status list \<Rightarrow> verification_status list" where
  "toggle_status st now = (if st \<in> set now then filter (\<lambda>v. v \<noteq> st) now else now @ [st])"

text \<open>
  A new filter gives a new \<open>loadQueue\<close>, so the effect clears its timer and sets another. The buttons:
  one for each status of \<open>status_filters\<close>, the clearing of the filters while there are some, and the
  opening of a row that is not queued.
\<close>

fun queue_event :: "queue_input \<Rightarrow> queue_page \<Rightarrow> queue_page" where
  "queue_event (Type_search t) s =
     (if t = vq_search s then s else s\<lparr>vq_search := t, vq_timer := Some (t, vq_statuses s)\<rparr>)"
| "queue_event (Toggle_status st) s =
     (if st \<in> fst ` set status_filters
      then s\<lparr>vq_statuses := toggle_status st (vq_statuses s),
             vq_timer := Some (vq_search s, toggle_status st (vq_statuses s))\<rparr>
      else s)"
| "queue_event Clear_filters s =
     (if vq_statuses s \<noteq> [] then s\<lparr>vq_statuses := [], vq_timer := Some (vq_search s, [])\<rparr> else s)"
| "queue_event (Open_case i) s =
     (if list_ex (\<lambda>item. qi_id item = i \<and> qi_status item \<noteq> Queued) (vq_items s)
      then s\<lparr>vq_routes := vq_routes s @ [''/admin/verification-requests/'' @ i]\<rparr> else s)"
| "queue_event Create_request s = s\<lparr>vq_routes := vq_routes s @ [''/admin/verification-requests/new'']\<rparr>"

section \<open>Facts\<close>

lemma toggle_twice: "set (toggle_status st (toggle_status st xs)) = set xs"
  by (auto simp: toggle_status_def)

lemma toggle_distinct: "distinct xs \<Longrightarrow> distinct (toggle_status st xs)"
  by (simp add: toggle_status_def)

fun loads :: "queue_click \<Rightarrow> bool" where
  "loads (Click_claim _) \<longleftrightarrow> False"
| "loads _ \<longleftrightarrow> True"

fun asked_filter :: "queue_call \<Rightarrow> queue_filter option" where
  "asked_filter (Load_queue f) = Some f"
| "asked_filter (Claim_case _ _) = None"

interpretation queue: filtered_list
  queue_start queue_settle queue_event loads queue_filter_now vq_timer vq_shown "\<lambda>s. vq_error s \<noteq> None"
  asked_filter
proof
  show "loads i \<Longrightarrow> queue_start i s = (s', None) \<Longrightarrow> s' = s" for i s s'
    by (cases i) (auto simp: queue_start_def load_queue_def split: option.splits)
  show "loads i \<Longrightarrow> queue_start i s = (s', Some q) \<Longrightarrow> vq_timer s = None \<or> vq_timer s = Some (queue_filter_now s)
      \<Longrightarrow> asked_filter q = Some (queue_filter_now s) \<and> queue_filter_now s' = queue_filter_now s
        \<and> (vq_timer s' = None \<or> vq_timer s' = vq_timer s)" for i s s' q
    by (cases i) (auto simp: queue_start_def load_queue_def queue_filter_now_def split: option.splits)
  show "asked_filter q = Some f \<Longrightarrow> queue_settle q r s = (s', oq)
      \<Longrightarrow> oq = None \<and> queue_filter_now s' = queue_filter_now s \<and> vq_timer s' = vq_timer s
        \<and> (vq_error s' \<noteq> None \<or> vq_shown s' = Some f)" for q f r s s' oq
    by (cases q; cases r) (auto simp: queue_settle_def queue_filter_now_def)
  show "vq_timer (queue_event e s) = Some (queue_filter_now (queue_event e s))
      \<or> (queue_filter_now (queue_event e s) = queue_filter_now s \<and> vq_timer (queue_event e s) = vq_timer s
         \<and> vq_shown (queue_event e s) = vq_shown s
         \<and> (vq_error (queue_event e s) \<noteq> None) = (vq_error s \<noteq> None))" for e s
    by (cases e) (simp_all add: queue_filter_now_def)
qed

section \<open>Properties\<close>

text \<open>C35: as long as no case is claimed and answers arrive in order, a quiet queue without an error
  shows the cases of its own search text and status filters. A failed claim breaks this, since it
  reloads the list for the filter of the moment of the click; so does an answer that overtakes
  another. And the message of a failed claim is gone before it is rendered: the reload that follows
  clears it.\<close>

theorem queue_shows_filter:
  "(let f = flight_run queue_start queue_settle queue_event ms queue_page_new; s = fl_state f
    in if list_all (in_order loads) ms \<and> fl_pending f = [] \<and> vq_timer s = None \<and> vq_error s = None
       then vq_shown s = Some (vq_search s, vq_statuses s) else True)
   \<and> (let f = flight_run queue_start queue_settle queue_event
          [Start Queue_timer, Settle 0 (Queue_result [item\<lparr>qi_status := Queued\<rparr>] 1),
           Start (Click_claim (qi_id item)), Other (Toggle_status Queued), Start Queue_timer,
           Settle 0 (Queue_failed e), Settle 0 (Queue_result others m),
           Settle 0 (Queue_result queued n)] queue_page_new; s = fl_state f
      in fl_pending f = [] \<and> vq_timer s = None \<and> vq_error s = None \<and> vq_statuses s = []
         \<and> vq_items s = queued \<and> vq_shown s = Some ([], [Queued]))
   \<and> (let f = flight_run queue_start queue_settle queue_event
          [Start Queue_timer, Other (Toggle_status Approved), Start Queue_timer,
           Settle 1 (Queue_result late m), Settle 0 (Queue_result early n)] queue_page_new; s = fl_state f
      in fl_pending f = [] \<and> vq_timer s = None \<and> vq_error s = None
         \<and> vq_statuses s = [Queued, Approved] \<and> vq_items s = early)
   \<and> vq_error (fst (queue_settle (Claim_case i g) (Queue_failed e) s0)) = None"
proof (intro conjI)
  have "vq_timer queue_page_new = Some (queue_filter_now queue_page_new)"
    by (simp add: queue_page_new_def queue_filter_now_def)
  from queue.quiet_shows_current [OF this _ refl]
  show "let f = flight_run queue_start queue_settle queue_event ms queue_page_new; s = fl_state f
    in if list_all (in_order loads) ms \<and> fl_pending f = [] \<and> vq_timer s = None \<and> vq_error s = None
       then vq_shown s = Some (vq_search s, vq_statuses s) else True"
    by (simp add: Let_def queue_filter_now_def)
qed (simp_all add: Let_def flight_run_def queue_page_new_def queue_start_def load_queue_def queue_settle_def
    queue_filter_now_def toggle_status_def status_filters_def)

end
