(* ===== verification/Audit_Activity.thy ===== *)
theory Audit_Activity
  imports Filtered_Lists Review_Panels
begin

text \<open>
  \<open>components/admin/admin-audit-activity.tsx\<close>: the security log with its filter draft, the applied
  filters and the page, and the texts of a row.
\<close>

section \<open>Filters\<close>

record audit_filters =
  af_action :: string
  af_outcome :: string
  af_actor_type :: string
  af_actor_id :: string
  af_verification_request_id :: string
  af_request_id :: string

definition empty_filters :: audit_filters where
  "empty_filters =
     \<lparr>af_action = [], af_outcome = [], af_actor_type = [], af_actor_id = [],
      af_verification_request_id = [], af_request_id = []\<rparr>"

datatype filter_key = Action | Outcome | Actor_type | Actor_id | Request | Request_id

fun update_filter :: "filter_key \<Rightarrow> string \<Rightarrow> audit_filters \<Rightarrow> audit_filters" where
  "update_filter Action v f = f\<lparr>af_action := v\<rparr>"
| "update_filter Outcome v f = f\<lparr>af_outcome := v\<rparr>"
| "update_filter Actor_type v f = f\<lparr>af_actor_type := v\<rparr>"
| "update_filter Actor_id v f = f\<lparr>af_actor_id := v\<rparr>"
| "update_filter Request v f = f\<lparr>af_verification_request_id := v\<rparr>"
| "update_filter Request_id v f = f\<lparr>af_request_id := v\<rparr>"

definition trimmed_filters :: "audit_filters \<Rightarrow> audit_filters" where
  "trimmed_filters f =
     \<lparr>af_action = trim (af_action f), af_outcome = trim (af_outcome f),
      af_actor_type = trim (af_actor_type f), af_actor_id = trim (af_actor_id f),
      af_verification_request_id = trim (af_verification_request_id f),
      af_request_id = trim (af_request_id f)\<rparr>"

definition filter_values :: "audit_filters \<Rightarrow> string list" where
  "filter_values f =
     [af_action f, af_outcome f, af_actor_type f, af_actor_id f, af_verification_request_id f,
      af_request_id f]"

definition active_filter_count :: "audit_filters \<Rightarrow> nat" where
  "active_filter_count f = length (filter (\<lambda>v. v \<noteq> []) (filter_values f))"

section \<open>State\<close>

record audit_event =
  ae_id :: string
  ae_actor_type :: string
  ae_actor_id :: "string option"
  ae_action :: string
  ae_outcome :: string
  ae_verification_request_id :: "string option"
  ae_request_id :: "string option"
  ae_timestamp :: string
  ae_metadata :: json

record audit_data =
  ad_items :: "audit_event list"
  ad_page :: int
  ad_page_size :: int
  ad_total :: int
  ad_total_pages :: int

text \<open>
  \<open>au_constant\<close>: the applied filters are the constant \<open>EMPTY_FILTERS\<close> itself and not an equal
  object, which decides whether setting them again runs the effect. \<open>au_shown\<close> is the page and the
  filters of the data on the page; the code does not record it.
\<close>

record audit_page =
  au_data :: "audit_data option"
  au_page :: int
  au_filters :: audit_filters
  au_applied :: audit_filters
  au_constant :: bool
  au_loading :: bool
  au_error :: "string option"
  au_timer :: "(int \<times> audit_filters) option"
  au_shown :: "(int \<times> audit_filters) option"

definition audit_now :: "audit_page \<Rightarrow> int \<times> audit_filters" where
  "audit_now s = (au_page s, au_applied s)"

definition audit_page_new :: audit_page where
  "audit_page_new =
     \<lparr>au_data = None, au_page = 1, au_filters = empty_filters, au_applied = empty_filters,
      au_constant = True, au_loading = True, au_error = None, au_timer = Some (1, empty_filters),
      au_shown = None\<rparr>"

section \<open>Handlers\<close>

definition page_size :: int where
  "page_size = 25"

definition audit_query_of :: "int \<times> audit_filters \<Rightarrow> audit_query" where
  "audit_query_of q =
     \<lparr>q_page = Some (fst q), q_page_size = Some page_size,
      q_action = or_null (af_action (snd q)), q_outcome = or_null (af_outcome (snd q)),
      q_actor_type = or_null (af_actor_type (snd q)), q_actor_id = or_null (af_actor_id (snd q)),
      q_verification_request_id = or_null (af_verification_request_id (snd q)),
      q_request_id = or_null (af_request_id (snd q))\<rparr>"

definition load_audit ::
  "int \<times> audit_filters \<Rightarrow> audit_page \<Rightarrow> audit_page \<times> (int \<times> audit_filters) option" where
  "load_audit q s = (s\<lparr>au_loading := True, au_error := None\<rparr>, Some q)"

datatype audit_click = Audit_timer | Audit_refresh

definition audit_start ::
  "audit_click \<Rightarrow> audit_page \<Rightarrow> audit_page \<times> (int \<times> audit_filters) option" where
  "audit_start c s =
     (case c of
        Audit_timer \<Rightarrow>
          (case au_timer s of None \<Rightarrow> (s, None) | Some q \<Rightarrow> load_audit q (s\<lparr>au_timer := None\<rparr>))
      | Audit_refresh \<Rightarrow> if au_loading s then (s, None) else load_audit (audit_now s) s)"

definition audit_settle ::
  "int \<times> audit_filters \<Rightarrow> js_error + audit_data \<Rightarrow> audit_page
     \<Rightarrow> audit_page \<times> (int \<times> audit_filters) option" where
  "audit_settle q r s =
     (case r of
        Inr d \<Rightarrow> s\<lparr>au_data := Some d, au_shown := Some q, au_loading := False\<rparr>
      | Inl e \<Rightarrow>
          s\<lparr>au_error := Some (cause_message e ''Unable to load audit activity.''), au_loading := False\<rparr>,
      None)"

datatype audit_input =
  Edit_filter filter_key string | Apply_filters | Clear_filters | Previous_page | Next_page

text \<open>The outcome is chosen from a list.\<close>

definition outcome_options :: "(string \<times> string) list" where
  "outcome_options =
     [([], ''All outcomes''), (''success'', ''Success''), (''denied'', ''Denied''), (''failure'', ''Failure'')]"

text \<open>The effect on the page and the applied filters clears its timer and sets another.\<close>

definition audit_effect :: "audit_page \<Rightarrow> audit_page" where
  "audit_effect s = s\<lparr>au_timer := Some (audit_now s)\<rparr>"

definition apply_filters :: "audit_page \<Rightarrow> audit_page" where
  "apply_filters s =
     audit_effect (s\<lparr>au_page := 1, au_applied := trimmed_filters (au_filters s), au_constant := False\<rparr>)"

definition clear_filters :: "audit_page \<Rightarrow> audit_page" where
  "clear_filters s =
     (let s1 = s\<lparr>au_filters := empty_filters, au_applied := empty_filters, au_constant := True, au_page := 1\<rparr>
      in if au_constant s \<and> au_applied s = empty_filters \<and> au_page s = 1 then s1 else audit_effect s1)"

definition can_go_back :: "audit_page \<Rightarrow> bool" where
  "can_go_back s \<longleftrightarrow> \<not> (au_loading s \<or> au_page s \<le> 1)"

definition can_go_on :: "audit_page \<Rightarrow> bool" where
  "can_go_on s \<longleftrightarrow>
     (case au_data s of
        None \<Rightarrow> False
      | Some d \<Rightarrow> \<not> (au_loading s \<or> ad_total_pages d = 0 \<or> au_page s \<ge> ad_total_pages d))"

fun audit_handle :: "audit_input \<Rightarrow> audit_page \<Rightarrow> audit_page" where
  "audit_handle (Edit_filter k v) s =
     (if k = Outcome \<and> v \<notin> fst ` set outcome_options then s
      else s\<lparr>au_filters := update_filter k v (au_filters s)\<rparr>)"
| "audit_handle Apply_filters s = apply_filters s"
| "audit_handle Clear_filters s =
     (if active_filter_count (au_applied s) > 0 then clear_filters s else s)"
| "audit_handle Previous_page s =
     (if can_go_back s then audit_effect (s\<lparr>au_page := max 1 (au_page s - 1)\<rparr>) else s)"
| "audit_handle Next_page s = (if can_go_on s then audit_effect (s\<lparr>au_page := au_page s + 1\<rparr>) else s)"

section \<open>Texts of a row\<close>

text \<open>\<open>replaceAll\<close> of \<open>_\<close>, \<open>.\<close> and \<open>:\<close>, then every word capitalised.\<close>

definition humanize_action :: "string \<Rightarrow> string" where
  "humanize_action v =
     capitalize_words False
       (replace_char CHR '':'' CHR '' '' (replace_char CHR ''.'' CHR '' '' (replace_char CHR ''_'' CHR '' '' v)))"

definition ellipsis :: string where
  "ellipsis = [char_of (226 :: nat), char_of (128 :: nat), char_of (166 :: nat)]"

text \<open>The dash stands for a missing identifier; \<open>s.slice(-6)\<close> is the last six characters.\<close>

definition short_identifier :: "string option \<Rightarrow> string" where
  "short_identifier v =
     (case v of
        None \<Rightarrow> [char_of (226 :: nat), char_of (128 :: nat), char_of (148 :: nat)]
      | Some s \<Rightarrow>
          if s = [] then [char_of (226 :: nat), char_of (128 :: nat), char_of (148 :: nat)]
          else if length s \<le> 18 then s
          else slice 0 8 s @ ellipsis @ drop (length s - 6) s)"

definition outcome_classes :: "string \<Rightarrow> string" where
  "outcome_classes outcome =
     (if lower outcome = ''success'' then
        join '' '' [''border-emerald-400/15'', ''bg-emerald-400/[0.08]'', ''text-emerald-300'']
      else if lower outcome \<in> {''denied'', ''failure'', ''failed'', ''error''} then
        join '' '' [''border-red-400/15'', ''bg-red-400/[0.08]'', ''text-red-300'']
      else join '' '' [''border-amber-400/15'', ''bg-amber-400/[0.08]'', ''text-amber-200''])"

text \<open>
  \<open>metadataPreview\<close>: the first three keys, with the value when it is a string, a number or a boolean.
  The object is the list of its members in the order of \<open>Object.keys\<close>.
\<close>

definition bullet :: string where
  "bullet = '' '' @ [char_of (194 :: nat), char_of (183 :: nat)] @ '' ''"

fun metadata_entry :: "string \<times> json \<Rightarrow> string" where
  "metadata_entry (k, JStr v) = k @ '': '' @ v"
| "metadata_entry (k, JNum n) = k @ '': '' @ show_int n"
| "metadata_entry (k, JBool b) = k @ '': '' @ (if b then ''true'' else ''false'')"
| "metadata_entry (k, _) = k"

definition metadata_preview :: "(string \<times> json) list \<Rightarrow> string" where
  "metadata_preview m =
     (if m = [] then ''No additional metadata''
      else let preview = join bullet (map metadata_entry (take 3 m))
           in if length m \<le> 3 then preview
              else preview @ bullet @ ''+'' @ show_int (int (length m) - 3) @ '' more'')"

text \<open>The declared type of the metadata is an object.\<close>

fun json_members :: "json \<Rightarrow> (string \<times> json) list" where
  "json_members (JObj m) = m"
| "json_members _ = []"

text \<open>The texts of \<open>AuditRow\<close> apart from the date: the request identifier is left out when it is
  missing or empty.\<close>

definition audit_row :: "audit_event \<Rightarrow> string list" where
  "audit_row e =
     (case ae_request_id e of
        None \<Rightarrow> [] | Some r \<Rightarrow> if r = [] then [] else [''req '' @ short_identifier (Some r)])
     @ [humanize_action (ae_action e), metadata_preview (json_members (ae_metadata e)), ae_outcome e, ae_actor_type e,
        short_identifier (ae_actor_id e), short_identifier (ae_verification_request_id e)]"

text \<open>Members after the third are only counted: their names and values never reach the row.\<close>

lemma metadata_beyond_hidden:
  assumes "length m = length m'" and "take 3 m = take 3 m'"
  shows "metadata_preview m = metadata_preview m'"
proof -
  have "m = [] \<longleftrightarrow> m' = []"
    using assms(1) by (cases m; cases m') simp_all
  then show ?thesis
    unfolding metadata_preview_def assms by simp
qed

text \<open>An identifier in a row is short, whatever its length.\<close>

lemma short_identifier_bound: "length (short_identifier v) \<le> 18"
  by (cases v) (simp_all add: short_identifier_def slice_def ellipsis_def)

text \<open>"Showing a\<open>\<dots>\<close>b of n": the two bounds.\<close>

definition showing_range :: "audit_data \<Rightarrow> int \<times> int" where
  "showing_range d =
     ((ad_page d - 1) * ad_page_size d + 1, min (ad_page d * ad_page_size d) (ad_total d))"

section \<open>Facts\<close>

lemma trimmed_filter_values: "list_all trimmed (filter_values (trimmed_filters f))"
  by (simp add: filter_values_def trimmed_filters_def)

lemma empty_filter_values [simp]: "filter_values empty_filters = [[], [], [], [], [], []]"
  by (simp add: filter_values_def empty_filters_def)

definition good_audit_query :: "int \<times> audit_filters \<Rightarrow> bool" where
  "good_audit_query q \<longleftrightarrow> 1 \<le> fst q \<and> list_all trimmed (filter_values (snd q))"

definition audit_inv :: "audit_page \<Rightarrow> bool" where
  "audit_inv s \<longleftrightarrow> good_audit_query (audit_now s)
     \<and> (case au_timer s of None \<Rightarrow> True | Some q \<Rightarrow> good_audit_query q)"

lemma audit_now_simps [simp]:
  "audit_now (s\<lparr>au_filters := f\<rparr>) = audit_now s"
  "audit_now (s\<lparr>au_loading := b\<rparr>) = audit_now s"
  "audit_now (s\<lparr>au_error := e\<rparr>) = audit_now s"
  "audit_now (s\<lparr>au_timer := t\<rparr>) = audit_now s"
  "audit_now (s\<lparr>au_data := d\<rparr>) = audit_now s"
  "audit_now (s\<lparr>au_shown := h\<rparr>) = audit_now s"
  "audit_now (s\<lparr>au_page := p\<rparr>) = (p, au_applied s)"
  by (simp_all add: audit_now_def)

interpretation audit: filtered_list
  audit_start audit_settle audit_handle "\<lambda>_. True" audit_now au_timer au_shown
  "\<lambda>s. au_error s \<noteq> None" Some
proof
  show "audit_start i s = (s', None) \<Longrightarrow> s' = s" for i s s'
    by (cases i) (auto simp: audit_start_def load_audit_def split: option.splits if_splits)
  show "audit_start i s = (s', Some q) \<Longrightarrow> au_timer s = None \<or> au_timer s = Some (audit_now s)
      \<Longrightarrow> Some q = Some (audit_now s) \<and> audit_now s' = audit_now s
        \<and> (au_timer s' = None \<or> au_timer s' = au_timer s)" for i s s' q
    by (cases i) (auto simp: audit_start_def load_audit_def split: option.splits if_splits)
  show "Some q = Some f \<Longrightarrow> audit_settle q r s = (s', oq)
      \<Longrightarrow> oq = None \<and> audit_now s' = audit_now s \<and> au_timer s' = au_timer s
        \<and> (au_error s' \<noteq> None \<or> au_shown s' = Some f)" for q f r s s' oq
    by (cases r) (auto simp: audit_settle_def)
  show "au_timer (audit_handle e s) = Some (audit_now (audit_handle e s))
      \<or> (audit_now (audit_handle e s) = audit_now s \<and> au_timer (audit_handle e s) = au_timer s
         \<and> au_shown (audit_handle e s) = au_shown s
         \<and> (au_error (audit_handle e s) \<noteq> None) = (au_error s \<noteq> None))" for e s
    by (cases e)
      (auto simp: audit_effect_def apply_filters_def clear_filters_def Let_def audit_now_def)
qed

interpretation audit_good: guarded_handler
  audit_start audit_settle audit_handle audit_inv good_audit_query
proof
  show "audit_inv s \<Longrightarrow> audit_start i s = (s', oq) \<Longrightarrow> audit_inv s'" for s i s' oq
    by (cases i) (auto simp: audit_start_def load_audit_def audit_inv_def split: option.splits if_splits)
  show "audit_inv s \<Longrightarrow> audit_start i s = (s', Some q) \<Longrightarrow> good_audit_query q" for s i s' q
    by (cases i) (auto simp: audit_start_def load_audit_def audit_inv_def split: option.splits if_splits)
  show "audit_inv s \<Longrightarrow> good_audit_query q \<Longrightarrow> audit_settle q r s = (s', oq) \<Longrightarrow> audit_inv s'" for s q r s' oq
    by (cases r) (auto simp: audit_settle_def audit_inv_def)
  show "audit_inv s \<Longrightarrow> good_audit_query q \<Longrightarrow> audit_settle q r s = (s', Some q') \<Longrightarrow> good_audit_query q'"
    for s q r s' q'
    by (simp add: audit_settle_def)
  show "audit_inv s \<Longrightarrow> audit_inv (audit_handle e s)" for e s
    by (cases e)
      (auto simp: audit_effect_def apply_filters_def clear_filters_def Let_def audit_inv_def
        good_audit_query_def audit_now_def trimmed_filter_values trimmed_def [of "[]"])
qed

text \<open>The parameters of the request, in the order in which they are set.\<close>

definition audit_pairs :: "int \<times> audit_filters \<Rightarrow> params" where
  "audit_pairs q =
     [(''page'', show_int (fst q)), (''page_size'', show_int page_size)]
     @ filter (\<lambda>(k, v). v \<noteq> [])
         [(''action'', trim (af_action (snd q))), (''outcome'', trim (af_outcome (snd q))),
          (''actor_type'', trim (af_actor_type (snd q))), (''actor_id'', trim (af_actor_id (snd q))),
          (''verification_request_id'', trim (af_verification_request_id (snd q))),
          (''request_id'', trim (af_request_id (snd q)))]"

lemma set_text_or_null:
  "k \<notin> fst ` set ps \<Longrightarrow> set_text k (or_null v) ps = ps @ filter (\<lambda>(k, v). v \<noteq> []) [(k, trim v)]"
  by (simp add: set_text_def or_null_def params_set_fresh)

lemma audit_params_pairs: "audit_params (audit_query_of q) = audit_pairs q"
  by (simp add: audit_params_def audit_query_of_def audit_pairs_def set_text_or_null set_number_def
      image_iff)

lemma audit_request_reads_back:
  "\<exists>w. get_admin_audit_activity (audit_query_of q) = (''/admin/audit?'' @ w, get_options)
     \<and> read_query w = map (\<lambda>(k, v). (Some k, Some v)) (audit_pairs q)"
  by (simp add: get_admin_audit_activity_def audit_params_pairs read_query_written Let_def)
    (simp add: audit_pairs_def)

section \<open>Properties\<close>

text \<open>In every interleaving each load asks the server for a page from 1 on and for exactly the
  applied filters, trimmed; and when answers arrive in order, a quiet page without an error shows
  the events of its own page and filters. Nothing keeps the order: the answer to an earlier filter,
  when it comes last, is shown under the later one.\<close>

theorem audit_shows_filter:
  "(let f = flight_run audit_start audit_settle audit_handle ms audit_page_new; s = fl_state f
    in list_all good_audit_query (fl_issued f)
       \<and> (if list_all (in_order (\<lambda>_. True)) ms \<and> fl_pending f = [] \<and> au_timer s = None \<and> au_error s = None
          then au_shown s = Some (au_page s, au_applied s) else True))
   \<and> (\<exists>w. get_admin_audit_activity (audit_query_of q) = (''/admin/audit?'' @ w, get_options)
        \<and> read_query w = map (\<lambda>(k, v). (Some k, Some v)) (audit_pairs q))
   \<and> (let f = flight_run audit_start audit_settle audit_handle
          [Start Audit_timer, Other (Edit_filter Outcome ''denied''), Other Apply_filters,
           Start Audit_timer, Settle 1 (Inr late), Settle 0 (Inr early)] audit_page_new; s = fl_state f
      in fl_pending f = [] \<and> au_timer s = None \<and> au_error s = None
         \<and> af_outcome (au_applied s) = ''denied'' \<and> au_data s = Some early)"
proof (intro conjI)
  have start: "audit_inv audit_page_new" "au_timer audit_page_new = Some (audit_now audit_page_new)"
    by (simp_all add: audit_inv_def audit_page_new_def audit_now_def good_audit_query_def trimmed_def)
  show "let f = flight_run audit_start audit_settle audit_handle ms audit_page_new; s = fl_state f
    in list_all good_audit_query (fl_issued f)
       \<and> (if list_all (in_order (\<lambda>_. True)) ms \<and> fl_pending f = [] \<and> au_timer s = None \<and> au_error s = None
          then au_shown s = Some (au_page s, au_applied s) else True)"
    using audit_good.run_issued [OF start(1)] audit.quiet_shows_current [OF start(2) _ refl]
    by (simp add: Let_def audit_now_def)
  show "\<exists>w. get_admin_audit_activity (audit_query_of q) = (''/admin/audit?'' @ w, get_options)
        \<and> read_query w = map (\<lambda>(k, v). (Some k, Some v)) (audit_pairs q)"
    by (rule audit_request_reads_back)
  show "let f = flight_run audit_start audit_settle audit_handle
          [Start Audit_timer, Other (Edit_filter Outcome ''denied''), Other Apply_filters,
           Start Audit_timer, Settle 1 (Inr late), Settle 0 (Inr early)] audit_page_new; s = fl_state f
      in fl_pending f = [] \<and> au_timer s = None \<and> au_error s = None
         \<and> af_outcome (au_applied s) = ''denied'' \<and> au_data s = Some early"
    by (simp add: outcome_options_def Let_def flight_run_def audit_page_new_def audit_start_def load_audit_def audit_settle_def
        audit_effect_def apply_filters_def trimmed_filters_def empty_filters_def)
      (simp add: trim_def is_ws_def)
qed

end
