(* ===== verification/Case_Pages.thy ===== *)
theory Case_Pages
  imports Audit_Activity
begin

text \<open>
  What an administrator sees of one request: the review workspace
  (\<open>components/admin/review-workspace.tsx\<close>), its audit history
  (\<open>components/admin/audit-timeline.tsx\<close>) and the choice of a reviewer
  (\<open>components/admin/reviewer-picker.tsx\<close>). Workspace and history load their data in an effect and
  reload it on request; they differ in the text of an error and in what can start a reload.
\<close>

section \<open>Data\<close>

record evidence_review_item =
  ei_evidence_id :: string
  ei_evidence_type :: string
  ei_content_type :: string
  ei_size_bytes :: int
  ei_uploaded_at :: string

record submission_review =
  su_submission_id :: string
  su_legal_name :: "string option"
  su_date_of_birth :: "string option"
  su_age_result :: "string option"
  su_issuing_country :: "string option"
  su_document_type :: "string option"
  su_submitted_at :: string
  su_evidence :: "evidence_review_item list"

record review_detail =
  rd_request_id :: string
  rd_discord_user_id :: string
  rd_discord_username :: "string option"
  rd_status :: verification_status
  rd_queue_entered_at :: "string option"
  rd_review_started_at :: "string option"
  rd_assigned_reviewer_id :: "string option"
  rd_submissions :: "submission_review list"

record audit_event_view =
  ev_id :: string
  ev_actor_type :: string
  ev_actor_id :: "string option"
  ev_action :: string
  ev_timestamp :: string
  ev_metadata :: json

section \<open>Loading and reloading\<close>

text \<open>\<open>ca_run\<close> is the run of the effect whose \<open>active\<close> variable is still true.\<close>

record 'd case_page =
  ca_data :: "'d option"
  ca_loading :: bool
  ca_refreshing :: bool
  ca_error :: "string option"
  ca_run :: "nat option"

text \<open>The load of run \<open>k\<close> of the effect, or \<open>refresh(background)\<close>.\<close>

datatype case_load = Initial_load nat | Refresh_load bool

definition case_settle ::
  "string \<Rightarrow> case_load \<Rightarrow> js_error + 'd \<Rightarrow> 'd case_page \<Rightarrow> 'd case_page \<times> case_load option" where
  "case_settle fallback q r s =
     (let told = (case r of
                    Inr d \<Rightarrow> s\<lparr>ca_data := Some d, ca_error := None\<rparr>
                  | Inl e \<Rightarrow> s\<lparr>ca_error := Some (cause_message e fallback)\<rparr>)
      in case q of
           Initial_load k \<Rightarrow> (if ca_run s \<noteq> Some k then s else told\<lparr>ca_loading := False\<rparr>, None)
         | Refresh_load background \<Rightarrow>
             (if background then told\<lparr>ca_refreshing := False\<rparr> else told\<lparr>ca_loading := False\<rparr>, None))"

text \<open>A refresh with no background flag is awaited by \<open>retry\<close> only, which then ends the loading.\<close>

definition refresh_page :: "'d case_page \<Rightarrow> 'd case_page \<times> case_load option" where
  "refresh_page s = (s\<lparr>ca_refreshing := True\<rparr>, Some (Refresh_load True))"

definition retry_page :: "'d case_page \<Rightarrow> 'd case_page \<times> case_load option" where
  "retry_page s = (s\<lparr>ca_loading := True, ca_error := None\<rparr>, Some (Refresh_load False))"

text \<open>The effect on mounting; under strict mode it runs, is cleaned up and runs again.\<close>

definition case_mounted :: "bool \<Rightarrow> ('d case_page, case_load) flight" where
  "case_mounted strict =
     (let qs = (if strict then [Initial_load 0, Initial_load 1] else [Initial_load 0])
      in \<lparr>fl_state = \<lparr>ca_data = None, ca_loading = True, ca_refreshing = False, ca_error = None,
            ca_run = Some (if strict then 1 else 0)\<rparr>,
          fl_pending = qs, fl_issued = qs\<rparr>)"

fun case_leave :: "unit \<Rightarrow> 'd case_page \<Rightarrow> 'd case_page" where
  "case_leave _ s = s\<lparr>ca_run := None\<rparr>"

section \<open>The workspace\<close>

datatype workspace_view =
  Workspace_loading | Workspace_unavailable string | Workspace_case review_detail "string option"

definition workspace_render :: "review_detail case_page \<Rightarrow> workspace_view" where
  "workspace_render s =
     (if ca_loading s then Workspace_loading
      else case ca_data s of
             None \<Rightarrow> Workspace_unavailable
               (coalesce (ca_error s) ''The verification request could not be loaded.'')
           | Some d \<Rightarrow> Workspace_case d (ca_error s))"

datatype workspace_click = Refresh_case | Panel_changed | Try_again

text \<open>
  The refresh button is disabled while refreshing. A panel reports a change when its own call is
  through, whatever the page shows by then.
\<close>

definition workspace_start ::
  "workspace_click \<Rightarrow> review_detail case_page \<Rightarrow> review_detail case_page \<times> case_load option" where
  "workspace_start c s =
     (case c of
        Panel_changed \<Rightarrow> refresh_page s
      | Refresh_case \<Rightarrow>
          (case workspace_render s of
             Workspace_case _ _ \<Rightarrow> if ca_refreshing s then (s, None) else refresh_page s
           | _ \<Rightarrow> (s, None))
      | Try_again \<Rightarrow>
          (case workspace_render s of Workspace_unavailable _ \<Rightarrow> retry_page s | _ \<Rightarrow> (s, None)))"

definition workspace_settle ::
  "case_load \<Rightarrow> js_error + review_detail \<Rightarrow> review_detail case_page
     \<Rightarrow> review_detail case_page \<times> case_load option" where
  "workspace_settle = case_settle ''Unable to load case.''"

definition total_evidence :: "review_detail \<Rightarrow> nat" where
  "total_evidence d = foldl (\<lambda>count s. count + length (su_evidence s)) 0 (rd_submissions d)"

definition decision_offered :: "review_detail \<Rightarrow> bool" where
  "decision_offered d \<longleftrightarrow> rd_status d = In_review"

definition review_field :: "string option \<Rightarrow> string" where
  "review_field v = (case v of Some t \<Rightarrow> if trim t \<noteq> [] then t else ''Not provided'' | None \<Rightarrow> ''Not provided'')"

section \<open>The history\<close>

datatype timeline_click = Refresh_history

definition timeline_start ::
  "timeline_click \<Rightarrow> audit_event_view list case_page
     \<Rightarrow> audit_event_view list case_page \<times> case_load option" where
  "timeline_start _ s = (if ca_loading s \<or> ca_refreshing s then (s, None) else refresh_page s)"

definition timeline_settle ::
  "case_load \<Rightarrow> js_error + audit_event_view list \<Rightarrow> audit_event_view list case_page
     \<Rightarrow> audit_event_view list case_page \<times> case_load option" where
  "timeline_settle = case_settle ''Unable to load audit history.''"

datatype timeline_view = Timeline_loading | Timeline_empty | Timeline_events "audit_event_view list"

definition timeline_render :: "audit_event_view list case_page \<Rightarrow> string option \<times> timeline_view" where
  "timeline_render s =
     (ca_error s,
      if ca_loading s then Timeline_loading
      else if coalesce (ca_data s) [] = [] then Timeline_empty
      else Timeline_events (coalesce (ca_data s) []))"

definition format_audit_action :: "string \<Rightarrow> string" where
  "format_audit_action action =
     capitalize_words False (replace_char CHR ''_'' CHR '' '' (replace_char CHR ''.'' CHR '' '' action))"

text \<open>The separator of a middle dot between blanks.\<close>

definition actor_separator :: string where
  "actor_separator = [CHR '' '', char_of (194 :: nat), char_of (183 :: nat), CHR '' '']"

definition format_actor :: "string \<Rightarrow> string option \<Rightarrow> string" where
  "format_actor actor_type actor_id =
     (let readable = capitalize_words False (replace_char CHR ''_'' CHR '' '' actor_type)
      in if truthy actor_id then readable @ actor_separator @ the actor_id else readable)"

section \<open>The choice of a reviewer\<close>

record reviewer_summary =
  rv_id :: string
  rv_display_name :: string
  rv_email :: "string option"
  rv_role :: string
  rv_is_active :: bool

record reviewer_picker =
  rp_reviewers :: "reviewer_summary list"
  rp_loading :: bool
  rp_error :: bool
  rp_active :: bool

definition reviewer_picker_new :: reviewer_picker where
  "reviewer_picker_new = \<lparr>rp_reviewers = [], rp_loading = True, rp_error = False, rp_active = True\<rparr>"

definition picker_answer :: "js_error + reviewer_summary list \<Rightarrow> reviewer_picker \<Rightarrow> reviewer_picker" where
  "picker_answer r s =
     (if \<not> rp_active s then s
      else case r of
             Inr items \<Rightarrow> s\<lparr>rp_reviewers := filter rv_is_active items, rp_error := False, rp_loading := False\<rparr>
           | Inl _ \<Rightarrow> s\<lparr>rp_error := True, rp_loading := False\<rparr>)"

definition picker_disabled :: "reviewer_picker \<Rightarrow> bool" where
  "picker_disabled s \<longleftrightarrow> rp_loading s \<or> rp_error s"

definition picker_prompt :: "reviewer_picker \<Rightarrow> string" where
  "picker_prompt s =
     (if rp_loading s then ''Loading reviewers...''
      else if rp_error s then ''Unable to load reviewers''
      else if length (rp_reviewers s) = 0 then ''No active reviewers''
      else ''Select reviewer'')"

text \<open>The options that can be chosen, by value; a disabled list offers none.\<close>

definition picker_values :: "reviewer_picker \<Rightarrow> string list" where
  "picker_values s = (if picker_disabled s then [] else map rv_id (rp_reviewers s))"

lemma picker_offers_active:
  "picker_values (picker_answer r reviewer_picker_new) =
     (case r of Inr items \<Rightarrow> map rv_id (filter rv_is_active items) | Inl _ \<Rightarrow> [])
   \<and> picker_values reviewer_picker_new = []"
  by (simp add: picker_values_def picker_answer_def reviewer_picker_new_def picker_disabled_def split: sum.split)

section \<open>Facts\<close>

lemma length_filter_remove:
  "k < length xs \<Longrightarrow> length (filter P (take k xs @ drop (Suc k) xs)) + (if P (xs ! k) then 1 else 0)
     = length (filter P xs)"
  by (subst (3) id_take_nth_drop [of k xs]) simp_all

lemma in_set_remove:
  "k < length xs \<Longrightarrow> x \<in> set xs \<Longrightarrow> x \<noteq> xs ! k \<Longrightarrow> x \<in> set (take k xs @ drop (Suc k) xs)"
  by (subst (asm) (2) id_take_nth_drop [of k xs]) auto

text \<open>The loads whose answer ends the loading.\<close>

fun ends_loading :: "nat option \<Rightarrow> case_load \<Rightarrow> bool" where
  "ends_loading run (Initial_load k) \<longleftrightarrow> run = Some k"
| "ends_loading run (Refresh_load background) \<longleftrightarrow> \<not> background"

text \<open>
  A page is never left loading or refreshing with nothing under way, and never shows neither data nor
  an error.
\<close>

definition loading_ok :: "'d case_page \<Rightarrow> case_load list \<Rightarrow> bool" where
  "loading_ok s qs \<longleftrightarrow>
     (if ca_run s = None then True
      else length (filter (ends_loading (ca_run s)) qs) = (if ca_loading s then 1 else 0))"

definition refreshing_ok :: "'d case_page \<Rightarrow> case_load list \<Rightarrow> bool" where
  "refreshing_ok s qs \<longleftrightarrow> (if ca_refreshing s then Refresh_load True \<in> set qs else True)"

definition content_ok :: "'d case_page \<Rightarrow> bool" where
  "content_ok s \<longleftrightarrow> (if ca_loading s then True else ca_data s \<noteq> None \<or> ca_error s \<noteq> None)"

lemma content_frame [simp]:
  "content_ok (s\<lparr>ca_refreshing := b\<rparr>) = content_ok s" "content_ok (s\<lparr>ca_run := r\<rparr>) = content_ok s"
  by (simp_all add: content_ok_def)

definition case_settled :: "('d case_page, case_load) flight \<Rightarrow> bool" where
  "case_settled f \<longleftrightarrow>
     loading_ok (fl_state f) (fl_pending f) \<and> refreshing_ok (fl_state f) (fl_pending f)
     \<and> content_ok (fl_state f)"

lemma case_settle_effect:
  assumes "case_settle fallback q r s = (s', oq)"
  shows "oq = None \<and> ca_run s' = ca_run s
    \<and> (ca_loading s' \<longleftrightarrow> ca_loading s \<and> \<not> ends_loading (ca_run s) q)
    \<and> (ca_refreshing s' \<longleftrightarrow> ca_refreshing s \<and> q \<noteq> Refresh_load True)
    \<and> (s' = s \<or> ca_data s' \<noteq> None \<or> ca_error s' \<noteq> None)"
proof (cases q)
  case (Initial_load n)
  with assms show ?thesis
    by (cases r; cases "ca_run s = Some n") (auto simp: case_settle_def Let_def)
next
  case (Refresh_load b)
  with assms show ?thesis by (cases r; cases b) (auto simp: case_settle_def Let_def)
qed

lemma settle_settled:
  assumes h: "case_settled f" and k: "k < length (fl_pending f)"
    and st: "case_settle fallback (fl_pending f ! k) r (fl_state f) = (s', oq)"
  shows "oq = None \<and> case_settled (f\<lparr>fl_state := s', fl_pending := take k (fl_pending f) @ drop (Suc k) (fl_pending f)\<rparr>)"
proof -
  let ?s = "fl_state f" and ?q = "fl_pending f ! k"
  let ?rest = "take k (fl_pending f) @ drop (Suc k) (fl_pending f)"
  note eff = case_settle_effect [OF st]
  have "loading_ok s' ?rest"
  proof (cases "ca_run ?s")
    case None
    with eff show ?thesis by (simp add: loading_ok_def)
  next
    case (Some n)
    let ?count = "\<lambda>qs. length (filter (ends_loading (ca_run ?s)) qs)"
    have "?count (fl_pending f) = (if ca_loading ?s then 1 else 0)"
      using h Some by (simp add: case_settled_def loading_ok_def)
    with eff Some length_filter_remove [OF k, of "ends_loading (ca_run ?s)"]
    have "?count ?rest = (if ca_loading s' then 1 else 0)" by (auto split: if_splits)
    with eff Some show ?thesis by (simp add: loading_ok_def)
  qed
  moreover have "refreshing_ok s' ?rest"
    using h eff in_set_remove [OF k, of "Refresh_load True"]
    by (auto simp: case_settled_def refreshing_ok_def)
  moreover have "content_ok s'"
    using h eff by (cases "ca_loading ?s") (auto simp: case_settled_def content_ok_def)
  ultimately show ?thesis using eff by (simp add: case_settled_def)
qed

lemma refresh_settled:
  "case_settled f \<Longrightarrow> case_settled \<lparr>fl_state = fst (refresh_page (fl_state f)),
     fl_pending = fl_pending f @ [Refresh_load True], fl_issued = qs\<rparr>"
  by (cases "ca_run (fl_state f)") (simp_all add: case_settled_def loading_ok_def refreshing_ok_def refresh_page_def)

lemma retry_settled:
  "case_settled f \<Longrightarrow> \<not> ca_loading (fl_state f) \<Longrightarrow> case_settled \<lparr>fl_state = fst (retry_page (fl_state f)),
     fl_pending = fl_pending f @ [Refresh_load False], fl_issued = qs\<rparr>"
  by (simp add: case_settled_def loading_ok_def refreshing_ok_def content_ok_def retry_page_def)

locale reloading_page =
  fixes start :: "'c \<Rightarrow> 'd case_page \<Rightarrow> 'd case_page \<times> case_load option"
    and fallback :: string
  assumes starts: "start c s = (s, None) \<or> start c s = refresh_page s
    \<or> (\<not> ca_loading s \<and> start c s = retry_page s)"
begin

lemma step_settled: "case_settled f \<Longrightarrow> case_settled (flight_step start (case_settle fallback) case_leave m f)"
proof (cases m)
  case (Start c)
  assume h: "case_settled f"
  from starts [of c "fl_state f"] consider "start c (fl_state f) = (fl_state f, None)"
    | "start c (fl_state f) = refresh_page (fl_state f)"
    | "\<not> ca_loading (fl_state f)" "start c (fl_state f) = retry_page (fl_state f)"
    by blast
  then show ?thesis
  proof cases
    case 1
    with h Start show ?thesis by simp
  next
    case 2
    with refresh_settled [OF h] Start show ?thesis by (simp add: refresh_page_def)
  next
    case 3
    with retry_settled [OF h] Start show ?thesis by (simp add: retry_page_def)
  qed
next
  case (Settle k r)
  assume h: "case_settled f"
  show ?thesis
  proof (cases "k < length (fl_pending f)")
    case True
    obtain s' oq where st: "case_settle fallback (fl_pending f ! k) r (fl_state f) = (s', oq)"
      by (cases "case_settle fallback (fl_pending f ! k) r (fl_state f)")
    with settle_settled [OF h True st] Settle True show ?thesis by (simp add: Let_def)
  next
    case False
    with h Settle show ?thesis by simp
  qed
next
  case (Other e)
  assume "case_settled f"
  with Other show ?thesis
    by (simp add: case_settled_def loading_ok_def refreshing_ok_def)
qed

lemma run_settled: "case_settled f \<Longrightarrow> case_settled (fold (flight_step start (case_settle fallback) case_leave) ms f)"
  by (induction ms arbitrary: f) (simp_all add: step_settled)

end

interpretation workspace: reloading_page workspace_start "''Unable to load case.''"
proof
  show "workspace_start c s = (s, None) \<or> workspace_start c s = refresh_page s
    \<or> (\<not> ca_loading s \<and> workspace_start c s = retry_page s)" for c s
    by (cases c) (auto simp: workspace_start_def workspace_render_def split: workspace_view.split option.split)
qed

interpretation timeline: reloading_page timeline_start "''Unable to load audit history.''"
  by unfold_locales (simp add: timeline_start_def)

lemma mounted_settled: "case_settled (case_mounted strict)"
  by (simp add: case_settled_def loading_ok_def refreshing_ok_def content_ok_def case_mounted_def Let_def)

text \<open>The history writes an action as the security log does, unless it has a colon.\<close>

lemma replace_char_absent: "a \<notin> set s \<Longrightarrow> replace_char a b s = s"
  unfolding replace_char_def by (induction s) auto

lemma set_replace_char: "c \<noteq> b \<Longrightarrow> c \<notin> set s \<Longrightarrow> c \<notin> set (replace_char a b s)"
  by (auto simp: replace_char_def)

lemma replace_char_commute:
  "a \<noteq> c \<Longrightarrow> a \<noteq> b \<Longrightarrow> c \<noteq> b \<Longrightarrow> replace_char a b (replace_char c b s) = replace_char c b (replace_char a b s)"
  by (simp add: replace_char_def)

lemma audit_action_humanized: "CHR '':'' \<notin> set action \<Longrightarrow> format_audit_action action = humanize_action action"
  by (simp add: format_audit_action_def humanize_action_def replace_char_absent set_replace_char
      replace_char_commute [of "CHR ''_''" "CHR ''.''"])

section \<open>Properties\<close>

text \<open>In every interleaving, under strict mode too, a mounted workspace or history is loading
  exactly while one load that will end the loading is under way, refreshes only while a refresh is
  under way, and otherwise shows its data or an error; so once everything is answered the workspace
  shows the case or says why not. The refreshes themselves are not ordered: of two changes reported by
  the panels, an older answer that comes last stays on the page.\<close>

theorem case_pages_settle:
  "(let f = fold (flight_step workspace_start workspace_settle case_leave) ms (case_mounted strict); s = fl_state f
    in (if ca_run s = None then True
        else length (filter (ends_loading (ca_run s)) (fl_pending f)) = (if ca_loading s then 1 else 0))
       \<and> (if ca_refreshing s then Refresh_load True \<in> set (fl_pending f) else True)
       \<and> (if fl_pending f = [] \<and> ca_run s \<noteq> None
          then (case workspace_render s of
                  Workspace_loading \<Rightarrow> False
                | Workspace_unavailable m \<Rightarrow> ca_error s = Some m
                | Workspace_case d e \<Rightarrow> ca_data s = Some d \<and> e = ca_error s)
          else True))
   \<and> (let f = fold (flight_step timeline_start timeline_settle case_leave) ms2 (case_mounted strict); s = fl_state f
    in (if ca_run s = None then True
        else length (filter (ends_loading (ca_run s)) (fl_pending f)) = (if ca_loading s then 1 else 0))
       \<and> (if ca_refreshing s then Refresh_load True \<in> set (fl_pending f) else True)
       \<and> (if fl_pending f = [] \<and> ca_run s \<noteq> None
          then snd (timeline_render s) \<noteq> Timeline_loading \<and> \<not> (ca_data s = None \<and> ca_error s = None) else True))
   \<and> (let f = fold (flight_step workspace_start workspace_settle case_leave)
          [Settle 0 (Inr d0), Start Panel_changed, Start Panel_changed, Settle 1 (Inr newer), Settle 0 (Inr older)]
          (case_mounted False); s = fl_state f
      in fl_pending f = [] \<and> workspace_render s = Workspace_case older None)"
proof (intro conjI)
  define f where "f = fold (flight_step workspace_start workspace_settle case_leave) ms (case_mounted strict)"
  have "case_settled f"
    unfolding f_def workspace_settle_def by (rule workspace.run_settled [OF mounted_settled])
  then show "let f = fold (flight_step workspace_start workspace_settle case_leave) ms (case_mounted strict); s = fl_state f
    in (if ca_run s = None then True
        else length (filter (ends_loading (ca_run s)) (fl_pending f)) = (if ca_loading s then 1 else 0))
       \<and> (if ca_refreshing s then Refresh_load True \<in> set (fl_pending f) else True)
       \<and> (if fl_pending f = [] \<and> ca_run s \<noteq> None
          then (case workspace_render s of
                  Workspace_loading \<Rightarrow> False
                | Workspace_unavailable m \<Rightarrow> ca_error s = Some m
                | Workspace_case d e \<Rightarrow> ca_data s = Some d \<and> e = ca_error s)
          else True)"
    unfolding f_def [symmetric]
    by (cases "ca_loading (fl_state f)"; cases "ca_data (fl_state f)")
      (auto simp: Let_def case_settled_def loading_ok_def refreshing_ok_def content_ok_def workspace_render_def
        coalesce_def split: if_splits)
next
  define f where "f = fold (flight_step timeline_start timeline_settle case_leave) ms2 (case_mounted strict)"
  have "case_settled f"
    unfolding f_def timeline_settle_def by (rule timeline.run_settled [OF mounted_settled])
  then show "let f = fold (flight_step timeline_start timeline_settle case_leave) ms2 (case_mounted strict); s = fl_state f
    in (if ca_run s = None then True
        else length (filter (ends_loading (ca_run s)) (fl_pending f)) = (if ca_loading s then 1 else 0))
       \<and> (if ca_refreshing s then Refresh_load True \<in> set (fl_pending f) else True)
       \<and> (if fl_pending f = [] \<and> ca_run s \<noteq> None
          then snd (timeline_render s) \<noteq> Timeline_loading \<and> \<not> (ca_data s = None \<and> ca_error s = None) else True)"
    unfolding f_def [symmetric]
    by (cases "ca_loading (fl_state f)")
      (auto simp: Let_def case_settled_def loading_ok_def refreshing_ok_def content_ok_def timeline_render_def
        split: if_splits)
next
  show "let f = fold (flight_step workspace_start workspace_settle case_leave)
          [Settle 0 (Inr d0), Start Panel_changed, Start Panel_changed, Settle 1 (Inr newer), Settle 0 (Inr older)]
          (case_mounted False); s = fl_state f
      in fl_pending f = [] \<and> workspace_render s = Workspace_case older None"
    by (simp add: Let_def case_mounted_def workspace_settle_def case_settle_def workspace_start_def
        refresh_page_def workspace_render_def)
qed

end
