(* ===== verification/Admin_Screens.thy ===== *)
theory Admin_Screens
  imports Complex_Main Filtered_Lists Admin_Api Dates
begin

text \<open>
  Two administrator screens that load once and on request: the overview with its four counts
  (\<open>components/admin/admin-overview.tsx\<close>) and the settings with the rows they are shown in
  (\<open>components/admin/admin-settings.tsx\<close>). Both are lists without a filter in the sense of
  \<open>Filtered_Lists\<close>.
\<close>

section \<open>The overview\<close>

record overview_metrics =
  om_queued :: int
  om_in_review :: int
  om_approved :: int
  om_more_info :: int

definition empty_metrics :: overview_metrics where
  "empty_metrics = \<lparr>om_queued = 0, om_in_review = 0, om_approved = 0, om_more_info = 0\<rparr>"

text \<open>\<open>ov_loaded\<close>: the metrics have been loaded; the code does not record it.\<close>

record admin_overview =
  ov_metrics :: overview_metrics
  ov_loading :: bool
  ov_error :: "string option"
  ov_timer :: "unit option"
  ov_loaded :: "unit option"

definition admin_overview_new :: admin_overview where
  "admin_overview_new =
     \<lparr>ov_metrics = empty_metrics, ov_loading = True, ov_error = None, ov_timer = Some (), ov_loaded = None\<rparr>"

text \<open>The four requests of \<open>Promise.all\<close>.\<close>

definition overview_requests :: "(string \<times> request_options) list" where
  "overview_requests =
     map (\<lambda>st. get_admin_queue None (Some [st]) (Some 1) None) [Queued, In_review, Approved, More_info]"

definition load_metrics :: "admin_overview \<Rightarrow> admin_overview \<times> (string \<times> request_options) list option" where
  "load_metrics s = (s\<lparr>ov_loading := True, ov_error := None\<rparr>, Some overview_requests)"

datatype overview_click = Overview_timer | Overview_refresh

definition overview_start ::
  "overview_click \<Rightarrow> admin_overview \<Rightarrow> admin_overview \<times> (string \<times> request_options) list option" where
  "overview_start c s =
     (case c of
        Overview_timer \<Rightarrow>
          (case ov_timer s of None \<Rightarrow> (s, None) | Some _ \<Rightarrow> load_metrics (s\<lparr>ov_timer := None\<rparr>))
      | Overview_refresh \<Rightarrow> load_metrics s)"

text \<open>The totals of the four answers in the order of the requests, or the first failure.\<close>

definition overview_settle ::
  "(string \<times> request_options) list \<Rightarrow> js_error + int \<times> int \<times> int \<times> int \<Rightarrow> admin_overview
     \<Rightarrow> admin_overview \<times> (string \<times> request_options) list option" where
  "overview_settle _ r s =
     (case r of
        Inr (queued, in_review, approved, more_info) \<Rightarrow>
          s\<lparr>ov_metrics := \<lparr>om_queued = queued, om_in_review = in_review, om_approved = approved,
                            om_more_info = more_info\<rparr>,
            ov_loading := False, ov_loaded := Some ()\<rparr>
      | Inl _ \<Rightarrow> s\<lparr>ov_error := Some ''Unable to refresh operational metrics.'', ov_loading := False\<rparr>,
      None)"

definition active_work :: "overview_metrics \<Rightarrow> int" where
  "active_work m = om_queued m + om_in_review m + om_more_info m"

text \<open>No other event changes the page.\<close>

definition overview_other :: "unit \<Rightarrow> admin_overview \<Rightarrow> admin_overview" where
  "overview_other _ s = s"

section \<open>The settings\<close>

record security_settings =
  se_production_mode :: bool
  se_secure_cookies :: bool
  se_rate_limiting_enabled :: bool
  se_session_idle_timeout_seconds :: int
  se_session_absolute_lifetime_seconds :: int
  se_session_rotation_interval_seconds :: int
  se_max_active_sessions :: int
  se_sensitive_reauth_max_age_seconds :: int
  se_session_ip_tracking_enabled :: bool
  se_session_user_agent_tracking_enabled :: bool

record verification_settings =
  ve_default_request_expiry_hours :: int
  ve_max_submissions :: int
  ve_verification_session_ttl_minutes :: int
  ve_discord_invite_max_age_seconds :: int
  ve_discord_invite_max_uses :: int

record evidence_settings =
  ed_max_file_size_bytes :: int
  ed_allowed_content_types :: "string list"
  ed_temporary_upload_ttl_minutes :: int
  ed_signed_url_ttl_seconds :: int
  ed_automatic_evidence_deletion_enabled :: bool
  ed_retain_submitted_evidence_indefinitely :: bool
  ed_manual_evidence_deletion_enabled :: bool
  ed_raw_evidence_retention_days :: "int option"

record integration_settings =
  in_storage_configured :: bool
  in_discord_oauth_configured :: bool
  in_discord_bot_configured :: bool
  in_cloudflare_access_configured :: bool
  in_cloudflare_step_up_configured :: bool
  in_email_delivery_configured :: bool

record admin_settings =
  st_environment :: string
  st_security :: security_settings
  st_verification :: verification_settings
  st_evidence :: evidence_settings
  st_integrations :: integration_settings

record settings_page =
  sp_settings :: "admin_settings option"
  sp_loading :: bool
  sp_error :: "string option"
  sp_timer :: "unit option"
  sp_loaded :: "unit option"

definition settings_page_new :: settings_page where
  "settings_page_new =
     \<lparr>sp_settings = None, sp_loading = True, sp_error = None, sp_timer = Some (), sp_loaded = None\<rparr>"

definition load_settings :: "settings_page \<Rightarrow> settings_page \<times> (string \<times> request_options) option" where
  "load_settings s = (s\<lparr>sp_loading := True, sp_error := None\<rparr>, Some get_admin_settings)"

datatype settings_click = Settings_timer | Settings_refresh

definition settings_start ::
  "settings_click \<Rightarrow> settings_page \<Rightarrow> settings_page \<times> (string \<times> request_options) option" where
  "settings_start c s =
     (case c of
        Settings_timer \<Rightarrow>
          (case sp_timer s of None \<Rightarrow> (s, None) | Some _ \<Rightarrow> load_settings (s\<lparr>sp_timer := None\<rparr>))
      | Settings_refresh \<Rightarrow> if sp_loading s then (s, None) else load_settings s)"

definition settings_settle ::
  "string \<times> request_options \<Rightarrow> js_error + admin_settings \<Rightarrow> settings_page
     \<Rightarrow> settings_page \<times> (string \<times> request_options) option" where
  "settings_settle _ r s =
     (case r of
        Inr x \<Rightarrow> s\<lparr>sp_settings := Some x, sp_loading := False, sp_loaded := Some ()\<rparr>
      | Inl e \<Rightarrow> s\<lparr>sp_error := Some (cause_message e ''Unable to load settings.''), sp_loading := False\<rparr>,
      None)"

definition settings_other :: "unit \<Rightarrow> settings_page \<Rightarrow> settings_page" where
  "settings_other _ s = s"

section \<open>The rows of the settings\<close>

text \<open>The locale's number format is a parameter, of the exact quotient.\<close>

definition format_bytes :: "(rat \<Rightarrow> string) \<Rightarrow> int \<Rightarrow> string" where
  "format_bytes to_locale bytes =
     (let mb = of_int bytes / (1024 * 1024); kb = of_int bytes / 1024
      in if mb \<ge> 1 then to_locale mb @ '' MB''
         else if kb \<ge> 1 then to_locale kb @ '' KB''
         else to_locale (of_int bytes) @ '' bytes'')"

definition either_text :: "bool \<Rightarrow> string \<Rightarrow> string \<Rightarrow> string" where
  "either_text b yes no = (if b then yes else no)"

definition security_rows :: "admin_settings \<Rightarrow> (string \<times> string) list" where
  "security_rows x =
     [(''Environment'', upper (st_environment x)),
      (''Production mode'', either_text (se_production_mode (st_security x)) ''Enabled'' ''Disabled''),
      (''Secure cookies'', either_text (se_secure_cookies (st_security x)) ''Required'' ''Disabled''),
      (''Rate limiting'', either_text (se_rate_limiting_enabled (st_security x)) ''Enabled'' ''Disabled''),
      (''Sensitive reauthentication'', format_duration (se_sensitive_reauth_max_age_seconds (st_security x))),
      (''Session IP context'',
        either_text (se_session_ip_tracking_enabled (st_security x)) ''Tracked'' ''Disabled''),
      (''Session user-agent context'',
        either_text (se_session_user_agent_tracking_enabled (st_security x)) ''Tracked'' ''Disabled'')]"

definition session_rows :: "admin_settings \<Rightarrow> (string \<times> string) list" where
  "session_rows x =
     [(''Idle timeout'', format_duration (se_session_idle_timeout_seconds (st_security x))),
      (''Absolute lifetime'', format_duration (se_session_absolute_lifetime_seconds (st_security x))),
      (''Session rotation'', format_duration (se_session_rotation_interval_seconds (st_security x))),
      (''Maximum active sessions'', show_int (se_max_active_sessions (st_security x)))]"

definition retention_text :: "evidence_settings \<Rightarrow> string" where
  "retention_text e =
     (if ed_retain_submitted_evidence_indefinitely e then ''Indefinite''
      else case ed_raw_evidence_retention_days e of
             Some days \<Rightarrow> show_int days @ '' days''
           | None \<Rightarrow> ''Not configured'')"

definition evidence_rows :: "(rat \<Rightarrow> string) \<Rightarrow> admin_settings \<Rightarrow> (string \<times> string) list" where
  "evidence_rows to_locale x =
     (let e = st_evidence x in
     [(''Maximum upload size'', format_bytes to_locale (ed_max_file_size_bytes e)),
      (''Allowed content types'', join '', '' (ed_allowed_content_types e)),
      (''Temporary upload lifetime'', show_int (ed_temporary_upload_ttl_minutes e) @ '' minutes''),
      (''Signed evidence URL lifetime'', format_duration (ed_signed_url_ttl_seconds e)),
      (''Submitted evidence retention'', retention_text e),
      (''Automatic evidence deletion'',
        either_text (ed_automatic_evidence_deletion_enabled e) ''Enabled'' ''Disabled''),
      (''Manual evidence deletion'',
        either_text (ed_manual_evidence_deletion_enabled e) ''Enabled'' ''Disabled'')])"

definition policy_rows :: "admin_settings \<Rightarrow> (string \<times> string) list" where
  "policy_rows x =
     (let v = st_verification x in
     [(''Request expiry'', show_int (ve_default_request_expiry_hours v) @ '' hours''),
      (''Maximum submissions'', show_int (ve_max_submissions v)),
      (''Verification session'', show_int (ve_verification_session_ttl_minutes v) @ '' minutes''),
      (''Discord invite expiry'', format_duration (ve_discord_invite_max_age_seconds v)),
      (''Discord invite uses'', show_int (ve_discord_invite_max_uses v))])"

text \<open>A row of the integrations ends in \<open>StatusPill\<close>.\<close>

definition ready_pill :: "bool \<Rightarrow> string" where
  "ready_pill ready = (if ready then ''Ready'' else ''Pending'')"

definition integration_rows :: "admin_settings \<Rightarrow> (string \<times> string) list" where
  "integration_rows x =
     (let i = st_integrations x in
      map (\<lambda>(label, ready). (label, ready_pill ready))
        [(''Private evidence storage'', in_storage_configured i),
         (''Discord OAuth'', in_discord_oauth_configured i),
         (''Discord access enforcement'', in_discord_bot_configured i),
         (''Cloudflare Access'', in_cloudflare_access_configured i),
         (''Cloudflare MFA step-up'', in_cloudflare_step_up_configured i),
         (''Invitation email delivery'', in_email_delivery_configured i)])"

text \<open>While loading for the first time the page shows that it loads; afterwards the last settings stay
  while they are reloaded. The error is shown above either.\<close>

datatype settings_view = Settings_loading | Settings_rows "(string \<times> string) list list" | Settings_nothing

definition settings_render :: "(rat \<Rightarrow> string) \<Rightarrow> settings_page \<Rightarrow> string option \<times> settings_view" where
  "settings_render to_locale s =
     (sp_error s,
      case sp_settings s of
        None \<Rightarrow> if sp_loading s then Settings_loading else Settings_nothing
      | Some x \<Rightarrow>
          Settings_rows [security_rows x, session_rows x, evidence_rows to_locale x, policy_rows x,
            integration_rows x])"

section \<open>Facts\<close>

definition overview_failed :: "admin_overview \<Rightarrow> bool" where
  "overview_failed s \<longleftrightarrow> ov_error s \<noteq> None"

definition settings_failed :: "settings_page \<Rightarrow> bool" where
  "settings_failed s \<longleftrightarrow> sp_error s \<noteq> None"

interpretation overview: filtered_list
  overview_start overview_settle overview_other "\<lambda>_. True" "\<lambda>_. ()" ov_timer ov_loaded overview_failed
  "\<lambda>_. Some ()"
proof
  show "overview_start i s = (s', None) \<Longrightarrow> s' = s" for i s s'
    by (cases i) (auto simp: overview_start_def load_metrics_def split: option.splits)
  show "overview_start i s = (s', Some q) \<Longrightarrow> ov_timer s = None \<or> ov_timer s = Some ()
      \<Longrightarrow> Some () = Some () \<and> () = () \<and> (ov_timer s' = None \<or> ov_timer s' = ov_timer s)" for i s s' q
    by (cases i) (auto simp: overview_start_def load_metrics_def split: option.splits)
  show "Some () = Some f \<Longrightarrow> overview_settle q r s = (s', oq)
      \<Longrightarrow> oq = None \<and> () = () \<and> ov_timer s' = ov_timer s
        \<and> (overview_failed s' \<or> ov_loaded s' = Some f)" for q f r s s' oq
    by (cases r) (auto simp: overview_settle_def overview_failed_def)
  show "ov_timer (overview_other e s) = Some ()
      \<or> (() = () \<and> ov_timer (overview_other e s) = ov_timer s
         \<and> ov_loaded (overview_other e s) = ov_loaded s
         \<and> overview_failed (overview_other e s) = overview_failed s)" for e s
    by (simp add: overview_other_def)
qed

interpretation settings: filtered_list
  settings_start settings_settle settings_other "\<lambda>_. True" "\<lambda>_. ()" sp_timer sp_loaded settings_failed
  "\<lambda>_. Some ()"
proof
  show "settings_start i s = (s', None) \<Longrightarrow> s' = s" for i s s'
    by (cases i) (auto simp: settings_start_def load_settings_def split: option.splits if_splits)
  show "settings_start i s = (s', Some q) \<Longrightarrow> sp_timer s = None \<or> sp_timer s = Some ()
      \<Longrightarrow> Some () = Some () \<and> () = () \<and> (sp_timer s' = None \<or> sp_timer s' = sp_timer s)" for i s s' q
    by (cases i) (auto simp: settings_start_def load_settings_def split: option.splits if_splits)
  show "Some () = Some f \<Longrightarrow> settings_settle q r s = (s', oq)
      \<Longrightarrow> oq = None \<and> () = () \<and> sp_timer s' = sp_timer s
        \<and> (settings_failed s' \<or> sp_loaded s' = Some f)" for q f r s s' oq
    by (cases r) (auto simp: settings_settle_def settings_failed_def)
  show "sp_timer (settings_other e s) = Some ()
      \<or> (() = () \<and> sp_timer (settings_other e s) = sp_timer s
         \<and> sp_loaded (settings_other e s) = sp_loaded s
         \<and> settings_failed (settings_other e s) = settings_failed s)" for e s
    by (simp add: settings_other_def)
qed

text \<open>A page that has loaded shows what it loaded.\<close>

definition settings_inv :: "settings_page \<Rightarrow> bool" where
  "settings_inv s \<longleftrightarrow> (sp_loaded s \<noteq> None) = (sp_settings s \<noteq> None)"

interpretation settings_good: guarded_handler
  settings_start settings_settle settings_other settings_inv "\<lambda>q. q = get_admin_settings"
proof
  show "settings_inv s \<Longrightarrow> settings_start i s = (s', oq) \<Longrightarrow> settings_inv s'" for s i s' oq
    by (cases i) (auto simp: settings_start_def load_settings_def settings_inv_def split: option.splits if_splits)
  show "settings_inv s \<Longrightarrow> settings_start i s = (s', Some q) \<Longrightarrow> q = get_admin_settings" for s i s' q
    by (cases i) (auto simp: settings_start_def load_settings_def split: option.splits if_splits)
  show "settings_inv s \<Longrightarrow> q = get_admin_settings \<Longrightarrow> settings_settle q r s = (s', oq) \<Longrightarrow> settings_inv s'"
    for s q r s' oq
    by (cases r) (auto simp: settings_settle_def settings_inv_def)
  show "settings_inv s \<Longrightarrow> q = get_admin_settings \<Longrightarrow> settings_settle q r s = (s', Some q')
      \<Longrightarrow> q' = get_admin_settings" for s q r s' q'
    by (simp add: settings_settle_def)
  show "settings_inv s \<Longrightarrow> settings_inv (settings_other e s)" for e s
    by (simp add: settings_other_def)
qed

lemma settings_quiet:
  assumes "list_all (in_order (\<lambda>_. True)) ms"
    and "f = flight_run settings_start settings_settle settings_other ms settings_page_new"
    and "fl_pending f = []" and "sp_timer (fl_state f) = None" and "sp_error (fl_state f) = None"
  shows "\<exists>rows. settings_render to_locale (fl_state f) = (None, Settings_rows rows)"
proof -
  have "sp_timer settings_page_new = Some ()" by (simp add: settings_page_new_def)
  from settings.quiet_shows_current [OF this assms(1,2)] assms(3-5)
  have "sp_loaded (fl_state f) = Some ()" by (simp add: settings_failed_def)
  moreover have "settings_inv (fl_state f)"
    unfolding assms(2) by (rule settings_good.run_state) (simp add: settings_inv_def settings_page_new_def)
  ultimately show ?thesis
    using assms(5) by (auto simp: settings_inv_def settings_render_def)
qed

lemma overview_quiet:
  assumes "list_all (in_order (\<lambda>_. True)) ms"
    and "f = flight_run overview_start overview_settle overview_other ms admin_overview_new"
    and "fl_pending f = []" and "ov_timer (fl_state f) = None" and "ov_error (fl_state f) = None"
  shows "ov_loaded (fl_state f) = Some ()"
proof -
  have "ov_timer admin_overview_new = Some ()" by (simp add: admin_overview_new_def)
  from overview.quiet_shows_current [OF this assms(1,2)] assms(3-5) show ?thesis
    by (simp add: overview_failed_def)
qed

text \<open>No value of the server's configuration other than these appears on the page: what the
  integrations show depends only on whether they are configured.\<close>

lemma integration_ready:
  "map snd (integration_rows x) = map ready_pill
     [in_storage_configured (st_integrations x), in_discord_oauth_configured (st_integrations x),
      in_discord_bot_configured (st_integrations x), in_cloudflare_access_configured (st_integrations x),
      in_cloudflare_step_up_configured (st_integrations x), in_email_delivery_configured (st_integrations x)]"
  by (simp add: integration_rows_def Let_def)

end
