(* ===== verification/Admin_Gate.thy ===== *)
theory Admin_Gate
  imports Admin_Session Api_Client
begin

text \<open>
  Who gets in and where an expired session leads: the access gate
  (\<open>components/admin/admin-access-gate.tsx\<close>), the bridge from the clients' session-expired events to
  the router (\<open>components/navigation/session-navigation-bridge.tsx\<close>) and the shell of the
  administrator pages (\<open>components/admin/admin-shell.tsx\<close>).
\<close>

section \<open>The bridge\<close>

definition bridge_route :: "string \<Rightarrow> string option" where
  "bridge_route ev =
     (if ev = admin_session_expired_event then Some ''/admin/login?reason=session-expired''
      else if ev = session_expired_event then Some ''/verification/session-expired''
      else None)"

text \<open>The \<open>router.replace\<close> calls for the events of a browser, in order.\<close>

definition bridge_routes :: "string list \<Rightarrow> string list" where
  "bridge_routes evs = List.map_filter bridge_route evs"

section \<open>The gate\<close>

datatype access_state = Checking_access | Authorized | Denied

text \<open>A run of the effect: whether it still waits for \<open>ensureAdminSession\<close> and whether its clean-up has
  cancelled it.\<close>

record gate_run =
  gr_waiting :: bool
  gr_cancelled :: bool

record admin_gate =
  ag_path :: string
  ag_state :: access_state
  ag_runs :: "gate_run list"
  ag_replaced :: "string option"

datatype gate_view = Gate_children | Gate_checkpoint bool

definition is_login_page :: "string \<Rightarrow> bool" where
  "is_login_page path \<longleftrightarrow> path = ''/admin/login''"

definition gate_effect :: "admin_gate \<Rightarrow> admin_gate" where
  "gate_effect g =
     (if is_login_page (ag_path g) then g
      else g\<lparr>ag_runs := ag_runs g @ [\<lparr>gr_waiting = True, gr_cancelled = False\<rparr>]\<rparr>)"

definition gate_cleanup :: "admin_gate \<Rightarrow> admin_gate" where
  "gate_cleanup g = g\<lparr>ag_runs := map (\<lambda>r. r\<lparr>gr_cancelled := True\<rparr>) (ag_runs g)\<rparr>"

definition gate_mount :: "string \<Rightarrow> admin_gate" where
  "gate_mount path =
     gate_effect \<lparr>ag_path = path, ag_state = Checking_access, ag_runs = [], ag_replaced = None\<rparr>"

definition denial_target :: "js_error \<Rightarrow> string" where
  "denial_target e =
     (case e of
        AdminApiError _ st \<Rightarrow>
          if st = 403 then ''/admin/login?reason=unauthorized''
          else ''/admin/login?reason=authentication-required''
      | _ \<Rightarrow> ''/admin/login?reason=authentication-required'')"

text \<open>The continuation of run \<open>k\<close>.\<close>

definition gate_answer :: "nat \<Rightarrow> js_error + unit \<Rightarrow> admin_gate \<Rightarrow> admin_gate" where
  "gate_answer k r g =
     (if k < length (ag_runs g) \<and> gr_waiting (ag_runs g ! k) then
        (let g1 = g\<lparr>ag_runs := (ag_runs g)[k := (ag_runs g ! k)\<lparr>gr_waiting := False\<rparr>]\<rparr>
         in if gr_cancelled (ag_runs g ! k) then g1
            else case r of
                   Inr _ \<Rightarrow> g1\<lparr>ag_state := Authorized\<rparr>
                 | Inl e \<Rightarrow> g1\<lparr>ag_state := Denied, ag_replaced := Some (denial_target e)\<rparr>)
      else g)"

text \<open>The gate stays mounted across navigation; its effect depends on whether this is the login page.\<close>

definition gate_navigate :: "string \<Rightarrow> admin_gate \<Rightarrow> admin_gate" where
  "gate_navigate path g =
     (if is_login_page path = is_login_page (ag_path g) then g\<lparr>ag_path := path\<rparr>
      else gate_effect ((gate_cleanup g)\<lparr>ag_path := path\<rparr>))"

definition gate_render :: "admin_gate \<Rightarrow> gate_view" where
  "gate_render g =
     (if is_login_page (ag_path g) then Gate_children
      else if ag_state g = Authorized then Gate_children
      else Gate_checkpoint (ag_state g = Denied))"

datatype gate_event = Gate_answer nat "js_error + unit" | Gate_navigate string

fun gate_step :: "gate_event \<Rightarrow> admin_gate \<Rightarrow> admin_gate" where
  "gate_step (Gate_answer k r) g = gate_answer k r g"
| "gate_step (Gate_navigate path) g = gate_navigate path g"

section \<open>The shell\<close>

definition overview_active :: "string \<Rightarrow> bool" where
  "overview_active path \<longleftrightarrow> path = ''/admin''"

definition create_request_active :: "string \<Rightarrow> bool" where
  "create_request_active path \<longleftrightarrow> starts_with path ''/admin/verification-requests/new''"

definition queue_active :: "string \<Rightarrow> bool" where
  "queue_active path \<longleftrightarrow>
     path = ''/admin/verification-queue''
     \<or> (starts_with path ''/admin/verification-requests/'' \<and> \<not> create_request_active path)"

definition workspace_title :: "string \<Rightarrow> string" where
  "workspace_title path =
     (if starts_with path ''/admin/verification-requests/new'' then ''Create Verification Request''
      else if path = ''/admin/verification-queue'' \<or> starts_with path ''/admin/verification-requests/''
        then ''Manual Verification Review''
      else ''Verification Operations'')"

record admin_shell =
  sh_path :: string
  sh_mobile_open :: bool
  sh_pushed :: "string list"
  sh_location :: "string option"  \<comment> \<open>a full navigation of the window\<close>

definition shell_navigate :: "string \<Rightarrow> admin_shell \<Rightarrow> admin_shell" where
  "shell_navigate href s =
     (let s1 = s\<lparr>sh_mobile_open := False\<rparr>
      in if sh_path s1 = href then s1 else s1\<lparr>sh_pushed := sh_pushed s1 @ [href]\<rparr>)"

definition shell_escape :: "admin_shell \<Rightarrow> admin_shell" where
  "shell_escape s = (if sh_mobile_open s then s\<lparr>sh_mobile_open := False\<rparr> else s)"

text \<open>The Access session of the edge is ended whether or not the API's could be.\<close>

definition admin_logout ::
  "admin_env \<Rightarrow> 'w server \<Rightarrow> admin_shell \<times> 'w admin_page \<Rightarrow> admin_shell \<times> 'w admin_page" where
  "admin_logout env srv x =
     ((fst x)\<lparr>sh_mobile_open := False, sh_location := Some ''/cdn-cgi/access/logout''\<rparr>,
      snd (logout_admin_session env srv (snd x)))"

lemma one_nav_item: "\<not> (overview_active p \<and> queue_active p) \<and> \<not> (create_request_active p \<and> queue_active p)"
  by (auto simp: overview_active_def queue_active_def create_request_active_def starts_with_def)

section \<open>Events of the administrator client\<close>

text \<open>A call dispatches at most one event, the administrator's, and has then forgotten the session.\<close>

definition forgets_or_silent :: "'w admin_page \<Rightarrow> 'w admin_page \<Rightarrow> bool" where
  "forgets_or_silent s s' \<longleftrightarrow>
     events s' = events s
     \<or> (events s' = events s @ [admin_session_expired_event] \<and> csrf_token s' = None \<and> \<not> session_init s')"

lemma restore_events: "events (snd (restore_admin_session env srv s)) = events s"
  unfolding restore_admin_session_def do_fetch_def
  by (auto split: prod.split fetch_result.split option.split sum.split if_split)

lemma establish_events: "forgets_or_silent s (snd (establish_admin_session env srv s))"
  unfolding establish_admin_session_def do_fetch_def forgets_or_silent_def
  by (auto simp: signal_admin_session_expired_def clear_admin_session_state_def dispatch_def
      split: prod.split fetch_result.split option.split sum.split if_split)

lemma establish_success_events:
  "fst (establish_admin_session env srv s) = Inr u \<Longrightarrow> events (snd (establish_admin_session env srv s)) = events s"
  unfolding establish_admin_session_def do_fetch_def
  by (auto split: prod.splits fetch_result.splits option.splits sum.splits if_splits)

lemma initialize_events:
  "forgets_or_silent s (snd (initialize_admin_session env srv s))
   \<and> (case fst (initialize_admin_session env srv s) of
        Inr _ \<Rightarrow> events (snd (initialize_admin_session env srv s)) = events s | Inl _ \<Rightarrow> True)"
proof -
  define s1 where "s1 = snd (restore_admin_session env srv s)"
  have 1: "events s1 = events s" by (simp add: s1_def restore_events)
  have 2: "forgets_or_silent s (snd (establish_admin_session env srv s1))"
    using establish_events [of s1 env srv] 1 by (simp add: forgets_or_silent_def)
  have 3: "events (snd (establish_admin_session env srv s1)) = events s"
    if "fst (establish_admin_session env srv s1) = Inr u" for u
    using establish_success_events [OF that] 1 by simp
  show ?thesis
  proof (cases "fst (restore_admin_session env srv s)")
    case (Inl e)
    with 1 show ?thesis
      by (simp add: initialize_admin_session_def act_bind_cases s1_def [symmetric] forgets_or_silent_def)
  next
    case (Inr b)
    with 1 2 3 show ?thesis
      by (auto simp: initialize_admin_session_def act_bind_cases s1_def [symmetric] forgets_or_silent_def
          split: sum.split)
  qed
qed

lemma ensure_events:
  "forgets_or_silent s (snd (ensure_admin_session env srv s))
   \<and> (case fst (ensure_admin_session env srv s) of
        Inr _ \<Rightarrow> events (snd (ensure_admin_session env srv s)) = events s | Inl _ \<Rightarrow> True)"
  using initialize_events [of "s\<lparr>session_init := True\<rparr>" env srv]
  by (auto simp: ensure_admin_session_def forgets_or_silent_def split: prod.split sum.splits)

lemma send_events: "forgets_or_silent s (snd (admin_send env srv path opts s))"
  unfolding admin_send_def do_fetch_def forgets_or_silent_def
  by (auto simp: admin_failure_state signal_admin_session_expired_def clear_admin_session_state_def
      dispatch_def split: prod.split fetch_result.split if_split)

lemma fetch_events: "forgets_or_silent s (snd (admin_fetch env srv path opts s))"
proof (cases "fst (ensure_admin_session env srv s)")
  case (Inl e)
  with ensure_events [of s env srv] show ?thesis by (simp add: admin_fetch_def act_bind_cases)
next
  case (Inr u)
  with ensure_events [of s env srv] send_events [of "snd (ensure_admin_session env srv s)" env srv path opts]
  show ?thesis by (simp add: admin_fetch_def act_bind_cases forgets_or_silent_def)
qed

lemma response_events:
  "events (snd (api_response path r b)) = events b
   \<or> (events (snd (api_response path r b)) = events b @ [session_expired_event]
      \<and> starts_with path ''/verification/'')"
  by (cases "treat_as_session_expiry path (rsp_status r)")
    (auto simp: api_response_def signal_session_expired_def dispatch_def Let_def
      treat_as_session_expiry_def split: option.split if_splits)

lemma fetch_keeps_events: "events (snd (do_fetch srv rq b)) = events b"
  by (simp add: do_fetch_def split: prod.split)

lemma applicant_events:
  "events (snd (api_fetch env srv path opts b)) = events b
   \<or> (events (snd (api_fetch env srv path opts b)) = events b @ [session_expired_event]
      \<and> starts_with path ''/verification/'')"
proof (cases "if upper (coalesce (opt_method opts) ''GET'') \<in> set safe_methods then Inr None
    else read_cookie ''verification_csrf'' b")
  case (Inl e)
  then show ?thesis by (simp add: api_fetch_cases)
next
  case (Inr csrf)
  let ?fb = "do_fetch srv (api_request env path opts csrf) b"
  show ?thesis
  proof (cases "fst ?fb")
    case (Unreached m)
    with Inr show ?thesis by (simp add: api_fetch_cases Let_def fetch_keeps_events)
  next
    case (Responded r)
    with Inr response_events [of path r "snd ?fb"] show ?thesis
      by (simp add: api_fetch_cases Let_def fetch_keeps_events)
  qed
qed

lemma events_differ: "admin_session_expired_event \<noteq> session_expired_event"
  by (simp add: admin_session_expired_event_def session_expired_event_def)

lemma bridge_routes_append: "bridge_routes (xs @ ys) = bridge_routes xs @ bridge_routes ys"
  by (simp add: bridge_routes_def map_filter_def)

lemma bridge_routes_Nil [simp]: "bridge_routes [] = []"
  by (simp add: bridge_routes_def map_filter_def)

lemma bridge_routes_single:
  "bridge_routes [admin_session_expired_event] = [''/admin/login?reason=session-expired'']"
  "bridge_routes [session_expired_event] = [''/verification/session-expired'']"
  using events_differ by (simp_all add: bridge_routes_def map_filter_def bridge_route_def)

fun grants :: "gate_event \<Rightarrow> bool" where
  "grants (Gate_answer _ (Inr _)) \<longleftrightarrow> True"
| "grants _ \<longleftrightarrow> False"

lemma gate_step_authorized:
  "ag_state (gate_step e g) = Authorized \<Longrightarrow> ag_state g = Authorized \<or> grants e"
  by (cases e rule: grants.cases)
    (auto simp: gate_answer_def gate_navigate_def gate_effect_def gate_cleanup_def Let_def split: if_splits)

lemma gate_run_authorized:
  "ag_state (fold gate_step es g) = Authorized \<Longrightarrow> ag_state g = Authorized \<or> list_ex grants es"
  by (induction es arbitrary: g) (auto dest: gate_step_authorized)

section \<open>Properties\<close>


end
