(* ===== verification/Invitation.thy ===== *)
theory Invitation
  imports Admin_Api Handlers
begin

text \<open>
  \<open>components/admin/admin-invitation-screen.tsx\<close>: the page on which a new administrator accepts the
  invitation whose one-time token is in the address.
\<close>

section \<open>State\<close>

datatype invitation_phase =
  Inv_loading | Inv_ready | Inv_accepting | Inv_accepted | Inv_invalid | Inv_error

record accepted_invitation =
  ai_admin_id :: string
  ai_role :: admin_role
  ai_activated_at :: string

text \<open>
  \<open>iv_url\<close> is the address bar. \<open>iv_tasks\<close> are the microtasks that the effect has queued: the token it
  has read and its \<open>active\<close> variable, which its clean-up turns off.
\<close>

record invitation_screen =
  iv_url :: url_parts
  iv_token :: "string option"
  iv_phase :: invitation_phase
  iv_accepted :: "accepted_invitation option"
  iv_error :: "string option"
  iv_session_ready :: bool
  iv_tasks :: "(string \<times> bool) list"

fun invited_role_label :: "admin_role \<Rightarrow> string" where
  "invited_role_label Super_admin = ''Super Admin''"
| "invited_role_label Admin = ''Administrator''"
| "invited_role_label Reviewer = ''Reviewer''"

section \<open>The effect\<close>

definition raw_token :: "url_parts \<Rightarrow> string" where
  "raw_token u = (case params_get ''token'' (ul_query u) of None \<Rightarrow> [] | Some t \<Rightarrow> trim t)"

definition invitation_effect :: "invitation_screen \<Rightarrow> invitation_screen" where
  "invitation_effect s = s\<lparr>iv_tasks := iv_tasks s @ [(raw_token (iv_url s), True)]\<rparr>"

definition invitation_cleanup :: "invitation_screen \<Rightarrow> invitation_screen" where
  "invitation_cleanup s = s\<lparr>iv_tasks := map (\<lambda>t. (fst t, False)) (iv_tasks s)\<rparr>"

definition valid_token :: "string \<Rightarrow> bool" where
  "valid_token t \<longleftrightarrow> \<not> (length t < 32 \<or> length t > 1024)"

definition invitation_task :: "string \<times> bool \<Rightarrow> invitation_screen \<Rightarrow> invitation_screen" where
  "invitation_task t s =
     (if \<not> snd t then s
      else if \<not> valid_token (fst t) then
        s\<lparr>iv_token := None, iv_phase := Inv_invalid,
          iv_error := Some ''This administrator invitation link is invalid or incomplete.''\<rparr>
      else s\<lparr>iv_token := Some (fst t), iv_phase := Inv_ready\<rparr>)"

definition invitation_new :: "url_parts \<Rightarrow> invitation_screen" where
  "invitation_new u =
     \<lparr>iv_url = u, iv_token = None, iv_phase = Inv_loading, iv_accepted = None, iv_error = None,
      iv_session_ready = False, iv_tasks = []\<rparr>"

text \<open>Under strict mode the effect runs, is cleaned up and runs again.\<close>

definition invitation_mount :: "bool \<Rightarrow> url_parts \<Rightarrow> invitation_screen" where
  "invitation_mount strict u =
     (if strict then invitation_effect (invitation_cleanup (invitation_effect (invitation_new u)))
      else invitation_effect (invitation_new u))"

datatype invitation_event = Microtask | Leave_page

fun invitation_other :: "invitation_event \<Rightarrow> invitation_screen \<Rightarrow> invitation_screen" where
  "invitation_other Microtask s =
     (case iv_tasks s of [] \<Rightarrow> s | t # ts \<Rightarrow> invitation_task t (s\<lparr>iv_tasks := ts\<rparr>))"
| "invitation_other Leave_page s = invitation_cleanup s"

section \<open>Accepting\<close>

datatype invitation_call = Accept_token string | Ensure_session

definition invitation_start ::
  "unit \<Rightarrow> invitation_screen \<Rightarrow> invitation_screen \<times> invitation_call option" where
  "invitation_start _ s =
     (if \<not> truthy (iv_token s) \<or> iv_phase s \<noteq> Inv_ready then (s, None)
      else (s\<lparr>iv_error := None, iv_phase := Inv_accepting\<rparr>, Some (Accept_token (the (iv_token s)))))"

definition accept_error :: "js_error \<Rightarrow> string" where
  "accept_error e =
     (case e of
        AdminApiError m _ \<Rightarrow> if m \<noteq> [] then m else ''Administrator invitation could not be accepted.''
      | _ \<Rightarrow> ''Administrator invitation could not be accepted.'')"

definition without_token :: "url_parts \<Rightarrow> url_parts" where
  "without_token u = u\<lparr>ul_query := params_delete ''token'' (ul_query u)\<rparr>"

definition invitation_settle ::
  "invitation_call \<Rightarrow> js_error + accepted_invitation \<Rightarrow> invitation_screen
     \<Rightarrow> invitation_screen \<times> invitation_call option" where
  "invitation_settle q r s =
     (case q of
        Accept_token _ \<Rightarrow>
          (case r of
             Inl e \<Rightarrow>
               (s\<lparr>iv_token := None, iv_error := Some (accept_error e), iv_phase := Inv_error\<rparr>, None)
           | Inr a \<Rightarrow>
               (s\<lparr>iv_url := without_token (iv_url s), iv_token := None, iv_accepted := Some a,
                  iv_phase := Inv_accepted\<rparr>, Some Ensure_session))
      | Ensure_session \<Rightarrow>
          (case r of
             Inr _ \<Rightarrow> (s\<lparr>iv_session_ready := True\<rparr>, None)
           | Inl _ \<Rightarrow> (s\<lparr>iv_session_ready := False\<rparr>, None)))"

section \<open>Facts\<close>

definition waiting_tasks :: "url_parts \<Rightarrow> (string \<times> bool) list \<Rightarrow> bool" where
  "waiting_tasks u ts \<longleftrightarrow> list_all (\<lambda>t. fst t = raw_token u) ts \<and> length (filter snd ts) \<le> 1"

definition dead_tasks :: "(string \<times> bool) list \<Rightarrow> bool" where
  "dead_tasks ts \<longleftrightarrow> list_all (\<lambda>t. \<not> snd t) ts"

text \<open>What the page, its address and its calls look like in each phase.\<close>

definition invitation_inv :: "url_parts \<Rightarrow> (invitation_screen, invitation_call) flight \<Rightarrow> bool" where
  "invitation_inv u f \<longleftrightarrow>
     (let s = fl_state f; raw = raw_token u; accept = Accept_token raw in
      case iv_phase s of
        Inv_loading \<Rightarrow> iv_url s = u \<and> iv_accepted s = None \<and> iv_token s = None \<and> waiting_tasks u (iv_tasks s)
          \<and> fl_pending f = [] \<and> fl_issued f = []
      | Inv_ready \<Rightarrow> iv_url s = u \<and> iv_accepted s = None \<and> iv_token s = Some raw \<and> valid_token raw \<and> dead_tasks (iv_tasks s)
          \<and> fl_pending f = [] \<and> fl_issued f = []
      | Inv_invalid \<Rightarrow> iv_url s = u \<and> iv_accepted s = None \<and> iv_token s = None \<and> \<not> valid_token raw \<and> dead_tasks (iv_tasks s)
          \<and> fl_pending f = [] \<and> fl_issued f = []
      | Inv_accepting \<Rightarrow> iv_url s = u \<and> iv_accepted s = None \<and> iv_token s = Some raw \<and> valid_token raw \<and> dead_tasks (iv_tasks s)
          \<and> fl_pending f = [accept] \<and> fl_issued f = [accept]
      | Inv_error \<Rightarrow> iv_url s = u \<and> iv_accepted s = None \<and> iv_token s = None \<and> valid_token raw \<and> dead_tasks (iv_tasks s)
          \<and> iv_error s \<noteq> None \<and> fl_pending f = [] \<and> fl_issued f = [accept]
      | Inv_accepted \<Rightarrow> iv_url s = without_token u \<and> iv_token s = None \<and> iv_accepted s \<noteq> None
          \<and> valid_token raw \<and> dead_tasks (iv_tasks s)
          \<and> (fl_pending f = [] \<or> fl_pending f = [Ensure_session]) \<and> fl_issued f = [accept, Ensure_session])"

lemma dead_cleanup [simp]: "dead_tasks (map (\<lambda>t. (fst t, False)) ts)"
  by (simp add: dead_tasks_def list_all_iff)

lemma waiting_cleanup: "waiting_tasks u ts \<Longrightarrow> waiting_tasks u (map (\<lambda>t. (fst t, False)) ts)"
  by (simp add: waiting_tasks_def list_all_iff filter_map o_def)

lemma waiting_pop: "waiting_tasks u (t # ts) \<Longrightarrow> fst t = raw_token u \<and> (if snd t then dead_tasks ts else waiting_tasks u ts)"
  by (cases "snd t") (fastforce simp: waiting_tasks_def dead_tasks_def list_all_iff filter_empty_conv)+

lemma dead_pop: "dead_tasks (t # ts) \<longleftrightarrow> \<not> snd t \<and> dead_tasks ts"
  by (simp add: dead_tasks_def)

lemma invitation_start_inv:
  "invitation_inv u f \<Longrightarrow> invitation_inv u (flight_step invitation_start invitation_settle invitation_other (Start ()) f)"
  by (cases "iv_phase (fl_state f)")
    (auto simp: invitation_inv_def Let_def invitation_start_def truthy_def valid_token_def)

lemma invitation_settle_inv:
  "invitation_inv u f \<Longrightarrow> invitation_inv u (flight_step invitation_start invitation_settle invitation_other (Settle k r) f)"
  by (cases "iv_phase (fl_state f)"; cases r; cases k)
    (auto simp: invitation_inv_def Let_def invitation_settle_def)

lemma invitation_other_inv:
  "invitation_inv u f \<Longrightarrow> invitation_inv u (flight_step invitation_start invitation_settle invitation_other (Other e) f)"
proof (cases e)
  case Microtask
  assume "invitation_inv u f"
  with Microtask show ?thesis
    by (cases "iv_tasks (fl_state f)"; cases "iv_phase (fl_state f)")
      (auto simp: invitation_inv_def Let_def invitation_task_def dead_pop dest: waiting_pop)
next
  case Leave_page
  assume "invitation_inv u f"
  with Leave_page show ?thesis
    by (cases "iv_phase (fl_state f)")
      (auto simp: invitation_inv_def Let_def invitation_cleanup_def waiting_cleanup)
qed

lemma invitation_run_inv:
  "invitation_inv u f \<Longrightarrow> invitation_inv u (fold (flight_step invitation_start invitation_settle invitation_other) ms f)"
proof (induction ms arbitrary: f)
  case (Cons m ms)
  then show ?case by (cases m) (auto intro!: Cons.IH invitation_start_inv invitation_settle_inv invitation_other_inv simp del: flight_step.simps)
qed simp

lemma invitation_mount_inv:
  "invitation_inv u \<lparr>fl_state = invitation_mount strict u, fl_pending = [], fl_issued = []\<rparr>"
  by (simp add: invitation_inv_def invitation_mount_def invitation_effect_def invitation_cleanup_def
      invitation_new_def waiting_tasks_def)

lemma effect_settles:
  "iv_phase (fold invitation_other (replicate (if strict then 2 else 1) Microtask) (invitation_mount strict u))
     = (if valid_token (raw_token u) then Inv_ready else Inv_invalid)"
  by (simp add: invitation_mount_def invitation_effect_def invitation_cleanup_def invitation_new_def
      invitation_task_def numeral_2_eq_2)

lemma trim_raw: "trim (raw_token u) = raw_token u"
  by (simp add: raw_token_def split: option.split)

section \<open>Properties\<close>

text \<open>C27: in every interleaving, under strict mode too, the page has at most one call under way, sends
  its token at most once and only with the 32 to 1024 characters that \<open>acceptAdminInvitation\<close> asks
  for, and opens a session only after the invitation was accepted. The token stays in the address
  until then and is the only thing removed from it then. The effect leaves the page ready exactly when
  the token has the right length.\<close>

theorem invitation_accepted_once:
  "(let f = flight_run invitation_start invitation_settle invitation_other ms (invitation_mount strict u);
        s = fl_state f; raw = raw_token u
    in length (fl_pending f) \<le> 1
       \<and> (iv_phase s = Inv_accepting) = (fl_pending f = [Accept_token raw])
       \<and> fl_issued f \<in> {[], [Accept_token raw], [Accept_token raw, Ensure_session]}
       \<and> (if fl_issued f = [] then True
          else sent (snd (accept_admin_invitation aenv srv raw p)) = sent p @ [accept_request aenv raw])
       \<and> (fl_issued f = [Accept_token raw, Ensure_session]) = (iv_accepted s \<noteq> None)
       \<and> (if iv_accepted s = None then iv_url s = u
          else iv_url s = u\<lparr>ul_query := ul_query (iv_url s)\<rparr>
            \<and> ul_query (iv_url s) = params_delete ''token'' (ul_query u)))
   \<and> iv_phase (fold invitation_other (replicate (if strict then 2 else 1) Microtask) (invitation_mount strict u))
       = (if 32 \<le> length (raw_token u) \<and> length (raw_token u) \<le> 1024 then Inv_ready else Inv_invalid)"
proof (intro conjI)
  have sends: "sent (snd (accept_admin_invitation aenv srv (raw_token u) p)) = sent p @ [accept_request aenv (raw_token u)]"
    if "valid_token (raw_token u)"
    using that by (simp add: accept_admin_invitation_def trim_raw valid_token_def do_fetch_def Let_def
        split: prod.split fetch_result.split option.split)
  define f where "f = flight_run invitation_start invitation_settle invitation_other ms (invitation_mount strict u)"
  have inv: "invitation_inv u f" unfolding f_def flight_run_def by (intro invitation_run_inv invitation_mount_inv)
  show "let f = flight_run invitation_start invitation_settle invitation_other ms (invitation_mount strict u);
        s = fl_state f; raw = raw_token u
    in length (fl_pending f) \<le> 1
       \<and> (iv_phase s = Inv_accepting) = (fl_pending f = [Accept_token raw])
       \<and> fl_issued f \<in> {[], [Accept_token raw], [Accept_token raw, Ensure_session]}
       \<and> (if fl_issued f = [] then True
          else sent (snd (accept_admin_invitation aenv srv raw p)) = sent p @ [accept_request aenv raw])
       \<and> (fl_issued f = [Accept_token raw, Ensure_session]) = (iv_accepted s \<noteq> None)
       \<and> (if iv_accepted s = None then iv_url s = u
          else iv_url s = u\<lparr>ul_query := ul_query (iv_url s)\<rparr>
            \<and> ul_query (iv_url s) = params_delete ''token'' (ul_query u))"
    using inv sends unfolding f_def [symmetric]
    by (cases "iv_phase (fl_state f)") (auto simp: invitation_inv_def Let_def without_token_def)
  show "iv_phase (fold invitation_other (replicate (if strict then 2 else 1) Microtask) (invitation_mount strict u))
       = (if 32 \<le> length (raw_token u) \<and> length (raw_token u) \<le> 1024 then Inv_ready else Inv_invalid)"
    unfolding effect_settles by (simp add: valid_token_def not_less)
qed

end
