(* ===== verification/Applicant_Flow.thy ===== *)
theory Applicant_Flow
  imports Identity_Form Mobile_Handoff
begin

text \<open>
  The identity page as a whole: the form of
  \<open>components/verification/identity-verification-form.tsx\<close> with the phone card of
  \<open>mobile-capture-handoff.tsx\<close> in it. The card's \<open>onEvidenceReceived\<close> is the form's
  \<open>handleMobileEvidence\<close>; everything else of the two runs independently, in any interleaving.
\<close>

section \<open>The page\<close>

type_synonym form_flight = "(identity_form, submission_payload) flight"

type_synonym form_move = "(unit, js_error + json option, form_input) move"

record identity_page =
  ip_card :: handoff_card
  ip_form :: form_flight

definition identity_page_new :: identity_page where
  "identity_page_new =
     \<lparr>ip_card = handoff_new, ip_form = \<lparr>fl_state = identity_form_new, fl_pending = [], fl_issued = []\<rparr>\<rparr>"

text \<open>The calls of \<open>onEvidenceReceived\<close> that an event of the card makes.\<close>

fun phone_events :: "handoff_event \<Rightarrow> handoff_card \<Rightarrow> uploaded_evidence list" where
  "phone_events (Handoff_poll k r) s = drop (length (ho_received s)) (ho_received (poll_answered k r s))"
| "phone_events _ s = []"

text \<open>An event of the form itself is not one of the phone.\<close>

fun from_phone :: "form_move \<Rightarrow> bool" where
  "from_phone (Other (From_phone _)) \<longleftrightarrow> True"
| "from_phone _ \<longleftrightarrow> False"

definition form_step :: "required_evidence \<Rightarrow> form_move \<Rightarrow> form_flight \<Rightarrow> form_flight" where
  "form_step c = flight_step handle_submit submit_settle (form_event_under c)"

datatype page_event = On_card handoff_event | On_form form_move

fun page_step :: "required_evidence \<Rightarrow> page_event \<Rightarrow> identity_page \<Rightarrow> identity_page" where
  "page_step c (On_card h) d =
     \<lparr>ip_card = handoff_step h (ip_card d),
      ip_form = fold (\<lambda>e. form_step c (Other (From_phone e))) (phone_events h (ip_card d)) (ip_form d)\<rparr>"
| "page_step c (On_form m) d = (if from_phone m then d else d\<lparr>ip_form := form_step c m (ip_form d)\<rparr>)"

section \<open>Where evidence comes from\<close>

text \<open>The types and identifiers of evidence that an event brings: what a card of the form has uploaded
  for its type, or what the server lists for the phone's session.\<close>

fun move_sources :: "form_move \<Rightarrow> (evidence_type \<times> string) set" where
  "move_sources (Other (Capture t (Some e))) = {(t, up_id e)}"
| "move_sources (Other (From_phone e)) = {(up_type e, up_id e)}"
| "move_sources _ = {}"

fun event_sources :: "page_event \<Rightarrow> (evidence_type \<times> string) set" where
  "event_sources (On_card (Handoff_poll k (Inr st))) = (\<lambda>u. (cu_type u, cu_id u)) ` set (cs_uploads st)"
| "event_sources (On_card _) = {}"
| "event_sources (On_form m) = (if from_phone m then {} else move_sources m)"

fun form_slot :: "evidence_type \<Rightarrow> identity_form \<Rightarrow> uploaded_evidence option" where
  "form_slot Document_front s = if_front s"
| "form_slot Document_back s = if_back s"
| "form_slot Selfie s = if_selfie s"
| "form_slot Liveness s = if_liveness s"

fun needs_evidence :: "required_evidence \<Rightarrow> evidence_type \<Rightarrow> bool" where
  "needs_evidence c Document_front = needs_document_front c"
| "needs_evidence c Document_back = needs_document_back c"
| "needs_evidence c Selfie = needs_selfie c"
| "needs_evidence c Liveness = needs_liveness c"

text \<open>A submission's identifiers: at most one for each type, in the order of the form, each one brought
  for that type, and one for every required type.\<close>

definition evidence_traced ::
  "required_evidence \<Rightarrow> (evidence_type \<times> string) set \<Rightarrow> submission_payload \<Rightarrow> bool" where
  "evidence_traced c src p \<longleftrightarrow>
     (\<exists>ev. p_evidence_ids p = List.map_filter ev [Document_front, Document_back, Selfie, Liveness]
        \<and> (\<forall>t i. ev t = Some i \<longrightarrow> (t, i) \<in> src)
        \<and> (\<forall>t. needs_evidence c t \<longrightarrow> ev t \<noteq> None))"

definition slots_traced :: "(evidence_type \<times> string) set \<Rightarrow> identity_form \<Rightarrow> bool" where
  "slots_traced src s \<longleftrightarrow> (\<forall>t e. form_slot t s = Some e \<longrightarrow> (t, up_id e) \<in> src)"

section \<open>Facts\<close>

lemma slot_cong:
  "if_front s' = if_front s \<Longrightarrow> if_back s' = if_back s \<Longrightarrow> if_selfie s' = if_selfie s
    \<Longrightarrow> if_liveness s' = if_liveness s \<Longrightarrow> slots_traced src s' = slots_traced src s"
proof -
  assume "if_front s' = if_front s" "if_back s' = if_back s" "if_selfie s' = if_selfie s"
    "if_liveness s' = if_liveness s"
  then have "form_slot t s' = form_slot t s" for t by (cases t) simp_all
  then show ?thesis by (simp add: slots_traced_def)
qed

lemma slot_capture:
  "form_slot t (form_event (Capture t' x) s) = (if t = t' then x else form_slot t s)"
  by (cases t; cases t') simp_all

lemma slot_from_phone:
  "form_slot t (form_event (From_phone e) s) = (if t = up_type e then Some e else form_slot t s)"
  by (cases t) (auto simp: handle_mobile_evidence_def split: evidence_type.split)

lemma slots_kept:
  assumes "\<And>t x. e \<noteq> Capture t x" and "\<And>x. e \<noteq> From_phone x"
  shows "slots_traced src (form_event_under c e s) = slots_traced src s"
proof (rule slot_cong)
  show "if_front (form_event_under c e s) = if_front s" "if_back (form_event_under c e s) = if_back s"
    "if_selfie (form_event_under c e s) = if_selfie s" "if_liveness (form_event_under c e s) = if_liveness s"
    using assms by (cases e; simp add: form_event_under_def form_loaded_def when_asked_def split: sum.split)+
qed

lemma form_event_under_traced:
  assumes h: "slots_traced src s" and m: "move_sources (Other e) \<subseteq> src"
  shows "slots_traced src (form_event_under c e s)"
proof (cases "\<exists>t x. e = Capture t x")
  case True
  then obtain t x where e: "e = Capture t x" by blast
  with h m show ?thesis
    by (cases x) (auto simp: form_event_under_def slots_traced_def slot_capture simp del: form_event.simps)
next
  case no_capture: False
  show ?thesis
  proof (cases "\<exists>x. e = From_phone x")
    case True
    then obtain x where "e = From_phone x" by blast
    with h m show ?thesis
      by (auto simp: form_event_under_def slots_traced_def slot_from_phone simp del: form_event.simps)
  next
    case False
    with no_capture h slots_kept [of e src c s] show ?thesis by blast
  qed
qed

lemma payload_traced:
  assumes v: "validate_required_fields s = None" and h: "slots_traced src s" and c: "form_inv c s"
  shows "evidence_traced c src (form_payload s)"
proof -
  let ?ev = "\<lambda>t. map_option up_id (form_slot t s)"
  have "if_config s = Some c" using config_of_valid v c by blast
  then have "needs_evidence c t \<Longrightarrow> ?ev t \<noteq> None" for t
    using v by (cases t) (auto simp: validated)
  moreover have "?ev t = Some i \<Longrightarrow> (t, i) \<in> src" for t i
    using h by (auto simp: slots_traced_def)
  moreover have "p_evidence_ids (form_payload s) = List.map_filter ?ev [Document_front, Document_back, Selfie, Liveness]"
    by (cases "if_front s"; cases "if_back s"; cases "if_selfie s"; cases "if_liveness s")
      (simp_all add: form_payload_def form_evidence_ids_def map_filter_def)
  ultimately show ?thesis unfolding evidence_traced_def by blast
qed

definition form_traced :: "required_evidence \<Rightarrow> (evidence_type \<times> string) set \<Rightarrow> form_flight \<Rightarrow> bool" where
  "form_traced c src f \<longleftrightarrow>
     form_inv c (fl_state f) \<and> slots_traced src (fl_state f) \<and> list_all (evidence_traced c src) (fl_issued f)"

lemma submit_traced:
  assumes h: "slots_traced src s" "form_inv c s" and st: "handle_submit i s = (s', oq)"
  shows "slots_traced src s' \<and> form_inv c s' \<and> (case oq of None \<Rightarrow> True | Some p \<Rightarrow> evidence_traced c src p)"
proof -
  have "slots_traced src s' = slots_traced src s"
    by (rule slot_cong) (use st in \<open>auto simp: handle_submit_def split: if_splits option.splits\<close>)
  with h handle_submit_cases [OF st] payload_traced [of s src c] show ?thesis
    by (auto simp: form_inv_def)
qed

lemma settle_traced:
  assumes h: "slots_traced src s" "form_inv c s"
  shows "slots_traced src (fst (submit_settle q r s)) \<and> form_inv c (fst (submit_settle q r s))
    \<and> snd (submit_settle q r s) = None"
proof -
  have "slots_traced src (fst (submit_settle q r s)) = slots_traced src s"
    by (rule slot_cong) (simp_all add: submit_settle_def split: sum.split)
  with h show ?thesis by (simp add: submit_settle_def form_inv_def split: sum.split)
qed

lemma form_step_traced:
  assumes h: "form_traced c src f" and m: "move_sources m \<subseteq> src"
  shows "form_traced c src (form_step c m f)"
proof (cases m)
  case (Start i)
  obtain s' oq where st: "handle_submit i (fl_state f) = (s', oq)" by (cases "handle_submit i (fl_state f)")
  with h submit_traced [OF _ _ st, of src c] Start show ?thesis
    by (cases oq) (auto simp: form_traced_def form_step_def)
next
  case (Settle k r)
  obtain s' oq where st: "submit_settle (fl_pending f ! k) r (fl_state f) = (s', oq)"
    by (cases "submit_settle (fl_pending f ! k) r (fl_state f)")
  with h settle_traced [of src "fl_state f" c "fl_pending f ! k" r] Settle show ?thesis
    by (auto simp: form_traced_def form_step_def Let_def)
next
  case (Other e)
  with h m form_event_under_traced [of src "fl_state f" e c] form_event_under_frame(2) [of c "fl_state f" e]
  show ?thesis by (simp add: form_traced_def form_step_def)
qed

text \<open>What the card hands to the form is in the answer it has received.\<close>

lemma deliver_received:
  "\<exists>us'. set us' \<subseteq> set us \<and> ho_received (deliver us s) = ho_received s @ map phone_evidence us'"
proof (induction us arbitrary: s)
  case Nil
  show ?case by (intro exI [of _ "[]"]) simp
next
  case (Cons u us)
  show ?case
  proof (cases "cu_id u \<in> ho_delivered s")
    case True
    then have "deliver (u # us) s = deliver us s" by simp
    with Cons.IH [of s] show ?thesis by (metis list.set_intros(2) subset_iff)
  next
    case False
    let ?s = "s\<lparr>ho_delivered := insert (cu_id u) (ho_delivered s), ho_received := ho_received s @ [phone_evidence u]\<rparr>"
    from Cons.IH [of ?s] obtain us' where
      "set us' \<subseteq> set us" "ho_received (deliver us ?s) = ho_received ?s @ map phone_evidence us'"
      by blast
    with False show ?thesis by (intro exI [of _ "u # us'"]) auto
  qed
qed

lemma phone_events_listed:
  assumes "e \<in> set (phone_events h s)"
  shows "(up_type e, up_id e) \<in> event_sources (On_card h)"
proof (cases h)
  case (Handoff_poll k r)
  show ?thesis
  proof (cases r)
    case (Inl x)
    with Handoff_poll assms show ?thesis by (simp add: poll_answered_def Let_def split: if_splits)
  next
    case (Inr st)
    obtain us' where us: "set us' \<subseteq> set (cs_uploads st)"
      "ho_received (deliver (cs_uploads st) (s\<lparr>ho_status := Some st\<rparr>)) = ho_received s @ map phone_evidence us'"
      using deliver_received [of "cs_uploads st" "s\<lparr>ho_status := Some st\<rparr>"] by auto
    with assms Handoff_poll Inr have "e \<in> phone_evidence ` set us'"
      by (auto simp: poll_answered_def Let_def split: if_splits)
    with us(1) Handoff_poll Inr show ?thesis by (auto simp: phone_evidence_def)
  qed
qed (use assms in simp_all)

lemma phone_fold_traced:
  "form_traced c src f \<Longrightarrow> (\<And>e. e \<in> set es \<Longrightarrow> (up_type e, up_id e) \<in> src)
    \<Longrightarrow> form_traced c src (fold (\<lambda>e. form_step c (Other (From_phone e))) es f)"
  by (induction es arbitrary: f) (simp_all add: form_step_traced)

lemma page_step_traced:
  assumes h: "form_traced c src (ip_form d)" and m: "event_sources e \<subseteq> src"
  shows "form_traced c src (ip_form (page_step c e d))"
proof (cases e)
  case (On_card x)
  with h m phone_events_listed [of _ x "ip_card d"] show ?thesis
    by (auto intro!: phone_fold_traced)
next
  case (On_form x)
  with h m form_step_traced [of c src "ip_form d" x] show ?thesis by (auto split: if_splits)
qed

lemma page_run_traced:
  "form_traced c src (ip_form d) \<Longrightarrow> (\<Union>e \<in> set es. event_sources e) \<subseteq> src
    \<Longrightarrow> form_traced c src (ip_form (fold (page_step c) es d))"
proof (induction es arbitrary: d)
  case (Cons e es)
  have "form_traced c src (ip_form (page_step c e d))"
    using Cons.prems page_step_traced [of c src d e] by auto
  with Cons.prems Cons.IH show ?case by simp
qed simp

text \<open>The form within the page runs as it does by itself.\<close>

lemma phone_fold_run:
  "fold (\<lambda>e. form_step c (Other (From_phone e))) es f = fold (form_step c) (map (\<lambda>e. Other (From_phone e)) es) f"
  by (induction es arbitrary: f) simp_all

lemma page_form_run:
  "\<exists>ms. ip_form (fold (page_step c) es d) = fold (form_step c) ms (ip_form d)"
proof (induction es arbitrary: d)
  case Nil
  show ?case by (intro exI [of _ "[]"]) simp
next
  case (Cons e es)
  obtain ms where ms: "ip_form (page_step c e d) = fold (form_step c) ms (ip_form d)"
  proof (cases e)
    case (On_card h)
    then show ?thesis by (intro that) (simp add: phone_fold_run)
  next
    case (On_form m)
    then show ?thesis by (intro that [of "if from_phone m then [] else [m]"]) simp
  qed
  from Cons.IH [of "page_step c e d"] obtain ms' where
    "ip_form (fold (page_step c) es (page_step c e d)) = fold (form_step c) ms' (ip_form (page_step c e d))"
    by blast
  with ms show ?case by (intro exI [of _ "ms @ ms'"]) simp
qed

section \<open>Properties\<close>

text \<open>C4: on the identity page, with the phone card in it and in every interleaving, at most one
  submission is under way, each submission is complete, and its evidence identifiers are traced: at
  most one for each type, one for every required type, and each was brought for that type, either by an
  upload on this page or by the server's list of what the phone has stored.\<close>

theorem submitted_evidence_traced:
  "let f = ip_form (fold (page_step c) es identity_page_new) in
     length (fl_pending f) \<le> 1
     \<and> list_all (payload_complete c) (fl_issued f)
     \<and> list_all (evidence_traced c (\<Union>e \<in> set es. event_sources e)) (fl_issued f)"
proof -
  define f where "f = ip_form (fold (page_step c) es identity_page_new)"
  obtain ms where "f = fold (form_step c) ms (ip_form identity_page_new)"
    unfolding f_def using page_form_run by blast
  then have run: "f = flight_run handle_submit submit_settle (form_event_under c) ms identity_form_new"
    by (simp add: flight_run_def form_step_def [abs_def] identity_page_new_def)
  have "form_traced c (\<Union>e \<in> set es. event_sources e) (ip_form identity_page_new)"
  proof -
    have "slots_traced src identity_form_new" for src
      unfolding slots_traced_def by (intro allI, rename_tac t e, case_tac t) (simp_all add: identity_form_new_def)
    then show ?thesis
      by (simp add: form_traced_def identity_page_new_def form_inv_def country_text_def) (simp add: identity_form_new_def)
  qed
  from page_run_traced [OF this order_refl]
  have "list_all (evidence_traced c (\<Union>e \<in> set es. event_sources e)) (fl_issued f)"
    by (simp add: form_traced_def f_def)
  then show ?thesis
    using submissions_complete [of c ms] unfolding f_def [symmetric] by (simp add: Let_def run)
qed

end
