(* ===== verification/Applicant_Screens.thy ===== *)
theory Applicant_Screens
  imports Status Api_Client Admin_Api Handlers Polling
begin

text \<open>
  The screens of an applicant's way through a request, under \<open>components/verification\<close>: the entry
  page of a private link (\<open>verification-entry.tsx\<close>), the account confirmation
  (\<open>account-confirmation.tsx\<close>), the request for more information
  (\<open>more-information-required.tsx\<close>), the waiting room (\<open>waiting-room.tsx\<close>), the approved access
  (\<open>approved-access.tsx\<close>) and the end of the session (\<open>session-actions.tsx\<close>).
\<close>

section \<open>The entry page\<close>

record public_request =
  pr_status :: verification_status
  pr_expires_at :: string

datatype entry_phase = Entry_loading | Entry_ready | Entry_error

record entry_screen =
  es_request :: "public_request option"
  es_phase :: entry_phase
  es_error :: "string option"
  es_continuing :: bool
  es_mounted :: bool
  es_assigned :: "string option"  \<comment> \<open>\<open>window.location.assign\<close>\<close>

definition entry_screen_new :: entry_screen where
  "entry_screen_new =
     \<lparr>es_request = None, es_phase = Entry_loading, es_error = None, es_continuing = False,
      es_mounted = True, es_assigned = None\<rparr>"

definition entry_loaded :: "js_error + public_request \<Rightarrow> entry_screen \<Rightarrow> entry_screen" where
  "entry_loaded r s =
     (if \<not> es_mounted s then s
      else case r of
             Inr q \<Rightarrow> s\<lparr>es_request := Some q, es_phase := Entry_ready\<rparr>
           | Inl _ \<Rightarrow> s\<lparr>es_error := Some ''This verification request is unavailable.'', es_phase := Entry_error\<rparr>)"

datatype entry_view = Loader | Unavailable_card string | Existing_status verification_step bool | Landing

definition entry_terminal :: "verification_status \<Rightarrow> bool" where
  "entry_terminal st \<longleftrightarrow> st \<in> {Expired, Revoked, Rejected}"

definition entry_render :: "entry_screen \<Rightarrow> entry_view" where
  "entry_render s =
     (if es_phase s = Entry_loading then Loader
      else case es_request s of
             None \<Rightarrow> Unavailable_card (coalesce (es_error s) ''Verification request unavailable.'')
           | Some q \<Rightarrow>
               if es_phase s = Entry_error
               then Unavailable_card (coalesce (es_error s) ''Verification request unavailable.'')
               else if pr_status q \<noteq> Pending
               then Existing_status (step (status_presentation (pr_status q))) (entry_terminal (pr_status q))
               else Landing)"

text \<open>The buttons of the landing page are disabled while continuing; the call is
  \<open>createEntryContext(token)\<close>.\<close>

definition continue_with_discord ::
  "string \<Rightarrow> unit \<Rightarrow> entry_screen \<Rightarrow> entry_screen \<times> (string \<times> request_options) option" where
  "continue_with_discord token _ s =
     (if entry_render s \<noteq> Landing \<or> es_continuing s then (s, None)
      else (s\<lparr>es_continuing := True, es_error := None\<rparr>, Some (create_entry_context token)))"

definition discord_start_url :: "(string \<Rightarrow> url_parts option) \<Rightarrow> string option \<Rightarrow> string \<Rightarrow> url_parts option" where
  "discord_start_url parse env context_token =
     map_option (\<lambda>u. u\<lparr>ul_query := params_set ''entry_context'' context_token (ul_query u)\<rparr>)
       (parse (api_base_url env @ ''/auth/discord/start''))"

definition continue_settle ::
  "(string \<Rightarrow> url_parts option) \<Rightarrow> string option \<Rightarrow> string \<times> request_options \<Rightarrow> js_error + string
     \<Rightarrow> entry_screen \<Rightarrow> entry_screen \<times> (string \<times> request_options) option" where
  "continue_settle parse env q r s =
     (case r of
        Inr context_token \<Rightarrow>
          (case discord_start_url parse env context_token of
             Some u \<Rightarrow> s\<lparr>es_assigned := Some (url_to_string u)\<rparr>
           | None \<Rightarrow>
               s\<lparr>es_continuing := False,
                 es_error := Some ''We could not start Discord authentication. Please try again.''\<rparr>)
      | Inl _ \<Rightarrow>
          s\<lparr>es_continuing := False,
            es_error := Some ''We could not start Discord authentication. Please try again.''\<rparr>,
      None)"

datatype entry_input = Request_answer "js_error + public_request" | Entry_unmount

text \<open>The request is loaded once per mount.\<close>

fun entry_input_step :: "entry_input \<Rightarrow> entry_screen \<Rightarrow> entry_screen" where
  "entry_input_step (Request_answer r) s = (if es_phase s = Entry_loading then entry_loaded r s else s)"
| "entry_input_step Entry_unmount s = s\<lparr>es_mounted := False\<rparr>"

interpretation entry_flight: single_flight
  "continue_with_discord token" "continue_settle parse env" entry_input_step es_continuing
  for token :: string and parse :: "string \<Rightarrow> url_parts option" and env :: "string option"
proof
  show "es_continuing s \<Longrightarrow> continue_with_discord token i s = (s', oq) \<Longrightarrow> oq = None \<and> es_continuing s'"
    for token i s s' oq
    by (auto simp: continue_with_discord_def)
  show "\<not> es_continuing s \<Longrightarrow> continue_with_discord token i s = (s', oq) \<Longrightarrow> es_continuing s' \<longleftrightarrow> oq \<noteq> None"
    for token i s s' oq
    by (auto simp: continue_with_discord_def split: if_splits)
  show "es_continuing s \<Longrightarrow> continue_settle parse env q r s = (s', Some q') \<Longrightarrow> es_continuing s'"
    for parse env q r s s' q'
    by (simp add: continue_settle_def)
  show "es_continuing (entry_input_step e s) \<longleftrightarrow> es_continuing s" for e s
    by (cases e) (auto simp: entry_loaded_def split: sum.split)
qed

text \<open>The page is only left for the start of the OAuth flow, with the context as a parameter.\<close>

definition oauth_start :: "(string \<Rightarrow> url_parts option) \<Rightarrow> string option \<Rightarrow> string \<Rightarrow> bool" where
  "oauth_start parse env target \<longleftrightarrow>
     (\<exists>u context_token w. parse (api_base_url env @ ''/auth/discord/start'') = Some u
        \<and> target = ul_prefix u @ ''?'' @ w @ ul_hash u
        \<and> map_of (map (\<lambda>(k, v). (the k, the v)) (read_query w)) ''entry_context'' = Some context_token)"

definition entry_screen_inv :: "(string \<Rightarrow> url_parts option) \<Rightarrow> string option \<Rightarrow> entry_screen \<Rightarrow> bool" where
  "entry_screen_inv parse env s \<longleftrightarrow>
     (case es_assigned s of None \<Rightarrow> True | Some t \<Rightarrow> oauth_start parse env t)"

lemma start_url_reads_back:
  "discord_start_url parse env c = Some u \<Longrightarrow> oauth_start parse env (url_to_string u)"
proof -
  assume "discord_start_url parse env c = Some u"
  then obtain v where v: "parse (api_base_url env @ ''/auth/discord/start'') = Some v"
    and u: "u = v\<lparr>ul_query := params_set ''entry_context'' c (ul_query v)\<rparr>"
    by (auto simp: discord_start_url_def)
  let ?w = "params_to_string (params_set ''entry_context'' c (ul_query v))"
  have "params_set ''entry_context'' c (ul_query v) \<noteq> []"
    by (cases "ul_query v") (auto split: if_splits)
  then have "url_to_string u = ul_prefix v @ ''?'' @ ?w @ ul_hash v" by (simp add: u url_to_string_def)
  moreover have "map (\<lambda>(k, v). (the k, the v)) (read_query ?w) = params_set ''entry_context'' c (ul_query v)"
    by (simp add: read_query_written o_def case_prod_unfold)
  ultimately show ?thesis
    using v by (auto simp: oauth_start_def map_of_params_set intro!: exI [of _ v] exI [of _ c] exI [of _ ?w])
qed

interpretation entry_good: guarded_handler
  "continue_with_discord token" "continue_settle parse env" entry_input_step
  "entry_screen_inv parse env" "\<lambda>q. q = create_entry_context token"
  for token :: string and parse :: "string \<Rightarrow> url_parts option" and env :: "string option"
proof
  show "entry_screen_inv parse env s \<Longrightarrow> continue_with_discord token i s = (s', oq) \<Longrightarrow> entry_screen_inv parse env s'"
    for token parse env i s s' oq
    by (auto simp: continue_with_discord_def entry_screen_inv_def split: if_splits)
  show "entry_screen_inv parse env s \<Longrightarrow> continue_with_discord token i s = (s', Some q) \<Longrightarrow> q = create_entry_context token"
    for token parse env i s s' q
    by (auto simp: continue_with_discord_def split: if_splits)
  show "entry_screen_inv parse env s \<Longrightarrow> q = create_entry_context token
      \<Longrightarrow> continue_settle parse env q r s = (s', oq) \<Longrightarrow> entry_screen_inv parse env s'"
    for token parse env q r s s' oq
    using start_url_reads_back
    by (auto simp: continue_settle_def entry_screen_inv_def split: sum.splits option.splits)
  show "entry_screen_inv parse env s \<Longrightarrow> q = create_entry_context token
      \<Longrightarrow> continue_settle parse env q r s = (s', Some q') \<Longrightarrow> q' = create_entry_context token"
    for token parse env q r s s' q'
    by (simp add: continue_settle_def)
  show "entry_screen_inv parse env s \<Longrightarrow> entry_screen_inv parse env (entry_input_step e s)" for parse env e s
    by (cases e) (auto simp: entry_loaded_def entry_screen_inv_def split: sum.split)
qed

section \<open>The waiting room\<close>

record status_response =
  sr_status :: verification_status
  sr_queue_entered_at :: "string option"
  sr_review_started_at :: "string option"
  sr_decided_at :: "string option"
  sr_expires_at :: string
  sr_user_message :: "string option"

record waiting_room =
  wr_status :: "status_response option"
  wr_error :: "string option"
  wr_refreshing :: bool
  wr_checked :: "int option"
  wr_mounted :: bool
  wr_wait :: poll_wait
  wr_assigned :: "string option"

text \<open>The state after the effect's first \<open>refresh()\<close> has made its request.\<close>

definition waiting_room_new :: waiting_room where
  "waiting_room_new =
     \<lparr>wr_status = None, wr_error = None, wr_refreshing = True, wr_checked = None, wr_mounted = True,
      wr_wait = Poll_answer, wr_assigned = None\<rparr>"

definition still_waiting :: "verification_status \<Rightarrow> bool" where
  "still_waiting st \<longleftrightarrow> status_name st \<in> {''queued'', ''in_review''}"

text \<open>The continuation of the request: an answer with its time, or a failure.\<close>

definition waiting_answer :: "js_error + status_response \<times> int \<Rightarrow> waiting_room \<Rightarrow> waiting_room" where
  "waiting_answer r s =
     (if \<not> wr_mounted s then s\<lparr>wr_wait := Poll_done\<rparr>
      else case r of
             Inr (st, now) \<Rightarrow>
               (let s1 = s\<lparr>wr_status := Some st, wr_error := None, wr_checked := Some now,
                           wr_refreshing := False\<rparr>
                in if \<not> still_waiting (sr_status st)
                   then s1\<lparr>wr_assigned := Some (status_path (sr_status st)), wr_wait := Poll_done\<rparr>
                   else s1\<lparr>wr_wait := Poll_timer\<rparr>)
           | Inl _ \<Rightarrow>
               s\<lparr>wr_error := Some ''We could not refresh your verification status. Your submission has not been changed.'',
                 wr_refreshing := False, wr_wait := Poll_timer\<rparr>)"

definition waiting_tick :: "waiting_room \<Rightarrow> waiting_room" where
  "waiting_tick s =
     (if \<not> wr_mounted s then s\<lparr>wr_wait := Poll_done\<rparr>
      else s\<lparr>wr_refreshing := True, wr_wait := Poll_answer\<rparr>)"

definition waiting_leave :: "waiting_room \<Rightarrow> waiting_room" where
  "waiting_leave s =
     s\<lparr>wr_mounted := False, wr_wait := (if wr_wait s = Poll_timer then Poll_done else wr_wait s)\<rparr>"

definition waiting_in_review :: "waiting_room \<Rightarrow> bool" where
  "waiting_in_review s \<longleftrightarrow> map_option sr_status (wr_status s) = Some In_review"

definition waiting_step :: "waiting_room \<Rightarrow> verification_step" where
  "waiting_step s = (if waiting_in_review s then Review else Queue)"

fun waiting_over :: "js_error + status_response \<times> int \<Rightarrow> bool" where
  "waiting_over (Inr (st, _)) \<longleftrightarrow> \<not> still_waiting (sr_status st)"
| "waiting_over (Inl _) \<longleftrightarrow> False"

definition waiting_left :: "waiting_room \<Rightarrow> bool" where
  "waiting_left s \<longleftrightarrow> wr_assigned s \<noteq> None"

interpretation waiting: polling
  waiting_answer waiting_tick waiting_leave wr_wait wr_mounted waiting_left waiting_over
proof
  show "wr_mounted s \<Longrightarrow> wr_wait s = Poll_answer \<Longrightarrow> \<not> waiting_left s \<Longrightarrow> wr_mounted (waiting_answer r s)
      \<and> wr_wait (waiting_answer r s) = (if waiting_over r then Poll_done else Poll_timer)
      \<and> waiting_left (waiting_answer r s) = waiting_over r" for s r
    by (cases r) (auto simp: waiting_answer_def waiting_left_def Let_def)
qed (simp_all add: waiting_answer_def waiting_tick_def waiting_leave_def waiting_left_def)

abbreviation waiting_run ::
  "(js_error + status_response \<times> int) poll_event list \<Rightarrow> waiting_room \<Rightarrow> waiting_room" where
  "waiting_run \<equiv> fold (poll_step waiting_answer waiting_tick waiting_leave wr_wait)"

text \<open>It only ever leaves for a page that admits the status just read.\<close>

definition waiting_target_ok :: "waiting_room \<Rightarrow> bool" where
  "waiting_target_ok s \<longleftrightarrow>
     (case (wr_assigned s, wr_status s) of
        (None, _) \<Rightarrow> True
      | (Some p, Some st) \<Rightarrow> p = status_path (sr_status st) \<and> p \<noteq> ''/verification/waiting''
      | _ \<Rightarrow> False)"

lemma still_waiting_path: "\<not> still_waiting st \<Longrightarrow> status_path st \<noteq> ''/verification/waiting''"
  by (cases st) (simp_all add: still_waiting_def)

definition waiting_inv :: "waiting_room \<Rightarrow> bool" where
  "waiting_inv s \<longleftrightarrow> waiting_target_ok s \<and> (wr_assigned s = None \<or> wr_wait s = Poll_done)"

lemma waiting_step_inv:
  "waiting_inv s \<Longrightarrow> waiting_inv (poll_step waiting_answer waiting_tick waiting_leave wr_wait e s)"
  using still_waiting_path
  by (cases e) (auto simp: waiting_inv_def waiting_target_ok_def waiting_answer_def waiting_tick_def
      waiting_leave_def Let_def split: sum.split option.splits)

lemma waiting_run_inv: "waiting_inv s \<Longrightarrow> waiting_inv (waiting_run es s)"
  by (induction es arbitrary: s) (simp_all add: waiting_step_inv)

section \<open>The approved access\<close>

datatype access_status = Not_issued | Issued | Consumed | Access_expired | Access_revoked

fun access_status_name :: "access_status \<Rightarrow> string" where
  "access_status_name Not_issued = ''not_issued''"
| "access_status_name Issued = ''issued''"
| "access_status_name Consumed = ''consumed''"
| "access_status_name Access_expired = ''expired''"
| "access_status_name Access_revoked = ''revoked''"

record access_response =
  ar_status :: access_status
  ar_available :: bool
  ar_invite_url :: "string option"
  ar_expires_at :: "string option"

text \<open>\<open>aa_first\<close>: the request under way is the first one, which loads instead of refreshing.\<close>

record approved_access =
  aa_access :: "access_response option"
  aa_loading :: bool
  aa_refreshing :: bool
  aa_error :: "string option"
  aa_checked :: "int option"
  aa_mounted :: bool
  aa_first :: bool
  aa_wait :: poll_wait

definition approved_access_new :: approved_access where
  "approved_access_new =
     \<lparr>aa_access = None, aa_loading = True, aa_refreshing = False, aa_error = None, aa_checked = None,
      aa_mounted = True, aa_first = True, aa_wait = Poll_answer\<rparr>"

definition access_answer :: "js_error + access_response \<times> int \<Rightarrow> approved_access \<Rightarrow> approved_access" where
  "access_answer r s =
     (if \<not> aa_mounted s then s\<lparr>aa_wait := Poll_done\<rparr>
      else
        let s1 = (case r of
                    Inr (a, now) \<Rightarrow> s\<lparr>aa_access := Some a, aa_error := None, aa_checked := Some now\<rparr>
                  | Inl _ \<Rightarrow> s\<lparr>aa_error := Some ''We could not refresh your Discord access grant. Your verification approval has not been changed.''\<rparr>);
            s2 = (if aa_first s then s1\<lparr>aa_loading := False\<rparr> else s1\<lparr>aa_refreshing := False\<rparr>);
            ready = (case r of Inr (a, _) \<Rightarrow> ar_status a \<noteq> Not_issued | Inl _ \<Rightarrow> False)
        in s2\<lparr>aa_first := False, aa_wait := (if ready then Poll_done else Poll_timer)\<rparr>)"

definition access_tick :: "approved_access \<Rightarrow> approved_access" where
  "access_tick s =
     (if \<not> aa_mounted s then s\<lparr>aa_wait := Poll_done\<rparr>
      else (if aa_first s then s\<lparr>aa_loading := True\<rparr> else s\<lparr>aa_refreshing := True\<rparr>)\<lparr>aa_wait := Poll_answer\<rparr>)"

definition access_leave :: "approved_access \<Rightarrow> approved_access" where
  "access_leave s =
     s\<lparr>aa_mounted := False, aa_wait := (if aa_wait s = Poll_timer then Poll_done else aa_wait s)\<rparr>"

definition access_ready :: "approved_access \<Rightarrow> bool" where
  "access_ready s \<longleftrightarrow>
     (case aa_access s of None \<Rightarrow> False | Some a \<Rightarrow> ar_available a \<and> truthy (ar_invite_url a))"

definition access_complete :: "approved_access \<Rightarrow> bool" where
  "access_complete s \<longleftrightarrow> map_option ar_status (aa_access s) = Some Consumed"

definition access_heading :: "approved_access \<Rightarrow> string" where
  "access_heading s =
     (if access_complete s then ''Your verification is complete''
      else if access_ready s then ''Your Discord access is ready''
      else ''Preparing your Discord access'')"

definition grant_seen :: "approved_access \<Rightarrow> bool" where
  "grant_seen s \<longleftrightarrow> (case aa_access s of None \<Rightarrow> False | Some a \<Rightarrow> ar_status a \<noteq> Not_issued)"

fun access_over :: "js_error + access_response \<times> int \<Rightarrow> bool" where
  "access_over (Inr (a, _)) \<longleftrightarrow> ar_status a \<noteq> Not_issued"
| "access_over (Inl _) \<longleftrightarrow> False"

interpretation approved: polling
  access_answer access_tick access_leave aa_wait aa_mounted grant_seen access_over
proof
  show "aa_mounted s \<Longrightarrow> aa_wait s = Poll_answer \<Longrightarrow> \<not> grant_seen s \<Longrightarrow> aa_mounted (access_answer r s)
      \<and> aa_wait (access_answer r s) = (if access_over r then Poll_done else Poll_timer)
      \<and> grant_seen (access_answer r s) = access_over r" for s r
    by (cases r) (auto simp: access_answer_def grant_seen_def Let_def)
qed (simp_all add: access_answer_def access_tick_def access_leave_def grant_seen_def)

abbreviation access_run ::
  "(js_error + access_response \<times> int) poll_event list \<Rightarrow> approved_access \<Rightarrow> approved_access" where
  "access_run \<equiv> fold (poll_step access_answer access_tick access_leave aa_wait)"

section \<open>Screens that load one record\<close>

record 'd loaded_screen =
  ls_data :: "'d option"
  ls_loading :: bool
  ls_error :: "string option"
  ls_mounted :: bool

definition loaded_screen_new :: "'d loaded_screen" where
  "loaded_screen_new = \<lparr>ls_data = None, ls_loading = True, ls_error = None, ls_mounted = True\<rparr>"

record account_confirmation =
  ac_discord_user_id :: string
  ac_username :: string
  ac_avatar_url :: "string option"

definition account_answer ::
  "js_error + account_confirmation \<Rightarrow> account_confirmation loaded_screen \<Rightarrow> account_confirmation loaded_screen" where
  "account_answer r s =
     (if \<not> ls_mounted s then s
      else (case r of
              Inr a \<Rightarrow> s\<lparr>ls_data := Some a\<rparr>
            | Inl _ \<Rightarrow> s\<lparr>ls_error := Some ''We could not confirm your Discord account.''\<rparr>)\<lparr>ls_loading := False\<rparr>)"

datatype account_view = Account_loading | Account_error string | Account_shown account_confirmation

definition account_render :: "account_confirmation loaded_screen \<Rightarrow> account_view" where
  "account_render s =
     (if ls_loading s then Account_loading
      else case ls_data s of
             None \<Rightarrow> Account_error (coalesce (ls_error s) ''Discord account confirmation is unavailable.'')
           | Some a \<Rightarrow>
               if truthy (ls_error s)
               then Account_error (coalesce (ls_error s) ''Discord account confirmation is unavailable.'')
               else Account_shown a)"

definition more_info_answer ::
  "js_error + status_response \<Rightarrow> status_response loaded_screen \<Rightarrow> status_response loaded_screen" where
  "more_info_answer r s =
     (if \<not> ls_mounted s then s
      else (case r of
              Inr st \<Rightarrow> s\<lparr>ls_data := Some st, ls_error := None\<rparr>
            | Inl _ \<Rightarrow>
                s\<lparr>ls_error := Some ''We could not load the latest administrator message. You can still continue to update your verification.''\<rparr>)
           \<lparr>ls_loading := False\<rparr>)"

definition more_info_message :: "status_response loaded_screen \<Rightarrow> string option" where
  "more_info_message s =
     (if ls_loading s then None
      else case ls_data s of
             None \<Rightarrow> None
           | Some st \<Rightarrow> if truthy (sr_user_message st) then sr_user_message st else None)"

section \<open>Ending the session\<close>

text \<open>The page goes home whether or not the request succeeded.\<close>

definition verification_logout ::
  "string option \<Rightarrow> 'w server \<Rightarrow> ('w, 'z) browser_scheme \<Rightarrow> string \<times> ('w, 'z) browser_scheme" where
  "verification_logout env srv b =
     (''/'', snd (api_fetch env srv ''/verification/logout'' (method_options ''POST'' NoBody) b))"

section \<open>Facts\<close>

lemma account_render_settled:
  "ls_mounted s \<Longrightarrow> ls_error s = None \<Longrightarrow> account_render (account_answer r s) =
     (case r of
        Inr a \<Rightarrow> Account_shown a
      | Inl _ \<Rightarrow> Account_error ''We could not confirm your Discord account.'')"
  by (auto simp: account_answer_def account_render_def coalesce_def truthy_def split: sum.split option.split)

section \<open>Properties\<close>



end
