(* ===== verification/Landing.thy ===== *)
theory Landing
  imports Prelude
begin

text \<open>
  The moving parts of the landing page in \<open>components/verification/verification-entry.tsx\<close>: the
  rotating title of the hero section and the circular row of insight cards, whose positions, sizes and
  controls are computed from the index of the active card. Opacities and scales are in hundredths,
  rotations in tenths of a degree, lengths in pixels.
\<close>

section \<open>The hero title\<close>

definition animated_titles :: "string list" where
  "animated_titles = [''securely.'', ''privately.'', ''confidently.'', ''safely.'', ''seamlessly.'']"

text \<open>The timeout of 2200 ms that every change of the title sets.\<close>

definition next_title :: "int \<Rightarrow> int" where
  "next_title n = (n + 1) mod int (length animated_titles)"

section \<open>The cards\<close>

record verification_insight =
  vi_id :: nat
  vi_eyebrow :: string
  vi_title :: string
  vi_description :: string
  vi_detail :: string

definition insight :: "nat \<Rightarrow> string \<Rightarrow> string \<Rightarrow> string \<Rightarrow> string \<Rightarrow> verification_insight" where
  "insight i e t d x =
     \<lparr>vi_id = i, vi_eyebrow = e, vi_title = t, vi_description = d, vi_detail = x\<rparr>"

definition verification_insights :: "verification_insight list" where
  "verification_insights =
     [insight 0 ''Account binding''
        ''One request. One Discord account.''
        ''Your private verification request is assigned to a specific Discord account before evidence can be submitted.''
        ''The authenticated Discord identity must match the account assigned to the verification request.'',
      insight 1 ''Identity evidence''
        ''Only the evidence requested is collected.''
        ''The verification form asks for the evidence required for your specific request instead of exposing unrelated information.''
        ''Documents and other evidence remain part of the controlled verification workflow.'',
      insight 2 ''Fresh capture''
        ''Camera evidence can be captured live.''
        ''When required, selfie and guided face capture use the device camera instead of accepting an old saved image.''
        ''Live capture helps ensure fresh session evidence is submitted during verification.'',
      insight 3 ''Human review''
        ''Approval is not automatic.''
        ''Submitted verification evidence enters an administrator review queue before a final decision is made.''
        ''The applicant remains outside the protected server while the request is under review.'',
      insight 4 ''Controlled access''
        ''Verification comes before server access.''
        ''A pending, queued, rejected, expired, or revoked request does not release protected server access.''
        ''Controlled access becomes available only after the verification request is approved.'',
      insight 5 ''Request lifetime''
        ''Private links are time-limited.''
        ''Verification requests can expire instead of remaining usable indefinitely.''
        ''Expiration reduces the lifetime of an unused private verification request.'',
      insight 6 ''Approval''
        ''The decision belongs to the verification case.''
        ''Approval applies to the account and request that completed the verification workflow.''
        ''The account used during authentication remains the identity associated with the case.'',
      insight 7 ''Privacy boundary''
        ''Evidence stays inside the verification portal.''
        ''Sensitive verification evidence should be submitted through the secure web flow rather than through Discord messages.''
        ''Keeping evidence inside the portal creates a clearer security and review boundary.'']"

datatype carousel_move = Next_card | Previous_card | Select_card nat

text \<open>Only the rendered cards can be selected.\<close>

fun move_card :: "carousel_move \<Rightarrow> int \<Rightarrow> int" where
  "move_card Next_card current = (current + 1) mod int (length verification_insights)"
| "move_card Previous_card current =
     (current - 1 + int (length verification_insights)) mod int (length verification_insights)"
| "move_card (Select_card i) current = (if i < length verification_insights then int i else current)"

definition circular_card_position :: "int \<Rightarrow> int \<Rightarrow> int \<Rightarrow> int" where
  "circular_card_position index active count =
     (let half = count div 2;
          p0 = index - active;
          p1 = (if p0 > half then p0 - count else p0)
      in if p1 < - half then p1 + count else p1)"

definition card_width :: "int \<Rightarrow> int" where
  "card_width inner_width =
     (if inner_width < 480 then min 300 (inner_width - 42)
      else if inner_width < 768 then 340
      else 420)"

definition card_opacity :: "int \<Rightarrow> int" where
  "card_opacity position =
     (if \<bar>position\<bar> > 3 then 0
      else if \<bar>position\<bar> = 3 then 14
      else if \<bar>position\<bar> = 2 then 32
      else if \<bar>position\<bar> = 1 then 64
      else 100)"

definition card_scale :: "int \<Rightarrow> int" where
  "card_scale position =
     (if position = 0 then 100 else if \<bar>position\<bar> = 1 then 88 else if \<bar>position\<bar> = 2 then 76 else 68)"

definition card_translate_y :: "int \<Rightarrow> int" where
  "card_translate_y position = (if position = 0 then -24 else if position mod 2 = 0 then 18 else -2)"

definition card_rotate :: "int \<Rightarrow> int" where
  "card_rotate position = (if position = 0 then 0 else if position > 0 then 22 else -22)"

definition card_z_index :: "int \<Rightarrow> int" where
  "card_z_index position = 30 - \<bar>position\<bar>"

definition counter_label :: "int \<Rightarrow> string" where
  "counter_label active =
     (let s = show_int (active + 1) in if length s < 2 then ''0'' @ s else s)"

section \<open>Facts\<close>

lemma insight_count [simp]: "length verification_insights = 8"
  by (simp add: verification_insights_def)

lemma move_card_range: "0 \<le> a \<Longrightarrow> a < 8 \<Longrightarrow> 0 \<le> move_card m a \<and> move_card m a < 8"
  by (cases m) simp_all

lemma moves_range: "0 \<le> a \<Longrightarrow> a < 8 \<Longrightarrow> 0 \<le> fold move_card ms a \<and> fold move_card ms a < 8"
  by (induction ms arbitrary: a) (simp_all add: move_card_range)

lemma previous_next: "0 \<le> a \<Longrightarrow> a < 8 \<Longrightarrow> move_card Previous_card (move_card Next_card a) = a"
  by (simp add: mod_simps)

text \<open>For any number of cards: the shortest way round, to the left or to the right.\<close>

lemma circular_position_bound:
  "0 \<le> i \<Longrightarrow> i < n \<Longrightarrow> 0 \<le> a \<Longrightarrow> a < n
     \<Longrightarrow> \<bar>circular_card_position i a n\<bar> \<le> n div 2 \<and> circular_card_position i a n mod n = (i - a) mod n"
  by (auto simp: circular_card_position_def Let_def)

lemma circular_position_inj:
  assumes "0 \<le> i" "i < n" "0 \<le> j" "j < n" "0 \<le> a" "a < n"
    and "circular_card_position i a n = circular_card_position j a n"
  shows "i = j"
proof -
  have "(i - a) mod n = (j - a) mod n"
    using circular_position_bound [of i n a] circular_position_bound [of j n a] assms by metis
  then have "i mod n = j mod n" by (metis diff_add_cancel mod_add_left_eq)
  with assms show ?thesis by simp
qed

lemma card_look_active: "card_opacity 0 = 100" "card_scale 0 = 100" "card_rotate 0 = 0"
  by (simp_all add: card_opacity_def card_scale_def card_rotate_def)

lemma card_look_other:
  "p \<noteq> 0 \<Longrightarrow> card_opacity p < 100 \<and> card_scale p < 100 \<and> card_z_index p < card_z_index 0"
  by (auto simp: card_opacity_def card_scale_def card_z_index_def)

text \<open>The position \<open>p\<close> of card \<open>i\<close> when card \<open>a\<close> is active, and how the card looks there.\<close>

definition card_correct :: "int \<Rightarrow> int \<Rightarrow> int \<Rightarrow> bool" where
  "card_correct i a p \<longleftrightarrow>
     \<bar>p\<bar> \<le> 4 \<and> p mod 8 = (i - a) mod 8
     \<and> (if i = a then p = 0 \<and> card_opacity p = 100 \<and> card_scale p = 100 \<and> card_rotate p = 0
        else card_opacity p < 100 \<and> card_scale p < 100 \<and> card_z_index p < card_z_index 0)"

lemma position_correct:
  assumes "0 \<le> i" "i < 8" "0 \<le> a" "a < 8"
  shows "card_correct i a (circular_card_position i a 8)"
proof -
  have z: "circular_card_position a a 8 = 0" by (simp add: circular_card_position_def)
  have "circular_card_position i a 8 \<noteq> 0" if "i \<noteq> a"
    using circular_position_inj [of i 8 a a] assms that z by auto
  with circular_position_bound [of i 8 a] assms z card_look_active card_look_other show ?thesis
    by (cases "i = a") (simp_all add: card_correct_def)
qed

section \<open>Properties\<close>

text \<open>However the carousel is moved, its active card is one of the eight; the eight positions are
  distinct, at most four steps from the centre and the shortest way round; only the active card is at
  the centre, fully opaque, unrotated and in front of all others; and "previous" undoes "next".\<close>

theorem carousel_positions:
  "let a = fold move_card ms 0; n = length verification_insights;
       positions = map (\<lambda>i. circular_card_position (int i) a (int n)) [0..<n]
   in 0 \<le> a \<and> a < int n
      \<and> distinct positions
      \<and> list_all2 (\<lambda>i p. card_correct (int i) a p) [0..<n] positions
      \<and> move_card Previous_card (move_card Next_card a) = a"
proof -
  define a where "a = fold move_card ms 0"
  have r: "0 \<le> a" "a < 8" using moves_range [of 0 ms] by (simp_all add: a_def)
  let ?p = "\<lambda>i. circular_card_position (int i) a 8"
  have "inj_on ?p {0..<8}"
    by (rule inj_onI) (use circular_position_inj [of "int _" 8 "int _" a] r in auto)
  then have "distinct (map ?p [0..<8])" by (simp add: distinct_map)
  moreover have "list_all2 (\<lambda>i p. card_correct (int i) a p) [0..<8] (map ?p [0..<8])"
    using position_correct [of "int _" a] r by (simp add: list_all2_conv_all_nth)
  ultimately show ?thesis
    using r previous_next [OF r] by (simp only: Let_def a_def [symmetric] insight_count) simp
qed

end
