(* ===== verification/Toasts.thy ===== *)
theory Toasts
  imports Main
begin

text \<open>
  The notices of \<open>components/ui/toast-provider.tsx\<close>: a notice is shown, goes away by its timer after
  4500 ms or when it is dismissed; and the dialogs of \<open>components/ui/confirm-dialog.tsx\<close> and
  \<open>components/ui/modals.tsx\<close>, of which the offered clicks are modelled.
\<close>

section \<open>Notices\<close>

datatype toast_type = Toast_success | Toast_error

record toast_item =
  to_id :: int
  to_type :: toast_type
  to_message :: string

text \<open>\<open>tt_timers\<close> are the identifiers that the pending timers will remove.\<close>

record toast_tray =
  tt_toasts :: "toast_item list"
  tt_timers :: "int list"

definition no_toasts :: toast_tray where
  "no_toasts = \<lparr>tt_toasts = [], tt_timers = []\<rparr>"

definition show_toast :: "int \<Rightarrow> toast_type \<Rightarrow> string \<Rightarrow> toast_tray \<Rightarrow> toast_tray" where
  "show_toast now k message s =
     s\<lparr>tt_toasts := tt_toasts s @ [\<lparr>to_id = now, to_type = k, to_message = message\<rparr>],
       tt_timers := tt_timers s @ [now]\<rparr>"

definition remove_toast :: "int \<Rightarrow> toast_tray \<Rightarrow> toast_tray" where
  "remove_toast i s = s\<lparr>tt_toasts := filter (\<lambda>t. to_id t \<noteq> i) (tt_toasts s)\<rparr>"

definition toast_timeout :: "toast_tray \<Rightarrow> toast_tray" where
  "toast_timeout s =
     (case tt_timers s of [] \<Rightarrow> s | i # rest \<Rightarrow> remove_toast i (s\<lparr>tt_timers := rest\<rparr>))"

text \<open>All timers run for the same time, so that they expire in the order in which they were set.\<close>

datatype toast_event = Show_toast int toast_type string | Dismiss_toast int | Toast_timeout

fun toast_step :: "toast_event \<Rightarrow> toast_tray \<Rightarrow> toast_tray" where
  "toast_step (Show_toast now k m) s = show_toast now k m s"
| "toast_step (Dismiss_toast i) s = remove_toast i s"
| "toast_step Toast_timeout s = toast_timeout s"

section \<open>Dialogs\<close>

text \<open>The clicks that a dialog offers; all but the one on the backdrop are disabled while loading.\<close>

datatype dialog_click = Backdrop | Close_button | Cancel_button | Confirm_button

definition confirm_dialog_offers :: "bool \<Rightarrow> bool \<Rightarrow> dialog_click list" where
  "confirm_dialog_offers opened loading =
     (if \<not> opened then []
      else if loading then [Backdrop]
      else [Backdrop, Close_button, Cancel_button, Confirm_button])"

definition modal_offers :: "bool \<Rightarrow> dialog_click list" where
  "modal_offers opened = (if \<not> opened then [] else [Backdrop, Close_button])"

section \<open>Facts\<close>

text \<open>Every notice has a pending timer, so it goes away by itself.\<close>

definition toasts_timed :: "toast_tray \<Rightarrow> bool" where
  "toasts_timed s \<longleftrightarrow> to_id ` set (tt_toasts s) \<subseteq> set (tt_timers s)"

lemma step_timed: "toasts_timed s \<Longrightarrow> toasts_timed (toast_step e s)"
  by (cases e) (auto simp: toasts_timed_def show_toast_def remove_toast_def toast_timeout_def split: list.split)

lemma run_timed: "toasts_timed s \<Longrightarrow> toasts_timed (fold toast_step es s)"
  by (induction es arbitrary: s) (simp_all add: step_timed)

lemma timeouts_clear:
  "toasts_timed s \<Longrightarrow> n = length (tt_timers s) \<Longrightarrow> tt_toasts ((toast_timeout ^^ n) s) = []"
proof (induction n arbitrary: s)
  case 0
  then show ?case by (simp add: toasts_timed_def)
next
  case (Suc n)
  have "toasts_timed (toast_timeout s)" using step_timed [OF Suc.prems(1), of Toast_timeout] by simp
  moreover have "n = length (tt_timers (toast_timeout s))"
    using Suc.prems(2) by (cases "tt_timers s") (simp_all add: toast_timeout_def remove_toast_def)
  ultimately have "tt_toasts ((toast_timeout ^^ n) (toast_timeout s)) = []" by (rule Suc.IH)
  then show ?case by (simp add: funpow_swap1 del: funpow.simps(2) add: funpow_Suc_right)
qed

lemma notices_go_away:
  "let s = fold toast_step es no_toasts in tt_toasts ((toast_timeout ^^ length (tt_timers s)) s) = []"
  using timeouts_clear [OF run_timed [of no_toasts es] refl] by (simp add: Let_def toasts_timed_def no_toasts_def)

text \<open>With one notice a millisecond, dismissing a notice removes it alone; two of the same millisecond
  go together.\<close>

fun shown_times :: "toast_event list \<Rightarrow> int list" where
  "shown_times [] = []"
| "shown_times (Show_toast now _ _ # es) = now # shown_times es"
| "shown_times (_ # es) = shown_times es"

lemma toasts_distinct:
  "distinct (map to_id (tt_toasts s)) \<Longrightarrow> distinct (shown_times es)
    \<Longrightarrow> to_id ` set (tt_toasts s) \<inter> set (shown_times es) = {}
    \<Longrightarrow> distinct (map to_id (tt_toasts (fold toast_step es s)))"
proof (induction es arbitrary: s)
  case (Cons e es)
  have removed: "distinct (map to_id (filter (\<lambda>t. to_id t \<noteq> i) (tt_toasts s)))" for i
    using Cons.prems(1) by (simp add: distinct_map_filter)
  have "distinct (map to_id (tt_toasts (toast_step e s)))
    \<and> distinct (shown_times es) \<and> to_id ` set (tt_toasts (toast_step e s)) \<inter> set (shown_times es) = {}"
  proof (cases e)
    case (Show_toast now k m)
    with Cons.prems show ?thesis by (auto simp: show_toast_def)
  next
    case (Dismiss_toast i)
    with Cons.prems removed show ?thesis by (auto simp: remove_toast_def)
  next
    case Toast_timeout
    with Cons.prems removed show ?thesis
      by (cases "tt_timers s") (auto simp: toast_timeout_def remove_toast_def)
  qed
  with Cons.IH [of "toast_step e s"] show ?case by simp
qed simp

lemma dismiss_removes_one:
  assumes "distinct (map to_id (tt_toasts s))" and "t \<in> set (tt_toasts s)"
  shows "set (tt_toasts (remove_toast (to_id t) s)) = set (tt_toasts s) - {t}"
  using assms by (auto simp: remove_toast_def distinct_map inj_on_def)

lemma same_millisecond_dismissed_together:
  "tt_toasts (fold toast_step [Show_toast now k m, Show_toast now k' m', Dismiss_toast now] no_toasts) = []"
  by (simp add: show_toast_def remove_toast_def no_toasts_def)

end
