(* ===== verification/Handoff_Exchange.thy ===== *)
theory Handoff_Exchange
  imports Mobile_Handoff
begin

text \<open>
  \<open>components/verification/mobile-handoff-exchange.tsx\<close>: an older page for the phone, whose token is a
  segment of the path. No page of the application mounts it any more; \<open>mobile-handoff-entry.tsx\<close>
  (in \<open>Mobile_Handoff\<close>) has taken its place.
\<close>

section \<open>The page\<close>

text \<open>\<open>xc_runs\<close>: for each run of the effect that asked for the exchange, its \<open>active\<close> variable and
  whether its answer is still awaited.\<close>

record exchange_page =
  xc_started :: bool
  xc_failed :: bool
  xc_connected :: bool
  xc_route :: "string option"
  xc_sent :: "string list"
  xc_runs :: "(bool \<times> bool) list"

definition exchange_new :: exchange_page where
  "exchange_new =
     \<lparr>xc_started = False, xc_failed = False, xc_connected = False, xc_route = None, xc_sent = [],
      xc_runs = []\<rparr>"

definition exchange_effect :: "string \<Rightarrow> exchange_page \<Rightarrow> exchange_page" where
  "exchange_effect token s =
     (if token = [] \<or> xc_started s then s
      else s\<lparr>xc_started := True, xc_sent := xc_sent s @ [token], xc_runs := xc_runs s @ [(True, True)]\<rparr>)"

definition exchange_cleanup :: "exchange_page \<Rightarrow> exchange_page" where
  "exchange_cleanup s = s\<lparr>xc_runs := map (\<lambda>r. (False, snd r)) (xc_runs s)\<rparr>"

definition exchange_answer :: "nat \<Rightarrow> bool \<Rightarrow> exchange_page \<Rightarrow> exchange_page" where
  "exchange_answer k ok s =
     (if k < length (xc_runs s) \<and> snd (xc_runs s ! k) then
        (let active = fst (xc_runs s ! k); s1 = s\<lparr>xc_runs := (xc_runs s)[k := (active, False)]\<rparr>
         in if \<not> active then s1
            else if ok then s1\<lparr>xc_connected := True, xc_route := Some ''/mobile/capture''\<rparr>
            else s1\<lparr>xc_failed := True\<rparr>)
      else s)"

definition exchange_unavailable :: "string \<Rightarrow> exchange_page \<Rightarrow> bool" where
  "exchange_unavailable token s \<longleftrightarrow> token = [] \<or> xc_failed s"

datatype exchange_event = Exchange_effect | Exchange_cleanup | Exchange_answer nat bool

fun exchange_step :: "string \<Rightarrow> exchange_event \<Rightarrow> exchange_page \<Rightarrow> exchange_page" where
  "exchange_step token Exchange_effect s = exchange_effect token s"
| "exchange_step token Exchange_cleanup s = exchange_cleanup s"
| "exchange_step token (Exchange_answer k ok) s = exchange_answer k ok s"

section \<open>Facts\<close>

lemma exchange_sent_once:
  "xc_sent (fold (exchange_step token) es exchange_new) \<in> {[], [token]}"
proof -
  have "xc_sent (fold (exchange_step token) es s) \<in> {[], [token]}"
    if "xc_sent s \<in> {[], [token]}" "xc_started s = (xc_sent s = [token])" for s
    using that
  proof (induction es arbitrary: s)
    case (Cons e es)
    show ?case
      unfolding fold_Cons o_apply
      by (rule Cons.IH; use Cons.prems in \<open>cases e\<close>)
        (auto simp: exchange_effect_def exchange_cleanup_def exchange_answer_def Let_def)
  qed simp
  then show ?thesis by (simp add: exchange_new_def)
qed

text \<open>Without strict mode the page goes on to the capture page or says that it is unavailable. Under
  strict mode the first effect is cleaned up and the second one does nothing: the token is consumed,
  and the page neither goes on nor reports a failure.\<close>

lemma exchange_lost_under_strict_mode:
  assumes "token \<noteq> []"
  shows "let s = fold (exchange_step token) [Exchange_effect, Exchange_answer 0 ok] exchange_new
    in xc_route s = (if ok then Some ''/mobile/capture'' else None) \<and> exchange_unavailable token s = (\<not> ok)"
    and "let s = fold (exchange_step token)
        [Exchange_effect, Exchange_cleanup, Exchange_effect, Exchange_answer 0 ok] exchange_new
    in xc_sent s = [token] \<and> xc_route s = None \<and> \<not> xc_connected s \<and> \<not> exchange_unavailable token s"
  using assms
  by (simp_all add: exchange_effect_def exchange_cleanup_def exchange_answer_def exchange_new_def
      exchange_unavailable_def Let_def)

end
