(* ===== verification/Routes.thy ===== *)
theory Routes
  imports Admin_Gate Case_Pages Identity_Form
begin

text \<open>
  The pages of the application (\<open>app/\<close>) and the addresses that lead to them: the routing table that
  the files under \<open>app\<close> make up, the final pages of a request
  (\<open>components/verification/verification-result-state.tsx\<close>) and the navigation of the administrator
  shell.
\<close>

section \<open>Final pages\<close>

datatype result_type = Result_rejected | Result_expired | Result_revoked | Result_denied

record result_config =
  rc_label :: string
  rc_background :: string
  rc_foreground :: string
  rc_border :: string
  rc_notice_background :: string
  rc_step :: verification_step
  rc_access_title :: string
  rc_access_description :: string

fun result_config_of :: "result_type \<Rightarrow> result_config" where
  "result_config_of Result_rejected =
     \<lparr>rc_label = ''Verification not approved'', rc_background = ''bg-[#fff0f2]'',
      rc_foreground = ''text-[#c44151]'', rc_border = ''border-[#f3dce0]'',
      rc_notice_background = ''bg-[#fff8f9]'', rc_step = Review,
      rc_access_title = ''Server access was not approved'',
      rc_access_description = ''This verification did not receive administrator approval, so no Discord server-entry grant has been released.''\<rparr>"
| "result_config_of Result_expired =
     \<lparr>rc_label = ''Request expired'', rc_background = ''bg-[#fff7e8]'',
      rc_foreground = ''text-[#ad7a16]'', rc_border = ''border-[#eee4cc]'',
      rc_notice_background = ''bg-[#fffdf8]'', rc_step = Account,
      rc_access_title = ''This request is no longer active'',
      rc_access_description = ''The verification request reached its expiration time. It cannot release Discord access in this state.''\<rparr>"
| "result_config_of Result_revoked =
     \<lparr>rc_label = ''Request revoked'', rc_background = ''bg-[#f5f3f7]'',
      rc_foreground = ''text-[#706c77]'', rc_border = ''border-[#e7e3ea]'',
      rc_notice_background = ''bg-[#faf9fb]'', rc_step = Account,
      rc_access_title = ''This request has been disabled'',
      rc_access_description = ''The verification request was revoked and can no longer be used to continue verification or obtain Discord access.''\<rparr>"
| "result_config_of Result_denied =
     \<lparr>rc_label = ''Access denied'', rc_background = ''bg-[#fff0f2]'',
      rc_foreground = ''text-[#c44151]'', rc_border = ''border-[#f3dce0]'',
      rc_notice_background = ''bg-[#fff8f9]'', rc_step = Account,
      rc_access_title = ''This verification cannot continue'',
      rc_access_description = ''Access to this verification attempt was denied. No protected Discord server access has been released.''\<rparr>"

text \<open>What a page passes to \<open>VerificationResultState\<close>; the line breaks of a text are blanks.\<close>

record result_page =
  rs_type :: result_type
  rs_title :: string
  rs_description :: string
  rs_message :: "string option"

definition expired_page :: result_page where
  "expired_page =
     \<lparr>rs_type = Result_expired, rs_title = ''This request has expired'',
      rs_description = ''The verification window ended before approval. This private request can no longer be used unless an administrator extends it or creates a replacement.'',
      rs_message = None\<rparr>"

definition revoked_page :: result_page where
  "revoked_page =
     \<lparr>rs_type = Result_revoked, rs_title = ''This request was revoked'',
      rs_description = ''An administrator invalidated this verification request. It can no longer be used to submit evidence or obtain Discord server access.'',
      rs_message = None\<rparr>"

definition access_denied_page :: result_page where
  "access_denied_page =
     \<lparr>rs_type = Result_denied, rs_title = ''We couldn't authorize this request'',
      rs_description = ''Make sure you signed in with the Discord account associated with this private verification request.'',
      rs_message = None\<rparr>"

text \<open>The rejected page asks for the status once and shows its message; a failure is ignored.\<close>

definition rejected_page :: "(js_error + string option) option \<Rightarrow> result_page" where
  "rejected_page answer =
     \<lparr>rs_type = Result_rejected, rs_title = ''Verification not approved'',
      rs_description = ''Your submitted verification was reviewed but was not approved. Protected Discord server access remains locked.'',
      rs_message = (case answer of Some (Inr m) \<Rightarrow> m | _ \<Rightarrow> None)\<rparr>"

text \<open>The message box is there when the message is not empty.\<close>

definition result_message :: "result_page \<Rightarrow> string option" where
  "result_message p = (if truthy (rs_message p) then rs_message p else None)"

section \<open>The routing table\<close>

datatype segment = Fixed string | Param

datatype screen =
  Home_screen | Entry_screen string | Identity_screen | Waiting_screen | Access_screen
  | Account_screen | More_info_screen | Result_screen result_type | Session_expired_screen
  | Phone_entry_screen | Phone_capture_screen
  | Overview_screen | Queue_screen | Create_request_screen | Review_screen string
  | Requests_redirect | Team_screen | Audit_screen | Settings_screen | Invitation_screen | Login_screen

text \<open>One entry per \<open>page.tsx\<close>: the segments of its directory and the screen for the parameters. The
  fixed segments take precedence over a parameter, so that they come first.\<close>

type_synonym route = "segment list \<times> (string list \<Rightarrow> screen)"

definition home_route :: route where "home_route = ([], \<lambda>_. Home_screen)"
definition entry_route :: route where "entry_route = ([Fixed ''v'', Param], \<lambda>ps. Entry_screen (hd ps))"
definition identity_route :: route where
  "identity_route = ([Fixed ''verification'', Fixed ''identity''], \<lambda>_. Identity_screen)"
definition waiting_route :: route where
  "waiting_route = ([Fixed ''verification'', Fixed ''waiting''], \<lambda>_. Waiting_screen)"
definition access_route :: route where
  "access_route = ([Fixed ''verification'', Fixed ''access''], \<lambda>_. Access_screen)"
definition account_route :: route where
  "account_route = ([Fixed ''verification'', Fixed ''account-confirmed''], \<lambda>_. Account_screen)"
definition more_info_route :: route where
  "more_info_route = ([Fixed ''verification'', Fixed ''more-info''], \<lambda>_. More_info_screen)"
definition rejected_route :: route where
  "rejected_route = ([Fixed ''verification'', Fixed ''rejected''], \<lambda>_. Result_screen (rs_type (rejected_page None)))"
definition expired_route :: route where
  "expired_route = ([Fixed ''verification'', Fixed ''expired''], \<lambda>_. Result_screen (rs_type expired_page))"
definition revoked_route :: route where
  "revoked_route = ([Fixed ''verification'', Fixed ''revoked''], \<lambda>_. Result_screen (rs_type revoked_page))"
definition access_denied_route :: route where
  "access_denied_route =
     ([Fixed ''verification'', Fixed ''access-denied''], \<lambda>_. Result_screen (rs_type access_denied_page))"
definition session_expired_route :: route where
  "session_expired_route = ([Fixed ''verification'', Fixed ''session-expired''], \<lambda>_. Session_expired_screen)"
definition phone_entry_route :: route where
  "phone_entry_route = ([Fixed ''mobile''], \<lambda>_. Phone_entry_screen)"
definition phone_capture_route :: route where
  "phone_capture_route = ([Fixed ''mobile'', Fixed ''capture''], \<lambda>_. Phone_capture_screen)"
definition overview_route :: route where "overview_route = ([Fixed ''admin''], \<lambda>_. Overview_screen)"
definition queue_route :: route where
  "queue_route = ([Fixed ''admin'', Fixed ''verification-queue''], \<lambda>_. Queue_screen)"
definition requests_route :: route where
  "requests_route = ([Fixed ''admin'', Fixed ''verification-requests''], \<lambda>_. Requests_redirect)"
definition create_request_route :: route where
  "create_request_route =
     ([Fixed ''admin'', Fixed ''verification-requests'', Fixed ''new''], \<lambda>_. Create_request_screen)"
definition review_route :: route where
  "review_route =
     ([Fixed ''admin'', Fixed ''verification-requests'', Param], \<lambda>ps. Review_screen (hd ps))"
definition team_route :: route where "team_route = ([Fixed ''admin'', Fixed ''team''], \<lambda>_. Team_screen)"
definition audit_route :: route where "audit_route = ([Fixed ''admin'', Fixed ''audit''], \<lambda>_. Audit_screen)"
definition settings_route :: route where
  "settings_route = ([Fixed ''admin'', Fixed ''settings''], \<lambda>_. Settings_screen)"
definition invitation_route :: route where
  "invitation_route = ([Fixed ''admin'', Fixed ''invitation''], \<lambda>_. Invitation_screen)"
definition login_route :: route where "login_route = ([Fixed ''admin'', Fixed ''login''], \<lambda>_. Login_screen)"

definition app_routes :: "route list" where
  "app_routes =
     [home_route, entry_route, identity_route, waiting_route, access_route, account_route,
      more_info_route, rejected_route, expired_route, revoked_route, access_denied_route,
      session_expired_route, phone_entry_route, phone_capture_route, overview_route, queue_route,
      requests_route, create_request_route, review_route, team_route, audit_route, settings_route,
      invitation_route, login_route]"

text \<open>An address without its query and fragment, split at the slashes.\<close>

definition path_segments :: "string \<Rightarrow> string list" where
  "path_segments url =
     filter (\<lambda>w. w \<noteq> [])
       (split_char CHR ''/'' (takeWhile (\<lambda>c. c \<noteq> CHR ''?'' \<and> c \<noteq> CHR ''#'') url))"

fun match_segments :: "segment list \<Rightarrow> string list \<Rightarrow> string list option" where
  "match_segments [] [] = Some []"
| "match_segments (Fixed s # ss) (w # ws) = (if s = w then match_segments ss ws else None)"
| "match_segments (Param # ss) (w # ws) = map_option ((#) w) (match_segments ss ws)"
| "match_segments _ _ = None"

fun first_route :: "route list \<Rightarrow> string list \<Rightarrow> screen option" where
  "first_route [] ws = None"
| "first_route (r # rs) ws =
     (case match_segments (fst r) ws of Some ps \<Rightarrow> Some (snd r ps) | None \<Rightarrow> first_route rs ws)"

definition screen_at :: "string \<Rightarrow> screen option" where
  "screen_at url = first_route app_routes (path_segments url)"

text \<open>The old address of the requests redirects to the queue.\<close>

definition requests_redirect :: string where
  "requests_redirect = ''/admin/verification-queue''"

section \<open>The navigation of the shell\<close>

record nav_item =
  ni_label :: string
  ni_href :: string
  ni_active :: bool

definition admin_nav :: "string \<Rightarrow> nav_item list" where
  "admin_nav path =
     [\<lparr>ni_label = ''Overview'', ni_href = ''/admin'', ni_active = overview_active path\<rparr>,
      \<lparr>ni_label = ''Verification Queue'', ni_href = ''/admin/verification-queue'', ni_active = queue_active path\<rparr>,
      \<lparr>ni_label = ''Create Request'', ni_href = ''/admin/verification-requests/new'',
        ni_active = create_request_active path\<rparr>,
      \<lparr>ni_label = ''Team & Access'', ni_href = ''/admin/team'', ni_active = (path = ''/admin/team'')\<rparr>,
      \<lparr>ni_label = ''Audit Activity'', ni_href = ''/admin/audit'', ni_active = (path = ''/admin/audit'')\<rparr>,
      \<lparr>ni_label = ''Settings'', ni_href = ''/admin/settings'', ni_active = (path = ''/admin/settings'')\<rparr>]"

section \<open>Facts\<close>

lemmas route_defs = home_route_def entry_route_def identity_route_def waiting_route_def access_route_def
  account_route_def more_info_route_def rejected_route_def expired_route_def revoked_route_def
  access_denied_route_def session_expired_route_def phone_entry_route_def phone_capture_route_def
  overview_route_def queue_route_def requests_route_def create_request_route_def review_route_def
  team_route_def audit_route_def settings_route_def invitation_route_def login_route_def

lemmas page_defs = rejected_page_def expired_page_def revoked_page_def access_denied_page_def

lemma screen_at_segments: "path_segments url = ws \<Longrightarrow> screen_at url = first_route app_routes ws"
  by (simp add: screen_at_def)

text \<open>What is to be seen for each status.\<close>

fun status_screen :: "verification_status \<Rightarrow> screen" where
  "status_screen Pending = Account_screen"
| "status_screen More_info = More_info_screen"
| "status_screen Queued = Waiting_screen"
| "status_screen In_review = Waiting_screen"
| "status_screen Approved = Access_screen"
| "status_screen Rejected = Result_screen Result_rejected"
| "status_screen Expired = Result_screen Result_expired"
| "status_screen Revoked = Result_screen Result_revoked"

lemma status_reached: "screen_at (status_path st) = Some (status_screen st)"
  by (cases st) (simp_all add: screen_at_def path_segments_def app_routes_def route_defs page_defs)

lemma admin_reached:
  "screen_at ''/admin'' = Some Overview_screen"
  "screen_at ''/admin/verification-queue'' = Some Queue_screen"
  "screen_at ''/admin/verification-requests/new'' = Some Create_request_screen"
  "screen_at ''/admin/team'' = Some Team_screen"
  "screen_at ''/admin/audit'' = Some Audit_screen"
  "screen_at ''/admin/settings'' = Some Settings_screen"
  by (simp_all add: screen_at_def path_segments_def app_routes_def route_defs)

lemma login_reached:
  "screen_at ''/admin/login?reason=session-expired'' = Some Login_screen"
  "screen_at ''/admin/login?reason=unauthorized'' = Some Login_screen"
  "screen_at ''/admin/login?reason=authentication-required'' = Some Login_screen"
  "screen_at ''/verification/session-expired'' = Some Session_expired_screen"
  "screen_at ''/verification/waiting'' = Some Waiting_screen"
  by (simp_all add: screen_at_def path_segments_def app_routes_def route_defs)

text \<open>The characters of an identifier that leave it a segment of its own.\<close>

definition segment_text :: "string \<Rightarrow> bool" where
  "segment_text w \<longleftrightarrow> w \<noteq> [] \<and> list_all (\<lambda>c. c \<noteq> CHR ''/'' \<and> c \<noteq> CHR ''?'' \<and> c \<noteq> CHR ''#'') w"

lemma review_reached:
  assumes "segment_text i" and "i \<noteq> ''new''"
  shows "screen_at (''/admin/verification-requests/'' @ i) = Some (Review_screen i)"
proof -
  have tail: "takeWhile (\<lambda>c. c \<noteq> CHR ''?'' \<and> c \<noteq> CHR ''#'') i = i"
    using assms(1) by (simp add: segment_text_def list_all_iff takeWhile_eq_all_conv)
  have head: "takeWhile (\<lambda>c. c \<noteq> CHR ''?'' \<and> c \<noteq> CHR ''#'') (''/admin/verification-requests/'' @ i)
      = ''/admin/verification-requests/'' @ i"
    by (simp only: append_Cons append_Nil takeWhile.simps tail) simp
  have "split_char CHR ''/'' i = [i]"
    using assms(1) by (intro split_char_plain) (auto simp: segment_text_def list_all_iff)
  then have "split_char CHR ''/'' (''/admin/verification-requests/'' @ i)
      = [[], ''admin'', ''verification-requests'', i]"
    by simp
  then have "path_segments (''/admin/verification-requests/'' @ i) = [''admin'', ''verification-requests'', i]"
    using assms(1) by (simp only: path_segments_def head) (simp add: segment_text_def)
  from screen_at_segments [OF this] assms(2) show ?thesis
    by (simp add: app_routes_def route_defs)
qed

lemma one_active: "length (filter ni_active (admin_nav path)) \<le> 1"
  by (auto simp: admin_nav_def overview_active_def queue_active_def create_request_active_def starts_with_def)

lemma click_activates:
  "list_all (\<lambda>i. map ni_label (filter ni_active (admin_nav (ni_href i))) = [ni_label i]) (admin_nav path)"
  by (simp add: admin_nav_def overview_active_def queue_active_def create_request_active_def starts_with_def)

section \<open>Properties\<close>

text \<open>Every address that the program itself goes to is a page of it: each status leads to its own
  screen, and a final one shows the step and the label of its status; the links of the shell, whatever
  page it shows, the routes of expired sessions and of refused administrators, the page after a
  submission and the page of a request from the queue exist; at most one link of the shell is marked,
  and following a link marks that link alone.\<close>

theorem no_dead_links:
  "screen_at (status_path st) = Some (status_screen st)
   \<and> (case status_screen st of
        Result_screen t \<Rightarrow> rc_step (result_config_of t) = step (status_presentation st)
          \<and> rc_label (result_config_of t) = label (status_presentation st)
      | _ \<Rightarrow> True)
   \<and> list_all (\<lambda>i. screen_at (ni_href i) \<noteq> None) (admin_nav path)
   \<and> length (filter ni_active (admin_nav path)) \<le> 1
   \<and> list_all (\<lambda>i. map ni_label (filter ni_active (admin_nav (ni_href i))) = [ni_label i]) (admin_nav path)
   \<and> (case bridge_route ev of
        None \<Rightarrow> True | Some p \<Rightarrow> screen_at p \<in> {Some Login_screen, Some Session_expired_screen})
   \<and> screen_at (denial_target e) = Some Login_screen
   \<and> map_option screen_at (if_route (fst (submit_settle payload (Inr answer) form))) = Some (Some Waiting_screen)
   \<and> (if segment_text i \<and> i \<noteq> ''new''
      then screen_at (''/admin/verification-requests/'' @ i) = Some (Review_screen i) else True)"
proof (intro conjI)
  show "case status_screen st of
        Result_screen t \<Rightarrow> rc_step (result_config_of t) = step (status_presentation st)
          \<and> rc_label (result_config_of t) = label (status_presentation st)
      | _ \<Rightarrow> True"
    by (cases st) simp_all
  show "list_all (\<lambda>i. screen_at (ni_href i) \<noteq> None) (admin_nav path)"
    by (simp add: admin_nav_def admin_reached)
  show "case bridge_route ev of
        None \<Rightarrow> True | Some p \<Rightarrow> screen_at p \<in> {Some Login_screen, Some Session_expired_screen}"
    by (simp add: bridge_route_def login_reached)
  show "screen_at (denial_target e) = Some Login_screen"
    by (simp add: denial_target_def login_reached split: js_error.split)
  show "map_option screen_at (if_route (fst (submit_settle payload (Inr answer) form))) = Some (Some Waiting_screen)"
    by (simp add: submit_settle_def login_reached)
  show "if segment_text i \<and> i \<noteq> ''new''
      then screen_at (''/admin/verification-requests/'' @ i) = Some (Review_screen i) else True"
    using review_reached [of i] by presburger
qed (rule status_reached one_active click_activates)+

end
