(* ===== verification/Endpoints.thy ===== *)
theory Endpoints
  imports Admin_Api Api_Client
begin

text \<open>
  What every endpoint wrapper of the two clients (\<open>lib/*-api.ts\<close>) has in common: the shape of its
  path, method, headers and body, on which \<open>apiFetch\<close> and \<open>adminFetch\<close> rely.
\<close>

section \<open>Well-typed calls\<close>

fun json_keys_distinct :: "json \<Rightarrow> bool" where
  "json_keys_distinct (JObj kvs) \<longleftrightarrow> distinct (map fst kvs) \<and> list_all (\<lambda>kv. json_keys_distinct (snd kv)) kvs"
| "json_keys_distinct (JArr xs) \<longleftrightarrow> list_all json_keys_distinct xs"
| "json_keys_distinct _ \<longleftrightarrow> True"

text \<open>Header names are compared in lower case. A body only with \<open>POST\<close>, a JSON body is an object, and no header that the clients set themselves.\<close>

definition header_named :: "string \<Rightarrow> string \<times> string \<Rightarrow> bool" where
  "header_named k h \<longleftrightarrow> lower (fst h) = lower k"

definition well_typed_options :: "request_options \<Rightarrow> bool" where
  "well_typed_options o' \<longleftrightarrow>
     opt_method o' \<in> {None, Some ''POST'', Some ''DELETE''}
     \<and> (case opt_body o' of
          NoBody \<Rightarrow> True
        | JsonText j \<Rightarrow> opt_method o' = Some ''POST''
            \<and> (case j of JObj _ \<Rightarrow> json_keys_distinct j | _ \<Rightarrow> False)
        | FormBody parts \<Rightarrow> opt_method o' = Some ''POST'' \<and> parts \<noteq> [])
     \<and> list_all (\<lambda>h. \<not> header_named ''X-CSRF-Token'' h \<and> \<not> header_named ''Authorization'' h
           \<and> \<not> header_named ''Content-Type'' h \<and> \<not> header_named ''Accept'' h) (opt_headers o')"

definition well_typed_call :: "string \<Rightarrow> string \<times> request_options \<Rightarrow> bool" where
  "well_typed_call prefix q \<longleftrightarrow> starts_with (fst q) prefix \<and> well_typed_options (snd q)"

text \<open>All calls of the applicant's client, for any arguments.\<close>

definition applicant_calls ::
  "string \<Rightarrow> evidence_type \<Rightarrow> js_file \<Rightarrow> submission_payload \<Rightarrow> (string \<times> request_options) list" where
  "applicant_calls token t f p =
     [public_verification_request token, create_entry_context token, identity_form_config,
      upload_evidence t f, submit_verification p, create_mobile_capture, mobile_capture_status token,
      revoke_mobile_capture token, exchange_mobile_handoff token, mobile_capture_session,
      upload_mobile_evidence t f, complete_mobile_handoff]"

text \<open>All calls that are handed to \<open>adminFetch\<close> as they are, for any arguments; a note is trimmed and
  checked first (\<open>create_admin_note\<close>), and an invitation is accepted without \<open>adminFetch\<close>.\<close>

definition admin_calls ::
  "string \<Rightarrow> string option \<Rightarrow> create_payload \<Rightarrow> decision_payload \<Rightarrow> invitation_payload \<Rightarrow> admin_role
     \<Rightarrow> audit_query \<Rightarrow> verification_status list option \<Rightarrow> int option \<Rightarrow> (string \<times> request_options) list" where
  "admin_calls i reason c d invited r aq sts n =
     [claim_admin_case i, revoke_verification_request i reason, create_verification_request c,
      extend_verification_expiration i i, assign_verification_reviewer i i, get_review_detail i,
      get_evidence_preview i, get_admin_notes i, get_audit_history i, approve_case i d, reject_case i d,
      request_more_info i d, grant_discord_access i, revoke_discord_access i,
      delete_verification_evidence i, get_reviewers, get_admin_queue reason sts n n, get_admin_team,
      get_admin_invitations, create_admin_invitation invited, resend_admin_invitation i,
      revoke_admin_invitation i reason, change_admin_role i r, disable_team_admin i, enable_team_admin i,
      revoke_team_admin_sessions i, get_admin_audit_activity aq, get_admin_settings]"

section \<open>Facts\<close>

lemmas applicant_endpoint_defs = public_verification_request_def create_entry_context_def
  identity_form_config_def upload_evidence_def submit_verification_def create_mobile_capture_def
  mobile_capture_status_def revoke_mobile_capture_def exchange_mobile_handoff_def
  mobile_capture_session_def upload_mobile_evidence_def complete_mobile_handoff_def

lemmas admin_endpoint_defs = claim_admin_case_def revoke_verification_request_def
  create_verification_request_def extend_verification_expiration_def assign_verification_reviewer_def
  get_review_detail_def get_evidence_preview_def get_admin_notes_def get_audit_history_def
  approve_case_def reject_case_def request_more_info_def grant_discord_access_def
  revoke_discord_access_def delete_verification_evidence_def get_reviewers_def get_admin_queue_def
  get_admin_team_def get_admin_invitations_def create_admin_invitation_def resend_admin_invitation_def
  revoke_admin_invitation_def change_admin_role_def disable_team_admin_def enable_team_admin_def
  revoke_team_admin_sessions_def get_admin_audit_activity_def get_admin_settings_def

lemma json_opt_keys [simp]: "json_keys_distinct (json_opt v)"
  by (cases v) (simp_all add: json_opt_def)

lemma reason_keys [simp]: "json_keys_distinct (reason_json r)"
  by (simp add: reason_json_def split: option.split)

lemma evidence_json_keys [simp]: "json_keys_distinct (required_evidence_json r)"
  by (simp add: required_evidence_json_def)

lemma strings_keys [simp]: "list_all json_keys_distinct (map JStr xs)"
  by (simp add: list_all_iff)

lemma typed_get [simp]: "well_typed_options get_options"
  by (simp add: well_typed_options_def get_options_def)

lemma typed_empty [simp]: "m \<in> {''POST'', ''DELETE''} \<Longrightarrow> well_typed_options (method_options m NoBody)"
  by (auto simp: well_typed_options_def method_options_def)

lemma typed_json [simp]:
  "well_typed_options (method_options ''POST'' (JsonText (JObj kvs))) \<longleftrightarrow> json_keys_distinct (JObj kvs)"
  by (simp add: well_typed_options_def method_options_def del: json_keys_distinct.simps)

lemma typed_form [simp]: "well_typed_options (method_options ''POST'' (FormBody [p]))"
  by (simp add: well_typed_options_def method_options_def)

lemma typed_decision [simp]: "well_typed_options (method_options ''POST'' (decision_body d))"
  by (simp add: decision_body_def)

lemma typed_exchange [simp]:
  "well_typed_options \<lparr>opt_method = Some ''POST'', opt_headers = [(''X-Mobile-Handoff-Token'', t)], opt_body = NoBody\<rparr>"
  by (simp add: well_typed_options_def header_named_def)

lemma applicant_typed: "list_all (well_typed_call ''/'') (applicant_calls token t f p)"
  by (simp add: applicant_calls_def applicant_endpoint_defs well_typed_call_def starts_with_def)

lemma admin_typed: "list_all (well_typed_call ''/admin/'') (admin_calls i reason c d invited r aq sts n)"
  by (simp add: admin_calls_def admin_endpoint_defs request_path_def well_typed_call_def starts_with_def Let_def)

text \<open>The requests that the clients make of a well-typed call.\<close>

lemma fold_headers_absent:
  "list_all (\<lambda>h. \<not> header_named k h) kvs \<Longrightarrow> header_get hs k = None
    \<Longrightarrow> header_get (fold (\<lambda>(k, v). header_set k v) kvs hs) k = None"
proof (induction kvs arbitrary: hs)
  case (Cons h kvs)
  obtain n v where h: "h = (n, v)" by (cases h)
  have "header_get (header_set n v hs) k = None"
    using Cons.prems by (auto simp: h header_get_set header_named_def simp del: map_eq_conv)
  with Cons h show ?case by simp
qed simp

lemma headers_absent: "list_all (\<lambda>h. \<not> header_named k h) kvs \<Longrightarrow> header_get (headers_new kvs) k = None"
  unfolding headers_new_def by (rule fold_headers_absent) (simp_all add: header_get_def)

lemma content_type_kept:
  "header_get (header_set ''Accept'' v hs) ''Content-Type'' = header_get hs ''Content-Type''"
  "header_get (header_set ''X-CSRF-Token'' v hs) ''Content-Type'' = header_get hs ''Content-Type''"
  "header_get (header_set admin_csrf_header v hs) ''Content-Type'' = header_get hs ''Content-Type''"
  "header_get (header_delete ''Authorization'' hs) ''Content-Type'' = header_get hs ''Content-Type''"
  "header_get (header_set ''Content-Type'' v hs) ''Content-Type'' = Some v"
proof -
  have "lower ''Content-Type'' \<noteq> lower ''Accept''" "lower ''Content-Type'' \<noteq> lower ''X-CSRF-Token''"
    "lower ''Content-Type'' \<noteq> lower admin_csrf_header" "lower ''Content-Type'' \<noteq> lower ''Authorization''"
    by code_simp+
  note names = this [THEN if_not_P]
  show "header_get (header_set ''Accept'' v hs) ''Content-Type'' = header_get hs ''Content-Type''"
    "header_get (header_set ''X-CSRF-Token'' v hs) ''Content-Type'' = header_get hs ''Content-Type''"
    "header_get (header_set admin_csrf_header v hs) ''Content-Type'' = header_get hs ''Content-Type''"
    "header_get (header_delete ''Authorization'' hs) ''Content-Type'' = header_get hs ''Content-Type''"
    by (simp_all only: header_get_set header_get_delete names)
  show "header_get (header_set ''Content-Type'' v hs) ''Content-Type'' = Some v"
    by (simp add: header_get_set)
qed

lemma typed_no_content_type:
  "well_typed_options o' \<Longrightarrow> header_get (headers_new (opt_headers o')) ''Content-Type'' = None"
  by (rule headers_absent) (simp add: well_typed_options_def list_all_iff)

definition content_type_of :: "body \<Rightarrow> string option" where
  "content_type_of b = (case b of JsonText _ \<Rightarrow> Some ''application/json'' | _ \<Rightarrow> None)"

lemma api_content_type:
  "well_typed_options o' \<Longrightarrow>
     header_get (rq_headers (api_request env path o' csrf)) ''Content-Type'' = content_type_of (opt_body o')"
  using typed_no_content_type [of o']
  by (simp add: api_request_def Let_def header_has_def content_type_of_def content_type_kept split: body.split)

lemma admin_content_type:
  "well_typed_options o' \<Longrightarrow>
     header_get (rq_headers (admin_request env path o' csrf)) ''Content-Type'' = content_type_of (opt_body o')"
  using typed_no_content_type [of o']
  by (simp add: admin_request_def Let_def header_has_def content_type_of_def content_type_kept split: body.split)

section \<open>Properties\<close>


end
