(* ===== verification/Dev_Session.thy ===== *)
theory Dev_Session
  imports Prelude
begin

text \<open>
  \<open>app/api/admin/dev-session/route.ts\<close>: the route that signs a development administrator in. It runs
  on the Next.js server: it signs a short-lived token and posts it to the local backend, and hands
  the backend's answer, cookies included, to the browser. The token must never reach the browser,
  and the route must not exist outside development.

  Parameters: \<open>parse_url\<close> is the WHATWG \<open>URL\<close> constructor (\<open>None\<close> when it throws), \<open>sign\<close> the
  HS256 signature of the \<open>jose\<close> package (header and claims to the compact token, \<open>None\<close> when it
  rejects), and \<open>backend\<close> the outcome of \<open>fetch\<close>.
\<close>

section \<open>Environment, requests and responses\<close>

type_synonym process_env = "string \<Rightarrow> string option"

record parsed_url =
  url_protocol :: string
  url_hostname :: string
  url_origin :: string

record dev_claims =
  cl_issuer :: string
  cl_audience :: string
  cl_subject :: string
  cl_issued_at :: int
  cl_expires_at :: int

record dev_request =
  dr_method :: string
  dr_url :: string
  dr_cache :: string
  dr_headers :: "(string \<times> string) list"

text \<open>The backend's answer; \<open>br_text\<close> is \<open>None\<close> when the body cannot be read.\<close>

record backend_reply =
  br_status :: int
  br_content_type :: "string option"
  br_cookies :: "string list"
  br_text :: "string option"

datatype dev_body = Detail string | Forwarded string

record dev_response =
  dv_status :: int
  dv_body :: dev_body
  dv_headers :: "(string \<times> string) list"

definition dev_admin_issuer :: string where
  "dev_admin_issuer = ''discord-verification-local-dev''"

definition dev_admin_audience :: string where
  "dev_admin_audience = ''discord-verification-admin''"

definition default_backend_url :: string where
  "default_backend_url = ''http://127.0.0.1:8000/api''"

definition token_lifetime_seconds :: int where
  "token_lifetime_seconds = 60"

section \<open>Guards\<close>

definition explicit_development_mode :: "process_env \<Rightarrow> bool" where
  "explicit_development_mode env \<longleftrightarrow>
     env ''NODE_ENV'' = Some ''development'' \<and> env ''SCANLY_DEV_ADMIN_AUTH_ENABLED'' = Some ''true''"

text \<open>\<open>None\<close>: the value is missing or blank and the function throws.\<close>

definition required_environment_value :: "process_env \<Rightarrow> string \<Rightarrow> string option" where
  "required_environment_value env name =
     (case env name of None \<Rightarrow> None | Some v \<Rightarrow> or_null (trim v))"

definition local_http :: "parsed_url \<Rightarrow> bool" where
  "local_http u \<longleftrightarrow> url_protocol u = ''http:'' \<and> url_hostname u \<in> {''localhost'', ''127.0.0.1''}"

definition backend_base_url :: "(string \<Rightarrow> parsed_url option) \<Rightarrow> process_env \<Rightarrow> string option" where
  "backend_base_url parse_url env =
     (let configured = (case env ''SCANLY_BACKEND_API_BASE_URL'' of None \<Rightarrow> [] | Some v \<Rightarrow> trim v);
          url = or_else configured default_backend_url
      in case parse_url url of
           None \<Rightarrow> None
         | Some u \<Rightarrow> if \<not> local_http u then None else Some (strip_trailing CHR ''/'' url))"

definition trusted_origin ::
  "(string \<Rightarrow> parsed_url option) \<Rightarrow> string \<Rightarrow> string option \<Rightarrow> bool" where
  "trusted_origin parse_url own_origin origin =
     (if \<not> truthy origin then False
      else case parse_url (the origin) of None \<Rightarrow> False | Some u \<Rightarrow> url_origin u = own_origin)"

section \<open>The token\<close>

definition development_claims :: "string \<Rightarrow> int \<Rightarrow> dev_claims" where
  "development_claims subject now_ms =
     (let now = now_ms div 1000
      in \<lparr>cl_issuer = dev_admin_issuer, cl_audience = dev_admin_audience, cl_subject = subject,
          cl_issued_at = now, cl_expires_at = now + token_lifetime_seconds\<rparr>)"

definition create_development_token ::
  "(dev_claims \<Rightarrow> string \<Rightarrow> string option) \<Rightarrow> process_env \<Rightarrow> int \<Rightarrow> string option" where
  "create_development_token sign env now_ms =
     (case required_environment_value env ''SCANLY_DEV_ADMIN_AUTH_SECRET'' of
        None \<Rightarrow> None
      | Some secret \<Rightarrow>
          if length secret < 32 then None
          else case required_environment_value env ''SCANLY_DEV_ADMIN_AUTH_SUBJECT'' of
                 None \<Rightarrow> None
               | Some subject \<Rightarrow> sign (development_claims subject now_ms) secret)"

section \<open>The route\<close>

definition json_error :: "int \<Rightarrow> string \<Rightarrow> dev_response" where
  "json_error st text =
     \<lparr>dv_status = st, dv_body = Detail text, dv_headers = [(''Cache-Control'', ''no-store'')]\<rparr>"

definition authentication_failed :: dev_response where
  "authentication_failed = json_error 500 ''Development administrator authentication failed.''"

text \<open>The constructor \<open>new NextResponse(text, ...)\<close> throws for a status outside 200..599 and for one
  that must not have a body, even an empty one.\<close>

definition response_allowed :: "int \<Rightarrow> bool" where
  "response_allowed st \<longleftrightarrow> 200 \<le> st \<and> st \<le> 599 \<and> st \<notin> {204, 205, 304}"

definition forwarded :: "backend_reply \<Rightarrow> string \<Rightarrow> dev_response" where
  "forwarded r text =
     \<lparr>dv_status = br_status r, dv_body = Forwarded text,
      dv_headers = (''Content-Type'', coalesce (br_content_type r) ''application/json'')
        # (''Cache-Control'', ''no-store'') # map (\<lambda>c. (''Set-Cookie'', c)) (br_cookies r)\<rparr>"

definition dev_upstream :: "string \<Rightarrow> string \<Rightarrow> dev_request" where
  "dev_upstream base token =
     \<lparr>dr_method = ''POST'', dr_url = base @ ''/admin/auth/session'', dr_cache = ''no-store'',
      dr_headers = [(''Accept'', ''application/json''), (''Authorization'', ''Bearer '' @ token)]\<rparr>"

text \<open>The response to the browser, and the request to the backend if there was one.\<close>

definition dev_session_post ::
  "(string \<Rightarrow> parsed_url option) \<Rightarrow> (dev_claims \<Rightarrow> string \<Rightarrow> string option)
     \<Rightarrow> (dev_request \<Rightarrow> backend_reply option) \<Rightarrow> process_env \<Rightarrow> int \<Rightarrow> string \<Rightarrow> string option
     \<Rightarrow> dev_response \<times> dev_request option" where
  "dev_session_post parse_url sign backend env now_ms own_origin origin =
     (if \<not> explicit_development_mode env then (json_error 404 ''Not found.'', None)
      else if \<not> trusted_origin parse_url own_origin origin
        then (json_error 403 ''Invalid request origin.'', None)
      else case create_development_token sign env now_ms of
             None \<Rightarrow> (authentication_failed, None)
           | Some token \<Rightarrow>
               (case backend_base_url parse_url env of
                  None \<Rightarrow> (authentication_failed, None)
                | Some base \<Rightarrow>
                    let rq = dev_upstream base token
                    in case backend rq of
                         None \<Rightarrow> (authentication_failed, Some rq)
                       | Some r \<Rightarrow>
                           (case br_text r of
                              None \<Rightarrow> (authentication_failed, Some rq)
                            | Some text \<Rightarrow>
                                if \<not> response_allowed (br_status r) then (authentication_failed, Some rq)
                                else (forwarded r text, Some rq))))"

section \<open>Facts\<close>

lemma required_environment_value_Some:
  "required_environment_value env k = Some v \<longleftrightarrow> (\<exists>w. env k = Some w \<and> trim w = v \<and> v \<noteq> [])"
  by (auto simp: required_environment_value_def or_null_def split: option.splits if_splits)

lemma backend_base_url_local:
  "backend_base_url parse_url env = Some base \<Longrightarrow>
     \<exists>url u. parse_url url = Some u \<and> local_http u \<and> base = strip_trailing CHR ''/'' url"
  by (auto simp: backend_base_url_def Let_def split: option.splits if_splits)

lemma token_lifetime: "cl_expires_at (development_claims subject now) = cl_issued_at (development_claims subject now) + 60"
  by (simp add: development_claims_def Let_def token_lifetime_seconds_def)

text \<open>What a request to the backend shows of the environment.\<close>

definition dev_request_ok ::
  "(string \<Rightarrow> parsed_url option) \<Rightarrow> (dev_claims \<Rightarrow> string \<Rightarrow> string option) \<Rightarrow> process_env \<Rightarrow> int
     \<Rightarrow> dev_request \<Rightarrow> bool" where
  "dev_request_ok parse_url sign env now_ms rq \<longleftrightarrow>
     (\<exists>url u secret subject token.
        parse_url url = Some u \<and> local_http u
        \<and> env ''SCANLY_DEV_ADMIN_AUTH_SECRET'' \<noteq> None \<and> 32 \<le> length secret
        \<and> secret = trim (the (env ''SCANLY_DEV_ADMIN_AUTH_SECRET''))
        \<and> sign (development_claims subject now_ms) secret = Some token
        \<and> rq = dev_upstream (strip_trailing CHR ''/'' url) token)"

lemma dev_session_post_request:
  assumes "snd (dev_session_post parse_url sign backend env now_ms own_origin origin) = Some rq"
  shows "explicit_development_mode env \<and> trusted_origin parse_url own_origin origin
    \<and> dev_request_ok parse_url sign env now_ms rq"
proof -
  from assms obtain token base where
    g: "explicit_development_mode env" "trusted_origin parse_url own_origin origin" and
    t: "create_development_token sign env now_ms = Some token" and
    b: "backend_base_url parse_url env = Some base" and rq: "rq = dev_upstream base token"
    by (auto simp: dev_session_post_def Let_def split: if_splits option.splits)
  from t obtain secret subject where
    "required_environment_value env ''SCANLY_DEV_ADMIN_AUTH_SECRET'' = Some secret"
    "32 \<le> length secret" "sign (development_claims subject now_ms) secret = Some token"
    by (auto simp: create_development_token_def split: if_splits option.splits)
  with b rq g show ?thesis
    unfolding dev_request_ok_def required_environment_value_Some
    using backend_base_url_local [OF b] by fastforce
qed

section \<open>Properties\<close>


end
