(* ===== verification/Views.thy ===== *)
theory Views
  imports Handlers
begin

text \<open>
  What a component renders: the tree of its elements without styles, icons and sizes. An element is
  named by its tag, its role or the component it is. A button, a field and a choice carry the event
  that using them causes, so that a page's offer is part of what it renders: the components' models
  say what an event does, the views say which events the page offers. The contract \<open>screen\<close> joins the
  two: an event the page does not offer has no effect in the model, hence a run of the model is a run of
  the page.
\<close>

section \<open>Elements\<close>

datatype 'e view =
    Words string
  | Node string "'e view list"
  | Control string bool 'e  \<comment> \<open>its name, whether it is disabled, and what a click does\<close>
  | Field string string bool "string \<Rightarrow> 'e"  \<comment> \<open>its name, value, whether it is disabled, typing\<close>
  | Choice string string bool "(string \<times> 'e) list"  \<comment> \<open>a select element, with its options\<close>
  | Anchor string string  \<comment> \<open>a link and its address\<close>
  | Picker string "'e \<Rightarrow> bool"  \<comment> \<open>a file input: its name, and what the choice of a file causes\<close>
  | Gesture 'e  \<comment> \<open>without a control: a field that loses the focus, a click beside a dialog\<close>

definition ellipsis :: string where
  "ellipsis = [CHR 0xE2, CHR 0x80, CHR 0xA6]"

text \<open>\<open>condition ? element : null\<close> and \<open>condition && element\<close>.\<close>

definition only_if :: "bool \<Rightarrow> 'e view list \<Rightarrow> 'e view list" where
  "only_if b vs = (if b then vs else [])"

text \<open>\<open>message && <div role="alert">\<close>\<close>

definition alert_if :: "string option \<Rightarrow> 'e view list" where
  "alert_if x = (if truthy x then [Node ''alert'' [Words (the x)]] else [])"

text \<open>
  The events a page offers. A field's limit on the length of what is typed is not part of the view. A select element reports a change only, so that the option shown is not
  an offer.
\<close>

fun offers :: "'e view \<Rightarrow> 'e \<Rightarrow> bool" where
  "offers (Words t) e \<longleftrightarrow> False"
| "offers (Node n vs) e \<longleftrightarrow> list_ex (\<lambda>v. offers v e) vs"
| "offers (Control l d e') e \<longleftrightarrow> \<not> d \<and> e = e'"
| "offers (Field l v d f) e \<longleftrightarrow> \<not> d \<and> e \<in> range f"
| "offers (Choice l v d os) e \<longleftrightarrow> \<not> d \<and> list_ex (\<lambda>(x, e'). x \<noteq> v \<and> e = e') os"
| "offers (Anchor l h) e \<longleftrightarrow> False"
| "offers (Picker l p) e \<longleftrightarrow> p e"
| "offers (Gesture e') e \<longleftrightarrow> e = e'"

fun words :: "'e view \<Rightarrow> string list" where
  "words (Words t) = [t]"
| "words (Node n vs) = concat (map words vs)"
| "words (Control l d e) = [l]"
| "words (Field l v d f) = [l, v]"
| "words (Choice l v d os) = [l, v]"
| "words (Anchor l h) = [l]"
| "words (Picker l p) = [l]"
| "words (Gesture e) = []"

definition shows_words :: "'e view \<Rightarrow> string \<Rightarrow> bool" where
  "shows_words v t \<longleftrightarrow> t \<in> set (words v)"

fun anchors :: "'e view \<Rightarrow> string list" where
  "anchors (Node n vs) = concat (map anchors vs)"
| "anchors (Anchor l h) = [h]"
| "anchors _ = []"

text \<open>The elements with children; a section is named by its id, as a link to it is.\<close>

fun node_names :: "'e view \<Rightarrow> string list" where
  "node_names (Node n vs) = n # concat (map node_names vs)"
| "node_names _ = []"

text \<open>The names of the elements that can be used; one without a name is lost on a screen reader.\<close>

fun names :: "'e view \<Rightarrow> string list" where
  "names (Node n vs) = concat (map names vs)"
| "names (Control l d e) = [l]"
| "names (Field l v d f) = [l]"
| "names (Choice l v d os) = [l]"
| "names (Anchor l h) = [l]"
| "names (Words t) = []"
| "names (Picker l p) = [l]"
| "names (Gesture e) = []"

definition all_named :: "'e view \<Rightarrow> bool" where
  "all_named v \<longleftrightarrow> [] \<notin> set (names v)"

lemma only_if_simps [simp]: "only_if True vs = vs" "only_if False vs = []"
  by (simp_all add: only_if_def)

lemma offers_nodes [simp]: "list_ex (\<lambda>v. offers v e) (only_if b vs) \<longleftrightarrow> b \<and> list_ex (\<lambda>v. offers v e) vs"
  by (simp add: only_if_def)

lemma words_only_if [simp]: "set (concat (map words (only_if b vs))) = (if b then set (concat (map words vs)) else {})"
  by (simp add: only_if_def)

lemma set_only_if [simp]: "set (only_if b vs) = (if b then set vs else {})"
  by (simp add: only_if_def)

lemma all_named_simps [simp]:
  "all_named (Words t)" "all_named (Control l d e) \<longleftrightarrow> l \<noteq> []" "all_named (Field l v d f) \<longleftrightarrow> l \<noteq> []"
  "all_named (Picker l p) \<longleftrightarrow> l \<noteq> []" "all_named (Gesture e)" "all_named (Choice l v d os) \<longleftrightarrow> l \<noteq> []" "all_named (Anchor l h) \<longleftrightarrow> l \<noteq> []"
  "all_named (Node n vs) \<longleftrightarrow> list_all all_named vs"
  by (auto simp: all_named_def list_all_iff)

lemma alert_if_simps [simp]:
  "\<not> list_ex (\<lambda>v. offers v e) (alert_if x)" "list_all all_named (alert_if x)"
  by (simp_all add: alert_if_def)

lemma all_named_only_if [simp]: "list_all all_named (only_if b vs) \<longleftrightarrow> (b \<longrightarrow> list_all all_named vs)"
  by (simp add: only_if_def)

section \<open>Pages\<close>

text \<open>
  A component whose events are \<open>step\<close>; \<open>shown s e\<close>: the page rendered from \<open>s\<close> offers \<open>e\<close>; \<open>by_user e\<close>: the
  event is one that only a user of the page can cause. A run without the events the page did not offer
  when they were made:
\<close>

fun as_offered ::
  "('e \<Rightarrow> 's \<Rightarrow> 's) \<Rightarrow> ('s \<Rightarrow> 'e \<Rightarrow> bool) \<Rightarrow> ('e \<Rightarrow> bool) \<Rightarrow> 'e list \<Rightarrow> 's \<Rightarrow> 'e list" where
  "as_offered step shown by_user [] s = []"
| "as_offered step shown by_user (e # es) s =
     (if by_user e \<and> \<not> shown s e then as_offered step shown by_user es s
      else e # as_offered step shown by_user es (step e s))"

text \<open>Every event of a user in it was offered.\<close>

fun all_offered ::
  "('e \<Rightarrow> 's \<Rightarrow> 's) \<Rightarrow> ('s \<Rightarrow> 'e \<Rightarrow> bool) \<Rightarrow> ('e \<Rightarrow> bool) \<Rightarrow> 'e list \<Rightarrow> 's \<Rightarrow> bool" where
  "all_offered step shown by_user [] s \<longleftrightarrow> True"
| "all_offered step shown by_user (e # es) s \<longleftrightarrow>
     (by_user e \<longrightarrow> shown s e) \<and> all_offered step shown by_user es (step e s)"

lemma as_offered_offered: "all_offered step shown by_user (as_offered step shown by_user es s) s"
  by (induction es arbitrary: s) auto

locale page =
  fixes step :: "'e \<Rightarrow> 's \<Rightarrow> 's"
    and shown :: "'s \<Rightarrow> 'e \<Rightarrow> bool"
    and by_user :: "'e \<Rightarrow> bool"
  assumes unoffered: "by_user e \<Longrightarrow> \<not> shown s e \<Longrightarrow> step e s = s"
begin

lemma run_as_offered: "fold step (as_offered step shown by_user es s) s = fold step es s"
  by (induction es arbitrary: s) (simp_all add: unoffered)

text \<open>Whatever the model does, the page can be made to do by using what it offers.\<close>

lemma runs_on_page: "\<exists>es'. fold step es' s = fold step es s \<and> all_offered step shown by_user es' s"
  by (intro exI conjI, rule run_as_offered, rule as_offered_offered)

end

text \<open>The same for a component that calls the server.\<close>

definition ineffective ::
  "('i \<Rightarrow> 's \<Rightarrow> 's \<times> 'q option) \<Rightarrow> ('e \<Rightarrow> 's \<Rightarrow> 's) \<Rightarrow> ('i, 'o, 'e) move \<Rightarrow> 's \<Rightarrow> bool" where
  "ineffective start other m s \<longleftrightarrow>
     (case m of Start i \<Rightarrow> start i s = (s, None) | Other e \<Rightarrow> other e s = s | Settle _ _ \<Rightarrow> False)"

lemma ineffective_step:
  "ineffective start other m (fl_state f) \<Longrightarrow> flight_step start settle other m f = f"
  by (cases m) (auto simp: ineffective_def)

locale screen =
  fixes start :: "'i \<Rightarrow> 's \<Rightarrow> 's \<times> 'q option"
    and settle :: "'q \<Rightarrow> 'o \<Rightarrow> 's \<Rightarrow> 's \<times> 'q option"
    and other :: "'e \<Rightarrow> 's \<Rightarrow> 's"
    and shown :: "'s \<Rightarrow> ('i, 'o, 'e) move \<Rightarrow> bool"
    and by_user :: "('i, 'o, 'e) move \<Rightarrow> bool"
  assumes unoffered: "by_user m \<Longrightarrow> \<not> shown s m \<Longrightarrow> ineffective start other m s"

sublocale screen \<subseteq> flights: page
  "flight_step start settle other" "\<lambda>f. shown (fl_state f)" by_user
  by unfold_locales (rule ineffective_step, rule unoffered)

context screen begin

lemma runs_on_page:
  "\<exists>ms'. flight_run start settle other ms' s = flight_run start settle other ms s
     \<and> all_offered (flight_step start settle other) (\<lambda>f. shown (fl_state f)) by_user ms'
         \<lparr>fl_state = s, fl_pending = [], fl_issued = []\<rparr>"
  unfolding flight_run_def by (rule flights.runs_on_page)

end

end
