(* ===== verification/Identity_View.thy ===== *)
theory Identity_View
  imports Identity_Form Views
begin

text \<open>
  What components/verification/identity-verification-form.tsx renders around the capture cards, which
  render themselves (they are nodes named by their component here). \<open>again\<close> is \<open>mode === "resubmission"\<close>,
  \<open>retention\<close> the \<open>retention_days\<close> of the loaded configuration. The page offers exactly the events the
  model of Identity_Form reacts to, and its figures tell whether the form can be submitted.
\<close>

type_synonym form_move = "(unit, js_error + json option, form_input) move"

section \<open>Pieces\<close>

text \<open>components/forms: a field and a select element inside a label.\<close>

definition labelled_field :: "string \<Rightarrow> string option \<Rightarrow> string \<Rightarrow> (string \<Rightarrow> 'e) \<Rightarrow> 'e view" where
  "labelled_field caption hint v typed =
     Node ''label''
       (Words caption # (if truthy hint then [Words (the hint)] else []) @ [Field caption v False typed])"

definition select_field :: "string \<Rightarrow> string \<Rightarrow> (string \<times> string) list \<Rightarrow> (string \<Rightarrow> 'e) \<Rightarrow> 'e view" where
  "select_field caption v options chosen =
     Node ''label''
       [Words caption, Choice caption v False (map (\<lambda>o'. (fst o', chosen (fst o'))) options)]"

definition form_section ::
  "string \<Rightarrow> string \<Rightarrow> string \<Rightarrow> string \<Rightarrow> bool \<Rightarrow> 'e view list \<Rightarrow> 'e view" where
  "form_section nr title hint status complete vs =
     Node ''section''
       ([if complete then Node ''Check'' [] else Words nr, Node ''h2'' [Words title], Words hint]
        @ only_if complete [Node ''CheckCircle'' []] @ [Words status] @ vs)"

definition confirmation_row :: "string \<Rightarrow> bool \<Rightarrow> (bool \<Rightarrow> 'e) \<Rightarrow> 'e view" where
  "confirmation_row caption checked change =
     Node ''checkbox'' (Control caption False (change (\<not> checked)) # only_if checked [Node ''checked'' []])"

definition middle_dot :: string where
  "middle_dot = [CHR 0xC2, CHR 0xB7]"

section \<open>The parts of the form\<close>

definition form_heading :: "bool \<Rightarrow> required_evidence \<Rightarrow> identity_form \<Rightarrow> 'e view" where
  "form_heading again c s =
     Node ''header''
      [Words ''Secure verification'',
       Node ''h1''
        [Words (if again then ''Update your verification'' else ''Complete your identity check'')],
       Words (if again
              then ''Provide the corrected or additional information requested by the administrator. Your ''
                   @ ''previous approval status does not change until the new submission is reviewed.''
              else ''Complete only the information requested below. Your submission enters the ''
                   @ ''administrator review queue before any Discord access can be released.''),
       Words ''Completion'',
       Words (show_nat (completed_required_count c s) @ '' of '' @ show_nat (total_required_count c s)
              @ '' ready''),
       Words (show_nat (completion_percent c s) @ ''%'')]"

definition resubmission_note :: "bool \<Rightarrow> 'e view list" where
  "resubmission_note again =
     only_if again
       [Words ''Additional information requested'',
        Words ''Server access remains locked while this update is reviewed.'']"

definition details_fields :: "required_evidence \<Rightarrow> identity_form \<Rightarrow> form_move view list" where
  "details_fields c s =
     only_if (needs_legal_name c)
       [labelled_field ''Legal name'' None (if_legal_name s) (\<lambda>t. Other (Type_name t))]
     @ only_if (needs_date_of_birth c)
       [labelled_field ''Date of birth'' None (if_date_of_birth s) (\<lambda>t. Other (Type_birth t))]
     @ only_if (needs_age_confirmation c)
       [select_field ''Age confirmation'' (if_age_result s) age_options (\<lambda>t. Other (Choose_age t))]
     @ only_if (needs_issuing_country c)
       [labelled_field ''Issuing country'' (Some ''2-letter code'') (if_issuing_country s)
          (\<lambda>t. Other (Type_country t))]
     @ only_if (needs_document_type c)
       [select_field ''Document type'' (if_document_type s) document_options (\<lambda>t. Other (Choose_document t))]"

definition details_section :: "required_evidence \<Rightarrow> identity_form \<Rightarrow> form_move view list" where
  "details_section c s =
     (let done = count_true (details_requirements c s); all = length (details_requirements c s)
      in only_if (all > 0)
          [form_section ''01'' ''Your information''
             ''Provide the personal details requested for this verification.''
             (show_nat done @ '' of '' @ show_nat all @ '' complete'') (done = all) (details_fields c s)])"

definition capture_card :: "string \<Rightarrow> evidence_type \<Rightarrow> string \<Rightarrow> string \<Rightarrow> 'e view" where
  "capture_card component t title hint =
     Node component [Words (evidence_name t), Words title, Words hint]"

definition capture_cards :: "required_evidence \<Rightarrow> 'e view list" where
  "capture_cards c =
     only_if (needs_document_front c)
       [capture_card ''EvidenceUploadCard'' Document_front ''Document front''
          ''Upload a clear image of the front of the requested identity document.'']
     @ only_if (needs_document_back c)
       [capture_card ''EvidenceUploadCard'' Document_back ''Document back''
          ''Upload the reverse side if your document contains information on both sides.'']
     @ only_if (needs_selfie c)
       [capture_card ''FaceCaptureCard'' Selfie ''Selfie''
          (''Capture a fresh selfie using your live front camera. Saved image uploads are not accepted for ''
           @ ''this step.'')]
     @ only_if (needs_liveness c)
       [capture_card ''FaceCaptureCard'' Liveness ''Live face capture''
          ''Complete a guided live front-camera capture during this verification session.'']"

definition has_file_evidence :: "required_evidence \<Rightarrow> bool" where
  "has_file_evidence c \<longleftrightarrow>
     needs_document_front c \<or> needs_document_back c \<or> needs_selfie c \<or> needs_liveness c"

definition capture_choice :: "'e view" where
  "capture_choice =
     Node ''div''
      [Words ''Choose how you capture evidence'',
       Words (''Use your phone camera with the secure QR handoff, or capture and upload directly from this ''
              @ ''device.''),
       Node ''MobileCaptureHandoff'' [],
       Words ''or capture here'']"

definition no_evidence_section :: "string \<Rightarrow> 'e view" where
  "no_evidence_section nr =
     form_section nr ''Evidence'' ''No file uploads are required for this request.'' ''Not required'' True
       [Words ''This verification request does not require document or image uploads.'']"

definition evidence_section :: "required_evidence \<Rightarrow> identity_form \<Rightarrow> 'e view" where
  "evidence_section c s =
     (let done = count_true (evidence_requirements c s); all = length (evidence_requirements c s);
          nr = (if length (details_requirements c s) > 0 then ''02'' else ''01'')
      in if has_file_evidence c
         then form_section nr ''Evidence capture'' ''Upload the requested identity evidence securely.''
                (show_nat done @ '' of '' @ show_nat all @ '' received'') (all > 0 \<and> done = all)
                (capture_choice # capture_cards c)
         else no_evidence_section nr)"

definition retention_note :: "int option \<Rightarrow> 'e view" where
  "retention_note retention =
     Node ''div''
      [Words ''Privacy & retention'',
       Words (''Identity evidence is submitted through this verification portal, not through Discord ''
              @ ''messages.''),
       Words ''Raw evidence retention'',
       Words (case retention of
                Some d \<Rightarrow> show_int d @ '' days''
              | None \<Rightarrow> ''Indefinite '' @ middle_dot @ '' manual deletion only'')]"

definition confirmation_section :: "int option \<Rightarrow> required_evidence \<Rightarrow> identity_form \<Rightarrow> form_move view" where
  "confirmation_section retention c s =
     form_section
       (if length (details_requirements c s) > 0 then (if has_file_evidence c then ''03'' else ''02'')
        else if has_file_evidence c then ''02'' else ''01'')
       ''Confirm & submit'' ''Review the confirmations before sending your verification.''
       (if if_consent s \<and> if_accuracy s then ''Ready'' else ''2 confirmations required'')
       (if_consent s \<and> if_accuracy s)
       [confirmation_row
          ''I consent to the requested verification data being processed for this verification.''
          (if_consent s) (\<lambda>b. Other (Set_consent b)),
        confirmation_row ''I confirm that the submitted information and evidence are accurate.''
          (if_accuracy s) (\<lambda>b. Other (Set_accuracy b)),
        retention_note retention]"

definition submit_error :: "identity_form \<Rightarrow> 'e view list" where
  "submit_error s =
     (if truthy (if_submit_error s) then [Node ''alert'' [Words (the (if_submit_error s))]] else [])"

definition submit_bar :: "bool \<Rightarrow> required_evidence \<Rightarrow> identity_form \<Rightarrow> form_move view" where
  "submit_bar again c s =
     Node ''div''
      [Words (if ready_to_submit s then ''Everything required is ready'' else ''Complete all required items''),
       Words (''Submission sends your verification to the administrator queue. It does not grant Discord ''
              @ ''access automatically.''),
       Words (show_nat (completion_percent c s) @ ''% complete''),
       Control
        (if if_submitting s
         then (if again then ''Submitting update'' else ''Submitting securely'') @ ellipsis
         else if again then ''Submit updated verification'' else ''Submit verification'')
        (if_submitting s) (Start ())]"

section \<open>The page\<close>

definition form_loading_view :: "'e view" where
  "form_loading_view =
     Node ''VerificationShell''
      [Node ''h1'' [Words ''Preparing your verification''],
       Words ''Loading the exact information and evidence required for your request.'']"

definition form_failed_view :: "identity_form \<Rightarrow> 'e view" where
  "form_failed_view s =
     Node ''VerificationShell''
      [Node ''h1'' [Words ''Requirements unavailable''],
       Words (coalesce (if_load_error s) ''We could not load your verification requirements.'')]"

definition approval_note :: "'e view" where
  "approval_note =
     Words (''Approval is a separate administrator decision. Completing this form only submits your ''
            @ ''verification for review. Server access remains locked until an administrator approves the ''
            @ ''request.'')"

definition form_view :: "bool \<Rightarrow> int option \<Rightarrow> identity_form \<Rightarrow> form_move view" where
  "form_view again retention s =
     (if if_loading s then form_loading_view
      else case if_config s of
        None \<Rightarrow> form_failed_view s
      | Some c \<Rightarrow>
          if truthy (if_load_error s) then form_failed_view s
          else Node ''VerificationShell''
            (form_heading again c s # resubmission_note again @ details_section c s
             @ [evidence_section c s, confirmation_section retention c s] @ submit_error s
             @ [submit_bar again c s, approval_note]))"

section \<open>What the page offers\<close>

lemma offers_details:
  "list_ex (\<lambda>v. offers v e) (details_section c s) \<longleftrightarrow>
     needs_legal_name c \<and> (\<exists>t. e = Other (Type_name t))
     \<or> needs_date_of_birth c \<and> (\<exists>t. e = Other (Type_birth t))
     \<or> needs_age_confirmation c \<and> (\<exists>t \<in> fst ` set age_options. t \<noteq> if_age_result s \<and> e = Other (Choose_age t))
     \<or> needs_issuing_country c \<and> (\<exists>t. e = Other (Type_country t))
     \<or> needs_document_type c
        \<and> (\<exists>t \<in> fst ` set document_options. t \<noteq> if_document_type s \<and> e = Other (Choose_document t))"
proof -
  have "details_requirements c s = [] \<Longrightarrow> details_fields c s = []"
    by (simp add: details_fields_def details_requirements_def split: if_splits)
  then have "list_ex (\<lambda>v. offers v e) (details_section c s) \<longleftrightarrow> list_ex (\<lambda>v. offers v e) (details_fields c s)"
    by (cases "details_requirements c s = []") (simp_all add: details_section_def form_section_def Let_def)
  moreover have "offers (select_field l v options f) e \<longleftrightarrow> (\<exists>t \<in> fst ` set options. t \<noteq> v \<and> e = f t)"
    for l v options and f :: "string \<Rightarrow> form_move"
    by (auto simp: select_field_def list_ex_iff)
  moreover have "offers (labelled_field l h v f) e \<longleftrightarrow> (\<exists>t. e = f t)" for l h v and f :: "string \<Rightarrow> form_move"
    by (auto simp: labelled_field_def)
  ultimately show ?thesis by (simp only: details_fields_def list_ex_append offers_nodes) simp
qed

lemma offers_form_view:
  "offers (form_view again retention s) e \<longleftrightarrow>
     \<not> if_loading s \<and> \<not> truthy (if_load_error s)
     \<and> (\<exists>c. if_config s = Some c
         \<and> (list_ex (\<lambda>v. offers v e) (details_section c s)
            \<or> e = Other (Set_consent (\<not> if_consent s)) \<or> e = Other (Set_accuracy (\<not> if_accuracy s))
            \<or> e = Start () \<and> \<not> if_submitting s))"
proof -
  have "\<not> offers (evidence_section c s) e" for c
    by (simp add: evidence_section_def no_evidence_section_def form_section_def capture_choice_def capture_cards_def capture_card_def
        Let_def)
  moreover have "offers (confirmation_section retention c s) e
      \<longleftrightarrow> e = Other (Set_consent (\<not> if_consent s)) \<or> e = Other (Set_accuracy (\<not> if_accuracy s))" for c
    by (auto simp: confirmation_section_def form_section_def confirmation_row_def retention_note_def)
  moreover have "offers (submit_bar again c s) e \<longleftrightarrow> e = Start () \<and> \<not> if_submitting s" for c
    by (auto simp: submit_bar_def)
  ultimately show ?thesis
    by (auto simp: form_view_def form_loading_view_def form_failed_view_def form_heading_def
        resubmission_note_def submit_error_def approval_note_def split: option.splits)
qed

definition form_shown :: "identity_form \<Rightarrow> form_move \<Rightarrow> bool" where
  "form_shown s m \<longleftrightarrow> offers (form_view False None s) m"

text \<open>What the cards and the phone report comes from components of their own.\<close>

fun form_by_user :: "form_move \<Rightarrow> bool" where
  "form_by_user (Settle k r) = False"
| "form_by_user (Other (Capture t x)) = False"
| "form_by_user (Other (From_phone x)) = False"
| "form_by_user (Other (Config_answer a r)) = False"
| "form_by_user m = True"

lemma form_shown_cases:
  "form_shown s m \<longleftrightarrow>
     form_open s
     \<and> (list_ex (\<lambda>v. offers v m) (details_section (the (if_config s)) s)
        \<or> m = Other (Set_consent (\<not> if_consent s)) \<or> m = Other (Set_accuracy (\<not> if_accuracy s))
        \<or> m = Start () \<and> \<not> if_submitting s)"
  by (auto simp: form_shown_def offers_form_view form_open_def)

lemma form_shown_start: "form_shown s (Start i) \<longleftrightarrow> form_open s \<and> \<not> if_submitting s"
  by (auto simp: form_shown_cases offers_details)

interpretation form_page: screen handle_submit submit_settle form_event form_shown form_by_user
proof
  fix s and m :: form_move
  assume h: "form_by_user m" "\<not> form_shown s m"
  show "ineffective handle_submit form_event m s"
  proof (cases m)
    case (Start i)
    then show ?thesis using h(2) by (auto simp: ineffective_def form_shown_start handle_submit_def)
  next
    case (Other e)
    then show ?thesis using h
      by (cases e) (auto simp: ineffective_def form_shown_cases offers_details when_asked_def form_asks_def)
  qed (use h in simp)
qed

section \<open>Properties\<close>

lemma pieces_named [simp]:
  "all_named (labelled_field l h v f) \<longleftrightarrow> l \<noteq> []" "all_named (select_field l v os f) \<longleftrightarrow> l \<noteq> []"
  "all_named (form_section nr l t st b vs) \<longleftrightarrow> list_all all_named vs"
  by (simp_all add: labelled_field_def select_field_def form_section_def)

lemma form_view_named: "all_named (form_view again retention s)"
proof -
  have "list_all all_named (details_fields c s)" for c by (simp add: details_fields_def)
  then have "list_all all_named (details_section c s)" for c by (simp add: details_section_def Let_def)
  moreover have "list_all all_named (capture_cards c :: form_move view list)" for c
    by (simp add: capture_cards_def capture_card_def)
  then have "all_named (evidence_section c s :: form_move view)" for c
    by (simp add: evidence_section_def no_evidence_section_def capture_choice_def Let_def)
  moreover have "all_named (confirmation_section retention c s)" for c
    by (simp add: confirmation_section_def confirmation_row_def retention_note_def)
  moreover have "all_named (submit_bar again c s)" for c by (simp add: submit_bar_def ellipsis_def)
  ultimately show ?thesis
    by (simp add: form_view_def form_loading_view_def form_failed_view_def form_heading_def
        resubmission_note_def submit_error_def approval_note_def split: option.splits)
qed

lemma show_hundred: "show_nat 100 = ''100''"
  by code_simp

lemma submit_bar_words:
  assumes "form_open s" and "if_config s = Some c"
  shows "t \<in> set (words (submit_bar again c s)) \<Longrightarrow> shows_words (form_view again retention s) t"
    and "if_submit_error s = Some (x # xs) \<Longrightarrow> shows_words (form_view again retention s) (x # xs)"
  using assms by (simp_all add: form_view_def form_open_def shows_words_def submit_error_def truthy_def)

text \<open>C36: the identity form and its handlers agree: a click on the button either sends the submission and
  disables the button, and the page had said that everything is ready and 100% complete, or sends nothing
  and the page shows what is missing; a click the page does not offer does nothing; every run of the
  model is a run of the page, and every control has a name.\<close>

theorem form_page_agrees:
  "(if form_shown s (Start i)
    then case handle_submit i s of
           (s', Some p) \<Rightarrow> \<not> form_shown s' (Start i)
             \<and> shows_words (form_view again retention s) ''Everything required is ready''
             \<and> shows_words (form_view again retention s) ''100% complete''
         | (s', None) \<Rightarrow>
             (\<exists>message. validate_required_fields s = Some message
                \<and> shows_words (form_view again retention s') message
                \<and> shows_words (form_view again retention s') ''Complete all required items'')
    else handle_submit i s = (s, None))
   \<and> (\<exists>ms'. flight_run handle_submit submit_settle form_event ms' s
          = flight_run handle_submit submit_settle form_event ms s
        \<and> all_offered (flight_step handle_submit submit_settle form_event)
            (\<lambda>f. form_shown (fl_state f)) form_by_user
            ms' \<lparr>fl_state = s, fl_pending = [], fl_issued = []\<rparr>)
   \<and> all_named (form_view again retention s)"
proof (intro conjI)
  show "if form_shown s (Start i)
    then case handle_submit i s of
           (s', Some p) \<Rightarrow> \<not> form_shown s' (Start i)
             \<and> shows_words (form_view again retention s) ''Everything required is ready''
             \<and> shows_words (form_view again retention s) ''100% complete''
         | (s', None) \<Rightarrow>
             (\<exists>message. validate_required_fields s = Some message
                \<and> shows_words (form_view again retention s') message
                \<and> shows_words (form_view again retention s') ''Complete all required items'')
    else handle_submit i s = (s, None)"
  proof (cases "form_open s \<and> \<not> if_submitting s")
    case True
    then obtain c where c: "if_config s = Some c" by (auto simp: form_open_def)
    show ?thesis
    proof (cases "validate_required_fields s")
      case None
      then have ready: "ready_to_submit s" by (simp add: ready_to_submit_def)
      with c ready_iff_complete [of s] have "completion_percent c s = 100" by simp
      then have "show_nat (completion_percent c s) = ''100''" using show_hundred by simp
      with ready have "''Everything required is ready'' \<in> set (words (submit_bar again c s))"
        "''100% complete'' \<in> set (words (submit_bar again c s))"
        by (simp_all add: submit_bar_def)
      with c True have "shows_words (form_view again retention s) ''Everything required is ready''"
        "shows_words (form_view again retention s) ''100% complete''"
        using submit_bar_words(1) by blast+
      with None True show ?thesis
        by (simp add: form_shown_start handle_submit_def)
    next
      case (Some message)
      let ?s' = "s\<lparr>if_submit_error := Some message\<rparr>"
      have "message \<noteq> []"
        using Some c by (auto simp: validate_required_fields_def split: if_splits)
      then obtain x xs where m: "message = x # xs" by (cases message) auto
      have open': "form_open ?s'" "if_config ?s' = Some c" using True c by (simp_all add: form_open_def)
      have "validate_required_fields ?s' = validate_required_fields s"
        by (simp add: validate_required_fields_def cong: if_cong option.case_cong)
      with Some have "\<not> ready_to_submit ?s'" by (simp add: ready_to_submit_def)
      then have "''Complete all required items'' \<in> set (words (submit_bar again c ?s'))"
        by (simp add: submit_bar_def)
      then have "shows_words (form_view again retention ?s') ''Complete all required items''"
        "shows_words (form_view again retention ?s') message"
        using submit_bar_words [OF open'] m by simp_all
      with Some True show ?thesis
        by (simp add: form_shown_start handle_submit_def)
    qed
  next
    case False
    then show ?thesis by (auto simp: form_shown_start handle_submit_def)
  qed
qed (use form_view_named form_page.runs_on_page in blast)+

end
