(* ===== verification/Document_View.thy ===== *)
theory Document_View
  imports Evidence_Upload Views
begin

text \<open>
  What components/verification/evidence-upload-card.tsx renders: the card of a document or picture, the
  camera dialog over it, and the card of an uploaded file. \<open>title\<close>, \<open>hint\<close> and \<open>required\<close> are its properties.
  The page offers exactly the events the model of Evidence_Upload reacts to.
\<close>

section \<open>The card\<close>

definition uploaded_card :: "string \<Rightarrow> uploaded_evidence \<Rightarrow> document_event view" where
  "uploaded_card title u =
     Node ''div''
      [Words title, Words ''Uploaded'', Words (up_filename u), Words (format_file_size (up_size u)),
       Control (''Remove '' @ title) False Doc_replace]"

text \<open>\<open>native\<close> is \<open>shouldUseNativeCameraCapture()\<close> at the click, \<open>available\<close> whether the browser has
  \<open>getUserMedia\<close>.\<close>

definition camera_button :: "bool \<Rightarrow> bool \<Rightarrow> document_card \<Rightarrow> document_event view" where
  "camera_button native available s =
     Control (if dc_state s = Doc_starting then ''Starting camera'' else ''Capture with camera'')
       (dc_uploading s \<or> dc_state s = Doc_starting) (Doc_camera_button native available)"

definition upload_buttons :: "bool \<Rightarrow> bool \<Rightarrow> document_card \<Rightarrow> document_event view list" where
  "upload_buttons native available s =
     (if is_document s
      then [camera_button native available s, Control ''Upload from device'' (dc_uploading s) Doc_choose]
      else [Control (if dc_uploading s then ''Uploading'' else ''Upload from device'') (dc_uploading s)
              Doc_choose])"

definition upload_card ::
  "string \<Rightarrow> string \<Rightarrow> bool \<Rightarrow> bool \<Rightarrow> bool \<Rightarrow> document_card \<Rightarrow> document_event view" where
  "upload_card title hint required native available s =
     Node ''div''
       ([Node ''h3'' [Words title]] @ only_if required [Words ''Required'']
        @ [Words hint, Words ''JPEG, PNG, WebP or PDF'', Words ''Maximum 15 MB'']
        @ upload_buttons native available s)"

section \<open>The camera\<close>

definition camera_picture :: "string \<Rightarrow> document_card \<Rightarrow> document_event view" where
  "camera_picture title s =
     Node ''div''
       (only_if (dc_state s = Doc_starting) [Words (''Starting camera'' @ ellipsis)]
        @ only_if (dc_state s = Doc_live)
            [Node ''video'' [], Words ''Align the full document inside the frame'']
        @ only_if (dc_state s = Doc_preview \<and> cam_url (dc_cam s) \<noteq> None)
            [Node ''img'' [Words (''Preview of '' @ title)]])"

definition photo_button :: "photo_probe \<Rightarrow> document_card \<Rightarrow> document_event view list" where
  "photo_button probe s =
     only_if (dc_state s = Doc_live) [Control ''Capture photo'' False (Doc_capture probe)]"

definition preview_buttons :: "bool \<Rightarrow> document_card \<Rightarrow> document_event view list" where
  "preview_buttons available s =
     only_if (dc_state s = Doc_preview)
       [Control ''Retake'' (dc_uploading s) (Doc_retake available),
        Control (if dc_uploading s then ''Uploading securely'' @ ellipsis else ''Use photo'') (dc_uploading s)
          Doc_use]"

definition camera_dialog ::
  "string \<Rightarrow> bool \<Rightarrow> photo_probe \<Rightarrow> document_card \<Rightarrow> document_event view" where
  "camera_dialog title available probe s =
     Node ''dialog''
       ([Words (''Capture '' @ title),
         Words ''Keep the full document inside the frame and make sure all text is readable.'',
         Control ''Close camera'' False Doc_close, camera_picture title s]
        @ alert_if (dc_camera_error s) @ photo_button probe s @ preview_buttons available s)"

definition document_view ::
  "string \<Rightarrow> string \<Rightarrow> bool \<Rightarrow> bool \<Rightarrow> bool \<Rightarrow> photo_probe \<Rightarrow> document_card \<Rightarrow> document_event view" where
  "document_view title hint required native available probe s =
     (case dc_value s of
        Some u \<Rightarrow> uploaded_card title u
      | None \<Rightarrow>
          Node ''fragment''
            (upload_card title hint required native available s # alert_if (dc_camera_error s)
             @ alert_if (dc_error s)
             @ only_if (dc_state s \<noteq> Doc_closed) [camera_dialog title available probe s]))"

section \<open>What the page offers\<close>

lemma offers_document_view:
  "offers (document_view title hint required native available probe s) e \<longleftrightarrow>
     (if dc_value s \<noteq> None then e = Doc_replace
      else \<not> dc_uploading s \<and> e = Doc_choose
        \<or> is_document s \<and> \<not> dc_uploading s \<and> dc_state s \<noteq> Doc_starting \<and> e = Doc_camera_button native available
        \<or> dc_state s \<noteq> Doc_closed \<and> e = Doc_close
        \<or> dc_state s = Doc_live \<and> e = Doc_capture probe
        \<or> dc_state s = Doc_preview \<and> \<not> dc_uploading s \<and> (e = Doc_retake available \<or> e = Doc_use))"
proof -
  have "list_ex (\<lambda>v. offers v e) (upload_buttons native available s) \<longleftrightarrow>
      \<not> dc_uploading s \<and> (e = Doc_choose
        \<or> is_document s \<and> dc_state s \<noteq> Doc_starting \<and> e = Doc_camera_button native available)"
    by (auto simp: upload_buttons_def camera_button_def)
  then have "offers (upload_card title hint required native available s) e \<longleftrightarrow>
      \<not> dc_uploading s \<and> (e = Doc_choose
        \<or> is_document s \<and> dc_state s \<noteq> Doc_starting \<and> e = Doc_camera_button native available)"
    by (simp add: upload_card_def)
  moreover have "offers (camera_dialog title available probe s) e \<longleftrightarrow>
      e = Doc_close \<or> dc_state s = Doc_live \<and> e = Doc_capture probe
      \<or> dc_state s = Doc_preview \<and> \<not> dc_uploading s \<and> (e = Doc_retake available \<or> e = Doc_use)"
    by (auto simp: camera_dialog_def camera_picture_def photo_button_def preview_buttons_def)
  ultimately show ?thesis
    by (cases "dc_value s") (auto simp: document_view_def uploaded_card_def)
qed

text \<open>Nothing is shown of a card that has been left.\<close>

definition document_shown :: "document_card \<Rightarrow> document_event \<Rightarrow> bool" where
  "document_shown s e \<longleftrightarrow>
     dc_mounted s \<and> (\<exists>native available probe. offers (document_view [] [] False native available probe s) e)"

text \<open>A file is chosen in a dialog of the browser's.\<close>

fun document_by_user :: "document_event \<Rightarrow> bool" where
  "document_by_user (Doc_camera_button native available) = True"
| "document_by_user Doc_close = True"
| "document_by_user (Doc_capture p) = True"
| "document_by_user (Doc_retake available) = True"
| "document_by_user Doc_use = True"
| "document_by_user Doc_choose = True"
| "document_by_user Doc_replace = True"
| "document_by_user e = False"

interpretation document_page: page document_step document_shown document_by_user
proof
  fix s e
  assume "document_by_user e" "\<not> document_shown s e"
  then show "document_step e s = s"
    by (cases e) (auto simp: document_shown_def offers_document_view doc_shown_def capture_photo_def)
qed

lemma document_view_named: "all_named (document_view title hint required native available probe s)"
  by (simp add: document_view_def uploaded_card_def upload_card_def upload_buttons_def camera_button_def
      camera_dialog_def camera_picture_def photo_button_def preview_buttons_def split: option.split)

section \<open>Properties\<close>

text \<open>The document card and its handlers agree: every run of the model is a run of the card, in which
  each click was on a button that was there and enabled; while a file is being uploaded neither another
  upload nor the camera can be begun from the card; a click on \<open>Use photo\<close> uploads the picture taken, or
  uploads nothing and the card says why; and every button has a name.\<close>

theorem document_page_agrees:
  "(\<exists>es'. fold document_step es' s = fold document_step es s
      \<and> all_offered document_step document_shown document_by_user es' s)
   \<and> (if dc_uploading s
      then list_all (\<lambda>e. \<not> document_shown s e) [Doc_choose, Doc_use, Doc_camera_button n a, Doc_retake a]
      else True)
   \<and> (if document_shown s Doc_use
      then case cam_file (dc_cam s) of
             None \<Rightarrow> document_step Doc_use s = s
           | Some f \<Rightarrow>
               let s' = document_step Doc_use s
               in if file_accepted f then dc_uploading s' \<and> dc_sent s' = dc_sent s @ [f]
                  else dc_sent s' = dc_sent s \<and> truthy (dc_error s')
                    \<and> shows_words (document_view title hint required n a probe s') (the (dc_error s'))
      else True)
   \<and> all_named (document_view title hint required n a probe s)"
proof (intro conjI)
  show "if document_shown s Doc_use
      then case cam_file (dc_cam s) of
             None \<Rightarrow> document_step Doc_use s = s
           | Some f \<Rightarrow>
               let s' = document_step Doc_use s
               in if file_accepted f then dc_uploading s' \<and> dc_sent s' = dc_sent s @ [f]
                  else dc_sent s' = dc_sent s \<and> truthy (dc_error s')
                    \<and> shows_words (document_view title hint required n a probe s') (the (dc_error s'))
      else True"
  proof (cases "document_shown s Doc_use")
    case True
    then have use: "doc_shown s" "dc_state s = Doc_preview" "\<not> dc_uploading s"
      by (auto simp: document_shown_def offers_document_view doc_shown_def split: if_splits)
    have refused: "truthy (dc_error (handle_file f True s))" if "\<not> file_accepted f" for f
      using that by (auto simp: handle_file_def file_accepted_def truthy_def Let_def)
    have shown: "shows_words (document_view title hint required n a probe s') (the (dc_error s'))"
      if "truthy (dc_error s')" "dc_value s' = None" for s'
      using that by (simp add: document_view_def shows_words_def alert_if_def)
    have "dc_value (handle_file f True s) = None" for f
      using use by (simp add: handle_file_def doc_shown_def Let_def)
    with use refused shown show ?thesis
      by (auto simp: handle_file_sent Let_def split: option.split)
        (simp add: handle_file_def file_accepted_def Let_def)
  qed simp
qed (use document_page.runs_on_page document_view_named in
  \<open>auto simp: document_shown_def offers_document_view split: if_splits\<close>)

end
