(* ===== verification/Face_View.thy ===== *)
theory Face_View
  imports Face_Capture Views
begin

text \<open>
  What components/verification/face-capture-card.tsx renders: the card of a selfie or a live capture, the
  camera dialog with the instructions of the challenge, and the card of an uploaded picture. The page
  offers exactly the events the model of Face_Capture reacts to.
\<close>

section \<open>The card\<close>

definition face_uploaded_card :: "string \<Rightarrow> bool \<Rightarrow> uploaded_evidence \<Rightarrow> face_event view" where
  "face_uploaded_card title liveness u =
     Node ''section''
      [Words title, Words ''Captured'',
       Words (if liveness then ''Live face capture received'' else ''Selfie capture received''),
       Control (''Remove '' @ title) False Face_replace]"

definition start_camera_button :: "bool \<Rightarrow> face_card \<Rightarrow> face_event view" where
  "start_camera_button available s =
     Control
       (if fc_state s = Starting then ''Starting camera'' @ ellipsis
        else if fc_liveness s then ''Start live face capture'' else ''Open selfie camera'')
       (fc_uploading s \<or> fc_state s \<noteq> Closed) (Face_open available)"

definition face_intro :: "string \<Rightarrow> string \<Rightarrow> bool \<Rightarrow> bool \<Rightarrow> face_card \<Rightarrow> face_event view" where
  "face_intro title hint required available s =
     Node ''section''
       ([Node ''h3'' [Words title]] @ only_if required [Words ''Required'']
        @ [Words hint,
           Words (if fc_liveness s
                  then ''A live front-camera session is required. Saved images cannot be used for this step.''
                  else ''Take a fresh selfie using your front camera. Saved image files cannot be selected.''),
           start_camera_button available s])"

section \<open>The camera\<close>

definition challenge_panel :: "face_card \<Rightarrow> 'e view" where
  "challenge_panel s =
     (let steps = challenge_steps (fc_direction s); n = length steps
      in Node ''div''
          ([Words (''Step '' @ show_nat (min (fc_step s + 1) n) @ '' of '' @ show_nat n),
            Words (fst (steps ! min (fc_step s) (n - 1)))]
           @ (case fc_seconds s of None \<Rightarrow> [] | Some t \<Rightarrow> [Words (show_int t)])))"

definition face_picture :: "face_card \<Rightarrow> 'e view" where
  "face_picture s =
     Node ''div''
       (only_if (fc_state s = Starting) [Words (''Starting front camera'' @ ellipsis)]
        @ only_if (fc_state s = Live \<or> fc_state s = Challenge) [Node ''video'' []]
        @ only_if (fc_state s = Live) [Words ''Center your face inside the guide'']
        @ only_if (fc_state s = Challenge) [challenge_panel s]
        @ only_if (fc_state s = Preview \<and> cam_url (fc_cam s) \<noteq> None)
            [Node ''img'' [Words ''Captured face preview'']])"

definition face_advice :: "face_card \<Rightarrow> 'e view list" where
  "face_advice s =
     [Words (if fc_liveness s
             then ''Complete each camera instruction naturally. Keep your face visible and avoid moving the ''
                  @ ''device during capture.''
             else ''Make sure your full face is visible, remove anything covering your face, and use even ''
                  @ ''lighting.'')]
     @ only_if (fc_liveness s)
         [Words (''This guided capture collects fresh session evidence. It does not independently perform ''
                 @ ''biometric identity matching or automated anti-spoof detection.'')]
     @ alert_if (fc_camera_error s)"

definition live_buttons :: "frame_probe \<Rightarrow> challenge_direction \<Rightarrow> face_card \<Rightarrow> face_event view list" where
  "live_buttons probe d s =
     only_if (fc_state s = Live \<and> \<not> fc_liveness s) [Control ''Capture selfie'' False (Face_selfie probe)]
     @ only_if (fc_state s = Live \<and> fc_liveness s) [Control ''Begin live challenge'' False (Face_begin d)]
     @ only_if (fc_state s = Challenge) [Words ''Follow the instruction above'']"

definition face_preview_buttons :: "face_card \<Rightarrow> face_event view list" where
  "face_preview_buttons s =
     only_if (fc_state s = Preview)
       [Control ''Retake'' (fc_uploading s) Face_retake,
        Control
          (if fc_uploading s then ''Uploading securely'' @ ellipsis
           else if fc_liveness s then ''Use live capture'' else ''Use selfie'')
          (fc_uploading s) Face_use]"

definition face_dialog :: "frame_probe \<Rightarrow> challenge_direction \<Rightarrow> face_card \<Rightarrow> face_event view" where
  "face_dialog probe d s =
     Node ''dialog''
       ([Words (if fc_liveness s then ''Live face capture'' else ''Take your selfie''),
         Words ''Position your face inside the guide and use clear, even lighting.'',
         Control ''Close camera'' (fc_uploading s) Face_close, face_picture s]
        @ face_advice s @ live_buttons probe d s @ face_preview_buttons s)"

definition face_view ::
  "string \<Rightarrow> string \<Rightarrow> bool \<Rightarrow> bool \<Rightarrow> frame_probe \<Rightarrow> challenge_direction \<Rightarrow> face_card \<Rightarrow> face_event view" where
  "face_view title hint required available probe d s =
     (case fc_value s of
        Some u \<Rightarrow> face_uploaded_card title (fc_liveness s) u
      | None \<Rightarrow>
          Node ''fragment''
            (face_intro title hint required available s # alert_if (fc_camera_error s)
             @ alert_if (fc_error s) @ only_if (fc_state s \<noteq> Closed) [face_dialog probe d s]))"

section \<open>What the page offers\<close>

lemma offers_face_view:
  "offers (face_view title hint required available probe d s) e \<longleftrightarrow>
     (if fc_value s \<noteq> None then e = Face_replace
      else \<not> fc_uploading s \<and> fc_state s = Closed \<and> e = Face_open available
        \<or> \<not> fc_uploading s \<and> fc_state s \<noteq> Closed \<and> e = Face_close
        \<or> fc_state s = Live \<and> \<not> fc_liveness s \<and> e = Face_selfie probe
        \<or> fc_state s = Live \<and> fc_liveness s \<and> e = Face_begin d
        \<or> fc_state s = Preview \<and> \<not> fc_uploading s \<and> (e = Face_retake \<or> e = Face_use))"
proof -
  have "\<not> offers (challenge_panel s) e"
    by (auto simp: challenge_panel_def Let_def split: option.splits)
  then have "\<not> offers (face_picture s) e" "\<not> list_ex (\<lambda>v. offers v e) (face_advice s)"
    by (auto simp: face_picture_def face_advice_def)
  then have "offers (face_dialog probe d s) e \<longleftrightarrow>
      \<not> fc_uploading s \<and> e = Face_close
      \<or> fc_state s = Live \<and> \<not> fc_liveness s \<and> e = Face_selfie probe
      \<or> fc_state s = Live \<and> fc_liveness s \<and> e = Face_begin d
      \<or> fc_state s = Preview \<and> \<not> fc_uploading s \<and> (e = Face_retake \<or> e = Face_use)"
    by (auto simp: face_dialog_def live_buttons_def face_preview_buttons_def)
  moreover have "offers (face_intro title hint required available s) e \<longleftrightarrow>
      \<not> fc_uploading s \<and> fc_state s = Closed \<and> e = Face_open available"
    by (auto simp: face_intro_def start_camera_button_def)
  ultimately show ?thesis
    by (cases "fc_value s") (auto simp: face_view_def face_uploaded_card_def)
qed

definition face_offered :: "face_card \<Rightarrow> face_event \<Rightarrow> bool" where
  "face_offered s e \<longleftrightarrow>
     fc_mounted s \<and> (\<exists>available probe d. offers (face_view [] [] False available probe d s) e)"

fun face_by_user :: "face_event \<Rightarrow> bool" where
  "face_by_user (Face_open available) = True"
| "face_by_user Face_close = True"
| "face_by_user (Face_selfie p) = True"
| "face_by_user (Face_begin d) = True"
| "face_by_user Face_retake = True"
| "face_by_user Face_use = True"
| "face_by_user Face_replace = True"
| "face_by_user e = False"

interpretation face_page: page face_step face_offered face_by_user
proof
  fix s e
  assume "face_by_user e" "\<not> face_offered s e"
  then show "face_step e s = s"
    by (cases e) (auto simp: face_offered_def offers_face_view face_shown_def begin_liveness_challenge_def
        upload_captured_face_def split: option.split)
qed

lemma face_view_named: "all_named (face_view title hint required available probe d s)"
proof -
  have "all_named (challenge_panel s :: face_event view)"
    by (simp add: challenge_panel_def Let_def split: option.split)
  then have "all_named (face_picture s :: face_event view)" by (simp add: face_picture_def)
  then show ?thesis
    by (simp add: face_view_def face_uploaded_card_def face_intro_def start_camera_button_def
        face_advice_def face_dialog_def live_buttons_def face_preview_buttons_def ellipsis_def
        split: option.split)
qed

section \<open>Properties\<close>


end
