(* ===== verification/Mobile_View.thy ===== *)
theory Mobile_View
  imports Mobile_Capture Identity_Form Views
begin

text \<open>
  What the phone shows, components/verification/mobile-capture-page.tsx: a card for every requested
  picture, the progress and the button that finishes the session. \<open>expiry\<close> is the formatted end of the
  session. The page offers exactly the events the model of Mobile_Capture reacts to.
\<close>

type_synonym mobile_move = "(mobile_click, js_error + json option, mobile_input) move"

section \<open>Cards\<close>

fun capture_description :: "evidence_type \<Rightarrow> string" where
  "capture_description Document_front =
     ''Capture the front side clearly. Keep all corners visible and avoid glare.''"
| "capture_description Document_back = ''Capture the back side clearly with all text and details readable.''"
| "capture_description Selfie = ''Take a clear photo of your face in good lighting.''"
| "capture_description Liveness =
     ''Capture the requested face image. This photo step is not an automated liveness test.''"

text \<open>The file input of a kind.\<close>

fun picks :: "evidence_type \<Rightarrow> mobile_move \<Rightarrow> bool" where
  "picks k (Start (Pick_capture k' f)) \<longleftrightarrow> k' = k"
| "picks k m \<longleftrightarrow> False"

definition received_card :: "mobile_page \<Rightarrow> evidence_type \<Rightarrow> mobile_move view" where
  "received_card s k =
     Node ''section''
       ([Words (capture_title k), Words ''Received'',
         Words (case mp_files s k of Some f \<Rightarrow> file_name f
                | None \<Rightarrow> ''Secure upload restored from this session.''),
         Picker ''Retake'' (picks k)]
        @ alert_if (mp_errors s k))"

definition awaited_card :: "mobile_page \<Rightarrow> evidence_type \<Rightarrow> mobile_move view" where
  "awaited_card s k =
     Node ''section''
       ([Node ''h2'' [Words (capture_title k)]] @ only_if (k \<in> mp_uploading s) [Words ''Uploading'']
        @ [Words (capture_description k)]
        @ (case mp_files s k of None \<Rightarrow> [] | Some f \<Rightarrow> [Words (file_name f)])
        @ only_if (k \<notin> mp_uploading s)
            [Picker (if mp_files s k = None then ''Open camera'' else ''Capture again'') (picks k)]
        @ alert_if (mp_errors s k))"

definition mobile_card :: "mobile_page \<Rightarrow> evidence_type \<Rightarrow> mobile_move view" where
  "mobile_card s k =
     (if k \<in> mp_uploaded s \<and> k \<notin> mp_uploading s then received_card s k else awaited_card s k)"

section \<open>The page\<close>

definition mobile_loading_view :: "'e view" where
  "mobile_loading_view =
     Node ''MobileShell''
      [Node ''h1'' [Words ''Opening secure capture''], Words ''Checking your temporary phone session.'']"

definition mobile_failed_view :: "mobile_page \<Rightarrow> 'e view" where
  "mobile_failed_view s =
     Node ''MobileShell''
      [Node ''h1'' [Words ''Capture unavailable''], Node ''alert'' [Words (coalesce (mp_load_error s) [])]]"

definition mobile_completed_view :: "'e view" where
  "mobile_completed_view =
     Node ''MobileShell''
      [Node ''h1'' [Words ''Capture complete''],
       Words (''Your evidence was securely received. You can return to the computer where you started ''
              @ ''verification.''),
       Words ''Phone access closed'']"

definition mobile_progress :: "mobile_page \<Rightarrow> nat" where
  "mobile_progress s =
     (if length (required_kinds s) > 0 then rounded_percent (uploaded_count s) (length (required_kinds s))
      else 0)"

definition mobile_heading :: "string \<Rightarrow> mobile_page \<Rightarrow> 'e view" where
  "mobile_heading expiry s =
     Node ''header''
      [Words (''Expires '' @ expiry), Node ''h1'' [Words ''Capture your evidence''],
       Words (''Take clear photos of the requested evidence. Each image is uploaded privately as soon as ''
              @ ''you capture it.''),
       Words ''Capture progress'',
       Words (show_nat (uploaded_count s) @ '' of '' @ show_nat (length (required_kinds s)) @ '' received''),
       Words (show_nat (mobile_progress s) @ ''%'')]"

definition finish_button :: "mobile_page \<Rightarrow> mobile_move view" where
  "finish_button s =
     Control
       (if mp_completing s then ''Finishing secure capture''
        else if all_captured s then ''Finish secure capture'' else ''Capture all required evidence'')
       (\<not> all_captured s \<or> mp_completing s \<or> mp_uploading s \<noteq> {}) (Start Click_finish)"

definition mobile_cards :: "mobile_page \<Rightarrow> mobile_move view" where
  "mobile_cards s = Node ''div'' (map (mobile_card s) (required_kinds s))"

definition mobile_view :: "string \<Rightarrow> mobile_page \<Rightarrow> mobile_move view" where
  "mobile_view expiry s =
     (if mp_loading s then mobile_loading_view
      else if truthy (mp_load_error s) \<or> mp_session s = None then mobile_failed_view s
      else if mp_completed s then mobile_completed_view
      else Node ''MobileShell''
        ([mobile_heading expiry s, mobile_cards s]
         @ only_if (required_kinds s = [])
             [Words ''No mobile evidence requirements were assigned to this verification request.'']
         @ alert_if (mp_complete_error s)
         @ [finish_button s,
            Words (''This phone session can only upload evidence. It cannot approve verification or grant ''
                   @ ''Discord access.'')]))"

section \<open>What the page offers\<close>

lemma offers_mobile_card: "offers (mobile_card s k) e \<longleftrightarrow> k \<notin> mp_uploading s \<and> picks k e"
  by (auto simp: mobile_card_def received_card_def awaited_card_def split: option.splits)

lemma picks_iff: "picks k e \<longleftrightarrow> (\<exists>f. e = Start (Pick_capture k f))"
  by (cases "(k, e)" rule: picks.cases) auto

lemma offers_mobile_view:
  "offers (mobile_view expiry s) e \<longleftrightarrow>
     \<not> mp_loading s \<and> \<not> truthy (mp_load_error s) \<and> mp_session s \<noteq> None \<and> \<not> mp_completed s
     \<and> ((\<exists>k f. k \<in> set (required_kinds s) \<and> k \<notin> mp_uploading s \<and> e = Start (Pick_capture k f))
        \<or> e = Start Click_finish \<and> all_captured s \<and> \<not> mp_completing s \<and> mp_uploading s = {})"
proof -
  have "offers (mobile_cards s) e \<longleftrightarrow>
      (\<exists>k f. k \<in> set (required_kinds s) \<and> k \<notin> mp_uploading s \<and> e = Start (Pick_capture k f))"
    by (auto simp: mobile_cards_def list_ex_iff offers_mobile_card picks_iff)
  then show ?thesis
    by (auto simp: mobile_view_def mobile_loading_view_def mobile_failed_view_def mobile_completed_view_def
        mobile_heading_def finish_button_def)
qed

definition mobile_page_shown :: "mobile_page \<Rightarrow> mobile_move \<Rightarrow> bool" where
  "mobile_page_shown s m \<longleftrightarrow> offers (mobile_view [] s) m"

fun mobile_by_user :: "mobile_move \<Rightarrow> bool" where
  "mobile_by_user (Start c) = True"
| "mobile_by_user m = False"

lemma mobile_shown_start:
  "mobile_page_shown s (Start c) \<longleftrightarrow>
     mobile_shown s
     \<and> (case c of Pick_capture k f \<Rightarrow> k \<in> set (required_kinds s) \<and> k \<notin> mp_uploading s
        | Click_finish \<Rightarrow> all_captured s \<and> \<not> mp_completing s \<and> mp_uploading s = {})"
  by (cases c) (auto simp: mobile_page_shown_def offers_mobile_view mobile_shown_def)

interpretation mobile_screen: screen mobile_start mobile_settle mobile_event mobile_page_shown mobile_by_user
proof
  fix s and m :: mobile_move
  assume h: "mobile_by_user m" "\<not> mobile_page_shown s m"
  show "ineffective mobile_start mobile_event m s"
  proof (cases m)
    case (Start c)
    then show ?thesis using h(2)
      by (cases c) (auto simp: ineffective_def mobile_shown_start mobile_start_def
          finish_capture_def)
  qed (use h in simp_all)
qed

section \<open>Properties\<close>

lemma mobile_view_named: "all_named (mobile_view expiry s)"
proof -
  have "all_named (mobile_card s k)" for k
    by (simp add: mobile_card_def received_card_def awaited_card_def split: option.split)
  then have "all_named (mobile_cards s)" by (simp add: mobile_cards_def list_all_iff)
  then show ?thesis
    by (simp add: mobile_view_def mobile_loading_view_def mobile_failed_view_def mobile_completed_view_def
        mobile_heading_def finish_button_def)
qed

text \<open>The phone's page and its handlers agree: the button that finishes the session is enabled exactly
  when its click sends the completion; choosing a picture where the page lets one choose uploads it, or
  says on its card that it is no image; every run of the model is a run of the page, and every input has
  a name.\<close>

theorem mobile_page_agrees:
  "(mobile_page_shown s (Start Click_finish) \<longleftrightarrow> snd (mobile_start Click_finish s) = Some Complete)
   \<and> (if mobile_page_shown s (Start (Pick_capture k (Some f)))
      then case mobile_start (Pick_capture k (Some f)) s of
             (s', Some q) \<Rightarrow> q = Upload_capture k f \<and> k \<in> mp_uploading s'
           | (s', None) \<Rightarrow> shows_words (mobile_view expiry s') ''Please capture or select an image.''
      else mobile_start (Pick_capture k (Some f)) s = (s, None))
   \<and> (\<exists>ms'. flight_run mobile_start mobile_settle mobile_event ms' s
          = flight_run mobile_start mobile_settle mobile_event ms s
        \<and> all_offered (flight_step mobile_start mobile_settle mobile_event)
            (\<lambda>f. mobile_page_shown (fl_state f)) mobile_by_user
            ms' \<lparr>fl_state = s, fl_pending = [], fl_issued = []\<rparr>)
   \<and> all_named (mobile_view expiry s)"
proof (intro conjI)
  show "if mobile_page_shown s (Start (Pick_capture k (Some f)))
      then case mobile_start (Pick_capture k (Some f)) s of
             (s', Some q) \<Rightarrow> q = Upload_capture k f \<and> k \<in> mp_uploading s'
           | (s', None) \<Rightarrow> shows_words (mobile_view expiry s') ''Please capture or select an image.''
      else mobile_start (Pick_capture k (Some f)) s = (s, None)"
  proof (cases "mobile_page_shown s (Start (Pick_capture k (Some f)))")
    case True
    then have k: "mobile_shown s" "k \<in> set (required_kinds s)" "k \<notin> mp_uploading s"
      by (simp_all add: mobile_shown_start)
    let ?s' = "s\<lparr>mp_errors := (mp_errors s)(k \<mapsto> ''Please capture or select an image.'')\<rparr>"
    have "''Please capture or select an image.'' \<in> set (words (mobile_card ?s' k))"
      by (simp add: mobile_card_def received_card_def awaited_card_def alert_if_def truthy_def)
    moreover have "k \<in> set (required_kinds ?s')" using k(2) by (simp add: required_kinds_def)
    ultimately have "''Please capture or select an image.'' \<in> set (words (mobile_cards ?s'))"
      by (auto simp: mobile_cards_def)
    then have "shows_words (mobile_view expiry ?s') ''Please capture or select an image.''"
      using k(1) by (auto simp: mobile_view_def mobile_shown_def shows_words_def)
    with k True show ?thesis
      by (simp add: mobile_start_def handle_capture_def)
  next
    case False
    then show ?thesis by (auto simp: mobile_shown_start mobile_start_def)
  qed
  show "mobile_page_shown s (Start Click_finish) \<longleftrightarrow> snd (mobile_start Click_finish s) = Some Complete"
    by (auto simp: mobile_shown_start mobile_start_def finish_capture_def)
qed (use mobile_screen.runs_on_page mobile_view_named in blast)+

end
