(* ===== verification/Request_View.thy ===== *)
theory Request_View
  imports Created_Request Views
begin

text \<open>
  What components/admin/create-verification-request-form.tsx renders: the form, and the panel with the
  new link that takes its place. \<open>parse\<close> and \<open>fmt\<close> are \<open>new Date(text).getTime()\<close> and the locale's date
  format. The page offers exactly the events the model of Request_Form reacts to.
\<close>

type_synonym request_move = "(int, js_error + json, request_input) move"

section \<open>Pieces\<close>

definition section_label :: "string \<Rightarrow> 'e view" where
  "section_label title = Node ''SectionLabel'' [Words title]"

definition field_label :: "string \<Rightarrow> 'e view" where
  "field_label title = Node ''FieldLabel'' [Words title]"

definition admin_field :: "string \<Rightarrow> string \<Rightarrow> (string \<Rightarrow> 'e) \<Rightarrow> string \<Rightarrow> bool \<Rightarrow> 'e view" where
  "admin_field caption v typed hint required =
     Node ''label''
       (field_label caption # only_if required [Words ''*'']
        @ [Field caption v False typed, Words hint])"

definition requirement_toggle :: "string \<Rightarrow> bool \<Rightarrow> 'e \<Rightarrow> 'e view" where
  "requirement_toggle caption checked e =
     Node ''button'' (Control caption False e # only_if checked [Node ''Check'' []])"

definition security_point :: "string \<Rightarrow> 'e view" where
  "security_point t = Node ''SecurityPoint'' [Words t]"

definition result_meta :: "string \<Rightarrow> string \<Rightarrow> 'e view" where
  "result_meta caption v = Node ''ResultMeta'' [Words caption, Words v]"

fun period_text :: "expiration_period \<Rightarrow> string" where
  "period_text AM = ''AM''"
| "period_text PM = ''PM''"

section \<open>The form\<close>

definition binding_fields :: "request_form \<Rightarrow> request_move view" where
  "binding_fields s =
     Node ''div''
      [section_label ''Discord identity binding'',
       admin_field ''Discord User ID'' (rf_discord_id s) (\<lambda>t. Other (Type_discord_id t))
         ''Immutable account identifier used for the OAuth match. Do not use a username here.'' True,
       admin_field ''Username snapshot'' (rf_username s) (\<lambda>t. Other (Type_username t))
         (''Display-only convenience field. A username change does not alter the Discord ID ''
          @ ''binding.'') False]"

definition period_choice :: "request_form \<Rightarrow> request_move view" where
  "period_choice s =
     Choice ''Expiration AM or PM'' (period_text (rf_period s)) False
       (map (\<lambda>p. (period_text p, Other (Choose_period p))) [AM, PM])"

definition expiration_inputs :: "request_form \<Rightarrow> request_move view" where
  "expiration_inputs s =
     Node ''div''
      [field_label ''Expiration'',
       Words ''Expiration date'',
       Field ''Expiration date in day month year format'' (rf_date s) False (\<lambda>t. Other (Type_date t)),
       Gesture (Other Blur_date),
       Words ''Expiration time'',
       Field ''Expiration time in twelve hour format'' (rf_time s) False (\<lambda>t. Other (Type_time t)),
       Gesture (Other Blur_time),
       Words ''AM or PM'',
       period_choice s,
       Words (''Optional. Type a local date and time, for example 31/08/2026 at 09:30 PM. Leave the date and ''
              @ ''time empty to use the default request lifetime.'')]"

definition lifetime_fields :: "request_form \<Rightarrow> request_move view" where
  "lifetime_fields s =
     Node ''div''
      [section_label ''Request lifetime'',
       expiration_inputs s,
       Node ''label''
        [field_label ''Max submissions'',
         Field ''Max submissions'' (show_int (rf_max s)) False (\<lambda>t. Other (Type_max t)),
         Words ''Limits repeated full submissions for this request.'']]"

definition group_description :: "string \<Rightarrow> string" where
  "group_description title =
     (if title = ''Identity details''
      then ''Information the applicant enters directly in the verification form.''
      else ''Private identity evidence that must be uploaded before submission.'')"

definition requirement_group :: "request_form \<Rightarrow> string \<times> requirement_key list \<Rightarrow> request_move view" where
  "requirement_group s g =
     Node ''div''
       ([Words (fst g), Words (group_description (fst g))]
        @ map (\<lambda>k. requirement_toggle (format_requirement_label (requirement_name k))
                     (requires k (rf_requirements s)) (Other (Toggle k))) (snd g))"

definition requirement_fields :: "request_form \<Rightarrow> request_move view" where
  "requirement_fields s =
     Node ''div''
       ([section_label ''Verification requirements'',
         Words ''Request only the information and evidence needed for this verification.'',
         Words (show_nat (selected_requirement_count (rf_requirements s)) @ '' selected'')]
        @ map (requirement_group s) requirement_groups
        @ only_if (needs_liveness (rf_requirements s))
            [Words (''Only enable liveness when the backend actually performs a liveness check. A normal ''
                    @ ''static selfie or camera capture is not, by itself, proof of liveness.'')])"

definition security_model :: "'e view" where
  "security_model =
     Node ''aside''
      (Words ''Security model''
       # map security_point
          [''The request is bound to one immutable Discord User ID.'',
           ''The verification URL does not need to expose that Discord ID.'',
           ''Discord OAuth must match before identity submission unlocks.'',
           ''The private link grants permission to attempt verification, not server access.'',
           ''Controlled Discord access remains locked until explicit approval.'']
       @ [Words (''The raw private link should be handled like a temporary secret. Share it only with the ''
                 @ ''intended applicant through an appropriate private channel.'')])"

definition request_error :: "request_form \<Rightarrow> 'e view list" where
  "request_error s = (if truthy (rf_error s) then [Node ''alert'' [Words (the (rf_error s))]] else [])"

definition request_form_view :: "int \<Rightarrow> request_form \<Rightarrow> request_move view" where
  "request_form_view now s =
     Node ''AdminShell''
      [Control ''Back to queue'' False (Other Back_to_queue),
       Node ''header''
        [Words ''One-person verification link'', Node ''h1'' [Words ''Create verification request''],
         Words (''Create one private request bound to exactly one immutable Discord User ID. The link only ''
                @ ''permits that account to attempt verification.'')],
       Node ''section''
        ([Words ''Request configuration'',
          Words ''Define the account binding, expiration, and evidence required for this applicant.'',
          binding_fields s, lifetime_fields s, requirement_fields s]
         @ request_error s
         @ [Control (if rf_creating s then ''Creating private request'' else ''Create private request'')
              (rf_creating s) (Start now)]),
       security_model]"

section \<open>The created request\<close>

text \<open>The members \<open>verification_url\<close> and \<open>expires_at\<close>, strings in the declared type of the answer.\<close>

definition member_text :: "json \<Rightarrow> string \<Rightarrow> string" where
  "member_text j k = (case js_get j k of Inr (Some (JStr t)) \<Rightarrow> t | _ \<Rightarrow> [])"

definition format_created_expiration :: "(string \<Rightarrow> int option) \<Rightarrow> (int \<Rightarrow> string) \<Rightarrow> string \<Rightarrow> string" where
  "format_created_expiration parse fmt v = (case parse v of None \<Rightarrow> ''Configured'' | Some d \<Rightarrow> fmt d)"

definition created_link :: "copy_panel \<Rightarrow> json \<Rightarrow> request_move view" where
  "created_link c j =
     Node ''div''
      ([Words ''Private verification URL'', Words (member_text j ''verification_url'')]
       @ (if truthy (cl_error c) then [Node ''alert'' [Words (the (cl_error c))]] else [])
       @ [Control (copy_label c) False (Other Copy_link),
          Anchor ''Open verification page'' (member_text j ''verification_url'')])"

definition created_notes :: "(string \<Rightarrow> int option) \<Rightarrow> (int \<Rightarrow> string) \<Rightarrow> json \<Rightarrow> request_move view" where
  "created_notes parse fmt j =
     Node ''div''
      [result_meta ''Expiration'' (format_created_expiration parse fmt (member_text j ''expires_at'')),
       result_meta ''Access state'' ''Locked until approval'',
       Words (''If this private link is exposed or sent to the wrong person, revoke or replace the request ''
              @ ''rather than relying on secrecy alone. The Discord OAuth ID match remains the identity ''
              @ ''binding.''),
       Control ''Create another request'' False (Other Create_another)]"

definition created_request_view ::
  "(string \<Rightarrow> int option) \<Rightarrow> (int \<Rightarrow> string) \<Rightarrow> copy_panel \<Rightarrow> json \<Rightarrow> request_move view" where
  "created_request_view parse fmt c j =
     Node ''div''
      [Control ''Back to queue'' False (Other Back_to_queue),
       Node ''section''
        [Words ''Private request created'', Node ''h1'' [Words ''Copy the verification link now''],
         Words (''Treat this URL as a temporary private secret and send it only to the intended applicant. ''
                @ ''The applicant must still authenticate with the matching Discord User ID.''),
         created_link c j, created_notes parse fmt j]]"

definition request_view ::
  "(string \<Rightarrow> int option) \<Rightarrow> (int \<Rightarrow> string) \<Rightarrow> copy_panel \<Rightarrow> int \<Rightarrow> request_form \<Rightarrow> request_move view" where
  "request_view parse fmt c now s =
     (case rf_created s of
        Some j \<Rightarrow> Node ''AdminShell'' [created_request_view parse fmt c j]
      | None \<Rightarrow> request_form_view now s)"

section \<open>What the page offers\<close>

lemma offers_toggles:
  "list_ex (\<lambda>v. offers v e) (map (requirement_group s) requirement_groups) \<longleftrightarrow> (\<exists>k. e = Other (Toggle k))"
  by (auto simp: requirement_group_def requirement_groups_def requirement_toggle_def)
    (metis requirement_key.exhaust)

lemma offers_period:
  "offers (period_choice s) e \<longleftrightarrow> (\<exists>p. p \<noteq> rf_period s \<and> e = Other (Choose_period p))"
  by (cases "rf_period s"; auto simp: period_choice_def) (metis expiration_period.exhaust)+

lemma offers_request_form:
  "offers (request_form_view now s) e \<longleftrightarrow>
     e = Other Back_to_queue \<or> (\<exists>t. e = Other (Type_discord_id t)) \<or> (\<exists>t. e = Other (Type_username t))
     \<or> (\<exists>t. e = Other (Type_date t)) \<or> e = Other Blur_date \<or> (\<exists>t. e = Other (Type_time t)) \<or> e = Other Blur_time
     \<or> (\<exists>p. p \<noteq> rf_period s \<and> e = Other (Choose_period p)) \<or> (\<exists>t. e = Other (Type_max t))
     \<or> (\<exists>k. e = Other (Toggle k)) \<or> e = Start now \<and> \<not> rf_creating s"
proof -
  have "offers (expiration_inputs s) e \<longleftrightarrow> (\<exists>t. e = Other (Type_date t)) \<or> e = Other Blur_date
      \<or> (\<exists>t. e = Other (Type_time t)) \<or> e = Other Blur_time \<or> (\<exists>p. p \<noteq> rf_period s \<and> e = Other (Choose_period p))"
    by (auto simp: expiration_inputs_def offers_period field_label_def)
  moreover have "offers (requirement_fields s) e \<longleftrightarrow> (\<exists>k. e = Other (Toggle k))"
    by (simp add: requirement_fields_def offers_toggles section_label_def)
  moreover have "\<not> offers security_model e" "\<not> list_ex (\<lambda>v. offers v e) (request_error s)"
    by (simp_all add: security_model_def security_point_def request_error_def)
  moreover have "offers (binding_fields s) e \<longleftrightarrow>
      (\<exists>t. e = Other (Type_discord_id t)) \<or> (\<exists>t. e = Other (Type_username t))"
    by (auto simp: binding_fields_def admin_field_def section_label_def field_label_def)
  ultimately show ?thesis
    by (auto simp: request_form_view_def lifetime_fields_def section_label_def field_label_def)
qed

lemma offers_created_request:
  "offers (created_request_view parse fmt c j) e \<longleftrightarrow>
     e = Other Back_to_queue \<or> e = Other Copy_link \<or> e = Other Create_another"
  by (auto simp: created_request_view_def created_link_def created_notes_def result_meta_def)

definition request_shown ::
  "(string \<Rightarrow> int option) \<Rightarrow> (int \<Rightarrow> string) \<Rightarrow> request_form \<Rightarrow> request_move \<Rightarrow> bool" where
  "request_shown parse fmt s m \<longleftrightarrow> (\<exists>c now. offers (request_view parse fmt c now s) m)"

fun by_request_user :: "request_move \<Rightarrow> bool" where
  "by_request_user (Settle k r) = False"
| "by_request_user m = True"

lemma request_shown_cases:
  "request_shown parse fmt s m \<longleftrightarrow>
     (case rf_created s of
        None \<Rightarrow> (\<exists>now. offers (request_form_view now s) m)
      | Some j \<Rightarrow> m = Other Back_to_queue \<or> m = Other Copy_link \<or> m = Other Create_another)"
  by (auto simp: request_shown_def request_view_def offers_created_request split: option.splits)

lemma request_shown_start:
  "request_shown parse fmt s (Start now) \<longleftrightarrow> \<not> rf_creating s \<and> rf_created s = None"
  by (auto simp: request_shown_cases offers_request_form split: option.splits)

interpretation request_page: screen
  "request_submit to_utc to_local to_iso" request_settle request_event
  "request_shown parse fmt" by_request_user
  for to_utc to_local :: "int \<Rightarrow> int" and to_iso fmt :: "int \<Rightarrow> string" and parse :: "string \<Rightarrow> int option"
proof
  fix to_utc to_local to_iso fmt parse s and m :: request_move
  assume h: "by_request_user m" "\<not> request_shown parse fmt s m"
  show "ineffective (request_submit to_utc to_local to_iso) request_event m s"
  proof (cases m)
    case (Start now)
    then show ?thesis using h(2)
      by (auto simp: ineffective_def request_shown_start request_submit_def)
  next
    case (Other e)
    then show ?thesis using h
      by (cases e) (auto simp: ineffective_def request_shown_cases offers_request_form while_editing_def
          split: option.splits)
  qed (use h in simp)
qed

section \<open>Properties\<close>

lemma request_view_named: "all_named (request_view parse fmt c now s)"
proof -
  have "all_named (requirement_fields s)"
    by (simp add: requirement_fields_def requirement_groups_def requirement_group_def section_label_def
        requirement_toggle_def format_requirement_label_def replace_char_def)
  then show ?thesis
    by (simp add: request_view_def request_form_view_def created_request_view_def created_link_def created_notes_def binding_fields_def
        admin_field_def lifetime_fields_def expiration_inputs_def period_choice_def security_model_def security_point_def
        section_label_def field_label_def result_meta_def request_error_def copy_label_def
        split: option.split)
qed

text \<open>The form that creates requests and its handlers agree: a click on the button either sends the
  request and disables the button, or sends nothing and the page shows the validation's message; a click
  the page does not offer does nothing; every run of the model is a run of the page; and every control
  has a name.\<close>

theorem request_page_agrees:
  "(if request_shown parse fmt s (Start now)
    then case request_submit to_utc to_local to_iso now s of
           (s', Some p) \<Rightarrow> \<not> request_shown parse fmt s' (Start later)
         | (s', None) \<Rightarrow>
             (\<exists>message. validate_request to_utc to_local now s = Some message
                \<and> shows_words (request_view parse fmt c later s') message)
    else request_submit to_utc to_local to_iso now s = (s, None))
   \<and> (\<exists>ms'. flight_run (request_submit to_utc to_local to_iso) request_settle request_event ms' s
          = flight_run (request_submit to_utc to_local to_iso) request_settle request_event ms s
        \<and> all_offered (flight_step (request_submit to_utc to_local to_iso) request_settle request_event)
            (\<lambda>f. request_shown parse fmt (fl_state f)) by_request_user ms' \<lparr>fl_state = s, fl_pending = [], fl_issued = []\<rparr>)
   \<and> all_named (request_view parse fmt c now s)"
proof (intro conjI)
  show "if request_shown parse fmt s (Start now)
    then case request_submit to_utc to_local to_iso now s of
           (s', Some p) \<Rightarrow> \<not> request_shown parse fmt s' (Start later)
         | (s', None) \<Rightarrow>
             (\<exists>message. validate_request to_utc to_local now s = Some message
                \<and> shows_words (request_view parse fmt c later s') message)
    else request_submit to_utc to_local to_iso now s = (s, None)"
  proof (cases "\<not> rf_creating s \<and> rf_created s = None")
    case True
    show ?thesis
    proof (cases "validate_request to_utc to_local now s")
      case None
      then show ?thesis using True by (simp add: request_submit_valid request_shown_start)
    next
      case (Some message)
      moreover from Some have "message \<noteq> []"
        by (auto simp: validate_request_def Let_def split: if_splits option.splits)
      ultimately show ?thesis using True
        by (simp add: request_submit_def request_shown_start request_view_def request_form_view_def
            shows_words_def request_error_def truthy_def)
    qed
  next
    case False
    then show ?thesis by (auto simp: request_shown_start request_submit_def)
  qed
qed (use request_view_named request_page.runs_on_page in blast)+

end
