(* ===== verification/Team_View.thy ===== *)
theory Team_View
  imports Team_Access Views Dates
begin

text \<open>
  What components/admin/admin-team-access.tsx renders, and that the page offers exactly the events the
  model of Team_Access reacts to. \<open>parse\<close> and \<open>fmt\<close> are \<open>new Date(text).getTime()\<close> and the locale's date
  format.
\<close>

section \<open>Cells\<close>

definition format_date_time :: "(string \<Rightarrow> int option) \<Rightarrow> (int \<Rightarrow> string) \<Rightarrow> string option \<Rightarrow> string" where
  "format_date_time parse fmt v =
     (if \<not> truthy v then ''Never''
      else case parse (the v) of None \<Rightarrow> ''Unknown'' | Some d \<Rightarrow> fmt d)"

fun role_text :: "admin_role \<Rightarrow> string" where
  "role_text Reviewer = ''Review verification cases with limited administrative authority.''"
| "role_text Admin = ''Manage verification operations and standard administration.''"
| "role_text Super_admin = ''Owner-level authority including Team & Access security controls.''"

definition role_options :: "admin_role list" where
  "role_options = [Reviewer, Admin, Super_admin]"

definition metric_card :: "string \<Rightarrow> string \<Rightarrow> 'e view" where
  "metric_card caption value = Node ''div'' [Words caption, Words value]"

definition role_badge :: "admin_role \<Rightarrow> 'e view" where
  "role_badge r = Node ''span'' [Words (role_label r)]"

type_synonym team_move = "(team_click, team_answer, team_input) move"

section \<open>Members\<close>

definition role_cell :: "team_page \<Rightarrow> team_member \<Rightarrow> team_move view" where
  "role_cell s m =
     (if is_super_admin s \<and> \<not> is_self s m
      then Choice [] (role_name (tm_role m)) (member_busy s m)
             (map (\<lambda>r. (role_name r, Start (Click_member m (Change_role r)))) role_options)
      else role_badge (tm_role m))"

definition access_controls :: "team_page \<Rightarrow> team_member \<Rightarrow> team_move view" where
  "access_controls s m =
     Node ''td''
       (if is_super_admin s
        then Control ''Revoke active sessions'' (member_busy s m) (Start (Click_member m Revoke_sessions))
          # only_if (\<not> is_self s m)
              [Control (if tm_active m then ''Disable'' else ''Enable'') (member_busy s m)
                 (Start (Click_member m (if tm_active m then Disable else Enable)))]
        else [Words ''Restricted''])"

definition member_state_cells ::
  "(string \<Rightarrow> int option) \<Rightarrow> (int \<Rightarrow> string) \<Rightarrow> team_member \<Rightarrow> 'e view list" where
  "member_state_cells parse fmt m =
     [Node ''td''
       [Words (if tm_mfa m then ''MFA enabled'' else ''MFA pending''),
        Words (''Security updated '' @ format_date_time parse fmt (tm_security_updated m))],
      Node ''td'' [Words (format_date_time parse fmt (tm_last_login m))],
      Node ''td'' [Words (if tm_active m then ''Active'' else ''Disabled'')]]"

definition team_member_row ::
  "(string \<Rightarrow> int option) \<Rightarrow> (int \<Rightarrow> string) \<Rightarrow> team_page \<Rightarrow> team_member \<Rightarrow> team_move view" where
  "team_member_row parse fmt s m =
     Node ''tr''
      ([Node ''td''
         ([Words (upper (take 2 (if tm_display_name m \<noteq> [] then tm_display_name m else tm_email m))),
           Words (if tm_display_name m \<noteq> [] then tm_display_name m else ''Administrator'')]
          @ only_if (is_self s m) [Words ''You'']
          @ [Words (tm_email m)]),
        Node ''td'' [role_cell s m]]
       @ member_state_cells parse fmt m @ [access_controls s m])"

definition members_table ::
  "(string \<Rightarrow> int option) \<Rightarrow> (int \<Rightarrow> string) \<Rightarrow> team_page \<Rightarrow> team_move view" where
  "members_table parse fmt s =
     (if ta_members s = [] then Words ''No administrators found''
      else Node ''table''
             (Node ''thead'' (map Words [''Administrator'', ''Role'', ''Security'', ''Last login'', ''Status'',
                                        ''Access controls''])
              # map (team_member_row parse fmt s) (ta_members s)))"

definition team_members_section ::
  "(string \<Rightarrow> int option) \<Rightarrow> (int \<Rightarrow> string) \<Rightarrow> team_page \<Rightarrow> team_move view" where
  "team_members_section parse fmt s =
     Node ''section''
      ([Node ''h2'' [Words ''Administrator team''],
        Words (''Access is enforced by the backend. Sensitive changes require administrator step-up ''
               @ ''verification.'')]
       @ only_if (\<not> is_super_admin s) [Words ''Read only'']
       @ [members_table parse fmt s])"

section \<open>Invitations\<close>

definition invitation_details ::
  "(string \<Rightarrow> int option) \<Rightarrow> (int \<Rightarrow> string) \<Rightarrow> team_invitation \<Rightarrow> 'e view" where
  "invitation_details parse fmt i =
     Node ''div''
      [Words (iv_email i), Words (role_label (iv_role i)),
       Words (''Created '' @ format_date_time parse fmt (Some (iv_created_at i))),
       Words (''Expires '' @ format_date_time parse fmt (Some (iv_expires_at i)))]"

definition invitation_row ::
  "(string \<Rightarrow> int option) \<Rightarrow> (int \<Rightarrow> string) \<Rightarrow> team_page \<Rightarrow> team_invitation \<Rightarrow> team_move view" where
  "invitation_row parse fmt s i =
     (let busy = (ta_busy s = Some (invite_key (iv_id i)))
      in Node ''div''
          ([invitation_details parse fmt i, Words (invitation_state (ta_time s) i)]
           @ only_if (is_super_admin s \<and> invitation_pending (ta_time s) i)
               [Control ''Resend'' busy (Start (Click_resend i)),
                Control ''Revoke'' busy (Start (Click_revoke i))]))"

definition invitations_section ::
  "(string \<Rightarrow> int option) \<Rightarrow> (int \<Rightarrow> string) \<Rightarrow> team_page \<Rightarrow> team_move view" where
  "invitations_section parse fmt s =
     Node ''section''
      ([Node ''h2'' [Words ''Administrator invitations''],
        Words ''Track pending, accepted, expired and revoked access invitations.'']
       @ (if ta_invitations s = []
          then [Words ''No invitations yet'', Words ''New administrator invitations will appear here.'']
          else map (invitation_row parse fmt s) (ta_invitations s)))"

definition invite_role_button :: "team_page \<Rightarrow> admin_role \<Rightarrow> team_move view" where
  "invite_role_button s r =
     Control (role_label r @ '' '' @ role_text r) (ta_invite_submitting s) (Other (Choose_invite_role r))"

definition invite_heading :: "team_page \<Rightarrow> team_move view" where
  "invite_heading s =
     Node ''div''
      [Words ''Secure onboarding'', Node ''h2'' [Words ''Invite administrator''],
       Words ''The invitation is bound to the exact email address and selected administrator role.'',
       Control ''Close'' (ta_invite_submitting s) (Other Close_invite)]"

definition invite_footer :: "int \<Rightarrow> team_page \<Rightarrow> team_move view" where
  "invite_footer now s =
     Node ''div''
      [Control ''Cancel'' (ta_invite_submitting s) (Other Close_invite),
       Control (if ta_invite_submitting s then ''Verifying'' @ ellipsis else ''Create invitation'')
         (ta_invite_submitting s \<or> trim (ta_invite_email s) = []) (Start (Submit_invite now))]"

definition invite_admin_dialog :: "int \<Rightarrow> team_page \<Rightarrow> team_move view" where
  "invite_admin_dialog now s =
     Node ''dialog''
      [invite_heading s,
       Node ''form''
        ([Field ''Administrator email'' (ta_invite_email s) (ta_invite_submitting s)
            (\<lambda>t. Other (Type_invite_email t)),
          Words ''Access role'']
         @ map (invite_role_button s) role_options
         @ [invite_footer now s])]"

section \<open>The page\<close>

definition team_notice_view :: "team_notice \<Rightarrow> 'e view" where
  "team_notice_view n = Node ''div'' [Words (case n of Team_success t \<Rightarrow> t | Team_error t \<Rightarrow> t)]"

definition team_metrics :: "team_page \<Rightarrow> 'e view" where
  "team_metrics s =
     (let value = (\<lambda>n. if ta_loading s then em_dash else show_nat n)
      in Node ''section''
          [metric_card ''Team members'' (value (length (ta_members s))),
           metric_card ''Active access'' (value (active_members s)),
           metric_card ''Pending invitations'' (value (length (pending_invitations s)))])"

definition team_view ::
  "(string \<Rightarrow> int option) \<Rightarrow> (int \<Rightarrow> string) \<Rightarrow> int \<Rightarrow> team_page \<Rightarrow> team_move view" where
  "team_view parse fmt now s =
     Node ''AdminShell''
      ([Node ''header''
         ([Words ''Administration security'', Node ''h1'' [Words ''Team & Access''],
           Words ''Manage administrator access, security roles, invitations and active sessions.'',
           Control ''Refresh'' (ta_refreshing s \<or> ta_loading s) (Other Click_reload)]
          @ only_if (is_super_admin s) [Control ''Invite administrator'' False (Other Open_invite)])]
       @ (case ta_notice s of None \<Rightarrow> [] | Some n \<Rightarrow> [team_notice_view n])
       @ [team_metrics s]
       @ (if ta_loading s then [Words (''Loading secure team data'' @ ellipsis)]
          else [team_members_section parse fmt s, invitations_section parse fmt s])
       @ only_if (ta_invite_open s) [invite_admin_dialog now s])"

section \<open>What the page offers\<close>

lemma offers_member_row:
  "offers (team_member_row parse fmt s m) e \<longleftrightarrow>
     (\<exists>a. e = Start (Click_member m a) \<and> member_offers s m a \<and> is_super_admin s \<and> \<not> member_busy s m)"
proof -
  have "offers (role_cell s m) e \<longleftrightarrow>
      (\<exists>r. e = Start (Click_member m (Change_role r)) \<and> r \<noteq> tm_role m \<and> \<not> is_self s m
         \<and> is_super_admin s \<and> \<not> member_busy s m)"
    by (cases "tm_role m"; auto simp: role_cell_def role_badge_def role_options_def)
      (metis admin_role.exhaust)+
  moreover have "offers (access_controls s m) e \<longleftrightarrow>
      (\<exists>a. e = Start (Click_member m a) \<and> (a = Revoke_sessions \<or> a = Disable \<and> \<not> is_self s m \<and> tm_active m
         \<or> a = Enable \<and> \<not> is_self s m \<and> \<not> tm_active m) \<and> is_super_admin s \<and> \<not> member_busy s m)"
    by (auto simp: access_controls_def)
  ultimately have "offers (team_member_row parse fmt s m) e \<longleftrightarrow>
      (\<exists>a. e = Start (Click_member m a) \<and> (a = Revoke_sessions \<or> a = Disable \<and> \<not> is_self s m \<and> tm_active m
         \<or> a = Enable \<and> \<not> is_self s m \<and> \<not> tm_active m \<or> (\<exists>r. a = Change_role r \<and> r \<noteq> tm_role m \<and> \<not> is_self s m))
         \<and> is_super_admin s \<and> \<not> member_busy s m)"
    by (auto simp: team_member_row_def member_state_cells_def)
  moreover have "member_offers s m a \<longleftrightarrow> (a = Revoke_sessions \<or> a = Disable \<and> \<not> is_self s m \<and> tm_active m
         \<or> a = Enable \<and> \<not> is_self s m \<and> \<not> tm_active m \<or> (\<exists>r. a = Change_role r \<and> r \<noteq> tm_role m \<and> \<not> is_self s m))" for a
    by (cases a) (auto simp: member_offers_def)
  ultimately show ?thesis by simp
qed

lemma offers_members:
  "offers (team_members_section parse fmt s) e \<longleftrightarrow>
     (\<exists>m a. m \<in> set (ta_members s) \<and> e = Start (Click_member m a) \<and> member_offers s m a
        \<and> is_super_admin s \<and> \<not> member_busy s m)"
  by (auto simp: team_members_section_def members_table_def list_ex_iff offers_member_row)

lemma offers_invitations:
  "offers (invitations_section parse fmt s) e \<longleftrightarrow>
     (\<exists>i \<in> set (ta_invitations s). (e = Start (Click_resend i) \<or> e = Start (Click_revoke i))
        \<and> is_super_admin s \<and> invitation_pending (ta_time s) i \<and> ta_busy s \<noteq> Some (invite_key (iv_id i)))"
  by (auto simp: invitations_section_def list_ex_iff invitation_row_def invitation_details_def Let_def)

lemma offers_dialog:
  "offers (invite_admin_dialog now s) e \<longleftrightarrow>
     \<not> ta_invite_submitting s \<and> (e = Other Close_invite \<or> (\<exists>t. e = Other (Type_invite_email t))
       \<or> (\<exists>r. e = Other (Choose_invite_role r))
       \<or> e = Start (Submit_invite now) \<and> trim (ta_invite_email s) \<noteq> [])"
proof -
  have "list_ex (\<lambda>v. offers v e) (map (invite_role_button s) role_options) \<longleftrightarrow>
      \<not> ta_invite_submitting s \<and> (\<exists>r. e = Other (Choose_invite_role r))"
    by (auto simp: invite_role_button_def role_options_def) (metis admin_role.exhaust)+
  then show ?thesis by (auto simp: invite_admin_dialog_def invite_heading_def invite_footer_def)
qed

lemma offers_team_view:
  "offers (team_view parse fmt now s) e \<longleftrightarrow>
     e = Other Click_reload \<and> \<not> ta_refreshing s \<and> \<not> ta_loading s
     \<or> e = Other Open_invite \<and> is_super_admin s
     \<or> \<not> ta_loading s \<and> (offers (team_members_section parse fmt s) e \<or> offers (invitations_section parse fmt s) e)
     \<or> ta_invite_open s \<and> offers (invite_admin_dialog now s) e"
  by (auto simp: team_view_def team_notice_view_def team_metrics_def metric_card_def Let_def
      split: option.splits)

definition team_shown ::
  "(string \<Rightarrow> int option) \<Rightarrow> (int \<Rightarrow> string) \<Rightarrow> team_page \<Rightarrow> team_move \<Rightarrow> bool" where
  "team_shown parse fmt s m \<longleftrightarrow> (\<exists>now. offers (team_view parse fmt now s) m)"

fun team_by_user :: "team_move \<Rightarrow> bool" where
  "team_by_user (Start c) = True"
| "team_by_user (Other (Loaded_team r)) = False"
| "team_by_user (Other e) = True"
| "team_by_user (Settle k r) = False"

lemma team_shown_start: "team_shown parse fmt s (Start c) \<longleftrightarrow> snd (team_start to_iso c s) \<noteq> None"
proof (cases c)
  case (Click_member m a)
  then show ?thesis
    by (auto simp: team_shown_def offers_team_view offers_members offers_invitations offers_dialog
        team_start_def perform_sensitive_action_def)
next
  case (Submit_invite now)
  then show ?thesis
    by (auto simp: team_shown_def offers_team_view offers_members offers_invitations offers_dialog
        team_start_def submit_invite_def Let_def)
qed (auto simp: team_shown_def offers_team_view offers_members offers_invitations offers_dialog
        team_start_def invitation_action_def)

lemma team_start_none: "snd (team_start to_iso c s) = None \<Longrightarrow> team_start to_iso c s = (s, None)"
  by (cases c) (auto simp: team_start_def perform_sensitive_action_def invitation_action_def
      submit_invite_def Let_def split: if_splits)

interpretation team_page: screen
  "team_start to_iso" team_settle team_event "team_shown parse fmt" team_by_user
  for to_iso :: "int \<Rightarrow> string" and parse :: "string \<Rightarrow> int option" and fmt :: "int \<Rightarrow> string"
proof
  fix to_iso parse fmt s and m :: team_move
  assume h: "team_by_user m" "\<not> team_shown parse fmt s m"
  show "ineffective (team_start to_iso) team_event m s"
  proof (cases m)
    case (Start c)
    then have "snd (team_start to_iso c s) = None" using h(2) team_shown_start by blast
    then show ?thesis using Start team_start_none by (simp add: ineffective_def)
  next
    case (Other e)
    then show ?thesis using h
      by (cases e) (auto simp: ineffective_def team_shown_def offers_team_view offers_dialog)
  qed (use h in simp)
qed

section \<open>Properties\<close>


text \<open>Every control has a name but the role selects, which are the only controls of the page without one.\<close>

lemma team_controls_named:
  "all_named (team_view parse fmt now s) \<longleftrightarrow>
     ta_loading s \<or> \<not> (\<exists>m \<in> set (ta_members s). is_super_admin s \<and> \<not> is_self s m)"
proof -
  have "all_named (team_member_row parse fmt s m) \<longleftrightarrow> \<not> (is_super_admin s \<and> \<not> is_self s m)" for m
    by (simp add: team_member_row_def member_state_cells_def role_cell_def role_badge_def access_controls_def)
  moreover have "all_named (invitation_row parse fmt s i)" for i
    by (simp add: invitation_row_def invitation_details_def Let_def)
  moreover have "all_named (invite_admin_dialog now s)"
    by (simp add: invite_admin_dialog_def invite_heading_def invite_footer_def invite_role_button_def role_options_def)
  ultimately show ?thesis
    by (auto simp: team_view_def team_members_section_def members_table_def invitations_section_def team_notice_view_def
        team_metrics_def metric_card_def list_all_iff Let_def split: option.splits)
qed

end
