(* ===== verification/Queue_View.thy ===== *)
theory Queue_View
  imports Verification_Queue Views Dates
begin

text \<open>
  What components/admin/verification-queue.tsx renders, and that the page offers exactly the events the
  model of Verification_Queue reacts to. \<open>date_value\<close> is \<open>new Date(text).getTime()\<close>, \<open>now\<close> the time of the
  rendering, \<open>show_date\<close> the locale's date format.
\<close>

type_synonym queue_move = "(queue_click, queue_answer, queue_input) move"

section \<open>The elements\<close>

definition status_badge :: "verification_status \<Rightarrow> 'e view" where
  "status_badge st = Node ''AdminStatusBadge'' [Words (fst (admin_status_config st))]"

definition stat_card :: "string \<Rightarrow> string \<Rightarrow> 'e view" where
  "stat_card caption value = Node ''div'' [Words caption, Words value]"

definition empty_queue :: "bool \<Rightarrow> 'e view" where
  "empty_queue filtered =
     Node ''div''
      [Words (if filtered then ''No matching cases'' else ''No verification cases''),
       Words (if filtered
              then ''No verification requests match the current search and status filters.''
              else ''There are currently no verification cases available in this queue.'')]"

definition queue_action :: "bool \<Rightarrow> queue_item \<Rightarrow> queue_move view" where
  "queue_action claiming i =
     (if qi_status i = Queued
      then Control (if claiming then ''Claiming'' else ''Claim'') claiming (Start (Click_claim (qi_id i)))
      else Control ''Open'' False (Other (Open_case (qi_id i))))"

definition queue_account_cell :: "queue_item \<Rightarrow> 'e view" where
  "queue_account_cell i =
     Node ''td''
      [Words ''DC'',
       Words (if truthy (qi_discord_username i) then CHR ''@'' # the (qi_discord_username i)
              else ''Unknown username''),
       Words (qi_discord_user_id i)]"

definition queue_row ::
  "(string \<Rightarrow> int option) \<Rightarrow> (string \<Rightarrow> string) \<Rightarrow> int \<Rightarrow> bool \<Rightarrow> queue_item \<Rightarrow> queue_move view" where
  "queue_row date_value show_date now claiming i =
     Node ''tr''
      [queue_account_cell i,
       Node ''td'' [status_badge (qi_status i)],
       Node ''td'' [Words (format_waiting_duration date_value now (qi_queue_entered_at i))],
       Node ''td'' [Words (show_date (qi_created_at i))],
       Node ''td'' [Words (show_date (qi_expires_at i))],
       Node ''td'' [Words (coalesce (qi_created_by_name i) em_dash)],
       Node ''td'' [Words (coalesce (qi_reviewer_name i) ''Unassigned'')],
       Node ''td'' [Words (show_date (qi_last_activity_at i))],
       Node ''td'' [queue_action claiming i]]"

definition filter_button :: "verification_status \<times> string \<Rightarrow> queue_move view" where
  "filter_button f = Control (snd f) False (Other (Toggle_status (fst f)))"

definition queue_filters :: "queue_page \<Rightarrow> queue_move view" where
  "queue_filters s =
     Node ''section''
      [Field ''Search verification queue'' (vq_search s) False (\<lambda>t. Other (Type_search t)),
       Control ''Refresh queue'' False (Start Click_refresh),
       Node ''div''
        (Words ''Status'' # map filter_button status_filters
         @ only_if (length (vq_statuses s) > 0) [Control ''Clear filters'' False (Other Clear_filters)])]"

definition queue_header :: "queue_page \<Rightarrow> queue_move view" where
  "queue_header s =
     Node ''header''
      [Words ''Verification operations'', Node ''h1'' [Words ''Verification queue''],
       Words (''Review submitted verification cases. Queue age and submission time should guide ''
              @ ''prioritization before claiming a case.''),
       stat_card ''Queued here'' (show_nat (visible_queued_count s)),
       stat_card ''Results'' (show_int (vq_total s)),
       Control ''Create request'' False (Other Create_request)]"

definition queue_headings :: "string list" where
  "queue_headings =
     [''Discord account'', ''Status'', ''Waiting'', ''Created'', ''Expires'', ''Created by'', ''Reviewer'',
      ''Last activity'', []]"

definition queue_body ::
  "(string \<Rightarrow> int option) \<Rightarrow> (string \<Rightarrow> string) \<Rightarrow> int \<Rightarrow> queue_page \<Rightarrow> queue_move view list" where
  "queue_body date_value show_date now s =
     (if vq_loading s \<and> vq_items s = [] then [Words ''Loading verification queue'']
      else if vq_items s = [] then [empty_queue (trim (vq_search s) \<noteq> [] \<or> length (vq_statuses s) > 0)]
      else map (\<lambda>i. queue_row date_value show_date now (vq_claiming s = Some (qi_id i)) i) (vq_items s))"

definition queue_view ::
  "(string \<Rightarrow> int option) \<Rightarrow> (string \<Rightarrow> string) \<Rightarrow> int \<Rightarrow> queue_page \<Rightarrow> queue_move view" where
  "queue_view date_value show_date now s =
     Node ''AdminShell''
      ([queue_header s, queue_filters s]
       @ (if truthy (vq_error s) then [Node ''alert'' [Words (the (vq_error s))]] else [])
       @ [Node ''div''
           ([Words ''Review cases'', Words ''Claim queued cases only when ready to begin review.'']
            @ only_if (vq_loading s) [Words ''Refreshing queue'']),
          Node ''table''
           [Node ''thead'' (map Words queue_headings),
            Node ''tbody'' (queue_body date_value show_date now s)]])"

section \<open>What the page offers\<close>

lemma offers_queue_row:
  "offers (queue_row date_value show_date now claiming i) e \<longleftrightarrow>
     (if qi_status i = Queued then e = Start (Click_claim (qi_id i)) \<and> \<not> claiming
      else e = Other (Open_case (qi_id i)))"
  by (auto simp: queue_row_def queue_account_cell_def queue_action_def status_badge_def)

lemma offers_queue_body:
  "list_ex (\<lambda>v. offers v e) (queue_body date_value show_date now s) \<longleftrightarrow>
     (\<exists>i \<in> set (vq_items s). if qi_status i = Queued
        then e = Start (Click_claim (qi_id i)) \<and> vq_claiming s \<noteq> Some (qi_id i)
        else e = Other (Open_case (qi_id i)))"
  by (auto simp: queue_body_def empty_queue_def list_ex_iff offers_queue_row)

lemma offers_filters:
  "list_ex (\<lambda>v. offers v e) (map filter_button status_filters) \<longleftrightarrow>
     (\<exists>st \<in> fst ` set status_filters. e = Other (Toggle_status st))"
  by (auto simp: filter_button_def list_ex_iff)

lemma offers_queue_view:
  "offers (queue_view date_value show_date now s) e \<longleftrightarrow>
     e = Other Create_request \<or> (\<exists>t. e = Other (Type_search t)) \<or> e = Start Click_refresh
     \<or> (\<exists>st \<in> fst ` set status_filters. e = Other (Toggle_status st))
     \<or> e = Other Clear_filters \<and> vq_statuses s \<noteq> []
     \<or> (\<exists>i \<in> set (vq_items s). if qi_status i = Queued
          then e = Start (Click_claim (qi_id i)) \<and> vq_claiming s \<noteq> Some (qi_id i)
          else e = Other (Open_case (qi_id i)))"
proof -
  have "\<not> list_ex (\<lambda>v. offers v e) (map Words queue_headings)" by (simp add: list_ex_iff)
  then show ?thesis
    by (auto simp: queue_view_def queue_header_def queue_filters_def stat_card_def offers_filters offers_queue_body)
qed

definition queue_shown ::
  "(string \<Rightarrow> int option) \<Rightarrow> (string \<Rightarrow> string) \<Rightarrow> queue_page \<Rightarrow> queue_move \<Rightarrow> bool" where
  "queue_shown date_value show_date s m \<longleftrightarrow> (\<exists>now. offers (queue_view date_value show_date now s) m)"

fun queue_by_user :: "queue_move \<Rightarrow> bool" where
  "queue_by_user (Start Queue_timer) = False"
| "queue_by_user (Settle k r) = False"
| "queue_by_user m = True"

lemma queue_shown_start:
  "queue_shown date_value show_date s (Start c) \<longleftrightarrow> queue_by_user (Start c) \<and> snd (queue_start c s) \<noteq> None"
  by (cases c) (auto simp: queue_shown_def offers_queue_view queue_start_def load_queue_def list_ex_iff
      split: option.splits)

interpretation queue_page: screen
  queue_start queue_settle queue_event "queue_shown date_value show_date" queue_by_user
  for date_value :: "string \<Rightarrow> int option" and show_date :: "string \<Rightarrow> string"
proof
  fix date_value show_date s and m :: queue_move
  assume h: "queue_by_user m" "\<not> queue_shown date_value show_date s m"
  show "ineffective queue_start queue_event m s"
  proof (cases m)
    case (Start c)
    then have "snd (queue_start c s) = None" using h queue_shown_start by blast
    then show ?thesis
      using Start h(1) by (cases c) (auto simp: ineffective_def queue_start_def load_queue_def split: if_splits)
  next
    case (Other e)
    then show ?thesis using h
      by (cases e) (auto simp: ineffective_def queue_shown_def offers_queue_view list_ex_iff)
  qed (use h in simp)
qed

section \<open>Properties\<close>

text \<open>The review queue and its handlers agree: a button is enabled exactly when its click sends a
  request, every run of the model is a run of the page, and every control has a name.\<close>

theorem queue_page_agrees:
  "(queue_shown date_value show_date s (Start c)
      \<longleftrightarrow> queue_by_user (Start c) \<and> snd (queue_start c s) \<noteq> None)
   \<and> (\<exists>ms'. flight_run queue_start queue_settle queue_event ms' s
          = flight_run queue_start queue_settle queue_event ms s
        \<and> all_offered (flight_step queue_start queue_settle queue_event)
            (\<lambda>f. queue_shown date_value show_date (fl_state f)) queue_by_user ms'
            \<lparr>fl_state = s, fl_pending = [], fl_issued = []\<rparr>)
   \<and> all_named (queue_view date_value show_date now s)"
proof (intro conjI)
  have "all_named (queue_row date_value show_date now claiming i)" for claiming i
    by (simp add: queue_row_def queue_account_cell_def queue_action_def status_badge_def)
  then have "list_all all_named (queue_body date_value show_date now s)"
    by (auto simp: queue_body_def empty_queue_def list_all_iff)
  moreover have "list_all all_named (map filter_button status_filters)"
    by (simp add: filter_button_def status_filters_def)
  ultimately show "all_named (queue_view date_value show_date now s)"
    by (simp add: queue_view_def queue_header_def queue_filters_def stat_card_def list_all_iff)
qed (use queue_shown_start queue_page.runs_on_page in blast)+

end
