(* ===== verification/Audit_View.thy ===== *)
theory Audit_View
  imports Audit_Activity Views
begin

text \<open>
  What components/admin/admin-audit-activity.tsx renders. \<open>show_time\<close> and \<open>show_count\<close> are the locale's
  formats of a time and a number. The page offers exactly the events the model of Audit_Activity reacts
  to.
\<close>

type_synonym audit_move = "(audit_click, js_error + audit_data, audit_input) move"

section \<open>Filters\<close>

definition filter_field :: "string \<Rightarrow> filter_key \<Rightarrow> string \<Rightarrow> audit_move view" where
  "filter_field caption k v =
     Node ''label'' [Words caption, Field caption v False (\<lambda>t. Other (Edit_filter k t))]"

definition outcome_select :: "audit_filters \<Rightarrow> audit_move view" where
  "outcome_select f =
     Node ''label''
       [Words ''Outcome'',
        Choice ''Outcome'' (af_outcome f) False
          (map (\<lambda>o'. (fst o', Other (Edit_filter Outcome (fst o')))) outcome_options)]"

definition filter_grid :: "audit_filters \<Rightarrow> audit_move view" where
  "filter_grid f =
     Node ''div''
      [filter_field ''Action'' Action (af_action f), outcome_select f,
       filter_field ''Actor type'' Actor_type (af_actor_type f),
       filter_field ''Actor ID'' Actor_id (af_actor_id f),
       filter_field ''Verification request'' Request (af_verification_request_id f),
       filter_field ''Correlation ID'' Request_id (af_request_id f)]"

definition filter_panel :: "audit_page \<Rightarrow> audit_move view" where
  "filter_panel s =
     (let n = active_filter_count (au_applied s)
      in Node ''section''
          (Words ''Filters'' # only_if (n > 0) [Words (show_nat n)]
           @ only_if (n > 0) [Control ''Clear all'' False (Other Clear_filters)]
           @ [filter_grid (au_filters s), Control ''Apply filters'' False (Other Apply_filters)]))"

section \<open>The log\<close>

definition audit_heading :: "audit_page \<Rightarrow> audit_move view" where
  "audit_heading s =
     Node ''section''
      [Words ''Security log'', Node ''h1'' [Words ''Audit Activity''],
       Words (''Review security-sensitive activity across verification, administration and access ''
              @ ''workflows.''),
       Control ''Refresh'' (au_loading s) (Start Audit_refresh)]"

definition audit_row_view :: "(string \<Rightarrow> string) \<Rightarrow> audit_event \<Rightarrow> 'e view" where
  "audit_row_view show_time e =
     Node ''tr'' (Words (show_time (ae_timestamp e)) # map Words (audit_row e))"

definition audit_rows :: "(string \<Rightarrow> string) \<Rightarrow> audit_page \<Rightarrow> 'e view list" where
  "audit_rows show_time s =
     (if au_loading s then [Words (''Loading audit activity'' @ Views.ellipsis)]
      else case au_data s of
        None \<Rightarrow> [Words ''No audit events found'', Words ''Try removing some filters.'']
      | Some d \<Rightarrow>
          if ad_items d = [] then [Words ''No audit events found'', Words ''Try removing some filters.'']
          else map (audit_row_view show_time) (ad_items d))"

definition audit_headings :: "string list" where
  "audit_headings = [''Timestamp'', ''Activity'', ''Outcome'', ''Actor'', ''Verification Request'']"

definition audit_table :: "(string \<Rightarrow> string) \<Rightarrow> audit_page \<Rightarrow> 'e view" where
  "audit_table show_time s =
     Node ''table'' [Node ''thead'' (map Words audit_headings), Node ''tbody'' (audit_rows show_time s)]"

definition audit_summary :: "(int \<Rightarrow> string) \<Rightarrow> audit_page \<Rightarrow> 'e view" where
  "audit_summary show_count s =
     Node ''div''
       (Words ''Security events''
        # (case au_data s of
             None \<Rightarrow> [Words ''Loading event count'']
           | Some d \<Rightarrow>
               [Words (show_count (ad_total d) @ '' recorded events''),
                Words (''Page '' @ show_int (ad_page d)
                       @ (if ad_total_pages d > 0 then '' of '' @ show_int (ad_total_pages d) else []))]))"

definition en_dash :: string where
  "en_dash = [CHR 0xE2, CHR 0x80, CHR 0x93]"

definition showing_text :: "audit_page \<Rightarrow> string" where
  "showing_text s =
     (case au_data s of
        None \<Rightarrow> ''No results''
      | Some d \<Rightarrow>
          if ad_total d > 0
          then ''Showing '' @ show_int (fst (showing_range d)) @ en_dash @ show_int (snd (showing_range d))
               @ '' of '' @ show_int (ad_total d)
          else ''No results'')"

definition page_buttons :: "audit_page \<Rightarrow> audit_move view" where
  "page_buttons s =
     Node ''div''
      [Words (showing_text s),
       Control ''Previous'' (\<not> can_go_back s) (Other Previous_page),
       Control ''Next'' (\<not> can_go_on s) (Other Next_page)]"

definition audit_view :: "(string \<Rightarrow> string) \<Rightarrow> (int \<Rightarrow> string) \<Rightarrow> audit_page \<Rightarrow> audit_move view" where
  "audit_view show_time show_count s =
     Node ''AdminShell''
      ([audit_heading s, filter_panel s, audit_summary show_count s]
       @ (if truthy (au_error s) then [Words (the (au_error s))] else [])
       @ [audit_table show_time s, page_buttons s])"

section \<open>What the page offers\<close>

lemma offers_filter_grid:
  "offers (filter_grid f) e \<longleftrightarrow>
     (\<exists>k v. e = Other (Edit_filter k v)
        \<and> (k = Outcome \<longrightarrow> v \<in> fst ` set outcome_options \<and> v \<noteq> af_outcome f))"
proof -
  have "offers (filter_field l k v) e \<longleftrightarrow> (\<exists>t. e = Other (Edit_filter k t))" for l k v
    by (auto simp: filter_field_def)
  moreover have "offers (outcome_select f) e \<longleftrightarrow>
      (\<exists>t \<in> fst ` set outcome_options. t \<noteq> af_outcome f \<and> e = Other (Edit_filter Outcome t))"
    by (auto simp: outcome_select_def list_ex_iff)
  ultimately have grid: "offers (filter_grid f) e \<longleftrightarrow>
      (\<exists>t. e = Other (Edit_filter Action t))
      \<or> (\<exists>t \<in> fst ` set outcome_options. t \<noteq> af_outcome f \<and> e = Other (Edit_filter Outcome t))
      \<or> (\<exists>t. e = Other (Edit_filter Actor_type t)) \<or> (\<exists>t. e = Other (Edit_filter Actor_id t))
      \<or> (\<exists>t. e = Other (Edit_filter Request t)) \<or> (\<exists>t. e = Other (Edit_filter Request_id t))"
    by (simp only: filter_grid_def offers.simps) simp
  show ?thesis
  proof (cases "\<exists>k v. e = Other (Edit_filter k v)")
    case True
    then obtain k v where "e = Other (Edit_filter k v)" by blast
    then show ?thesis unfolding grid by (cases k) auto
  next
    case False
    then show ?thesis unfolding grid by auto
  qed
qed

lemma offers_audit_view:
  "offers (audit_view show_time show_count s) e \<longleftrightarrow>
     e = Start Audit_refresh \<and> \<not> au_loading s
     \<or> e = Other Clear_filters \<and> active_filter_count (au_applied s) > 0
     \<or> offers (filter_grid (au_filters s)) e
     \<or> e = Other Apply_filters
     \<or> e = Other Previous_page \<and> can_go_back s \<or> e = Other Next_page \<and> can_go_on s"
proof -
  have "\<not> offers (audit_row_view show_time x) e" for x
    by (simp add: audit_row_view_def list_ex_iff)
  then have "\<not> list_ex (\<lambda>v. offers v e) (audit_rows show_time s)"
    by (auto simp: audit_rows_def list_ex_iff split: option.split)
  moreover have "\<not> list_ex (\<lambda>v. offers v e) (map Words audit_headings)" by (simp add: list_ex_iff)
  ultimately have "\<not> offers (audit_table show_time s) e" by (simp add: audit_table_def)
  moreover have "\<not> offers (audit_summary show_count s) e"
    by (auto simp: audit_summary_def split: option.split)
  moreover have "offers (filter_panel s) e \<longleftrightarrow>
      e = Other Clear_filters \<and> active_filter_count (au_applied s) > 0
      \<or> offers (filter_grid (au_filters s)) e \<or> e = Other Apply_filters"
    by (auto simp: filter_panel_def Let_def)
  moreover have "offers (page_buttons s) e \<longleftrightarrow>
      e = Other Previous_page \<and> can_go_back s \<or> e = Other Next_page \<and> can_go_on s"
    by (auto simp: page_buttons_def)
  moreover have "offers (audit_heading s) e \<longleftrightarrow> e = Start Audit_refresh \<and> \<not> au_loading s"
    by (auto simp: audit_heading_def)
  ultimately show ?thesis
    by (simp add: audit_view_def)
qed

definition audit_offered :: "audit_page \<Rightarrow> audit_move \<Rightarrow> bool" where
  "audit_offered s m \<longleftrightarrow> offers (audit_view id show_int s) m"

fun audit_by_user :: "audit_move \<Rightarrow> bool" where
  "audit_by_user (Start Audit_timer) = False"
| "audit_by_user (Settle k r) = False"
| "audit_by_user m = True"

interpretation audit_screen: screen audit_start audit_settle audit_handle audit_offered audit_by_user
proof
  fix s and m :: audit_move
  assume h: "audit_by_user m" "\<not> audit_offered s m"
  show "ineffective audit_start audit_handle m s"
  proof (cases m)
    case (Start c)
    then show ?thesis using h
      by (cases c) (auto simp: ineffective_def audit_offered_def offers_audit_view audit_start_def)
  next
    case (Other e)
    show ?thesis
    proof (cases e)
      case (Edit_filter k v)
      then show ?thesis using Other h
        by (cases k) (auto simp: ineffective_def audit_offered_def offers_audit_view offers_filter_grid)
    qed (use Other h in \<open>auto simp: ineffective_def audit_offered_def offers_audit_view\<close>)
  qed (use h in simp)
qed

section \<open>Properties\<close>

lemma audit_view_named: "all_named (audit_view show_time show_count s)"
proof -
  have "all_named (filter_grid f)" for f
    by (simp add: filter_grid_def filter_field_def outcome_select_def)
  then have "all_named (filter_panel s)" by (simp add: filter_panel_def Let_def)
  moreover have "list_all all_named (audit_rows show_time s :: audit_move view list)"
    by (auto simp: audit_rows_def audit_row_view_def list_all_iff split: option.split)
  then have "all_named (audit_table show_time s :: audit_move view)"
    by (simp add: audit_table_def list_all_iff)
  moreover have "all_named (audit_summary show_count s :: audit_move view)"
    by (simp add: audit_summary_def split: option.split)
  ultimately show ?thesis
    by (simp add: audit_view_def audit_heading_def page_buttons_def)
qed

text \<open>The security log and its handlers agree: the refresh button is enabled exactly when its click
  sends a request, the buttons of the pages exactly when they lead to another page, every run of the model
  is a run of the page, and every control has a name.\<close>

theorem audit_page_agrees:
  "(audit_offered s (Start Audit_refresh) \<longleftrightarrow> snd (audit_start Audit_refresh s) \<noteq> None)
   \<and> (audit_offered s (Other Previous_page) \<longleftrightarrow> au_page (audit_handle Previous_page s) \<noteq> au_page s)
   \<and> (audit_offered s (Other Next_page) \<longleftrightarrow> au_page (audit_handle Next_page s) \<noteq> au_page s)
   \<and> (\<exists>ms'. flight_run audit_start audit_settle audit_handle ms' s
          = flight_run audit_start audit_settle audit_handle ms s
        \<and> all_offered (flight_step audit_start audit_settle audit_handle)
            (\<lambda>f. audit_offered (fl_state f)) audit_by_user
            ms' \<lparr>fl_state = s, fl_pending = [], fl_issued = []\<rparr>)
   \<and> all_named (audit_view show_time show_count s)"
proof (intro conjI)
  show "audit_offered s (Start Audit_refresh) \<longleftrightarrow> snd (audit_start Audit_refresh s) \<noteq> None"
    by (auto simp: audit_offered_def offers_audit_view offers_filter_grid audit_start_def load_audit_def)
  show "audit_offered s (Other Previous_page) \<longleftrightarrow> au_page (audit_handle Previous_page s) \<noteq> au_page s"
    by (auto simp: audit_offered_def offers_audit_view offers_filter_grid audit_effect_def can_go_back_def)
  show "audit_offered s (Other Next_page) \<longleftrightarrow> au_page (audit_handle Next_page s) \<noteq> au_page s"
    by (auto simp: audit_offered_def offers_audit_view offers_filter_grid audit_effect_def)
qed (use audit_screen.runs_on_page audit_view_named in blast)+

end
