(* ===== verification/Entry_View.thy ===== *)
theory Entry_View
  imports Applicant_Screens Landing Views Dates
begin

text \<open>
  What components/verification/verification-entry.tsx renders: the loader, the cards for a request that
  is not open, and the landing page with its sections. A section is named by its id. \<open>show_time\<close>,
  \<open>date_value\<close> and \<open>year\<close> are the locale's date format, \<open>new Date(text).getTime()\<close> and the current year;
  the state of the page is the entry screen, the index of the title and the active card.
\<close>

datatype landing_event = Continue | Move carousel_move

section \<open>Pieces\<close>

definition header_link :: "string \<Rightarrow> string \<Rightarrow> 'e view" where
  "header_link href caption = Anchor caption href"

definition site_header :: "bool \<Rightarrow> landing_event view" where
  "site_header continuing =
     Node ''header''
      [Anchor ''SCANLY'' ''#top'',
       Node ''nav''
        [header_link ''#features'' ''Features'', header_link ''#process'' ''How it works'',
         header_link ''#security'' ''Security'', header_link ''#developers'' ''Developers''],
       Words ''Private request'',
       Control (if continuing then [] else ''Get verified'') continuing Continue]"

definition floating_card :: "string \<Rightarrow> string \<Rightarrow> 'e view" where
  "floating_card title v = Node ''div'' [Words title, Words v]"

definition mini_trust_item :: "string \<Rightarrow> 'e view" where
  "mini_trust_item t = Node ''div'' [Words t]"

definition section_heading :: "string \<Rightarrow> string \<Rightarrow> string \<Rightarrow> 'e view" where
  "section_heading eyebrow title text =
     Node ''div'' [Words eyebrow, Node ''h2'' [Words title], Words text]"

definition bullet_sign :: string where
  "bullet_sign = [CHR 0xE2, CHR 0x80, CHR 0xA2]"

section \<open>The hero section\<close>

text \<open>Only the active title is not hidden from assistive technology.\<close>

definition hero_title :: "nat \<Rightarrow> 'e view" where
  "hero_title active =
     Node ''h1''
      [Words ''Build trust.'', Words ''Verify'',
       Node ''live''
        (map (\<lambda>(i, t). if i = active then Words t else Node ''hidden'' [Words t])
           (zip [0..<length animated_titles] animated_titles))]"

definition connecting :: string where
  "connecting = ''Connecting'' @ ellipsis"

definition hero_actions :: "bool \<Rightarrow> landing_event view" where
  "hero_actions continuing =
     Node ''div''
      [Control (if continuing then connecting else ''Continue with Discord'') continuing Continue,
       Anchor ''How verification works'' ''#process'']"

definition hero_trust :: "'e view" where
  "hero_trust =
     Node ''div''
      [mini_trust_item ''Private request'', mini_trust_item ''Account bound'', mini_trust_item ''Manual review'']"

definition hero_expiry ::
  "(string \<Rightarrow> int option) \<Rightarrow> (string \<Rightarrow> string) \<Rightarrow> int \<Rightarrow> string \<Rightarrow> 'e view" where
  "hero_expiry date_value show_time now expires =
     Node ''div''
      [Words (get_time_remaining date_value now expires), Words bullet_sign,
       Words (''Expires '' @ show_time expires)]"

definition hero_phone :: "'e view" where
  "hero_phone =
     Node ''div''
      [Node ''img'' [Words ''SCANLY secure identity verification on a mobile device''],
       Words ''Secure verification session'']"

definition hero_visual :: "'e view" where
  "hero_visual =
     Node ''div''
      [floating_card ''Document'' ''Ready to verify'', floating_card ''Face capture'' ''Live session'',
       floating_card ''Review'' ''Human verified'', floating_card ''Access'' ''After approval'',
       hero_phone]"

definition hero_section ::
  "(string \<Rightarrow> int option) \<Rightarrow> (string \<Rightarrow> string) \<Rightarrow> int \<Rightarrow> public_request \<Rightarrow> entry_screen \<Rightarrow> nat
     \<Rightarrow> landing_event view" where
  "hero_section date_value show_time now q s active =
     Node ''#top''
      ([Words ''Secure identity verification'', hero_title active,
        Words (''Complete your private SCANLY verification before protected server access is released. ''
               @ ''Connect the Discord account assigned to this request and follow the secure verification ''
               @ ''steps.''),
        hero_actions (es_continuing s), hero_trust, hero_expiry date_value show_time now (pr_expires_at q)]
       @ alert_if (es_error s) @ [hero_visual])"

section \<open>The sections\<close>

definition trust_strip :: "'e view" where
  "trust_strip =
     Node ''section''
      (Words ''Built for controlled access and private verification''
       # map Words [''ACCOUNT BINDING'', ''PRIVATE EVIDENCE'', ''MANUAL REVIEW'', ''CONTROLLED ACCESS''])"

definition landing_metrics :: "(string \<times> string) list" where
  "landing_metrics =
     [(''1:1'', ''Request to Discord account binding''), (''24/7'', ''Secure verification availability''),
      (''Human'', ''Final verification review''), (''Timed'', ''Private request expiration'')]"

definition metrics_section :: "'e view" where
  "metrics_section =
     Node ''section'' (map (\<lambda>(v, caption). Node ''div'' [Words v, Words caption]) landing_metrics)"

definition landing_features :: "(string \<times> string) list" where
  "landing_features =
     [(''Identity evidence'', ''Submit the evidence requested for your private verification case.''),
      (''Discord binding'',
       ''The request is checked against the Discord account assigned by the administrator.''),
      (''Live capture'',
       ''Capture fresh selfie or guided face evidence when required by the request.''),
      (''Manual review'', ''Submitted evidence enters a controlled administrator review process.''),
      (''Protected access'',
       ''Server access remains unavailable until the verification request is approved.'')]"

definition capabilities_section :: "'e view" where
  "capabilities_section =
     Node ''#features''
      (section_heading ''Verification controls'' ''Everything needed to verify with confidence''
         ''A focused verification flow built around account binding, private evidence and controlled approval.''
       # map (\<lambda>(title, text). Node ''article'' [Node ''h3'' [Words title], Words text, Words ''Secure by design''])
           landing_features)"

definition landing_steps :: "(string \<times> string \<times> string) list" where
  "landing_steps =
     [(''01'', ''Connect'', ''Authenticate with the Discord account assigned to the request.''),
      (''02'', ''Submit'', ''Provide the evidence required for your verification case.''),
      (''03'', ''Review'', ''Your submitted verification enters administrator review.''),
      (''04'', ''Access'', ''Controlled server access is released only after approval.'')]"

definition process_section :: "'e view" where
  "process_section =
     Node ''#process''
      (section_heading ''Simple by design'' ''Verify in four clear steps''
         ''Every stage has one purpose, so you always know what happens next.''
       # map (\<lambda>(nr, title, text). Node ''div'' [Words (''STEP '' @ nr), Node ''h3'' [Words title], Words text])
           landing_steps)"

text \<open>A card whose opacity is 0 does not react to the pointer, but it is a button all the same.\<close>

definition insight_text :: "verification_insight \<Rightarrow> 'e view list" where
  "insight_text x = [Words (vi_description x), Words (vi_detail x)]"

definition insight_card :: "int \<Rightarrow> nat \<times> verification_insight \<Rightarrow> landing_event view" where
  "insight_card position c =
     Node (if position = 0 then ''current'' else ''card'')
      (insight_text (snd c)
       @ [Control (vi_eyebrow (snd c) @ '' '' @ vi_title (snd c)) False (Move (Select_card (fst c)))])"

definition insight_cards :: "int \<Rightarrow> landing_event view list" where
  "insight_cards active =
     map (\<lambda>c. insight_card
                (circular_card_position (int (fst c)) active (int (length verification_insights))) c)
       (zip [0..<length verification_insights] verification_insights)"

definition carousel_controls :: "int \<Rightarrow> landing_event view" where
  "carousel_controls active =
     Node ''div''
      [Control ''Previous verification control'' False (Move Previous_card),
       Words (counter_label active @ ''/'' @ counter_label (int (length verification_insights) - 1)),
       Control ''Next verification control'' False (Move Next_card)]"

definition insights_section :: "int \<Rightarrow> landing_event view" where
  "insights_section active =
     Node ''section''
      (section_heading ''Built into every request'' ''What your verification protects''
         (''Explore the controls that keep identity verification private, account-bound and ''
          @ ''approval-driven.'')
       # insight_cards active @ [carousel_controls active])"

definition security_points :: "'e view list" where
  "security_points =
     map Words [''Private request binding'', ''Discord account verification'',
                ''Controlled evidence submission'', ''Administrator review before access'']"

definition security_section :: "'e view" where
  "security_section =
     Node ''#security''
      ([Words ''Security at the core'',
        Node ''h2'' [Words ''Verification designed around controlled trust.''],
        Words (''Your private request, Discord account and submitted evidence move through a controlled ''
               @ ''verification workflow before access can be released.'')]
       @ security_points)"

definition flow_listing :: "'e view" where
  "flow_listing =
     Node ''div''
      (Words ''verification-flow''
       # map Words
          [''verification.request'', ''{'', ''account: \"discord\" ,'', ''evidence: \"required\" ,'',
           ''review: \"manual\"'', ''}'', ''access.policy'', ''{'', ''status: \"approved\" ,'',
           ''release: true'', ''}''])"

definition developer_section :: "'e view" where
  "developer_section =
     Node ''#developers''
      [Node ''h2'' [Words ''Built as a secure verification system.''],
       Words (''Account authentication, evidence handling, administrator review and controlled access work ''
              @ ''as one connected verification flow.''),
       flow_listing]"

definition final_cta :: "bool \<Rightarrow> landing_event view" where
  "final_cta continuing =
     Node ''section''
      [Node ''h2'' [Words ''Ready to complete your verification?''],
       Words ''Authenticate with the Discord account assigned to this private request.'',
       Control (if continuing then connecting else ''Continue with Discord'') continuing Continue]"

definition footer_column :: "string \<Rightarrow> (string \<times> string) list \<Rightarrow> 'e view" where
  "footer_column title links =
     Node ''div'' (Words title # map (\<lambda>(caption, href). Anchor caption href) links)"

definition site_footer :: "string \<Rightarrow> 'e view" where
  "site_footer year =
     Node ''footer''
      [Words ''SCANLY'', Words ''Secure private identity verification before protected Discord server access.'',
       footer_column ''Verification''
         [(''Features'', ''#features''), (''Process'', ''#process''), (''Security'', ''#security'')],
       footer_column ''Resources'' [(''Developers'', ''#developers''), (''Private request'', ''#top'')],
       Words ''Session'', Words ''Secure verification'',
       Words ([CHR 0xC2, CHR 0xA9] @ '' '' @ year @ '' SCANLY. All rights reserved.''),
       Words (''Private identity verification '' @ bullet_sign @ '' Controlled access'')]"

section \<open>The cards\<close>

definition hero_loader :: "'e view" where
  "hero_loader = Node ''main'' [Words ''SCANLY'', Words ''Checking private request'']"

definition unavailable_card :: "string \<Rightarrow> 'e view" where
  "unavailable_card message =
     Node ''section''
      [Node ''h1'' [Words ''Request unavailable''], Words message,
       Words (''If you believe this is unexpected, contact the administrator who issued your verification ''
              @ ''request.'')]"

definition existing_status_card :: "(string \<Rightarrow> string) \<Rightarrow> public_request \<Rightarrow> 'e view" where
  "existing_status_card show_time q =
     Node ''section''
      [Words (replace_first CHR ''_'' CHR '' '' (status_name (pr_status q))),
       Node ''h1'' [Words (label (status_presentation (pr_status q)))],
       Words (description (status_presentation (pr_status q))),
       Words (''Request expiration: '' @ show_time (pr_expires_at q))]"

section \<open>The page\<close>

definition landing_view ::
  "(string \<Rightarrow> int option) \<Rightarrow> (string \<Rightarrow> string) \<Rightarrow> string \<Rightarrow> int \<Rightarrow> public_request \<Rightarrow> entry_screen \<Rightarrow> nat \<Rightarrow> int
     \<Rightarrow> landing_event view" where
  "landing_view date_value show_time year now q s title active =
     Node ''main''
      [site_header (es_continuing s), hero_section date_value show_time now q s title,
       trust_strip, metrics_section, capabilities_section, process_section, insights_section active,
       security_section, developer_section, final_cta (es_continuing s), site_footer year]"

definition entry_page ::
  "(string \<Rightarrow> int option) \<Rightarrow> (string \<Rightarrow> string) \<Rightarrow> string \<Rightarrow> int \<Rightarrow> entry_screen \<Rightarrow> nat \<Rightarrow> int
     \<Rightarrow> landing_event view" where
  "entry_page date_value show_time year now s title active =
     (case entry_render s of
        Loader \<Rightarrow> hero_loader
      | Unavailable_card message \<Rightarrow> Node ''VerificationShell'' [unavailable_card message]
      | Existing_status st terminal \<Rightarrow>
          Node ''VerificationShell'' [existing_status_card show_time (the (es_request s))]
      | Landing \<Rightarrow> landing_view date_value show_time year now (the (es_request s)) s title active)"

section \<open>What the page offers\<close>

text \<open>Only the rendered cards can be selected.\<close>

fun rendered_card :: "carousel_move \<Rightarrow> bool" where
  "rendered_card (Select_card i) \<longleftrightarrow> i < length verification_insights"
| "rendered_card m \<longleftrightarrow> True"

lemma offers_insight_cards:
  "list_ex (\<lambda>v. offers v e) (insight_cards active)
     \<longleftrightarrow> (\<exists>i < length verification_insights. e = Move (Select_card i))"
  by (auto simp: insight_cards_def list_ex_iff insight_card_def insight_text_def set_zip)

lemma offers_landing_view:
  "offers (landing_view date_value show_time year now q s title active) e \<longleftrightarrow>
     e = Continue \<and> \<not> es_continuing s
     \<or> (\<exists>m. e = Move m \<and> rendered_card m)"
proof -
  have "offers (insights_section active) e \<longleftrightarrow>
      (\<exists>m. e = Move m \<and> rendered_card m)"
  proof -
    have "offers (insights_section active) e \<longleftrightarrow> (\<exists>i < length verification_insights. e = Move (Select_card i))
        \<or> e = Move Previous_card \<or> e = Move Next_card"
      by (simp add: insights_section_def section_heading_def carousel_controls_def offers_insight_cards)
    also have "\<dots> \<longleftrightarrow> (\<exists>m. e = Move m \<and> rendered_card m)"
      by (auto elim: rendered_card.elims)
    finally show ?thesis .
  qed
  moreover have "\<not> offers (hero_title title) e"
    by (auto simp: hero_title_def list_ex_iff split: if_splits)
  then have "offers (hero_section date_value show_time now q s title) e \<longleftrightarrow> e = Continue \<and> \<not> es_continuing s"
    by (auto simp: hero_section_def hero_actions_def hero_trust_def mini_trust_item_def hero_expiry_def
        hero_visual_def hero_phone_def floating_card_def)
  moreover have "\<not> offers trust_strip e" "\<not> offers metrics_section e" "\<not> offers capabilities_section e"
    "\<not> offers process_section e" "\<not> offers security_section e" "\<not> offers developer_section e"
    "\<not> offers (site_footer year) e"
    by (simp_all add: trust_strip_def metrics_section_def landing_metrics_def capabilities_section_def
        landing_features_def process_section_def landing_steps_def security_section_def security_points_def developer_section_def
        flow_listing_def site_footer_def footer_column_def section_heading_def)
  ultimately show ?thesis
    by (auto simp: landing_view_def site_header_def header_link_def final_cta_def)
qed

lemma offers_entry_page:
  "offers (entry_page date_value show_time year now s title active) e \<longleftrightarrow>
     entry_render s = Landing
     \<and> (e = Continue \<and> \<not> es_continuing s
        \<or> (\<exists>m. e = Move m \<and> rendered_card m))"
  by (cases "entry_render s")
    (simp_all add: entry_page_def hero_loader_def unavailable_card_def existing_status_card_def
      offers_landing_view)

lemma landing_anchors:
  "anchors (landing_view date_value show_time year now q s title active)
     = [''#top'', ''#features'', ''#process'', ''#security'', ''#developers'', ''#process'', ''#features'',
        ''#process'', ''#security'', ''#developers'', ''#top'']"
proof -
  have "anchors (insights_section active) = []"
    by (simp add: insights_section_def section_heading_def carousel_controls_def insight_cards_def insight_card_def insight_text_def
        comp_def)
  moreover have "anchors (hero_title title :: landing_event view) = []"
    by (simp add: hero_title_def comp_def split_def if_distrib cong: if_cong)
  then have "anchors (hero_section date_value show_time now q s title) = [''#process'']"
    by (simp add: hero_section_def hero_actions_def hero_trust_def mini_trust_item_def hero_expiry_def
        hero_visual_def hero_phone_def floating_card_def alert_if_def)
  moreover have "anchors (trust_strip :: landing_event view) = []" "anchors (metrics_section :: landing_event view) = []"
    "anchors (capabilities_section :: landing_event view) = []" "anchors (process_section :: landing_event view) = []"
    "anchors (security_section :: landing_event view) = []" "anchors (developer_section :: landing_event view) = []"
    by (simp_all add: trust_strip_def metrics_section_def landing_metrics_def capabilities_section_def
        landing_features_def process_section_def landing_steps_def security_section_def security_points_def developer_section_def
        flow_listing_def section_heading_def)
  moreover have "anchors (site_footer year :: landing_event view)
      = [''#features'', ''#process'', ''#security'', ''#developers'', ''#top'']"
    by (simp add: site_footer_def footer_column_def)
  ultimately show ?thesis
    by (simp add: landing_view_def site_header_def header_link_def final_cta_def)
qed

lemma landing_sections:
  "{''#top'', ''#features'', ''#process'', ''#security'', ''#developers''}
     \<subseteq> set (node_names (landing_view date_value show_time year now q s title active))"
proof -
  have "''#top'' \<in> set (node_names (hero_section date_value show_time now q s title))"
    by (simp add: hero_section_def)
  moreover have "''#features'' \<in> set (node_names (capabilities_section :: landing_event view))"
    "''#process'' \<in> set (node_names (process_section :: landing_event view))"
    "''#security'' \<in> set (node_names (security_section :: landing_event view))"
    "''#developers'' \<in> set (node_names (developer_section :: landing_event view))"
    by (simp_all add: capabilities_section_def process_section_def security_section_def developer_section_def)
  ultimately show ?thesis
    unfolding landing_view_def node_names.simps by auto
qed

lemma landing_named:
  "all_named (landing_view date_value show_time year now q s title active) \<longleftrightarrow> \<not> es_continuing s"
proof -
  have "all_named (insight_card p c)" for p c by (simp add: insight_card_def insight_text_def)
  then have "all_named (insights_section active)"
    by (simp add: insights_section_def section_heading_def carousel_controls_def insight_cards_def list_all_iff)
  moreover have "all_named (hero_title title :: landing_event view)"
    by (auto simp: hero_title_def list_all_iff)
  then have "all_named (hero_section date_value show_time now q s title)"
    by (simp add: hero_section_def hero_actions_def hero_trust_def mini_trust_item_def hero_expiry_def
        hero_visual_def hero_phone_def floating_card_def connecting_def)
  moreover have "all_named (trust_strip :: landing_event view)" "all_named (metrics_section :: landing_event view)"
    "all_named (capabilities_section :: landing_event view)" "all_named (process_section :: landing_event view)"
    "all_named (security_section :: landing_event view)" "all_named (developer_section :: landing_event view)"
    "all_named (site_footer year :: landing_event view)"
    by (simp_all add: trust_strip_def metrics_section_def landing_metrics_def capabilities_section_def
        landing_features_def process_section_def landing_steps_def security_section_def security_points_def developer_section_def
        flow_listing_def section_heading_def site_footer_def footer_column_def)
  ultimately show ?thesis
    by (simp add: landing_view_def site_header_def header_link_def final_cta_def connecting_def)
qed

text \<open>Whichever card is active, the card opposite is invisible, and can still be used.\<close>

lemma invisible_card_offered:
  assumes "0 \<le> active" and "active < 8"
  shows "let i = nat ((active + 4) mod 8)
    in card_opacity (circular_card_position (int i) active 8) = 0
       \<and> list_ex (\<lambda>v. offers v (Move (Select_card i))) (insight_cards active)"
proof -
  have "active = 0 \<or> active = 1 \<or> active = 2 \<or> active = 3 \<or> active = 4 \<or> active = 5 \<or> active = 6 \<or> active = 7"
    using assms by presburger
  then have "card_opacity (circular_card_position (int (nat ((active + 4) mod 8))) active 8) = 0"
    by (elim disjE) (simp_all add: circular_card_position_def card_opacity_def Let_def)
  moreover have "nat ((active + 4) mod 8) < length verification_insights" by (simp add: nat_less_iff)
  ultimately show ?thesis by (simp add: Let_def offers_insight_cards)
qed

section \<open>Properties\<close>

text \<open>The page of a private link and its handlers agree: its buttons to go on with Discord are enabled
  exactly when a click asks for the login, and the cards of the carousel can be moved exactly on the
  landing page; every link of the page leads to one of its own sections; and every control has a name but
  the header's button while the page goes on.\<close>

theorem entry_page_agrees:
  "(offers (entry_page date_value show_time year now s title active) Continue
      \<longleftrightarrow> snd (continue_with_discord token () s) \<noteq> None)
   \<and> (offers (entry_page date_value show_time year now s title active) (Move m)
      \<longleftrightarrow> entry_render s = Landing
          \<and> rendered_card m)
   \<and> set (anchors (entry_page date_value show_time year now s title active))
       \<subseteq> set (node_names (entry_page date_value show_time year now s title active))
   \<and> (all_named (entry_page date_value show_time year now s title active)
      \<longleftrightarrow> \<not> (entry_render s = Landing \<and> es_continuing s))"
proof (intro conjI)
  show "set (anchors (entry_page date_value show_time year now s title active))
       \<subseteq> set (node_names (entry_page date_value show_time year now s title active))"
  proof (cases "entry_render s = Landing")
    case True
    then show ?thesis
      using landing_sections [of date_value show_time year now "the (es_request s)" s title active]
      by (simp add: entry_page_def landing_anchors)
  next
    case False
    then show ?thesis
      by (cases "entry_render s")
        (simp_all add: entry_page_def hero_loader_def unavailable_card_def existing_status_card_def)
  qed
  show "all_named (entry_page date_value show_time year now s title active)
      \<longleftrightarrow> \<not> (entry_render s = Landing \<and> es_continuing s)"
    by (cases "entry_render s")
      (simp_all add: entry_page_def hero_loader_def unavailable_card_def existing_status_card_def landing_named)
qed (auto simp: offers_entry_page continue_with_discord_def)

end
