(* ===== verification/Shell_View.thy ===== *)
theory Shell_View
  imports Routes Views
begin

text \<open>
  The frames of the pages: components/verification/ verification-header (with its help panel),
  verification-shell and verification-progress, components/admin/admin-shell, and the pages that have
  no state of their own: app/page.tsx, app/not-found.tsx, app/error.tsx, the page of an expired session
  and the final pages (verification-result-state). Their links and buttons lead to pages of the program.
\<close>

section \<open>The applicant's frame\<close>

datatype help_event = Open_help | Close_help

fun help_step :: "help_event \<Rightarrow> bool \<Rightarrow> bool" where
  "help_step Open_help shown = True"
| "help_step Close_help shown = False"

definition help_item :: "string \<Rightarrow> string \<Rightarrow> string \<Rightarrow> 'e view" where
  "help_item nr title text = Node ''div'' [Words nr, Words title, Words text]"

definition help_items :: "'e view list" where
  "help_items =
     [help_item ''1'' ''Check your account''
        ''Make sure you signed in with the Discord account that received this verification request.'',
      help_item ''2'' ''Allow camera access''
        ''For selfie or live capture, allow camera permission when your browser asks for it.'',
      help_item ''3'' ''Use clear evidence''
        ''Keep documents fully visible and readable, and use clear lighting for face capture.'']"

text \<open>A press beside the dialog closes it, too.\<close>

definition help_panel :: "(help_event \<Rightarrow> 'e) \<Rightarrow> 'e view" where
  "help_panel h =
     Node ''dialog''
      ([Gesture (h Close_help), Node ''h2'' [Words ''Verification help''],
        Words ''Having trouble completing verification?'',
        Control ''Close help'' False (h Close_help)]
       @ help_items
       @ [Words (''For your security, submit verification evidence only through this verification portal.''),
          Control ''Got it'' False (h Close_help)])"

definition verification_header :: "(help_event \<Rightarrow> 'e) \<Rightarrow> bool \<Rightarrow> 'e view" where
  "verification_header h shown =
     Node ''header''
      ([Words ''SCANLY'', Words ''Identity verification'', Words ''Secure session'',
        Control ''Need help?'' False (h Open_help)]
       @ only_if shown [help_panel h])"

definition progress_view :: "verification_step \<Rightarrow> bool \<Rightarrow> 'e view" where
  "progress_view st done =
     Node ''div''
      (map (\<lambda>(i, caption).
              Node (if progress_complete (current_index st) done (int i) then ''complete''
                    else if progress_active (current_index st) done (int i) then ''active'' else ''waiting'')
                ((if progress_complete (current_index st) done (int i) then Node ''Check'' []
                  else Words (show_nat (i + 1)))
                 # [Words caption]))
         (zip [0..<length verification_steps] (map snd verification_steps)))"

definition shell_footer :: "string \<Rightarrow> 'e view" where
  "shell_footer year =
     Node ''footer''
      [Words ''SCANLY'',
       Words (''Secure identity verification designed to protect access while keeping your verification ''
              @ ''process simple and private.''),
       Words ''Secure verification session'', Words ''Privacy-first handling'',
       Words ([CHR 0xC2, CHR 0xA9] @ '' '' @ year @ '' SCANLY. All rights reserved.''),
       Words (''Submitted evidence is retained according to the stated privacy and manual deletion policy.'')]"

definition verification_shell ::
  "(help_event \<Rightarrow> 'e) \<Rightarrow> string \<Rightarrow> bool \<Rightarrow> verification_step \<Rightarrow> bool \<Rightarrow> 'e view list \<Rightarrow> 'e view" where
  "verification_shell h year shown st done vs =
     Node ''div'' [verification_header h shown, progress_view st done, Node ''main'' vs, shell_footer year]"

section \<open>Pages without a state\<close>

definition process_item :: "string \<Rightarrow> string \<Rightarrow> string \<Rightarrow> 'e view" where
  "process_item nr title text = Node ''div'' [Words nr, Words title, Words text]"

definition home_intro :: "'e view" where
  "home_intro =
     Node ''div''
      [Words ''SCANLY Verification'',
       Node ''h1'' [Words ''Identity verification,'', Words ''built around trust.''],
       Words (''SCANLY uses private verification requests to securely confirm your Discord account and ''
              @ ''collect the information required for manual administrator review.''),
       Words ''Private verification portal'']"

definition home_request_note :: "'e view" where
  "home_request_note =
     Node ''div''
      [Words ''Have a verification request?'',
       Words (''Open the private verification link provided to you. Each request is securely associated ''
              @ ''with the Discord account selected by the administrator.''),
       Anchor ''Administrator sign in'' ''/admin/login'']"

definition home_process :: "'e view" where
  "home_process =
     Node ''div''
      [process_item ''01'' ''Private request''
         ''Open the secure link issued specifically for your verification.'',
       process_item ''02'' ''Account binding'' ''Authenticate the Discord account assigned to the request.'',
       process_item ''03'' ''Administrator review''
         ''Submitted information is reviewed before an access decision.'']"

definition home_aside :: "'e view" where
  "home_aside =
     Node ''aside''
      [Words ''Secure workflow'', Words ''How verification works'',
       Node ''h2'' [Words ''Access is earned after verification.''],
       Words (''A private request begins the process. Approval is only granted after identity binding, ''
              @ ''evidence submission and administrator review.''),
       home_process,
       Words ''Approval-gated access'',
       Words (''Receiving a verification link does not grant server access. Access remains unavailable ''
              @ ''until the verification request is approved.''),
       Words ''Discord account binding'', Words ''Manual review'', Words ''Controlled access'']"

definition home_page :: "(help_event \<Rightarrow> 'e) \<Rightarrow> string \<Rightarrow> bool \<Rightarrow> 'e view" where
  "home_page h year shown =
     verification_shell h year shown Account False [home_intro, home_request_note, home_aside]"

definition not_found_page :: "'e view" where
  "not_found_page =
     Node ''main''
      [Words ''404'', Node ''h1'' [Words ''Page not found''],
       Words ''The requested page does not exist or is no longer available.'']"

definition error_page :: "unit view" where
  "error_page =
     Node ''main''
      [Node ''h1'' [Words ''Something went wrong''],
       Words (''The page could not be completed safely. You can retry the request without resubmitting ''
              @ ''identity information automatically.''),
       Control ''Try again'' False ()]"

definition session_expired_page :: "(help_event \<Rightarrow> 'e) \<Rightarrow> string \<Rightarrow> bool \<Rightarrow> 'e view" where
  "session_expired_page h year shown =
     verification_shell h year shown Account False
      [Node ''h1'' [Words ''Verification session expired''],
       Words (''For security, verification sessions are short-lived. Reopen your original private ''
              @ ''verification link and authenticate with Discord again.'')]"

definition result_message_box :: "result_page \<Rightarrow> 'e view list" where
  "result_message_box p =
     (case result_message p of None \<Rightarrow> []
      | Some t \<Rightarrow> [Node ''div'' [Words ''Verification message'', Words t]])"

definition result_access_box :: "result_type \<Rightarrow> 'e view" where
  "result_access_box t =
     Node ''div''
      [Node ''h2'' [Words (rc_access_title (result_config_of t))],
       Words (rc_access_description (result_config_of t)),
       Words ''No Discord invite or server-entry credential is exposed from this state.'']"

definition result_view :: "(help_event \<Rightarrow> 'e) \<Rightarrow> string \<Rightarrow> bool \<Rightarrow> result_page \<Rightarrow> 'e view" where
  "result_view h year shown p =
     verification_shell h year shown (rc_step (result_config_of (rs_type p))) False
      ([Words (rc_label (result_config_of (rs_type p))), Node ''h1'' [Words (rs_title p)],
        Words (rs_description p)]
       @ result_message_box p @ [result_access_box (rs_type p)])"

section \<open>The administrator's frame\<close>

datatype shell_event = Go_to string | Open_menu | Close_menu | Escape_key | Log_out

definition shell_targets :: "string list" where
  "shell_targets =
     [''/admin'', ''/admin/verification-queue'', ''/admin/verification-requests/new'', ''/admin/team'',
      ''/admin/audit'', ''/admin/settings'']"

text \<open>The logout's call is the client's; here it is the navigation that follows it.\<close>

fun shell_step :: "shell_event \<Rightarrow> admin_shell \<Rightarrow> admin_shell" where
  "shell_step (Go_to href) s = (if href \<in> set shell_targets then shell_navigate href s else s)"
| "shell_step Open_menu s = s\<lparr>sh_mobile_open := True\<rparr>"
| "shell_step Close_menu s = s\<lparr>sh_mobile_open := False\<rparr>"
| "shell_step Escape_key s = shell_escape s"
| "shell_step Log_out s = s\<lparr>sh_mobile_open := False, sh_location := Some ''/cdn-cgi/access/logout''\<rparr>"

definition admin_nav_item :: "nav_item \<Rightarrow> string \<Rightarrow> shell_event view" where
  "admin_nav_item i hint =
     Node (if ni_active i then ''current'' else ''item'')
      [Control (ni_label i) False (Go_to (ni_href i)), Words hint]"

definition nav_hints :: "string list" where
  "nav_hints =
     [''Workspace summary'', ''Review submitted cases'', ''Issue a private link'', ''Team management'',
      ''Security activity'', ''Workspace settings'']"

definition sidebar_session :: "shell_event view" where
  "sidebar_session =
     Node ''div''
      [Words ''AD'', Words ''Administrator'', Words ''Protected session'',
       Control ''End admin session'' False Log_out]"

definition desktop_sidebar :: "string \<Rightarrow> shell_event view" where
  "desktop_sidebar path =
     Node ''aside''
      ([Control ''SCANLY Verification administration'' False (Go_to ''/admin''), Words ''Verification'']
       @ map (\<lambda>(i, hint). admin_nav_item i hint) (zip (admin_nav path) nav_hints)
       @ [Words ''Administration'', sidebar_session])"

definition mobile_link :: "nav_item \<Rightarrow> shell_event view" where
  "mobile_link i =
     Node (if ni_active i then ''current'' else ''item'') [Control (ni_label i) False (Go_to (ni_href i))]"

definition drawer_session :: "shell_event view" where
  "drawer_session =
     Node ''div''
      [Words ''AD'', Words ''Administrator'', Words ''Authenticated'',
       Control ''End admin session'' False Log_out]"

definition mobile_drawer :: "string \<Rightarrow> shell_event view" where
  "mobile_drawer path =
     Node ''div''
      ([Gesture Escape_key, Control ''Close navigation'' False Close_menu,
        Control ''SCANLY Admin workspace'' False (Go_to ''/admin''),
        Control ''Close navigation'' False Close_menu]
       @ map mobile_link (admin_nav path) @ [drawer_session])"

definition shell_header_left :: "string \<Rightarrow> shell_event view" where
  "shell_header_left path =
     Node ''div''
      [Control ''Open navigation'' False Open_menu, Words ''SCANLY administration'',
       Words (workspace_title path)]"

definition shell_header_right :: "shell_event view" where
  "shell_header_right =
     Node ''div''
      [Control ''Open verification queue'' False (Go_to ''/admin/verification-queue''),
       Words ''AD'', Words ''Administrator'', Words ''Secure session'']"

definition admin_shell_view :: "admin_shell \<Rightarrow> shell_event view" where
  "admin_shell_view s =
     Node ''div''
      ([desktop_sidebar (sh_path s)]
       @ only_if (sh_mobile_open s) [mobile_drawer (sh_path s)]
       @ [shell_header_left (sh_path s), shell_header_right])"

section \<open>What the frames offer\<close>

lemma nav_targets: "map ni_href (admin_nav path) = shell_targets"
  by (simp add: admin_nav_def shell_targets_def)

lemma offers_nav:
  "list_ex (\<lambda>v. offers v e) (map (\<lambda>(i, hint). admin_nav_item i hint) (zip (admin_nav path) nav_hints))
     \<longleftrightarrow> (\<exists>h \<in> set shell_targets. e = Go_to h)"
  "list_ex (\<lambda>v. offers v e) (map mobile_link (admin_nav path)) \<longleftrightarrow> (\<exists>h \<in> set shell_targets. e = Go_to h)"
  by (simp_all add: admin_nav_def nav_hints_def admin_nav_item_def mobile_link_def shell_targets_def)

lemma offers_admin_shell:
  "offers (admin_shell_view s) e \<longleftrightarrow>
     (\<exists>h \<in> set shell_targets. e = Go_to h) \<or> e = Log_out \<or> e = Open_menu
     \<or> sh_mobile_open s \<and> (e = Escape_key \<or> e = Close_menu)"
proof -
  have h: "''/admin'' \<in> set shell_targets" "''/admin/verification-queue'' \<in> set shell_targets"
    by (simp_all add: shell_targets_def)
  then have "offers (desktop_sidebar (sh_path s)) e \<longleftrightarrow> (\<exists>h \<in> set shell_targets. e = Go_to h) \<or> e = Log_out"
    by (auto simp: desktop_sidebar_def sidebar_session_def offers_nav)
  moreover from h have "offers (mobile_drawer (sh_path s)) e \<longleftrightarrow>
      (\<exists>h \<in> set shell_targets. e = Go_to h) \<or> e = Log_out \<or> e = Escape_key \<or> e = Close_menu"
    by (auto simp: mobile_drawer_def drawer_session_def offers_nav)
  ultimately show ?thesis using h
    by (auto simp: admin_shell_view_def shell_header_left_def shell_header_right_def)
qed

interpretation shell_page: page shell_step "\<lambda>s. offers (admin_shell_view s)" "\<lambda>_. True"
proof
  fix s e
  assume "\<not> offers (admin_shell_view s) e"
  then show "shell_step e s = s"
    by (cases e) (auto simp: offers_admin_shell shell_escape_def)
qed

lemma help_page_offers:
  "(\<And>x y. h x = h y \<longleftrightarrow> x = y)
   \<Longrightarrow> offers (verification_header h shown) (h e) \<longleftrightarrow> e = Open_help \<or> shown"
  by (cases e) (auto simp: verification_header_def help_panel_def help_items_def help_item_def)

lemma targets_reached: "h \<in> set shell_targets \<Longrightarrow> screen_at h \<noteq> None"
  by (auto simp: shell_targets_def admin_reached)

lemma admin_shell_named: "all_named (admin_shell_view s)"
  by (simp add: admin_shell_view_def desktop_sidebar_def sidebar_session_def mobile_drawer_def drawer_session_def
      shell_header_left_def shell_header_right_def admin_nav_def nav_hints_def admin_nav_item_def mobile_link_def)

section \<open>Properties\<close>

text \<open>The administrator's shell: every run of its model is a run of the page; wherever it is, each of its
  buttons leads to a page of the program or ends the session, and closes the menu; every button has a name.\<close>

theorem shell_page_agrees:
  "(\<exists>es'. fold shell_step es' s = fold shell_step es s
      \<and> all_offered shell_step (\<lambda>s. offers (admin_shell_view s)) (\<lambda>_. True) es' s)
   \<and> (if offers (admin_shell_view s) (Go_to h)
      then screen_at h \<noteq> None \<and> \<not> sh_mobile_open (shell_step (Go_to h) s) else True)
   \<and> \<not> sh_mobile_open (shell_step Log_out s)
   \<and> all_named (admin_shell_view s)"
proof (intro conjI)
  show "if offers (admin_shell_view s) (Go_to h)
      then screen_at h \<noteq> None \<and> \<not> sh_mobile_open (shell_step (Go_to h) s) else True"
  proof (cases "h \<in> set shell_targets")
    case True
    then show ?thesis using targets_reached by (simp add: shell_navigate_def Let_def)
  next
    case False
    then show ?thesis by (auto simp: offers_admin_shell)
  qed
qed (use shell_page.runs_on_page admin_shell_named in simp_all)

text \<open>The pages without a state: the home page's only link leads to the login page; the final pages have
  no link at all and offer nothing but the help, and a final page shows the message it was given.\<close>

theorem final_pages_offer_help_only:
  "map screen_at (anchors (home_page h year shown)) = [Some Login_screen]
   \<and> anchors (result_view h year shown p) = []
   \<and> (offers (result_view h year shown p) e \<longleftrightarrow> offers (verification_header h shown) e)
   \<and> (offers (session_expired_page h year shown) e \<longleftrightarrow> offers (verification_header h shown) e)
   \<and> (case result_message p of None \<Rightarrow> True | Some t \<Rightarrow> shows_words (result_view h year shown p) t)"
proof -
  have shell: "offers (verification_shell h year shown st d vs) e
      \<longleftrightarrow> offers (verification_header h shown) e \<or> list_ex (\<lambda>v. offers v e) vs" for st d vs
    by (auto simp: verification_shell_def progress_view_def shell_footer_def list_ex_iff split: if_splits)
  have links: "anchors (verification_shell h year shown st d vs) = concat (map anchors vs)" for st d vs
  proof -
    have "anchors (verification_header h shown) = []"
      by (simp add: verification_header_def help_panel_def help_items_def help_item_def only_if_def)
    moreover have "anchors (progress_view st d :: 'a view) = []"
      by (auto simp: progress_view_def concat_eq_Nil_conv split: if_splits)
    ultimately show ?thesis by (simp add: verification_shell_def shell_footer_def)
  qed
  have "screen_at ''/admin/login'' = Some Login_screen"
    by (simp add: screen_at_def path_segments_def app_routes_def route_defs)
  then have "map screen_at (anchors (home_page h year shown)) = [Some Login_screen]"
    by (simp add: home_page_def links home_intro_def home_request_note_def home_aside_def home_process_def
        process_item_def)
  moreover have "anchors (result_view h year shown p) = []"
    by (auto simp: result_view_def links result_message_box_def result_access_box_def split: option.split)
  moreover have "offers (result_view h year shown p) e \<longleftrightarrow> offers (verification_header h shown) e"
    by (auto simp: result_view_def shell result_message_box_def result_access_box_def split: option.split)
  moreover have "offers (session_expired_page h year shown) e \<longleftrightarrow> offers (verification_header h shown) e"
    by (simp add: session_expired_page_def shell)
  moreover have "case result_message p of None \<Rightarrow> True | Some t \<Rightarrow> shows_words (result_view h year shown p) t"
    by (simp add: shows_words_def result_view_def verification_shell_def result_message_box_def
        split: option.split)
  ultimately show ?thesis by blast
qed

end
