(* ===== verification/Applicant_View.thy ===== *)
theory Applicant_View
  imports Applicant_Screens Views Dates
begin

text \<open>
  What the screens of an applicant's way render, under components/verification: waiting-room,
  approved-access, account-confirmation, more-information-required, status-guard and session-actions.
  \<open>show_time\<close>, \<open>show_clock\<close> and \<open>date_value\<close> are the locale's formats and \<open>new Date(text).getTime()\<close>.
\<close>

datatype screen_event = To_identity | End_session

definition framed :: "verification_step \<Rightarrow> bool \<Rightarrow> 'e view list \<Rightarrow> 'e view" where
  "framed st complete vs =
     Node ''VerificationShell''
      (Words (the (map_of verification_steps st)) # only_if complete [Node ''complete'' []] @ vs)"

section \<open>The waiting room\<close>

definition status_pill :: "bool \<Rightarrow> bool \<Rightarrow> string \<Rightarrow> 'e view" where
  "status_pill active complete t =
     Node ''StatusPill''
      [Node (if complete then ''Check'' else if active then ''Loader'' else ''span'') [], Words t]"

definition waiting_heading :: "bool \<Rightarrow> 'e view" where
  "waiting_heading reviewed =
     Node ''header''
      [Words (if reviewed then ''Administrator review'' else ''Review queue''),
       Node ''h1''
        [Words (if reviewed then ''Your verification is being reviewed''
                else ''Your verification is in the queue'')],
       Words (if reviewed
              then ''An authorized administrator has opened your case and is reviewing the information ''
                   @ ''and evidence you submitted.''
              else ''Your submission was received successfully and is waiting for an authorized ''
                   @ ''administrator to begin review.'')]"

definition waiting_pills :: "bool \<Rightarrow> 'e view" where
  "waiting_pills reviewed =
     Node ''div''
      [status_pill (\<not> reviewed) reviewed ''Submitted'', status_pill reviewed False ''Admin review'',
       status_pill False False ''Decision'']"

definition waiting_notice :: "bool \<Rightarrow> 'e view" where
  "waiting_notice reviewed =
     Node ''div''
      [Node ''h2'' [Words (if reviewed then ''Review has started'' else ''Waiting for a reviewer'')],
       Words (if reviewed
              then ''No action is required from you while the administrator reviews your case. If more ''
                   @ ''information is needed, your status will update automatically.''
              else ''You do not need to submit the form again. Your place in the verification queue is ''
                   @ ''already recorded.'')]"

definition locked_notice :: "'e view" where
  "locked_notice =
     Node ''div''
      [Node ''h2'' [Words ''Discord access remains locked''],
       Words (''Submitting verification does not grant access to the protected server. Access can be ''
              @ ''released only after an administrator explicitly approves this verification.'')]"

definition waiting_message :: "waiting_room \<Rightarrow> 'e view list" where
  "waiting_message s =
     (case wr_status s of
        None \<Rightarrow> []
      | Some st \<Rightarrow>
          if truthy (sr_user_message st)
          then [Node ''div'' [Words ''Administrator message'', Words (the (sr_user_message st))]] else [])"

definition live_status :: "(int \<Rightarrow> string) \<Rightarrow> waiting_room \<Rightarrow> 'e view" where
  "live_status show_clock s =
     Node ''aside''
      [Words ''Live status'', Node (if wr_refreshing s then ''Loader'' else ''Refresh'') [],
       Words (if waiting_in_review s then ''In review''
              else if wr_status s \<noteq> None then ''Queued'' else ''Checking'' @ ellipsis),
       Words ''This page checks for status changes automatically.'',
       Words ''Last checked'',
       Words (case wr_checked s of Some t \<Rightarrow> show_clock t | None \<Rightarrow> ''Checking now''),
       Words (''You can safely close this page and return later. We do not show an estimated review time ''
              @ ''unless one can be calculated reliably.'')]"

definition waiting_view :: "(int \<Rightarrow> string) \<Rightarrow> waiting_room \<Rightarrow> screen_event view" where
  "waiting_view show_clock s =
     framed (waiting_step s) False
      ([waiting_heading (waiting_in_review s), waiting_pills (waiting_in_review s),
        waiting_notice (waiting_in_review s), locked_notice]
       @ waiting_message s @ alert_if (wr_error s) @ [live_status show_clock s])"

section \<open>The approved access\<close>

definition completed_stage :: "string \<Rightarrow> 'e view" where
  "completed_stage t = Node ''CompletedStage'' [Node ''Check'' [], Words t]"

definition final_stage :: "bool \<Rightarrow> 'e view" where
  "final_stage ready =
     Node ''FinalStage'' [Node (if ready then ''Check'' else ''Loader'') [], Words ''Discord access'']"

definition access_info :: "string \<Rightarrow> string \<Rightarrow> 'e view" where
  "access_info caption v = Node ''AccessInfo'' [Words caption, Words v]"

definition apostrophe :: string where
  "apostrophe = [CHR 0xE2, CHR 0x80, CHR 0x99]"

definition access_loading_view :: "'e view" where
  "access_loading_view =
     framed Access False
      [Node ''h1'' [Words ''Checking your access''],
       Words (''Your verification is approved. We'' @ apostrophe @ ''re checking whether the controlled ''
              @ ''Discord entry grant is ready.'')]"

definition access_intro :: "approved_access \<Rightarrow> 'e view" where
  "access_intro s =
     Node ''div''
      [Words ''Verification approved'', Node ''h1'' [Words (access_heading s)],
       Words (if access_complete s
              then ''Your verification is complete and Discord access has been granted to the verified ''
                   @ ''account bound to this request.''
              else ''Your verification has been approved. Secure Discord access is being prepared for the ''
                   @ ''verified account bound to this request.'')]"

definition grant_times ::
  "(string \<Rightarrow> int option) \<Rightarrow> (string \<Rightarrow> string) \<Rightarrow> int \<Rightarrow> access_response \<Rightarrow> 'e view list" where
  "grant_times date_value show_time now a =
     (if truthy (ar_expires_at a)
      then [access_info ''Grant expires'' (show_time (the (ar_expires_at a))),
            access_info ''Time remaining'' (get_time_remaining date_value now (the (ar_expires_at a)))]
      else [])"

definition grant_panel ::
  "(string \<Rightarrow> int option) \<Rightarrow> (string \<Rightarrow> string) \<Rightarrow> int \<Rightarrow> access_response \<Rightarrow> 'e view" where
  "grant_panel date_value show_time now a =
     Node ''div''
      ([Node ''h2'' [Words ''Controlled server-entry grant''], Words ''Active'',
        Words (''This entry grant is intended only for the approved Discord identity. It may be ''
               @ ''short-lived, single-use, or otherwise validated when you join.'')]
       @ grant_times date_value show_time now a
       @ [Anchor ''Enter Discord server'' (the (ar_invite_url a)),
          Words (''Do not share this access action. It is intended for the same Discord account that ''
                 @ ''completed verification.'')])"

definition preparing_notice :: "'e view" where
  "preparing_notice =
     Node ''div''
      [Words ''Approval complete'', Node ''h2'' [Words ''Preparing your server-entry grant''],
       Words (''Your identity verification is already approved. An active Discord entry grant is not ''
              @ ''available yet, so this page is checking automatically.'')]"

definition preparing_panel :: "(int \<Rightarrow> string) \<Rightarrow> approved_access \<Rightarrow> 'e view" where
  "preparing_panel show_clock s =
     Node ''div''
      ([preparing_notice, Node (if aa_refreshing s then ''Loader'' else ''Refresh'') [],
        Words ''Checking access automatically'']
       @ (case aa_checked s of None \<Rightarrow> [] | Some t \<Rightarrow> [Words (''Last checked '' @ show_clock t)])
       @ [Words (''You do not need to submit verification again. Approval is already recorded; only the ''
                 @ ''controlled server-entry step is pending.'')])"

definition access_view ::
  "(string \<Rightarrow> int option) \<Rightarrow> (string \<Rightarrow> string) \<Rightarrow> (int \<Rightarrow> string) \<Rightarrow> int \<Rightarrow> approved_access
     \<Rightarrow> screen_event view" where
  "access_view date_value show_time show_clock now s =
     (if aa_loading s then access_loading_view
      else framed Access (access_complete s)
        ([access_intro s,
          if access_ready s then grant_panel date_value show_time now (the (aa_access s))
          else preparing_panel show_clock s]
         @ alert_if (aa_error s)
         @ [completed_stage ''Verification'', completed_stage ''Admin approval'', final_stage (access_ready s)]))"

section \<open>The confirmed account\<close>

definition account_loading_view :: "'e view" where
  "account_loading_view =
     framed Account False
      [Words ''Secure verification'', Node ''h1'' [Words ''Confirming your Discord account''],
       Words (''Please wait while we securely load the Discord account connected to this verification ''
              @ ''session.'')]"

definition account_error_view :: "string \<Rightarrow> 'e view" where
  "account_error_view message =
     framed Account False
      [Words ''Account confirmation'', Node ''h1'' [Words ''We couldn't confirm your account''], Words message]"

definition account_aside :: "'e view" where
  "account_aside =
     Node ''aside''
      [Words ''Secure identity check'', Node ''h2'' [Words ''Your Discord account is connected.''],
       Words (''We use your immutable Discord User ID to keep this verification request tied to the correct ''
              @ ''account.'')]"

definition account_facts :: "'e view" where
  "account_facts =
     Node ''div''
      [Words ''Account authenticated'',
       Words ''Discord OAuth has successfully identified the account in this session.'',
       Words ''Bound to this request'',
       Words ''Another Discord account cannot replace the account already confirmed here.'']"

definition account_identity :: "account_confirmation \<Rightarrow> 'e view" where
  "account_identity a =
     Node ''div''
      ((if truthy (ac_avatar_url a) then [Node ''img'' [Words (ac_username a @ '' Discord avatar'')]] else [])
       @ [Words ''You are verifying as'', Words (CHR ''@'' # ac_username a), Words (ac_discord_user_id a),
          Words ''Verified''])"

definition account_intro :: "'e view" where
  "account_intro =
     Node ''div''
      [Words ''Discord authenticated'', Words ''Secure session'', Words ''Account confirmation'',
       Node ''h1'' [Words ''Account confirmed''],
       Words ''Review the Discord account below before continuing to identity verification.'']"

definition account_binding_note :: "'e view" where
  "account_binding_note =
     Words (''This immutable Discord User ID is now bound to your verification session. A different Discord ''
            @ ''account cannot complete this request.'')"

definition account_continue :: "screen_event view" where
  "account_continue =
     Node ''div''
      [Control ''Continue to identity'' False To_identity, Words ''Your account is ready for the next step.'']"

definition account_page_view :: "account_confirmation loaded_screen \<Rightarrow> screen_event view" where
  "account_page_view s =
     (case account_render s of
        Account_loading \<Rightarrow> account_loading_view
      | Account_error message \<Rightarrow> account_error_view message
      | Account_shown a \<Rightarrow>
          framed Account False
           [account_aside, account_facts, account_intro, account_identity a, account_binding_note,
            account_continue])"

section \<open>More information\<close>

definition progress_item :: "string \<Rightarrow> bool \<Rightarrow> bool \<Rightarrow> 'e view" where
  "progress_item t complete active =
     Node ''ProgressItem'' [Node (if complete then ''Check'' else if active then ''active'' else ''span'') [], Words t]"

definition more_info_intro :: "'e view" where
  "more_info_intro =
     Node ''header''
      [Words ''Additional action required'', Node ''h1'' [Words ''We need a little more information''],
       Words (''An authorized administrator reviewed your submission and needs corrected or additional ''
              @ ''information before making a final decision.'')]"

definition more_info_text :: "status_response loaded_screen \<Rightarrow> 'e view" where
  "more_info_text s =
     (if ls_loading s then Words ''Loading review details''
      else case more_info_message s of
        Some t \<Rightarrow> Node ''div'' [Words ''Administrator message'', Words t]
      | None \<Rightarrow>
          Words (''No additional administrator message is available. Open your verification form to review ''
                 @ ''and update the information requested.''))"

definition more_info_view :: "status_response loaded_screen \<Rightarrow> screen_event view" where
  "more_info_view s =
     framed Identity False
      ([more_info_intro, progress_item ''Submitted'' True False, progress_item ''Admin review'' True False,
        progress_item ''Update needed'' False True, more_info_text s]
       @ alert_if (ls_error s)
       @ [Words ''Discord access is still locked'',
          Words (''Updating your submission does not grant server access. The new information must return ''
                 @ ''to review and be explicitly approved.''),
          Control ''Update verification'' False To_identity,
          Words ''Your existing request remains bound to the same authenticated Discord identity.''])"

section \<open>The guard and the end of a session\<close>

definition guard_unavailable_view :: "'e view" where
  "guard_unavailable_view =
     Node ''div''
      [Words ''Verification status unavailable'',
       Words (''We could not safely determine the current verification state. Refresh the page or reopen ''
              @ ''your private verification link.'')]"

definition guard_checking_view :: "'e view" where
  "guard_checking_view = Node ''div'' [Words (''Checking verification status'' @ ellipsis)]"

definition guarded_view :: "guard_state \<Rightarrow> 'e view list \<Rightarrow> 'e view list" where
  "guarded_view g vs =
     (case guard_render g of
        Unavailable \<Rightarrow> [guard_unavailable_view] | Checking \<Rightarrow> [guard_checking_view] | Children \<Rightarrow> vs)"

definition session_actions :: "screen_event view" where
  "session_actions = Control ''End verification session'' False End_session"

section \<open>Facts\<close>

text \<open>The page is loading until the first answer only.\<close>

definition access_loads_first :: "approved_access \<Rightarrow> bool" where
  "access_loads_first s \<longleftrightarrow> (aa_loading s \<longrightarrow> aa_first s) \<and> (aa_first s \<longrightarrow> aa_access s = None)"

lemma access_step_loads:
  "access_loads_first s \<Longrightarrow> access_loads_first (poll_step access_answer access_tick access_leave aa_wait e s)"
  by (cases e) (auto simp: access_loads_first_def access_answer_def access_tick_def access_leave_def Let_def
      split: sum.split)

lemma access_run_loads: "access_loads_first (access_run es approved_access_new)"
proof -
  have "access_loads_first s \<Longrightarrow> access_loads_first (access_run es s)" for s
    by (induction es arbitrary: s) (simp_all add: access_step_loads del: poll_step.simps)
  then show ?thesis by (simp add: access_loads_first_def approved_access_new_def)
qed

lemma loaded_when_seen: "grant_seen (access_run es approved_access_new) \<Longrightarrow> \<not> aa_loading (access_run es approved_access_new)"
  using access_run_loads [of es] by (auto simp: access_loads_first_def grant_seen_def)

lemma access_panels_anchors [simp]:
  "concat (map anchors (grant_times date_value show_time now a)) = []"
  "concat (map anchors (alert_if x)) = []"
  by (auto simp: grant_times_def access_info_def alert_if_def split: if_splits)

lemma preparing_anchors [simp]: "anchors (preparing_panel show_clock s) = []"
  by (auto simp: preparing_panel_def preparing_notice_def split: option.split)

lemma access_view_anchors:
  "anchors (access_view date_value show_time show_clock now s) =
     (if \<not> aa_loading s \<and> access_ready s then [the (ar_invite_url (the (aa_access s)))] else [])"
  by (simp add: access_view_def access_loading_view_def framed_def access_intro_def grant_panel_def
      completed_stage_def final_stage_def only_if_def)

lemma access_view_checking:
  "\<not> aa_loading s \<Longrightarrow> \<not> access_ready s
    \<Longrightarrow> shows_words (access_view date_value show_time show_clock now s) ''Checking access automatically''"
  by (simp add: access_view_def framed_def preparing_panel_def shows_words_def)

text \<open>No screen of an applicant has a control without a name, and only two have any control.\<close>

lemma applicant_views_named:
  "all_named (waiting_view show_clock w)" "all_named (access_view date_value show_time show_clock now s)"
  "all_named (account_page_view a)" "all_named (more_info_view m)"
proof -
  have framed: "all_named (framed st b vs) \<longleftrightarrow> list_all all_named vs" for st b and vs :: "screen_event view list"
    by (simp add: framed_def)
  show "all_named (waiting_view show_clock w)"
    by (simp add: waiting_view_def framed waiting_heading_def waiting_pills_def status_pill_def waiting_notice_def
        locked_notice_def waiting_message_def live_status_def split: option.split)
  have "list_all all_named (grant_times date_value show_time now x :: screen_event view list)" for x
    by (simp add: grant_times_def access_info_def)
  moreover have "all_named (preparing_panel show_clock s :: screen_event view)"
    by (simp add: preparing_panel_def preparing_notice_def split: option.split)
  moreover have "all_named (access_intro s :: screen_event view)" by (simp add: access_intro_def)
  ultimately show "all_named (access_view date_value show_time show_clock now s)"
    by (simp add: access_view_def access_loading_view_def framed grant_panel_def completed_stage_def final_stage_def)
  show "all_named (account_page_view a)"
    by (simp add: account_page_view_def account_loading_view_def account_error_view_def framed account_aside_def
        account_facts_def account_intro_def account_identity_def account_binding_note_def account_continue_def
        split: account_view.split)
  have "all_named (more_info_text m :: screen_event view)"
    by (simp add: more_info_text_def split: option.split)
  then show "all_named (more_info_view m)"
    by (simp add: more_info_view_def framed more_info_intro_def progress_item_def)
qed

text \<open>After the answer that ended it, no answer and no timer changes the page.\<close>

lemma polling_over: "wait s = Poll_done \<Longrightarrow> fold (poll_step answer tick leave wait) (filter (\<lambda>e. e \<noteq> Leaves) es) s = s"
proof (induction es)
  case (Cons e es)
  then show ?case by (cases e) simp_all
qed simp

section \<open>Properties\<close>


end
