(* ===== verification/Server_Rules.thy ===== *)
theory Server_Rules
  imports Admin_Session Api_Client
begin

text \<open>
  The rules the server enforces, \<open>src/app\<close> (Python): the enumerations of core/constants.py, the
  transition table of services/verification/state_machine.py, the permissions of
  core/permissions.py, the checks of a submission in services/verification/submission_rules.py and
  services/verification/evidence_rules.py. The enumerations of statuses, roles and evidence types
  are those of the browser's types; that their values agree is proved.
\<close>

section \<open>Enumerations\<close>

fun server_status_value :: "verification_status \<Rightarrow> string" where
  "server_status_value Pending = ''pending''"
| "server_status_value Queued = ''queued''"
| "server_status_value In_review = ''in_review''"
| "server_status_value More_info = ''more_info''"
| "server_status_value Approved = ''approved''"
| "server_status_value Rejected = ''rejected''"
| "server_status_value Expired = ''expired''"
| "server_status_value Revoked = ''revoked''"

fun server_role_value :: "admin_role \<Rightarrow> string" where
  "server_role_value Reviewer = ''reviewer''"
| "server_role_value Admin = ''admin''"
| "server_role_value Super_admin = ''super_admin''"

fun server_evidence_value :: "evidence_type \<Rightarrow> string" where
  "server_evidence_value Document_front = ''document_front''"
| "server_evidence_value Document_back = ''document_back''"
| "server_evidence_value Selfie = ''selfie''"
| "server_evidence_value Liveness = ''liveness''"

datatype grant_status =
  Grant_not_issued | Grant_issued | Grant_consumed | Grant_expired | Grant_revoked

fun server_grant_value :: "grant_status \<Rightarrow> string" where
  "server_grant_value Grant_not_issued = ''not_issued''"
| "server_grant_value Grant_issued = ''issued''"
| "server_grant_value Grant_consumed = ''consumed''"
| "server_grant_value Grant_expired = ''expired''"
| "server_grant_value Grant_revoked = ''revoked''"

datatype object_status = Temporary | Attached | Deleted_object

lemma server_status_agrees: "server_status_value s = status_name s"
  by (cases s) simp_all

lemma server_role_agrees: "server_role_value r = role_name r"
  by (cases r) simp_all

lemma server_evidence_agrees: "server_evidence_value t = evidence_name t"
  by (cases t) simp_all

section \<open>Errors\<close>

text \<open>
  The exceptions of the services. \<open>Http_error\<close> is an \<open>HTTPException\<close> of a route or a dependency;
  \<open>Other_exception\<close> stands for the exceptions of Discord, the object store and the database.
\<close>

datatype server_error =
    Transition_error verification_status verification_status
  | Submission_error string
  | Claim_error string
  | Decision_error string
  | Lifecycle_error string
  | Grant_error string
  | Invalid_request string
  | Evidence_not_requested
  | Invalid_session
  | Capture_unavailable
  | Invalid_capture_token
  | Invalid_capture_session
  | Http_error nat string
  | Other_exception

section \<open>The transition table\<close>

fun allowed_transitions :: "verification_status \<Rightarrow> verification_status list" where
  "allowed_transitions Pending = [Queued, Expired, Revoked]"
| "allowed_transitions Queued = [In_review, Expired, Revoked]"
| "allowed_transitions In_review = [Approved, Rejected, More_info, Revoked]"
| "allowed_transitions More_info = [Queued, In_review, Rejected, Expired, Revoked]"
| "allowed_transitions Approved = [Revoked]"
| "allowed_transitions Rejected = [More_info]"
| "allowed_transitions Expired = []"
| "allowed_transitions Revoked = []"

definition can_transition :: "verification_status \<Rightarrow> verification_status \<Rightarrow> bool" where
  "can_transition current new \<longleftrightarrow> new \<in> set (allowed_transitions current)"

definition require_transition ::
  "verification_status \<Rightarrow> verification_status \<Rightarrow> server_error + unit" where
  "require_transition current new =
     (if can_transition current new then Inr () else Inl (Transition_error current new))"

section \<open>Permissions\<close>

datatype permission =
    Request_create | Request_view | Request_revoke | Request_extend
  | Queue_view | Case_claim | Case_assign
  | Evidence_view | Evidence_download | Evidence_delete
  | Decision_approve | Decision_reject | Decision_more_info
  | Audit_view | Access_grant | Access_revoke | Admin_manage | Security_manage

fun role_has_permission :: "admin_role \<Rightarrow> permission \<Rightarrow> bool" where
  "role_has_permission Reviewer p \<longleftrightarrow>
     p \<in> {Request_view, Queue_view, Case_claim, Evidence_view, Decision_approve, Decision_reject,
          Decision_more_info, Audit_view}"
| "role_has_permission Admin p \<longleftrightarrow>
     p \<in> {Request_create, Request_view, Request_revoke, Request_extend, Queue_view, Case_claim,
          Case_assign, Evidence_view, Evidence_download, Evidence_delete, Decision_approve,
          Decision_reject, Decision_more_info, Audit_view, Access_grant, Access_revoke}"
| "role_has_permission Super_admin p \<longleftrightarrow> True"

lemma roles_increase:
  "role_has_permission Reviewer p \<Longrightarrow> role_has_permission Admin p"
  by auto

lemma admins_do_not_manage:
  "role_has_permission r Admin_manage \<longleftrightarrow> r = Super_admin"
  "role_has_permission r Security_manage \<longleftrightarrow> r = Super_admin"
  by (cases r; simp)+

section \<open>What a submission must contain\<close>

text \<open>\<open>VerificationSubmissionCreate\<close>; the date and the identifiers are those Pydantic has read.\<close>

record 'date submission_create =
  sc_legal_name :: "string option"
  sc_date_of_birth :: "'date option"
  sc_age_result :: "string option"
  sc_issuing_country :: "string option"
  sc_document_type :: "string option"
  sc_evidence_ids :: "nat list"
  sc_consent_confirmed :: bool
  sc_accuracy_confirmed :: bool

text \<open>Python's \<open>not x\<close> on an optional string.\<close>

definition blank :: "string option \<Rightarrow> bool" where
  "blank x \<longleftrightarrow> x = None \<or> x = Some []"

definition validate_submission_fields ::
  "required_evidence \<Rightarrow> 'date submission_create \<Rightarrow> server_error + unit" where
  "validate_submission_fields required p =
     (if needs_legal_name required \<and> blank (sc_legal_name p)
        then Inl (Submission_error ''Legal name is required.'')
      else if needs_date_of_birth required \<and> sc_date_of_birth p = None
        then Inl (Submission_error ''Date of birth is required.'')
      else if needs_age_confirmation required \<and> blank (sc_age_result p)
        then Inl (Submission_error ''Age confirmation is required.'')
      else if needs_issuing_country required \<and> blank (sc_issuing_country p)
        then Inl (Submission_error ''Issuing country is required.'')
      else if needs_document_type required \<and> blank (sc_document_type p)
        then Inl (Submission_error ''Document type is required.'')
      else if \<not> sc_consent_confirmed p
        then Inl (Submission_error ''Consent confirmation is required.'')
      else if \<not> sc_accuracy_confirmed p
        then Inl (Submission_error ''Accuracy confirmation is required.'')
      else Inr ())"

fun asks_for :: "evidence_type \<Rightarrow> required_evidence \<Rightarrow> bool" where
  "asks_for Document_front r = needs_document_front r"
| "asks_for Document_back r = needs_document_back r"
| "asks_for Selfie r = needs_selfie r"
| "asks_for Liveness r = needs_liveness r"

definition ensure_evidence_requested :: "required_evidence \<Rightarrow> evidence_type \<Rightarrow> server_error + unit" where
  "ensure_evidence_requested required t =
     (if asks_for t required then Inr () else Inl Evidence_not_requested)"

end
