(* ===== verification/Server_Requests.thy ===== *)
theory Server_Requests
  imports Server_Rules
begin

text \<open>
  The life of a verification request on the server: services/verification/ \<open>request_service\<close>,
  \<open>submission_service\<close>, \<open>session_service\<close>, \<open>result_service\<close>, services/admin/ \<open>review_service\<close>,
  \<open>request_lifecycle_service\<close>, \<open>evidence_deletion_service\<close>, services/storage/evidence_service.py and
  services/jobs/request_expiration.py.

  The database is a record of tables. A service is one transaction: it answers with a value or an
  exception and the tables as they are after the last commit. Times are integers, identifiers are
  numbers; the ones the database makes are arguments. A raw token stands for its hash, that is, two
  tokens with one hash are left out. Of an audit event the actor, the action and the request are
  kept.
\<close>

section \<open>The tables\<close>

record request_row =
  rq_discord :: int
  rq_username :: "string option"
  rq_token :: string
  rq_status :: verification_status
  rq_required :: required_evidence
  rq_expires :: int
  rq_count :: int
  rq_max :: int
  rq_created_by :: nat
  rq_reviewer :: "nat option"
  rq_created :: int
  rq_updated :: int
  rq_queue_entered :: "int option"
  rq_review_started :: "int option"
  rq_decided :: "int option"
  rq_revoked :: "int option"
  rq_access_granted :: "int option"
  rq_access_expires :: "int option"
  rq_last_activity :: int

record evidence_row =
  eo_request :: nat
  eo_submission :: "nat option"
  eo_capture :: "nat option"
  eo_type :: evidence_type
  eo_content_type :: string
  eo_size :: int
  eo_status :: object_status
  eo_uploaded :: int
  eo_attached :: "int option"
  eo_expires :: "int option"
  eo_deleted :: "int option"
  eo_deleted_by :: "nat option"

record 'date submission_row =
  sb_id :: nat
  sb_request :: nat
  sb_legal_name :: "string option"
  sb_date_of_birth :: "'date option"
  sb_age_result :: "string option"
  sb_issuing_country :: "string option"
  sb_document_type :: "string option"
  sb_evidence :: "nat list"
  sb_submitted :: int

record decision_row =
  dc_request :: nat
  dc_reviewer :: nat
  dc_decision :: verification_status
  dc_reason_code :: "string option"
  dc_internal_note :: "string option"
  dc_user_message :: "string option"
  dc_created :: int

record result_row =
  rs_discord :: int
  rs_verified :: bool
  rs_reviewer :: "nat option"
  rs_verified_at :: int
  rs_revoked_at :: "int option"

text \<open>One grant per request (\<open>unique=True\<close>): a grant is named by its request.\<close>

record grant_row =
  gr_discord :: int
  gr_status :: grant_status
  gr_invite :: "string option"
  gr_issued :: "int option"
  gr_expires :: "int option"
  gr_consumed :: "int option"
  gr_revoked :: "int option"
  gr_updated :: int

record session_row =
  vs_request :: nat
  vs_discord :: int
  vs_created :: int
  vs_expires :: int
  vs_last_used :: "int option"
  vs_revoked :: "int option"

datatype capture_stage = Cap_pending | Cap_connected | Cap_completed | Cap_revoked

text \<open>A QR session: its own token, and the phone's after the exchange.\<close>

record capture_row =
  cp_id :: nat
  cp_request :: nat
  cp_session :: nat
  cp_token :: string
  cp_phone_token :: "string option"
  cp_status :: capture_stage
  cp_created :: int
  cp_expires :: int
  cp_exchanged :: "int option"
  cp_phone_expires :: "int option"
  cp_connected :: "int option"
  cp_last_activity :: int
  cp_completed :: "int option"
  cp_revoked :: "int option"

datatype audit_actor = By_system | By_bot | By_phone | By_applicant int | By_admin nat

datatype audit_action =
    Log_created | Log_expired | Log_revoked | Log_extended | Log_assigned | Log_claimed
  | Log_submitted | Log_resubmitted | Log_approved | Log_rejected | Log_more_info
  | Log_evidence_deleted | Log_granted | Log_access_revoked | Log_dm_sent | Log_dm_failed
  | Log_consumed | Log_auth_denied | Log_auth_succeeded
  | Log_capture_created | Log_capture_exchanged | Log_capture_uploaded | Log_capture_completed
  | Log_capture_revoked

record audit_entry =
  log_actor :: audit_actor
  log_action :: audit_action
  log_request :: nat

record 'date database =
  db_requests :: "nat \<rightharpoonup> request_row"
  db_evidence :: "nat \<rightharpoonup> evidence_row"
  db_submissions :: "'date submission_row list"
  db_decisions :: "decision_row list"
  db_results :: "nat \<rightharpoonup> result_row"
  db_grants :: "nat \<rightharpoonup> grant_row"
  db_sessions :: "nat \<rightharpoonup> session_row"
  db_captures :: "capture_row list"
  db_audit :: "audit_entry list"

definition database_new :: "'date database" where
  "database_new =
     \<lparr>db_requests = (\<lambda>_. None), db_evidence = (\<lambda>_. None), db_submissions = [], db_decisions = [],
      db_results = (\<lambda>_. None), db_grants = (\<lambda>_. None), db_sessions = (\<lambda>_. None),
      db_captures = [], db_audit = []\<rparr>"

type_synonym ('s, 'a) service = "'s \<Rightarrow> (server_error + 'a) \<times> 's"

text \<open>core/config.py: what the services read of it.\<close>

record server_config =
  cfg_default_expiry_hours :: int
  cfg_session_ttl_minutes :: int
  cfg_temporary_ttl_minutes :: int
  cfg_invite_max_age_seconds :: int
  cfg_capture_ttl_minutes :: int
  cfg_frontend_url :: string

definition default_config :: server_config where
  "default_config =
     \<lparr>cfg_default_expiry_hours = 24, cfg_session_ttl_minutes = 30, cfg_temporary_ttl_minutes = 60,
      cfg_invite_max_age_seconds = 900, cfg_capture_ttl_minutes = 10,
      cfg_frontend_url = ''http://localhost:3000''\<rparr>"

definition set_request :: "nat \<Rightarrow> request_row \<Rightarrow> ('date, 'm) database_scheme \<Rightarrow> ('date, 'm) database_scheme" where
  "set_request rid q s = s\<lparr>db_requests := (db_requests s)(rid \<mapsto> q)\<rparr>"

definition record_audit ::
  "audit_actor \<Rightarrow> audit_action \<Rightarrow> nat \<Rightarrow> ('date, 'm) database_scheme \<Rightarrow> ('date, 'm) database_scheme" where
  "record_audit actor action rid s =
     s\<lparr>db_audit := db_audit s @ [\<lparr>log_actor = actor, log_action = action, log_request = rid\<rparr>]\<rparr>"

text \<open>\<open>updated_at\<close> and \<open>last_activity_at\<close> are set together.\<close>

definition touched :: "int \<Rightarrow> request_row \<Rightarrow> request_row" where
  "touched now q = q\<lparr>rq_updated := now, rq_last_activity := now\<rparr>"

section \<open>Creation, expiration\<close>

record request_create =
  cr_discord :: string
  cr_username :: "string option"
  cr_required :: required_evidence
  cr_expires :: "int option"
  cr_max :: int

text \<open>
  \<open>VerificationRequestCreate\<close>: the bounds of the fields, then the validator of the Discord ID.
  \<open>isdigit\<close> is that of ASCII digits.
\<close>

definition validate_create :: "request_create \<Rightarrow> server_error + request_create" where
  "validate_create p =
     (let v = trim (cr_discord p)
      in if \<not> (17 \<le> length (cr_discord p) \<and> length (cr_discord p) \<le> 20)
            \<or> (case cr_username p of None \<Rightarrow> False | Some u \<Rightarrow> length u > 100)
            \<or> \<not> (1 \<le> cr_max p \<and> cr_max p \<le> 10)
         then Inl (Http_error 422 ''Unprocessable Entity'')
         else if v = [] \<or> \<not> list_all is_digit v \<or> parse_digits v = 0
           then Inl (Http_error 422 ''Unprocessable Entity'')
           else Inr (p\<lparr>cr_discord := v\<rparr>))"

text \<open>The column of a Discord ID is a \<open>BigInteger\<close>: storing a greater number fails.\<close>

definition bigint_max :: int where
  "bigint_max = 2 ^ 63 - 1"

definition create_request ::
  "server_config \<Rightarrow> int \<Rightarrow> nat \<Rightarrow> string \<Rightarrow> nat \<Rightarrow> request_create
     \<Rightarrow> (('date, 'm) database_scheme, nat \<times> string) service" where
  "create_request cfg now rid token admin p s =
     (let expires = (case cr_expires p of
                       None \<Rightarrow> now + 3600 * cfg_default_expiry_hours cfg | Some e \<Rightarrow> e)
      in if expires \<le> now then (Inl (Invalid_request ''Expiration must be in the future.''), s)
         else if int (parse_digits (cr_discord p)) > bigint_max then (Inl Other_exception, s)
         else (Inr (rid, token),
               record_audit (By_admin admin) Log_created rid (set_request rid
                 \<lparr>rq_discord = int (parse_digits (cr_discord p)), rq_username = cr_username p,
                  rq_token = token, rq_status = Pending, rq_required = cr_required p,
                  rq_expires = expires, rq_count = 0, rq_max = cr_max p, rq_created_by = admin,
                  rq_reviewer = None, rq_created = now, rq_updated = now, rq_queue_entered = None,
                  rq_review_started = None, rq_decided = None, rq_revoked = None,
                  rq_access_granted = None, rq_access_expires = None, rq_last_activity = now\<rparr> s)))"

definition ensure_request_available :: "int \<Rightarrow> request_row \<Rightarrow> server_error + unit" where
  "ensure_request_available now q =
     (if rq_status q = Revoked \<or> rq_status q = Expired \<or> rq_expires q \<le> now
      then Inl (Http_error 404 ''Verification request unavailable.'') else Inr ())"

text \<open>\<open>expire_request_if_needed\<close> commits when it expires a request.\<close>

definition expire_request ::
  "int \<Rightarrow> nat \<Rightarrow> request_row \<Rightarrow> (('date, 'm) database_scheme, bool) service" where
  "expire_request now rid q s =
     (if rq_status q \<in> {Approved, Rejected, Expired, Revoked} then (Inr False, s)
      else if rq_expires q > now then (Inr False, s)
      else case require_transition (rq_status q) Expired of
             Inl e \<Rightarrow> (Inl e, s)
           | Inr _ \<Rightarrow>
               (Inr True, record_audit By_system Log_expired rid
                  (set_request rid (touched now (q\<lparr>rq_status := Expired\<rparr>)) s)))"

text \<open>The job, one transaction: the due requests, in the order of the query.\<close>

definition due_for_expiration :: "int \<Rightarrow> request_row \<Rightarrow> bool" where
  "due_for_expiration now q \<longleftrightarrow> rq_status q \<in> {Pending, Queued, More_info} \<and> rq_expires q \<le> now"

fun expire_loop :: "int \<Rightarrow> nat list \<Rightarrow> (('date, 'm) database_scheme, nat) service" where
  "expire_loop now [] s = (Inr 0, s)"
| "expire_loop now (rid # rids) s =
     (case db_requests s rid of
        None \<Rightarrow> expire_loop now rids s
      | Some q \<Rightarrow>
          if due_for_expiration now q then
            (case require_transition (rq_status q) Expired of
               Inl e \<Rightarrow> (Inl e, s)
             | Inr _ \<Rightarrow>
                 (case expire_loop now rids (record_audit By_system Log_expired rid
                         (set_request rid (touched now (q\<lparr>rq_status := Expired\<rparr>)) s)) of
                    (Inl e, s') \<Rightarrow> (Inl e, s')
                  | (Inr n, s') \<Rightarrow> (Inr (Suc n), s')))
          else expire_loop now rids s)"

definition expire_due_requests :: "int \<Rightarrow> nat list \<Rightarrow> (('date, 'm) database_scheme, nat) service" where
  "expire_due_requests now rids s =
     (case expire_loop now rids s of (Inl e, _) \<Rightarrow> (Inl e, s) | (Inr n, s') \<Rightarrow> (Inr n, s'))"

section \<open>Applicant sessions\<close>

definition new_session ::
  "server_config \<Rightarrow> int \<Rightarrow> nat \<Rightarrow> nat \<Rightarrow> int \<Rightarrow> ('date, 'm) database_scheme \<Rightarrow> ('date, 'm) database_scheme" where
  "new_session cfg now vid rid discord s =
     s\<lparr>db_sessions := (db_sessions s)(vid \<mapsto>
        \<lparr>vs_request = rid, vs_discord = discord, vs_created = now,
         vs_expires = now + 60 * cfg_session_ttl_minutes cfg, vs_last_used = None,
         vs_revoked = None\<rparr>)\<rparr>"

definition valid_session :: "int \<Rightarrow> session_row option \<Rightarrow> server_error + session_row" where
  "valid_session now v =
     (case v of
        None \<Rightarrow> Inl Invalid_session
      | Some w \<Rightarrow>
          if vs_revoked w \<noteq> None \<or> vs_expires w \<le> now then Inl Invalid_session
          else Inr (w\<lparr>vs_last_used := Some now\<rparr>))"

text \<open>The time of last use is written by the next commit.\<close>

definition touch_session :: "nat \<Rightarrow> session_row \<Rightarrow> ('date, 'm) database_scheme \<Rightarrow> ('date, 'm) database_scheme" where
  "touch_session vid w s = s\<lparr>db_sessions := (db_sessions s)(vid \<mapsto> w)\<rparr>"

definition session_matches :: "nat \<Rightarrow> request_row \<Rightarrow> session_row \<Rightarrow> bool" where
  "session_matches rid q w \<longleftrightarrow> vs_request w = rid \<and> vs_discord w = rq_discord q"

text \<open>
  The callback of the Discord login, after its one-time state has been consumed. \<open>answer\<close>: the
  identifier and the name of the authenticated account, if Discord gave them. The value says whether
  the browser is sent on to the account page or to the page of a refused access.
\<close>

definition oauth_callback ::
  "server_config \<Rightarrow> int \<Rightarrow> nat \<Rightarrow> nat \<Rightarrow> (int \<times> string) option
     \<Rightarrow> (('date, 'm) database_scheme, string) service" where
  "oauth_callback cfg now vid rid answer s =
     (case db_requests s rid of
        None \<Rightarrow> (Inl (Http_error 400 ''Authentication request invalid.''), s)
      | Some q \<Rightarrow>
          (case expire_request now rid q s of
             (Inl e, s1) \<Rightarrow> (Inl e, s1)
           | (Inr True, s1) \<Rightarrow> (Inl (Http_error 400 ''Authentication request invalid.''), s1)
           | (Inr False, s1) \<Rightarrow>
               (case ensure_request_available now q of
                  Inl _ \<Rightarrow> (Inl (Http_error 400 ''Authentication request invalid.''), s1)
                | Inr _ \<Rightarrow>
                    (case answer of
                       None \<Rightarrow> (Inl (Http_error 400 ''Discord authentication failed.''), s1)
                     | Some (discord, name) \<Rightarrow>
                         if discord \<noteq> rq_discord q
                         then (Inr ''/verification/access-denied'',
                               record_audit (By_applicant discord) Log_auth_denied rid s1)
                         else (Inr ''/verification/account-confirmed'',
                               record_audit (By_applicant discord) Log_auth_succeeded rid
                                 (set_request rid (q\<lparr>rq_username := Some name\<rparr>)
                                   (new_session cfg now vid rid discord s1)))))))"

definition revoke_session :: "int \<Rightarrow> nat \<Rightarrow> ('date, 'm) database_scheme \<Rightarrow> ('date, 'm) database_scheme" where
  "revoke_session now vid s =
     (case db_sessions s vid of
        None \<Rightarrow> s
      | Some w \<Rightarrow>
          if vs_revoked w = None
          then s\<lparr>db_sessions := (db_sessions s)(vid \<mapsto> w\<lparr>vs_revoked := Some now\<rparr>)\<rparr> else s)"

definition rotate_session ::
  "server_config \<Rightarrow> int \<Rightarrow> nat \<Rightarrow> nat \<Rightarrow> session_row \<Rightarrow> ('date, 'm) database_scheme
     \<Rightarrow> ('date, 'm) database_scheme" where
  "rotate_session cfg now new_vid vid w s =
     new_session cfg now new_vid (vs_request w) (vs_discord w)
       (s\<lparr>db_sessions := (db_sessions s)(vid \<mapsto> w\<lparr>vs_revoked := Some now\<rparr>)\<rparr>)"

section \<open>Evidence and submission\<close>

text \<open>A file the upload has validated.\<close>

record stored_file =
  sf_content_type :: string
  sf_size :: int

definition store_evidence ::
  "server_config \<Rightarrow> int \<Rightarrow> nat \<Rightarrow> nat \<Rightarrow> nat option \<Rightarrow> evidence_type \<Rightarrow> stored_file
     \<Rightarrow> ('date, 'm) database_scheme \<Rightarrow> ('date, 'm) database_scheme" where
  "store_evidence cfg now eid rid capture t f s =
     s\<lparr>db_evidence := (db_evidence s)(eid \<mapsto>
        \<lparr>eo_request = rid, eo_submission = None, eo_capture = capture, eo_type = t,
         eo_content_type = sf_content_type f, eo_size = sf_size f, eo_status = Temporary,
         eo_uploaded = now, eo_attached = None,
         eo_expires = Some (now + 60 * cfg_temporary_ttl_minutes cfg), eo_deleted = None,
         eo_deleted_by = None\<rparr>)\<rparr>"

text \<open>The checks of one evidence object, and of all of them in order.\<close>

definition evidence_error :: "int \<Rightarrow> nat \<Rightarrow> evidence_row \<Rightarrow> string option" where
  "evidence_error now rid e =
     (if eo_request e \<noteq> rid then Some ''Evidence does not belong to this request.''
      else if eo_status e \<noteq> Temporary then Some ''Evidence is not available for submission.''
      else if (case eo_expires e of None \<Rightarrow> False | Some x \<Rightarrow> x \<le> now)
        then Some ''Evidence upload has expired.''
      else None)"

fun first_error :: "string option list \<Rightarrow> string option" where
  "first_error [] = None"
| "first_error (None # es) = first_error es"
| "first_error (Some e # es) = Some e"

definition attached_to :: "nat \<Rightarrow> int \<Rightarrow> evidence_row \<Rightarrow> evidence_row" where
  "attached_to sid now e =
     e\<lparr>eo_submission := Some sid, eo_status := Attached, eo_attached := Some now, eo_expires := None\<rparr>"

definition attach_all ::
  "nat \<Rightarrow> int \<Rightarrow> nat list \<Rightarrow> (nat \<rightharpoonup> evidence_row) \<Rightarrow> nat \<rightharpoonup> evidence_row" where
  "attach_all sid now ids m =
     (\<lambda>i. if i \<in> set ids then map_option (attached_to sid now) (m i) else m i)"

text \<open>
  \<open>create_submission\<close>. The database returns the evidence objects in an order of its own; here it is
  that of the payload.
\<close>

definition create_submission ::
  "int \<Rightarrow> nat \<Rightarrow> nat \<Rightarrow> request_row \<Rightarrow> session_row \<Rightarrow> 'date submission_create
     \<Rightarrow> (('date, 'm) database_scheme, nat) service" where
  "create_submission now sid rid q w p s =
     (let ids = sc_evidence_ids p in if rq_status q \<notin> {Pending, More_info}
        then (Inl (Submission_error ''Submission is not allowed in the current state.''), s)
      else if rq_count q \<ge> rq_max q then (Inl (Submission_error ''Submission limit reached.''), s)
      else case validate_submission_fields (rq_required q) p of
        Inl e \<Rightarrow> (Inl e, s)
      | Inr _ \<Rightarrow>
          if \<not> distinct ids
            then (Inl (Submission_error ''Duplicate evidence objects are not allowed.''), s)
          else
            (let rows = List.map_filter (db_evidence s) ids
             in if length rows \<noteq> length ids
                  then (Inl (Submission_error ''One or more evidence objects are invalid.''), s)
                else case first_error (map (evidence_error now rid) rows) of
                  Some m \<Rightarrow> (Inl (Submission_error m), s)
                | None \<Rightarrow>
                    (case require_transition (rq_status q) Queued of
                       Inl e \<Rightarrow> (Inl e, s)
                     | Inr _ \<Rightarrow>
                         (Inr sid,
                          record_audit (By_applicant (vs_discord w))
                            (if rq_status q = Pending then Log_submitted else Log_resubmitted) rid
                            (set_request rid
                              (touched now (q\<lparr>rq_status := Queued, rq_count := rq_count q + 1,
                                 rq_queue_entered := Some now\<rparr>))
                              (s\<lparr>db_submissions := db_submissions s @
                                   [\<lparr>sb_id = sid, sb_request = rid, sb_legal_name = sc_legal_name p,
                                     sb_date_of_birth = sc_date_of_birth p,
                                     sb_age_result = sc_age_result p,
                                     sb_issuing_country =
                                       (if blank (sc_issuing_country p) then None
                                        else map_option upper (sc_issuing_country p)),
                                     sb_document_type = sc_document_type p, sb_evidence = ids,
                                     sb_submitted = now\<rparr>],
                                 db_evidence := attach_all sid now ids (db_evidence s)\<rparr>))))))"

text \<open>
  The route \<open>POST /verification/submit\<close> after the CSRF check and the rate limit: the session, the
  request, its expiration, then the service and the rotation of the session.
\<close>

definition submit_route ::
  "server_config \<Rightarrow> int \<Rightarrow> nat \<Rightarrow> nat \<Rightarrow> nat \<Rightarrow> 'date submission_create
     \<Rightarrow> (('date, 'm) database_scheme, nat) service" where
  "submit_route cfg now vid sid new_vid p s =
     (case valid_session now (db_sessions s vid) of
        Inl _ \<Rightarrow> (Inl (Http_error 401 ''Verification authentication required.''), s)
      | Inr w \<Rightarrow>
          (case db_requests s (vs_request w) of
             None \<Rightarrow> (Inl (Http_error 404 ''Verification request unavailable.''), s)
           | Some q \<Rightarrow>
               (case expire_request now (vs_request w) q s of
                  (Inl e, s1) \<Rightarrow> (Inl e, s1)
                | (Inr True, s1) \<Rightarrow> (Inl (Http_error 400 ''Submission is not available.''), touch_session vid w s1)
                | (Inr False, s1) \<Rightarrow>
                    if \<not> session_matches (vs_request w) q w
                    then (Inl (Http_error 401 ''Verification authentication required.''), s1)
                    else (case create_submission now sid (vs_request w) q w p s1 of
                            (Inl (Submission_error m), s2) \<Rightarrow> (Inl (Http_error 400 m), s2)
                          | (Inl e, s2) \<Rightarrow> (Inl e, s2)
                          | (Inr i, s2) \<Rightarrow> (Inr i, rotate_session cfg now new_vid vid w s2)))))"

text \<open>
  The route \<open>POST /verification/evidence/{evidence_type}\<close>; \<open>upload\<close> is what the file validation
  answered.
\<close>

definition upload_route ::
  "server_config \<Rightarrow> int \<Rightarrow> nat \<Rightarrow> nat \<Rightarrow> evidence_type \<Rightarrow> string + stored_file
     \<Rightarrow> (('date, 'm) database_scheme, nat) service" where
  "upload_route cfg now vid eid t upload s =
     (case valid_session now (db_sessions s vid) of
        Inl _ \<Rightarrow> (Inl (Http_error 401 ''Verification authentication required.''), s)
      | Inr w \<Rightarrow>
          (case db_requests s (vs_request w) of
             None \<Rightarrow> (Inl (Http_error 404 ''Verification request unavailable.''), s)
           | Some q \<Rightarrow>
               (case expire_request now (vs_request w) q s of
                  (Inl e, s1) \<Rightarrow> (Inl e, s1)
                | (Inr True, s1) \<Rightarrow>
                    (Inl (Http_error 403 ''Evidence upload not permitted.''), touch_session vid w s1)
                | (Inr False, s1) \<Rightarrow>
                    if \<not> session_matches (vs_request w) q w \<or> rq_status q \<notin> {Pending, More_info}
                       \<or> \<not> asks_for t (rq_required q)
                    then (Inl (Http_error 403 ''Evidence upload not permitted.''), s1)
                    else (case upload of
                            Inl m \<Rightarrow> (Inl (Http_error 400 m), s1)
                          | Inr f \<Rightarrow> (Inr eid,
                               touch_session vid w
                                 (store_evidence cfg now eid (vs_request w) None t f s1))))))"

end
