(* ===== verification/Server_Review.thy ===== *)
theory Server_Review
  imports Server_Requests
begin

text \<open>
  What administrators do to a request on the server: services/admin/review_service.py (claiming and
  deciding), services/verification/result_service.py, services/admin/request_lifecycle_service.py
  (revoking, extending, assigning) and services/admin/evidence_deletion_service.py.
\<close>

section \<open>Claiming and deciding\<close>

definition claim_case ::
  "int \<Rightarrow> nat \<Rightarrow> nat \<Rightarrow> (('date, 'm) database_scheme, request_row) service" where
  "claim_case now rid admin s =
     (case db_requests s rid of
        None \<Rightarrow> (Inl (Claim_error ''Verification request not found.''), s)
      | Some q \<Rightarrow>
          if rq_status q \<noteq> Queued
            then (Inl (Claim_error ''Case is not available to claim.''), s)
          else if rq_reviewer q \<noteq> None
            then (Inl (Claim_error ''Case is already assigned.''), s)
          else case require_transition (rq_status q) In_review of
            Inl e \<Rightarrow> (Inl e, s)
          | Inr _ \<Rightarrow>
              (let q' = touched now (q\<lparr>rq_status := In_review, rq_reviewer := Some admin,
                          rq_review_started := Some now\<rparr>)
               in (Inr q', record_audit (By_admin admin) Log_claimed rid (set_request rid q' s))))"

definition upsert_approved_result ::
  "int \<Rightarrow> nat \<Rightarrow> request_row \<Rightarrow> ('date, 'm) database_scheme \<Rightarrow> ('date, 'm) database_scheme" where
  "upsert_approved_result now rid q s =
     s\<lparr>db_results := (db_results s)(rid \<mapsto>
        (case db_results s rid of
           None \<Rightarrow>
             \<lparr>rs_discord = rq_discord q, rs_verified = True, rs_reviewer = rq_reviewer q,
              rs_verified_at = now, rs_revoked_at = None\<rparr>
         | Some r \<Rightarrow>
             r\<lparr>rs_verified := True, rs_reviewer := rq_reviewer q, rs_verified_at := now,
               rs_revoked_at := None\<rparr>))\<rparr>"

definition decision_log :: "verification_status \<Rightarrow> audit_action" where
  "decision_log target =
     (if target = Approved then Log_approved
      else if target = Rejected then Log_rejected else Log_more_info)"

definition record_decision ::
  "int \<Rightarrow> nat \<Rightarrow> nat \<Rightarrow> verification_status \<Rightarrow> string option \<Rightarrow> string option \<Rightarrow> string option
     \<Rightarrow> (('date, 'm) database_scheme, request_row) service" where
  "record_decision now rid admin target reason note message s =
     (case db_requests s rid of
        None \<Rightarrow> (Inl (Decision_error ''Verification request not found.''), s)
      | Some q \<Rightarrow>
          if rq_status q \<noteq> In_review
            then (Inl (Decision_error ''Case is not currently in review.''), s)
          else if rq_reviewer q \<noteq> Some admin
            then (Inl (Decision_error ''Case is assigned to another reviewer.''), s)
          else if target \<notin> {Approved, Rejected, More_info}
            then (Inl (Decision_error ''Unsupported review decision.''), s)
          else case require_transition (rq_status q) target of
            Inl e \<Rightarrow> (Inl e, s)
          | Inr _ \<Rightarrow>
              (let q1 = q\<lparr>rq_status := target\<rparr>;
                   s1 = s\<lparr>db_decisions := db_decisions s @
                          [\<lparr>dc_request = rid, dc_reviewer = admin, dc_decision = target,
                            dc_reason_code = reason, dc_internal_note = note,
                            dc_user_message = message, dc_created = now\<rparr>]\<rparr>;
                   s2 = (if target = Approved then upsert_approved_result now rid q1 s1 else s1);
                   q2 = touched now q1;
                   q3 = (if target \<in> {Approved, Rejected} then q2\<lparr>rq_decided := Some now\<rparr> else q2)
               in (Inr q3,
                   record_audit (By_admin admin) (decision_log target) rid (set_request rid q3 s2))))"

section \<open>Revoking, extending and assigning\<close>

definition revoked_grant :: "int \<Rightarrow> grant_row \<Rightarrow> grant_row" where
  "revoked_grant now g = g\<lparr>gr_status := Grant_revoked, gr_revoked := Some now, gr_updated := now\<rparr>"

definition revoked_result :: "int \<Rightarrow> result_row \<Rightarrow> result_row" where
  "revoked_result now r = r\<lparr>rs_verified := False, rs_revoked_at := Some now\<rparr>"

definition revoke_request ::
  "int \<Rightarrow> nat \<Rightarrow> nat \<Rightarrow> (('date, 'm) database_scheme, request_row) service" where
  "revoke_request now rid admin s =
     (case db_requests s rid of
        None \<Rightarrow> (Inl (Lifecycle_error ''Verification request not found.''), s)
      | Some q \<Rightarrow>
          if rq_status q = Revoked then (Inr q, s)
          else if rq_status q = Expired
            then (Inl (Lifecycle_error ''Expired requests cannot be revoked directly.''), s)
          else case require_transition (rq_status q) Revoked of
            Inl e \<Rightarrow> (Inl e, s)
          | Inr _ \<Rightarrow>
              (let q' = touched now (q\<lparr>rq_status := Revoked, rq_revoked := Some now\<rparr>)
               in (Inr q',
                   (record_audit (By_admin admin) Log_revoked rid (set_request rid q' s))
                     \<lparr>db_grants := (\<lambda>r. if r = rid then map_option (revoked_grant now) (db_grants s r)
                                     else db_grants s r),
                      db_results := (\<lambda>r. if r = rid then map_option (revoked_result now) (db_results s r)
                                      else db_results s r)\<rparr>)))"

definition extend_request ::
  "int \<Rightarrow> nat \<Rightarrow> nat \<Rightarrow> int \<Rightarrow> (('date, 'm) database_scheme, request_row) service" where
  "extend_request now rid admin expires s =
     (case db_requests s rid of
        None \<Rightarrow> (Inl (Lifecycle_error ''Verification request not found.''), s)
      | Some q \<Rightarrow>
          if expires \<le> now
            then (Inl (Lifecycle_error ''New expiration must be in the future.''), s)
          else if rq_status q = Revoked
            then (Inl (Lifecycle_error ''Revoked requests cannot be extended.''), s)
          else
            (let q1 = touched now (q\<lparr>rq_expires := expires\<rparr>);
                 q' = (if rq_status q = Expired then q1\<lparr>rq_status := Pending\<rparr> else q1)
             in (Inr q', record_audit (By_admin admin) Log_extended rid (set_request rid q' s))))"

text \<open>\<open>reviewer_ok\<close>: the reviewer exists and is active.\<close>

definition assign_reviewer ::
  "int \<Rightarrow> nat \<Rightarrow> nat \<Rightarrow> bool \<Rightarrow> nat \<Rightarrow> (('date, 'm) database_scheme, request_row) service" where
  "assign_reviewer now rid reviewer reviewer_ok admin s =
     (case db_requests s rid of
        None \<Rightarrow> (Inl (Lifecycle_error ''Verification request not found.''), s)
      | Some q \<Rightarrow>
          if \<not> reviewer_ok then (Inl (Lifecycle_error ''Reviewer is not available.''), s)
          else
            (let q' = touched now (q\<lparr>rq_reviewer := Some reviewer\<rparr>)
             in (Inr q', record_audit (By_admin admin) Log_assigned rid (set_request rid q' s))))"

section \<open>Deleting evidence\<close>

text \<open>
  \<open>mark_evidence_deleted\<close> removes the object from the store first. \<open>gone i\<close>: the store removed object
  \<open>i\<close>; the first failure raises and nothing is committed.
\<close>

definition deleted_by :: "int \<Rightarrow> nat option \<Rightarrow> evidence_row \<Rightarrow> evidence_row" where
  "deleted_by now admin e =
     e\<lparr>eo_status := Deleted_object, eo_deleted := Some now, eo_deleted_by := admin\<rparr>"

definition delete_request_evidence ::
  "int \<Rightarrow> (nat \<Rightarrow> bool) \<Rightarrow> nat list \<Rightarrow> nat \<Rightarrow> nat \<Rightarrow> (('date, 'm) database_scheme, nat) service" where
  "delete_request_evidence now gone ids rid admin s =
     (let due = filter (\<lambda>i. case db_evidence s i of
                              None \<Rightarrow> False
                            | Some e \<Rightarrow> eo_request e = rid \<and> eo_status e \<noteq> Deleted_object) ids
      in if \<not> list_all gone due then (Inl Other_exception, s)
         else (Inr (length due),
               s\<lparr>db_evidence := (\<lambda>i. if i \<in> set due then map_option (deleted_by now (Some admin)) (db_evidence s i)
                                  else db_evidence s i),
                 db_audit := db_audit s @ map (\<lambda>_. \<lparr>log_actor = By_admin admin,
                   log_action = Log_evidence_deleted, log_request = rid\<rparr>) due\<rparr>))"

text \<open>
  The clean-up job: temporary uploads whose time is over are removed from the store and marked, in one
  transaction.
\<close>

definition cleanup_uploads ::
  "int \<Rightarrow> (nat \<Rightarrow> bool) \<Rightarrow> nat list \<Rightarrow> (('date, 'm) database_scheme, nat) service" where
  "cleanup_uploads now gone ids s =
     (let due = filter (\<lambda>i. case db_evidence s i of
                              None \<Rightarrow> False
                            | Some e \<Rightarrow> eo_status e = Temporary
                                \<and> (case eo_expires e of None \<Rightarrow> False | Some x \<Rightarrow> x \<le> now)) ids
      in if \<not> list_all gone due then (Inl Other_exception, s)
         else (Inr (length due),
               s\<lparr>db_evidence := (\<lambda>i. if i \<in> set due then map_option (deleted_by now None) (db_evidence s i)
                                  else db_evidence s i),
                 db_audit := db_audit s @ map (\<lambda>i. \<lparr>log_actor = By_system,
                   log_action = Log_evidence_deleted,
                   log_request = (case db_evidence s i of None \<Rightarrow> 0 | Some e \<Rightarrow> eo_request e)\<rparr>) due\<rparr>))"

end
