(* ===== verification/Server_Capture.thy ===== *)
theory Server_Capture
  imports Server_Review
begin

text \<open>
  The hand-over to a phone on the server: services/verification/mobile_capture_service.py, the
  desktop's routes of api/routes/verification/mobile_capture.py and the phone's of
  api/routes/verification/mobile_handoff.py. A phone is known by the credential it gets for the
  token of the QR code.
\<close>

section \<open>The service\<close>

definition request_allows_capture :: "request_row \<Rightarrow> bool" where
  "request_allows_capture q \<longleftrightarrow> rq_status q \<in> {Pending, More_info}"

text \<open>Whether an applicant's session and its request allow captures at all.\<close>

definition parents_allow :: "int \<Rightarrow> nat \<Rightarrow> request_row \<Rightarrow> session_row \<Rightarrow> bool" where
  "parents_allow now rid q w \<longleftrightarrow>
     request_allows_capture q \<and> rq_expires q > now \<and> vs_revoked w = None \<and> vs_expires w > now
     \<and> session_matches rid q w"

definition validate_parents ::
  "int \<Rightarrow> capture_row \<Rightarrow> ('date, 'm) database_scheme \<Rightarrow> server_error + session_row" where
  "validate_parents now c s =
     (case (db_requests s (cp_request c), db_sessions s (cp_session c)) of
        (Some q, Some w) \<Rightarrow>
          if parents_allow now (cp_request c) q w then Inr w else Inl Capture_unavailable
      | _ \<Rightarrow> Inl Capture_unavailable)"

definition usable_capture :: "int \<Rightarrow> capture_row \<Rightarrow> bool" where
  "usable_capture now c \<longleftrightarrow> cp_revoked c = None \<and> cp_completed c = None \<and> cp_expires c > now"

definition superseded :: "int \<Rightarrow> capture_row \<Rightarrow> capture_row" where
  "superseded now c =
     c\<lparr>cp_revoked := Some now, cp_status := Cap_revoked, cp_last_activity := now,
       cp_phone_token := None, cp_phone_expires := None\<rparr>"

definition create_capture ::
  "server_config \<Rightarrow> int \<Rightarrow> nat \<Rightarrow> string \<Rightarrow> nat \<Rightarrow> request_row \<Rightarrow> nat \<Rightarrow> session_row
     \<Rightarrow> (('date, 'm) database_scheme, capture_row) service" where
  "create_capture cfg now cid token rid q vid w s =
     (if \<not> parents_allow now rid q w then (Inl Capture_unavailable, s)
      else
        (let c = \<lparr>cp_id = cid, cp_request = rid, cp_session = vid, cp_token = token,
                  cp_phone_token = None, cp_status = Cap_pending, cp_created = now,
                  cp_expires = now + 60 * cfg_capture_ttl_minutes cfg, cp_exchanged = None,
                  cp_phone_expires = None, cp_connected = None, cp_last_activity = now,
                  cp_completed = None, cp_revoked = None\<rparr>
         in (Inr c,
             s\<lparr>db_captures :=
                 map (\<lambda>d. if cp_session d = vid \<and> usable_capture now d then superseded now d else d)
                   (db_captures s) @ [c]\<rparr>)))"

text \<open>The row with a given identifier is replaced.\<close>

definition set_capture :: "capture_row \<Rightarrow> ('date, 'm) database_scheme \<Rightarrow> ('date, 'm) database_scheme" where
  "set_capture c s =
     s\<lparr>db_captures := map (\<lambda>d. if cp_id d = cp_id c then c else d) (db_captures s)\<rparr>"

definition exchange_token ::
  "int \<Rightarrow> string \<Rightarrow> string \<Rightarrow> (('date, 'm) database_scheme, capture_row) service" where
  "exchange_token now token phone_token s =
     (case find (\<lambda>c. cp_token c = token) (db_captures s) of
        None \<Rightarrow> (Inl Invalid_capture_token, s)
      | Some c \<Rightarrow>
          if \<not> usable_capture now c \<or> cp_exchanged c \<noteq> None then (Inl Invalid_capture_token, s)
          else case validate_parents now c s of
            Inl e \<Rightarrow> (Inl e, s)
          | Inr w \<Rightarrow>
              (let c' = c\<lparr>cp_exchanged := Some now, cp_phone_token := Some phone_token,
                          cp_phone_expires := Some (min (cp_expires c) (vs_expires w)),
                          cp_connected := Some now, cp_last_activity := now,
                          cp_status := Cap_connected\<rparr>
               in (Inr c', set_capture c' s)))"

text \<open>The session of a phone's credential.\<close>

definition valid_capture ::
  "int \<Rightarrow> string \<Rightarrow> ('date, 'm) database_scheme \<Rightarrow> server_error + capture_row" where
  "valid_capture now phone_token s =
     (case find (\<lambda>c. cp_phone_token c = Some phone_token) (db_captures s) of
        None \<Rightarrow> Inl Invalid_capture_session
      | Some c \<Rightarrow>
          if \<not> usable_capture now c \<or> cp_exchanged c = None
             \<or> (case cp_phone_expires c of None \<Rightarrow> True | Some e \<Rightarrow> e \<le> now)
          then Inl Invalid_capture_session
          else case validate_parents now c s of
            Inl e \<Rightarrow> Inl e
          | Inr _ \<Rightarrow> Inr (c\<lparr>cp_last_activity := now\<rparr>))"

definition revoke_capture ::
  "int \<Rightarrow> nat \<Rightarrow> nat \<Rightarrow> (('date, 'm) database_scheme, capture_row) service" where
  "revoke_capture now cid vid s =
     (case find (\<lambda>c. cp_id c = cid) (db_captures s) of
        None \<Rightarrow> (Inl Capture_unavailable, s)
      | Some c \<Rightarrow>
          if cp_session c \<noteq> vid then (Inl Capture_unavailable, s)
          else (Inr (superseded now c), set_capture (superseded now c) s))"

section \<open>The desktop's routes\<close>

definition create_capture_route ::
  "server_config \<Rightarrow> int \<Rightarrow> nat \<Rightarrow> nat \<Rightarrow> string \<Rightarrow> (('date, 'm) database_scheme, capture_row) service" where
  "create_capture_route cfg now vid cid token s =
     (case valid_session now (db_sessions s vid) of
        Inl _ \<Rightarrow> (Inl (Http_error 401 ''Verification authentication required.''), s)
      | Inr w \<Rightarrow>
          (case db_requests s (vs_request w) of
             None \<Rightarrow> (Inl (Http_error 404 ''Verification request unavailable.''), s)
           | Some q \<Rightarrow>
               (case create_capture cfg now cid token (vs_request w) q vid w s of
                  (Inl _, s1) \<Rightarrow> (Inl (Http_error 409 ''Mobile capture is unavailable.''), s1)
                | (Inr c, s1) \<Rightarrow>
                    (Inr c, record_audit (By_applicant (vs_discord w)) Log_capture_created
                       (vs_request w) (touch_session vid w s1)))))"

text \<open>
  The pictures of a capture session that are still to be used: the newest of each type, in the order
  in which the types first came (a Python dictionary keeps the place of a key). \<open>ids\<close> are the
  evidence objects in the order of their upload.
\<close>

definition active_upload :: "int \<Rightarrow> nat \<Rightarrow> evidence_row \<Rightarrow> bool" where
  "active_upload now cid e \<longleftrightarrow>
     eo_capture e = Some cid \<and> eo_status e = Temporary
     \<and> (case eo_expires e of None \<Rightarrow> True | Some x \<Rightarrow> x > now)"

definition active_uploads ::
  "int \<Rightarrow> nat \<Rightarrow> nat list \<Rightarrow> ('date, 'm) database_scheme \<Rightarrow> (evidence_type \<times> nat) list" where
  "active_uploads now cid ids s =
     List.map_filter (\<lambda>i. case db_evidence s i of
         None \<Rightarrow> None
       | Some e \<Rightarrow> if active_upload now cid e then Some (eo_type e, i) else None) ids"

definition newest_by_type :: "(evidence_type \<times> nat) list \<Rightarrow> (evidence_type \<times> nat) list" where
  "newest_by_type us = fold (\<lambda>(t, i). AList.update t i) us []"

definition capture_status_route ::
  "int \<Rightarrow> nat \<Rightarrow> nat \<Rightarrow> nat list \<Rightarrow> ('date, 'm) database_scheme
     \<Rightarrow> server_error + capture_row \<times> (evidence_type \<times> nat) list" where
  "capture_status_route now vid cid ids s =
     (case valid_session now (db_sessions s vid) of
        Inl _ \<Rightarrow> Inl (Http_error 401 ''Verification authentication required.'')
      | Inr _ \<Rightarrow>
          (case find (\<lambda>c. cp_id c = cid) (db_captures s) of
             None \<Rightarrow> Inl (Http_error 404 ''Mobile capture session unavailable.'')
           | Some c \<Rightarrow>
               if cp_session c \<noteq> vid then Inl (Http_error 404 ''Mobile capture session unavailable.'')
               else Inr (c, newest_by_type (active_uploads now cid ids s))))"

definition revoke_capture_route ::
  "int \<Rightarrow> nat \<Rightarrow> nat \<Rightarrow> (('date, 'm) database_scheme, capture_row) service" where
  "revoke_capture_route now vid cid s =
     (case valid_session now (db_sessions s vid) of
        Inl _ \<Rightarrow> (Inl (Http_error 401 ''Verification authentication required.''), s)
      | Inr w \<Rightarrow>
          (case revoke_capture now cid vid s of
             (Inl _, s1) \<Rightarrow> (Inl (Http_error 404 ''Mobile capture session unavailable.''), s1)
           | (Inr c, s1) \<Rightarrow>
               (Inr c, record_audit (By_applicant (vs_discord w)) Log_capture_revoked (cp_request c)
                  (touch_session vid w s1))))"

section \<open>The phone's routes\<close>

definition expected_origin :: "server_config \<Rightarrow> string option \<Rightarrow> bool" where
  "expected_origin cfg origin \<longleftrightarrow>
     (case origin of
        None \<Rightarrow> False
      | Some o' \<Rightarrow>
          o' \<noteq> [] \<and> strip_trailing CHR ''/'' o' = strip_trailing CHR ''/'' (trim (cfg_frontend_url cfg)))"

definition exchange_route ::
  "server_config \<Rightarrow> int \<Rightarrow> string option \<Rightarrow> string option \<Rightarrow> string
     \<Rightarrow> (('date, 'm) database_scheme, capture_row) service" where
  "exchange_route cfg now origin token phone_token s =
     (if token = None then (Inl (Http_error 422 ''Unprocessable Entity''), s)
      else if \<not> expected_origin cfg origin then (Inl (Http_error 403 ''Invalid request origin.''), s)
      else if trim (coalesce token []) = []
        then (Inl (Http_error 404 ''Mobile capture unavailable.''), s)
      else case exchange_token now (trim (coalesce token [])) phone_token s of
        (Inl _, _) \<Rightarrow> (Inl (Http_error 404 ''Mobile capture unavailable.''), s)
      | (Inr c, s1) \<Rightarrow>
          (Inr c, record_audit By_phone Log_capture_exchanged (cp_request c) s1))"

text \<open>
  The dependency of the phone's other routes. It turns \<open>InvalidMobileCaptureSessionError\<close> into a 401
  and lets \<open>MobileCaptureUnavailableError\<close> pass.
\<close>

definition phone_dependency ::
  "int \<Rightarrow> string option \<Rightarrow> ('date, 'm) database_scheme \<Rightarrow> server_error + capture_row" where
  "phone_dependency now cookie s =
     (if coalesce cookie [] = []
      then Inl (Http_error 401 ''Mobile capture authentication required.'')
      else case valid_capture now (coalesce cookie []) s of
        Inl Invalid_capture_session \<Rightarrow>
          Inl (Http_error 401 ''Mobile capture authentication required.'')
      | r \<Rightarrow> r)"

definition request_of_phone ::
  "int \<Rightarrow> capture_row \<Rightarrow> (('date, 'm) database_scheme, request_row) service" where
  "request_of_phone now c s =
     (case db_requests s (cp_request c) of
        None \<Rightarrow> (Inl (Http_error 404 ''Mobile capture unavailable.''), s)
      | Some q \<Rightarrow>
          (case expire_request now (cp_request c) q s of
             (Inl e, s1) \<Rightarrow> (Inl e, s1)
           | (Inr True, s1) \<Rightarrow> (Inl (Http_error 403 ''Mobile capture unavailable.''), set_capture c s1)
           | (Inr False, s1) \<Rightarrow>
               if rq_status q \<notin> {Pending, More_info}
               then (Inl (Http_error 403 ''Mobile capture unavailable.''), s1)
               else (Inr q, s1)))"

definition phone_session_route ::
  "int \<Rightarrow> string option \<Rightarrow> nat list
     \<Rightarrow> (('date, 'm) database_scheme, capture_row \<times> required_evidence \<times> (evidence_type \<times> nat) list) service" where
  "phone_session_route now cookie ids s =
     (case phone_dependency now cookie s of
        Inl e \<Rightarrow> (Inl e, s)
      | Inr c \<Rightarrow>
          (case request_of_phone now c s of
             (Inl e, s1) \<Rightarrow> (Inl e, s1)
           | (Inr q, s1) \<Rightarrow>
               if cp_phone_expires c = None
               then (Inl (Http_error 401 ''Mobile capture authentication required.''), s1)
               else (Inr (c, rq_required q, newest_by_type (active_uploads now (cp_id c) ids s1)), s1)))"

text \<open>Older pictures of the same type and session stop being usable.\<close>

definition retire_older ::
  "int \<Rightarrow> nat \<Rightarrow> evidence_type \<Rightarrow> nat \<Rightarrow> (nat \<rightharpoonup> evidence_row) \<Rightarrow> nat \<rightharpoonup> evidence_row" where
  "retire_older now cid t eid m =
     (\<lambda>i. case m i of
            None \<Rightarrow> None
          | Some e \<Rightarrow>
              Some (if i \<noteq> eid \<and> eo_capture e = Some cid \<and> eo_type e = t \<and> eo_status e = Temporary
                    then e\<lparr>eo_expires := Some now\<rparr> else e))"

definition phone_upload_route ::
  "server_config \<Rightarrow> int \<Rightarrow> string option \<Rightarrow> string option \<Rightarrow> nat \<Rightarrow> evidence_type
     \<Rightarrow> string + stored_file \<Rightarrow> (('date, 'm) database_scheme, nat) service" where
  "phone_upload_route cfg now origin cookie eid t upload s =
     (case phone_dependency now cookie s of
        Inl e \<Rightarrow> (Inl e, s)
      | Inr c \<Rightarrow>
          if \<not> expected_origin cfg origin then (Inl (Http_error 403 ''Invalid request origin.''), s)
          else
          (case request_of_phone now c s of
             (Inl e, s1) \<Rightarrow> (Inl e, s1)
           | (Inr q, s1) \<Rightarrow>
               if \<not> asks_for t (rq_required q)
               then (Inl (Http_error 403 ''Evidence upload not permitted.''), s1)
               else (case upload of
                       Inl m \<Rightarrow> (Inl (Http_error 400 m), s1)
                     | Inr f \<Rightarrow>
                         (let s2 = store_evidence cfg now eid (cp_request c) (Some (cp_id c)) t f s1
                          in (Inr eid,
                              record_audit By_phone Log_capture_uploaded (cp_request c)
                                (set_capture (c\<lparr>cp_status := Cap_connected\<rparr>)
                                  (s2\<lparr>db_evidence :=
                                        retire_older now (cp_id c) t eid (db_evidence s2)\<rparr>)))))))"

definition all_evidence_types :: "evidence_type list" where
  "all_evidence_types = [Document_front, Document_back, Selfie, Liveness]"

definition phone_complete_route ::
  "server_config \<Rightarrow> int \<Rightarrow> string option \<Rightarrow> string option \<Rightarrow> nat list
     \<Rightarrow> (('date, 'm) database_scheme, unit) service" where
  "phone_complete_route cfg now origin cookie ids s =
     (case phone_dependency now cookie s of
        Inl e \<Rightarrow> (Inl e, s)
      | Inr c \<Rightarrow>
          if \<not> expected_origin cfg origin then (Inl (Http_error 403 ''Invalid request origin.''), s)
          else
          (case request_of_phone now c s of
             (Inl e, s1) \<Rightarrow> (Inl e, s1)
           | (Inr q, s1) \<Rightarrow>
               if list_all (\<lambda>t. asks_for t (rq_required q)
                        \<longrightarrow> t \<in> fst ` set (active_uploads now (cp_id c) ids s1)) all_evidence_types
               then (Inr (), record_audit By_phone Log_capture_completed (cp_request c)
                       (set_capture (c\<lparr>cp_completed := Some now, cp_status := Cap_completed,
                          cp_phone_token := None, cp_phone_expires := None\<rparr>) s1))
               else (Inl (Http_error 409 ''Required mobile evidence is incomplete.''), s1)))"

end
