(* ===== verification/Server_Access.thy ===== *)
theory Server_Access
  imports Server_Capture
begin

text \<open>
  Access to the Discord server: services/access/grant_service.py and the gateway worker of
  services/discord/gateway_worker.py. Beside the database there are the invites alive at Discord and
  the members who have the verified role. Discord's answers are arguments of the operations. The
  encryption of an invite code is left out: the row holds the code.

  \<open>joining\<close> are the runs of the worker that have given the role and have still to consume the grant
  (the runs of \<open>on_member_join\<close> and of the reconciliation are not serialised); \<open>unremoved\<close> records the
  members whose role Discord refused to take back.
\<close>

record 'date world = "'date database" +
  live_invites :: "string list"
  role_holders :: "int set"
  joining :: "(nat \<times> int) list"
  unremoved :: "int set"

definition world_new :: "'date world" where
  "world_new = database.extend database_new
     \<lparr>live_invites = [], role_holders = {}, joining = [], unremoved = {}\<rparr>"

section \<open>Grants\<close>

definition set_grant :: "nat \<Rightarrow> grant_row \<Rightarrow> ('date, 'm) database_scheme \<Rightarrow> ('date, 'm) database_scheme" where
  "set_grant rid g s = s\<lparr>db_grants := (db_grants s)(rid \<mapsto> g)\<rparr>"

definition issued_grant :: "server_config \<Rightarrow> int \<Rightarrow> int \<Rightarrow> string \<Rightarrow> grant_row option \<Rightarrow> grant_row" where
  "issued_grant cfg now discord invite_code existing =
     (let expires = Some (now + cfg_invite_max_age_seconds cfg)
      in case existing of
           None \<Rightarrow>
             \<lparr>gr_discord = discord, gr_status = Grant_issued, gr_invite = Some invite_code,
              gr_issued = Some now, gr_expires = expires, gr_consumed = None, gr_revoked = None,
              gr_updated = now\<rparr>
         | Some g \<Rightarrow>
             g\<lparr>gr_discord := discord, gr_status := Grant_issued, gr_invite := Some invite_code,
               gr_issued := Some now, gr_expires := expires, gr_consumed := None,
               gr_revoked := None, gr_updated := now\<rparr>)"

text \<open>
  \<open>issue_access_grant\<close>. \<open>invite\<close>: the code Discord created, if it did; \<open>committed\<close>: whether the
  transaction was committed; \<open>cleaned\<close>: whether the invite was deleted when it was not; \<open>dm\<close>: whether
  the message was sent, and \<open>None\<close> when its audit event could not be stored.
\<close>

definition issue_access_grant ::
  "server_config \<Rightarrow> int \<Rightarrow> nat \<Rightarrow> nat \<Rightarrow> string option \<Rightarrow> bool \<Rightarrow> bool \<Rightarrow> bool option
     \<Rightarrow> ('date world, grant_row) service" where
  "issue_access_grant cfg now rid admin invite committed cleaned dm s =
     (case db_requests s rid of
        None \<Rightarrow> (Inl (Grant_error ''Verification request not found.''), s)
      | Some q \<Rightarrow>
          if rq_status q \<noteq> Approved
            then (Inl (Grant_error ''Discord access can only be granted after approval.''), s)
          else if (case db_grants s rid of
                     None \<Rightarrow> False | Some g \<Rightarrow> gr_status g \<in> {Grant_issued, Grant_consumed})
            then (Inl (Grant_error ''An access grant already exists.''), s)
          else case invite of
            None \<Rightarrow> (Inl Other_exception, s)
          | Some invite_code \<Rightarrow>
              if \<not> committed
                then (Inl Other_exception, if cleaned then s else s\<lparr>live_invites := invite_code # live_invites s\<rparr>)
              else
                (let g = issued_grant cfg now (rq_discord q) invite_code (db_grants s rid);
                     q' = touched now (q\<lparr>rq_access_granted := Some now, rq_access_expires := gr_expires g\<rparr>);
                     s1 = record_audit (By_admin admin) Log_granted rid
                            (set_request rid q' (set_grant rid g
                              (s\<lparr>live_invites := invite_code # live_invites s\<rparr>)))
                 in (Inr g,
                     case dm of
                       None \<Rightarrow> s1
                     | Some ok \<Rightarrow>
                         record_audit By_system (if ok then Log_dm_sent else Log_dm_failed) rid s1)))"

text \<open>
  The route of a decision: after an approval access is issued at once, and a failure of that leaves
  the decision as it is.
\<close>

definition decision_route ::
  "server_config \<Rightarrow> int \<Rightarrow> nat \<Rightarrow> nat \<Rightarrow> verification_status \<Rightarrow> string option \<Rightarrow> string option
     \<Rightarrow> string option \<Rightarrow> string option \<Rightarrow> bool \<Rightarrow> bool \<Rightarrow> bool option
     \<Rightarrow> ('date world, request_row) service" where
  "decision_route cfg now rid admin target reason note message invite committed cleaned dm s =
     (case record_decision now rid admin target reason note message s of
        (Inl e, s1) \<Rightarrow> (Inl e, s1)
      | (Inr q, s1) \<Rightarrow>
          (Inr q, if target = Approved
                  then snd (issue_access_grant cfg now rid admin invite committed cleaned dm s1)
                  else s1))"

definition grant_is_due :: "int \<Rightarrow> grant_row \<Rightarrow> bool" where
  "grant_is_due now g \<longleftrightarrow> (case gr_expires g of None \<Rightarrow> False | Some e \<Rightarrow> e \<le> now)"

definition expired_grant :: "int \<Rightarrow> grant_row \<Rightarrow> grant_row" where
  "expired_grant now g = g\<lparr>gr_status := Grant_expired, gr_updated := now\<rparr>"

definition expire_grant_if_needed :: "int \<Rightarrow> nat \<Rightarrow> grant_row \<Rightarrow> (('date, 'm) database_scheme, bool) service" where
  "expire_grant_if_needed now rid g s =
     (if gr_status g \<noteq> Grant_issued \<or> \<not> grant_is_due now g then (Inr False, s)
      else (Inr True, set_grant rid (expired_grant now g) s))"

text \<open>The job: every open grant whose time is over.\<close>

definition expire_due_grants :: "int \<Rightarrow> ('date, 'm) database_scheme \<Rightarrow> ('date, 'm) database_scheme" where
  "expire_due_grants now s =
     s\<lparr>db_grants := (\<lambda>rid. map_option
          (\<lambda>g. if gr_status g = Grant_issued \<and> grant_is_due now g then expired_grant now g else g)
          (db_grants s rid))\<rparr>"

text \<open>What the applicant is shown: the grant and, while it is issued, the invite.\<close>

definition get_applicant_access ::
  "int \<Rightarrow> nat \<Rightarrow> request_row \<Rightarrow> int
     \<Rightarrow> (('date, 'm) database_scheme, (grant_row \<times> string option) option) service" where
  "get_applicant_access now rid q discord s =
     (if rq_status q \<noteq> Approved then (Inr None, s)
      else if discord \<noteq> rq_discord q then (Inl (Grant_error ''Access unavailable.''), s)
      else case db_grants s rid of
        None \<Rightarrow> (Inr None, s)
      | Some g \<Rightarrow>
          (case expire_grant_if_needed now rid g s of
             (Inl e, s1) \<Rightarrow> (Inl e, s1)
           | (Inr _, s1) \<Rightarrow>
               (let g1 = (case db_grants s1 rid of None \<Rightarrow> g | Some h \<Rightarrow> h)
                in if gr_discord g1 \<noteq> discord then (Inl (Grant_error ''Access unavailable.''), s1)
                   else if gr_status g1 \<noteq> Grant_issued then (Inr (Some (g1, None)), s1)
                   else case or_null (coalesce (gr_invite g1) []) of
                     None \<Rightarrow> (Inr None, s1)
                   | Some invite_code \<Rightarrow> (Inr (Some (g1, Some invite_code)), s1))))"

text \<open>\<open>deleted\<close>: whether Discord deleted the invite (or no longer had it).\<close>

definition revoke_access_grant ::
  "int \<Rightarrow> nat \<Rightarrow> nat \<Rightarrow> bool \<Rightarrow> ('date world, grant_row) service" where
  "revoke_access_grant now rid admin deleted s =
     (case db_grants s rid of
        None \<Rightarrow> (Inl (Grant_error ''Access grant not found.''), s)
      | Some g \<Rightarrow>
          if gr_status g = Grant_revoked then (Inr g, s)
          else
            (let invite_code = coalesce (gr_invite g) [];
                 delete = invite_code \<noteq> [] \<and> gr_status g = Grant_issued
             in if delete \<and> \<not> deleted then (Inl Other_exception, s)
                else
                  (Inr (revoked_grant now g),
                   record_audit (By_admin admin) Log_access_revoked rid
                     (set_grant rid (revoked_grant now g)
                       (if delete then s\<lparr>live_invites := filter (\<lambda>c. c \<noteq> invite_code) (live_invites s)\<rparr>
                        else s)))))"

section \<open>The gateway worker\<close>

text \<open>\<open>rids\<close> lists the grants; the newest issued one of the member is taken.\<close>

definition issued_to :: "int \<Rightarrow> nat list \<Rightarrow> ('date, 'm) database_scheme \<Rightarrow> nat list" where
  "issued_to discord rids s =
     filter (\<lambda>r. case db_grants s r of
                   None \<Rightarrow> False
                 | Some g \<Rightarrow> gr_discord g = discord \<and> gr_status g = Grant_issued) rids"

definition issue_time :: "('date, 'm) database_scheme \<Rightarrow> nat \<Rightarrow> int" where
  "issue_time s r = (case db_grants s r of None \<Rightarrow> 0 | Some g \<Rightarrow> coalesce (gr_issued g) 0)"

definition request_allows :: "nat \<Rightarrow> int \<Rightarrow> ('date, 'm) database_scheme \<Rightarrow> bool" where
  "request_allows rid discord s \<longleftrightarrow>
     (case db_requests s rid of
        None \<Rightarrow> False | Some q \<Rightarrow> rq_status q = Approved \<and> rq_discord q = discord)"

text \<open>A grant whose time is over is marked expired; one without a time is not eligible.\<close>

definition expire_if_due :: "int \<Rightarrow> nat \<Rightarrow> grant_row \<Rightarrow> ('date, 'm) database_scheme \<Rightarrow> ('date, 'm) database_scheme" where
  "expire_if_due now rid g s =
     (if grant_is_due now g then set_grant rid (expired_grant now g) s else s)"

definition eligible_grant ::
  "int \<Rightarrow> int \<Rightarrow> nat list \<Rightarrow> ('date, 'm) database_scheme \<Rightarrow> nat option \<times> ('date, 'm) database_scheme" where
  "eligible_grant now discord rids s =
     (case rev (sort_key (issue_time s) (issued_to discord rids s)) of
        [] \<Rightarrow> (None, s)
      | rid # _ \<Rightarrow>
          (case db_grants s rid of
             None \<Rightarrow> (None, s)
           | Some g \<Rightarrow>
               if gr_expires g = None \<or> grant_is_due now g then (None, expire_if_due now rid g s)
               else if request_allows rid discord s then (Some rid, s)
               else (None, s)))"

definition consume_grant ::
  "int \<Rightarrow> nat \<Rightarrow> int \<Rightarrow> ('date, 'm) database_scheme \<Rightarrow> bool \<times> ('date, 'm) database_scheme" where
  "consume_grant now rid discord s =
     (case db_grants s rid of
        None \<Rightarrow> (False, s)
      | Some g \<Rightarrow>
          if gr_discord g \<noteq> discord \<or> gr_status g \<noteq> Grant_issued then (False, s)
          else if gr_expires g = None \<or> grant_is_due now g then (False, expire_if_due now rid g s)
          else case db_requests s rid of
            None \<Rightarrow> (False, s)
          | Some q \<Rightarrow>
              if rq_status q \<noteq> Approved \<or> rq_discord q \<noteq> discord then (False, s)
              else (True, record_audit By_bot Log_consumed rid
                      (set_request rid (touched now q)
                        (set_grant rid (g\<lparr>gr_status := Grant_consumed, gr_consumed := Some now,
                           gr_updated := now\<rparr>) s))))"

text \<open>
  A run of the worker for a member who joined or is found by the reconciliation. Its first half looks
  for a grant and gives the role (\<open>role_exists\<close>, \<open>added\<close>: Discord's answers); its second half consumes
  the grant, and when that fails or raises (\<open>stored\<close>) takes the role back (\<open>removed\<close>).
\<close>

definition member_start :: "int \<Rightarrow> int \<Rightarrow> nat list \<Rightarrow> bool \<Rightarrow> bool \<Rightarrow> 'date world \<Rightarrow> 'date world" where
  "member_start now discord rids role_exists added s =
     (case eligible_grant now discord rids s of
        (None, s1) \<Rightarrow> s1
      | (Some rid, s1) \<Rightarrow>
          if \<not> role_exists then s1
          else if discord \<in> role_holders s1 then s1\<lparr>joining := joining s1 @ [(rid, discord)]\<rparr>
          else if \<not> added then s1
          else s1\<lparr>role_holders := insert discord (role_holders s1),
                  joining := joining s1 @ [(rid, discord)]\<rparr>)"

definition member_finish :: "int \<Rightarrow> nat \<Rightarrow> bool \<Rightarrow> bool \<Rightarrow> 'date world \<Rightarrow> 'date world" where
  "member_finish now k stored removed s =
     (if k < length (joining s) then
        (let (rid, discord) = joining s ! k;
             s0 = s\<lparr>joining := take k (joining s) @ drop (Suc k) (joining s)\<rparr>;
             (consumed, s1) = (if stored then consume_grant now rid discord s0 else (False, s0))
         in if consumed then s1
            else if removed then s1\<lparr>role_holders := role_holders s1 - {discord}\<rparr>
            else s1\<lparr>unremoved := insert discord (unremoved s1)\<rparr>)
      else s)"

end
