(* ===== verification/Server_Runs.thy ===== *)
theory Server_Runs
  imports Server_Access
begin

text \<open>
  The server as a whole: the calls of its routes and workers, the permission each route of an
  administrator asks for, and the states that any sequence of calls reaches. What holds in all of
  them is at the end.
\<close>

section \<open>Calls\<close>

text \<open>Every call carries the time and what the world outside answers to it.\<close>

datatype 'date call =
    Create nat string nat request_create
  | Open_link nat
  | Discord_callback nat nat "(int \<times> string) option"
  | Submit nat nat nat "'date submission_create"
  | Upload nat nat evidence_type "string + stored_file"
  | Log_out nat
  | Expiration_job "nat list"
  | Grants_job
  | Cleanup_job "nat \<Rightarrow> bool" "nat list"
  | Claim nat nat
  | Decide nat nat verification_status "string option" "string option" "string option"
      "string option" bool bool "bool option"
  | Revoke_case nat nat
  | Extend nat nat int
  | Assign nat nat bool nat
  | Delete_evidence "nat \<Rightarrow> bool" "nat list" nat nat
  | Grant_access nat nat "string option" bool bool "bool option"
  | Revoke_access nat nat bool
  | Read_access nat
  | Member_found int "nat list" bool bool
  | Member_settled nat bool bool
  | Create_capture nat nat string
  | Revoke_capture nat nat
  | Exchange_token "string option" "string option" string
  | Phone_session "string option" "nat list"
  | Phone_upload "string option" "string option" nat evidence_type "string + stored_file"
  | Phone_complete "string option" "string option" "nat list"

text \<open>The administrator a route acts for, and the permission it requires.\<close>

fun acting_admin :: "'date call \<Rightarrow> nat option" where
  "acting_admin (Create _ _ a _) = Some a"
| "acting_admin (Claim _ a) = Some a"
| "acting_admin (Decide _ a _ _ _ _ _ _ _ _) = Some a"
| "acting_admin (Revoke_case _ a) = Some a"
| "acting_admin (Extend _ a _) = Some a"
| "acting_admin (Assign _ _ _ a) = Some a"
| "acting_admin (Delete_evidence _ _ _ a) = Some a"
| "acting_admin (Grant_access _ a _ _ _ _) = Some a"
| "acting_admin (Revoke_access _ a _) = Some a"
| "acting_admin _ = None"

fun required_permission :: "'date call \<Rightarrow> permission option" where
  "required_permission (Create _ _ _ _) = Some Request_create"
| "required_permission (Claim _ _) = Some Case_claim"
| "required_permission (Decide _ _ target _ _ _ _ _ _ _) =
     (if target = Approved then Some Decision_approve
      else if target = Rejected then Some Decision_reject else Some Decision_more_info)"
| "required_permission (Revoke_case _ _) = Some Request_revoke"
| "required_permission (Extend _ _ _) = Some Request_extend"
| "required_permission (Assign _ _ _ _) = Some Case_assign"
| "required_permission (Delete_evidence _ _ _ _) = Some Evidence_delete"
| "required_permission (Grant_access _ _ _ _ _ _) = Some Access_grant"
| "required_permission (Revoke_access _ _ _) = Some Access_revoke"
| "required_permission _ = None"

text \<open>\<open>roles\<close>: the administrators with a valid session, and their roles.\<close>

definition authorised :: "(nat \<rightharpoonup> admin_role) \<Rightarrow> 'date call \<Rightarrow> bool" where
  "authorised roles c \<longleftrightarrow>
     (case (acting_admin c, required_permission c) of
        (Some a, Some p) \<Rightarrow>
          (case roles a of None \<Rightarrow> False | Some r \<Rightarrow> role_has_permission r p)
      | _ \<Rightarrow> True)"

text \<open>The link of a request (\<open>GET /v/{token}\<close>): it expires a request whose time is over.\<close>

definition open_link :: "int \<Rightarrow> nat \<Rightarrow> (('date, 'm) database_scheme, verification_status) service" where
  "open_link now rid s =
     (case db_requests s rid of
        None \<Rightarrow> (Inl (Http_error 404 ''Verification request unavailable.''), s)
      | Some q \<Rightarrow>
          (case expire_request now rid q s of
             (Inl e, s1) \<Rightarrow> (Inl e, s1)
           | (Inr True, s1) \<Rightarrow> (Inl (Http_error 404 ''Verification request unavailable.''), s1)
           | (Inr False, s1) \<Rightarrow>
               (case ensure_request_available now q of
                  Inl e \<Rightarrow> (Inl e, s1) | Inr _ \<Rightarrow> (Inr (rq_status q), s1))))"

text \<open>The access page of a signed-in applicant.\<close>

definition read_access ::
  "int \<Rightarrow> nat \<Rightarrow> (('date, 'm) database_scheme, (grant_row \<times> string option) option) service" where
  "read_access now vid s =
     (case valid_session now (db_sessions s vid) of
        Inl _ \<Rightarrow> (Inl (Http_error 401 ''Verification authentication required.''), s)
      | Inr w \<Rightarrow>
          (case db_requests s (vs_request w) of
             None \<Rightarrow> (Inl (Http_error 404 ''Verification request unavailable.''), s)
           | Some q \<Rightarrow>
               if \<not> session_matches (vs_request w) q w
               then (Inl (Http_error 403 ''Access unavailable.''), s)
               else (case get_applicant_access now (vs_request w) q (vs_discord w) s of
                       (Inl _, s1) \<Rightarrow> (Inl (Http_error 403 ''Access unavailable.''), s1)
                     | (Inr r, s1) \<Rightarrow> (Inr r, s1))))"

text \<open>What a call leaves behind.\<close>

fun perform :: "server_config \<Rightarrow> int \<Rightarrow> 'date call \<Rightarrow> 'date world \<Rightarrow> 'date world" where
  "perform cfg now (Create rid token a p) s =
     (case validate_create p of
        Inl _ \<Rightarrow> s | Inr p' \<Rightarrow> snd (create_request cfg now rid token a p' s))"
| "perform cfg now (Open_link rid) s = snd (open_link now rid s)"
| "perform cfg now (Discord_callback vid rid answer) s = snd (oauth_callback cfg now vid rid answer s)"
| "perform cfg now (Submit vid sid new_vid p) s = snd (submit_route cfg now vid sid new_vid p s)"
| "perform cfg now (Upload vid eid t u) s = snd (upload_route cfg now vid eid t u s)"
| "perform cfg now (Log_out vid) s = revoke_session now vid s"
| "perform cfg now (Expiration_job rids) s = snd (expire_due_requests now rids s)"
| "perform cfg now Grants_job s = expire_due_grants now s"
| "perform cfg now (Cleanup_job gone ids) s = snd (cleanup_uploads now gone ids s)"
| "perform cfg now (Claim rid a) s = snd (claim_case now rid a s)"
| "perform cfg now (Decide rid a target reason note message invite committed cleaned dm) s =
     snd (decision_route cfg now rid a target reason note message invite committed cleaned dm s)"
| "perform cfg now (Revoke_case rid a) s = snd (revoke_request now rid a s)"
| "perform cfg now (Extend rid a expires) s = snd (extend_request now rid a expires s)"
| "perform cfg now (Assign rid reviewer ok a) s = snd (assign_reviewer now rid reviewer ok a s)"
| "perform cfg now (Delete_evidence gone ids rid a) s =
     snd (delete_request_evidence now gone ids rid a s)"
| "perform cfg now (Grant_access rid a invite committed cleaned dm) s =
     snd (issue_access_grant cfg now rid a invite committed cleaned dm s)"
| "perform cfg now (Revoke_access rid a deleted) s = snd (revoke_access_grant now rid a deleted s)"
| "perform cfg now (Read_access vid) s = snd (read_access now vid s)"
| "perform cfg now (Member_found discord rids role_exists added) s =
     member_start now discord rids role_exists added s"
| "perform cfg now (Member_settled k stored removed) s = member_finish now k stored removed s"
| "perform cfg now (Create_capture vid cid token) s = snd (create_capture_route cfg now vid cid token s)"
| "perform cfg now (Revoke_capture vid cid) s = snd (revoke_capture_route now vid cid s)"
| "perform cfg now (Exchange_token origin token phone_token) s =
     snd (exchange_route cfg now origin token phone_token s)"
| "perform cfg now (Phone_session cookie ids) s = snd (phone_session_route now cookie ids s)"
| "perform cfg now (Phone_upload origin cookie eid t u) s =
     snd (phone_upload_route cfg now origin cookie eid t u s)"
| "perform cfg now (Phone_complete origin cookie ids) s =
     snd (phone_complete_route cfg now origin cookie ids s)"

definition serve :: "server_config \<Rightarrow> (nat \<rightharpoonup> admin_role) \<Rightarrow> int \<Rightarrow> 'date call \<Rightarrow> 'date world \<Rightarrow> 'date world" where
  "serve cfg roles now c s = (if authorised roles c then perform cfg now c s else s)"

text \<open>The identifiers the database makes are new.\<close>

fun fresh_call :: "'date call \<Rightarrow> ('date, 'm) database_scheme \<Rightarrow> bool" where
  "fresh_call (Create rid _ _ _) s \<longleftrightarrow> db_requests s rid = None"
| "fresh_call (Discord_callback vid _ _) s \<longleftrightarrow> db_sessions s vid = None"
| "fresh_call (Submit _ sid new_vid _) s \<longleftrightarrow>
     sid \<notin> sb_id ` set (db_submissions s) \<and> db_sessions s new_vid = None"
| "fresh_call (Upload _ eid _ _) s \<longleftrightarrow> db_evidence s eid = None"
| "fresh_call (Phone_upload _ _ eid _ _) s \<longleftrightarrow> db_evidence s eid = None"
| "fresh_call (Create_capture _ cid token) s \<longleftrightarrow>
     cid \<notin> cp_id ` set (db_captures s) \<and> token \<notin> cp_token ` set (db_captures s)"
| "fresh_call (Exchange_token _ _ phone_token) s \<longleftrightarrow>
     Some phone_token \<notin> cp_phone_token ` set (db_captures s)"
| "fresh_call _ s \<longleftrightarrow> True"

text \<open>The states that any calls reach from a state, and those reachable from the empty database.\<close>

inductive later :: "server_config \<Rightarrow> 'date world \<Rightarrow> 'date world \<Rightarrow> bool" for cfg s where
  later_refl: "later cfg s s"
| later_call: "later cfg s t \<Longrightarrow> fresh_call c t \<Longrightarrow> later cfg s (serve cfg roles now c t)"

definition reachable :: "server_config \<Rightarrow> 'date world \<Rightarrow> bool" where
  "reachable cfg s \<longleftrightarrow> later cfg world_new s"

lemma reachable_induct [consumes 1, case_names start call]:
  assumes "reachable cfg s" and "P world_new"
    and "\<And>s c roles now. reachable cfg s \<Longrightarrow> P s \<Longrightarrow> fresh_call c s \<Longrightarrow> P (serve cfg roles now c s)"
  shows "P s"
  using assms(1) unfolding reachable_def
  by (induction rule: later.induct) (auto simp: reachable_def intro: assms(2,3))

lemma reachable_later: "reachable cfg s \<Longrightarrow> later cfg s t \<Longrightarrow> reachable cfg t"
  unfolding reachable_def by (rotate_tac, induction rule: later.induct) (auto intro: later_call)

text \<open>A concrete run: who is signed in, the time, and the call.\<close>

type_synonym 'date trace = "((nat \<rightharpoonup> admin_role) \<times> int \<times> 'date call) list"

fun run_trace :: "server_config \<Rightarrow> 'date trace \<Rightarrow> 'date world \<Rightarrow> 'date world" where
  "run_trace cfg [] s = s"
| "run_trace cfg ((roles, now, c) # cs) s = run_trace cfg cs (serve cfg roles now c s)"

fun fresh_trace :: "server_config \<Rightarrow> 'date trace \<Rightarrow> 'date world \<Rightarrow> bool" where
  "fresh_trace cfg [] s \<longleftrightarrow> True"
| "fresh_trace cfg ((roles, now, c) # cs) s \<longleftrightarrow>
     fresh_call c s \<and> fresh_trace cfg cs (serve cfg roles now c s)"

lemma later_trace_from: "later cfg s t \<Longrightarrow> fresh_trace cfg cs t \<Longrightarrow> later cfg s (run_trace cfg cs t)"
  by (induction cfg cs t rule: run_trace.induct) (simp_all add: later_call)

lemma later_trace: "fresh_trace cfg cs s \<Longrightarrow> later cfg s (run_trace cfg cs s)"
  by (rule later_trace_from [OF later_refl])

lemma reachable_trace: "fresh_trace cfg cs world_new \<Longrightarrow> reachable cfg (run_trace cfg cs world_new)"
  by (simp add: reachable_def later_trace)

lemma run_trace_append: "run_trace cfg (cs @ ds) s = run_trace cfg ds (run_trace cfg cs s)"
  by (induction cfg cs s rule: run_trace.induct) simp_all

end
