(* ===== verification/Server_Cases.thy ===== *)
theory Server_Cases
  imports Server_Rules
begin

text \<open>
  The abstract life of one case: its status, its reviewer, its submissions, its grant and whether it
  counts as verified. Every call of the server is a sequence of steps of this machine for each
  request (\<open>serve_refines\<close>); what holds of a case is proved of the machine.
\<close>

section \<open>The abstract machine\<close>

record case_state =
  ca_status :: verification_status
  ca_reviewer :: "nat option"
  ca_count :: int
  ca_max :: int
  ca_discord :: int
  ca_grant :: "(grant_status \<times> int) option"
  ca_verified :: bool

inductive case_step :: "case_state option \<Rightarrow> case_state option \<Rightarrow> bool" where
  case_opens: "1 \<le> m \<Longrightarrow> m \<le> 10 \<Longrightarrow> case_step None (Some
    \<lparr>ca_status = Pending, ca_reviewer = None, ca_count = 0, ca_max = m, ca_discord = d,
     ca_grant = None, ca_verified = False\<rparr>)"
| case_expires: "can_transition (ca_status c) Expired
    \<Longrightarrow> case_step (Some c) (Some (c\<lparr>ca_status := Expired\<rparr>))"
| case_submits: "ca_status c \<in> {Pending, More_info} \<Longrightarrow> ca_count c < ca_max c
    \<Longrightarrow> case_step (Some c) (Some (c\<lparr>ca_status := Queued, ca_count := ca_count c + 1\<rparr>))"
| case_claimed: "ca_status c = Queued \<Longrightarrow> ca_reviewer c = None
    \<Longrightarrow> case_step (Some c) (Some (c\<lparr>ca_status := In_review, ca_reviewer := Some a\<rparr>))"
| case_decided: "ca_status c = In_review \<Longrightarrow> ca_reviewer c = Some a \<Longrightarrow> t \<in> {Approved, Rejected, More_info}
    \<Longrightarrow> case_step (Some c) (Some (c\<lparr>ca_status := t, ca_verified := ca_verified c \<or> t = Approved\<rparr>))"
| case_revoked: "can_transition (ca_status c) Revoked
    \<Longrightarrow> case_step (Some c) (Some (c\<lparr>ca_status := Revoked,
          ca_grant := map_option (\<lambda>(g, d). (Grant_revoked, d)) (ca_grant c), ca_verified := False\<rparr>))"
| case_reopened: "ca_status c = Expired
    \<Longrightarrow> case_step (Some c) (Some (c\<lparr>ca_status := Pending\<rparr>))"
| case_assigned: "case_step (Some c) (Some (c\<lparr>ca_reviewer := Some a\<rparr>))"
| case_granted: "ca_status c = Approved
    \<Longrightarrow> (case ca_grant c of None \<Rightarrow> True | Some (g, d) \<Rightarrow> g \<notin> {Grant_issued, Grant_consumed})
    \<Longrightarrow> case_step (Some c) (Some (c\<lparr>ca_grant := Some (Grant_issued, ca_discord c)\<rparr>))"
| case_grant_ends: "ca_grant c = Some (Grant_issued, d)
    \<Longrightarrow> case_step (Some c) (Some (c\<lparr>ca_grant := Some (Grant_expired, d)\<rparr>))"
| case_grant_revoked: "ca_grant c = Some (g, d)
    \<Longrightarrow> case_step (Some c) (Some (c\<lparr>ca_grant := Some (Grant_revoked, d)\<rparr>))"
| case_consumed: "ca_status c = Approved \<Longrightarrow> ca_grant c = Some (Grant_issued, ca_discord c)
    \<Longrightarrow> case_step (Some c) (Some (c\<lparr>ca_grant := Some (Grant_consumed, ca_discord c)\<rparr>))"

inductive_cases case_step_someE: "case_step (Some c) y"

text \<open>What holds of every case.\<close>

fun was_submitted :: "verification_status \<Rightarrow> bool" where
  "was_submitted Queued = True"
| "was_submitted In_review = True"
| "was_submitted More_info = True"
| "was_submitted Approved = True"
| "was_submitted Rejected = True"
| "was_submitted _ = False"

fun was_claimed :: "verification_status \<Rightarrow> bool" where
  "was_claimed In_review = True"
| "was_claimed More_info = True"
| "was_claimed Approved = True"
| "was_claimed Rejected = True"
| "was_claimed _ = False"

fun grant_fits :: "verification_status \<Rightarrow> int \<Rightarrow> (grant_status \<times> int) option \<Rightarrow> bool" where
  "grant_fits st d None \<longleftrightarrow> True"
| "grant_fits st d (Some (g, d')) \<longleftrightarrow>
     d' = d \<and> (st = Approved \<or> st = Revoked \<and> g \<noteq> Grant_issued \<and> g \<noteq> Grant_consumed)"

definition case_ok :: "case_state \<Rightarrow> bool" where
  "case_ok c \<longleftrightarrow>
     0 \<le> ca_count c \<and> ca_count c \<le> ca_max c \<and> ca_max c \<le> 10
     \<and> (was_submitted (ca_status c) \<longrightarrow> 1 \<le> ca_count c)
     \<and> (was_claimed (ca_status c) \<longrightarrow> ca_reviewer c \<noteq> None)
     \<and> (ca_verified c \<longleftrightarrow> ca_status c = Approved)
     \<and> grant_fits (ca_status c) (ca_discord c) (ca_grant c)"

lemma case_step_ok:
  "case_step x y \<Longrightarrow> (case x of None \<Rightarrow> True | Some c \<Rightarrow> case_ok c) \<Longrightarrow> \<exists>c. y = Some c \<and> case_ok c"
proof (induction rule: case_step.induct)
  case (case_opens m d)
  then show ?case
    by (simp add: case_ok_def)
next
  case (case_expires c)
  then show ?case
    by (cases "ca_status c"; cases "ca_grant c"; auto simp: case_ok_def can_transition_def)
next
  case (case_submits c)
  then show ?case
    by (cases "ca_status c"; cases "ca_grant c"; auto simp: case_ok_def can_transition_def)
next
  case (case_claimed c a)
  then show ?case
    by (cases "ca_status c"; cases "ca_grant c"; auto simp: case_ok_def can_transition_def)
next
  case (case_decided c a t)
  then show ?case
    by (cases "ca_status c"; cases "ca_grant c"; auto simp: case_ok_def can_transition_def)
next
  case (case_revoked c)
  then show ?case
    by (cases "ca_status c"; cases "ca_grant c"; auto simp: case_ok_def can_transition_def)
next
  case (case_reopened c)
  then show ?case
    by (cases "ca_status c"; cases "ca_grant c"; auto simp: case_ok_def can_transition_def)
next
  case (case_assigned c a)
  then show ?case
    by (cases "ca_status c"; cases "ca_grant c"; auto simp: case_ok_def can_transition_def)
next
  case (case_granted c)
  then show ?case
    by (cases "ca_status c"; cases "ca_grant c"; auto simp: case_ok_def can_transition_def)
next
  case (case_grant_ends c d)
  then show ?case
    by (cases "ca_status c"; cases "ca_grant c"; auto simp: case_ok_def can_transition_def)
next
  case (case_grant_revoked c g d)
  then show ?case
    by (cases "ca_status c"; cases "ca_grant c"; auto simp: case_ok_def can_transition_def)
next
  case (case_consumed c)
  then show ?case
    by (cases "ca_status c"; cases "ca_grant c"; auto simp: case_ok_def can_transition_def)
qed

lemma case_steps_ok:
  "case_step\<^sup>*\<^sup>* x y \<Longrightarrow> (case x of None \<Rightarrow> True | Some c \<Rightarrow> case_ok c)
     \<Longrightarrow> (case y of None \<Rightarrow> True | Some c \<Rightarrow> case_ok c)"
proof (induction rule: rtranclp_induct)
  case (step y z)
  then show ?case using case_step_ok [of y z] by (auto split: option.splits)
qed

text \<open>The Discord account and the bound of a case never change.\<close>

lemma case_steps_fixed:
  "case_step\<^sup>*\<^sup>* x y \<Longrightarrow> x = Some c \<Longrightarrow> \<exists>c'. y = Some c' \<and> ca_discord c' = ca_discord c \<and> ca_max c' = ca_max c"
  by (induction rule: rtranclp_induct) (auto elim!: case_step_someE)

text \<open>A status changes along the table, or from expired back to pending.\<close>

lemma case_step_status:
  "case_step (Some c) (Some c') \<Longrightarrow> ca_status c' = ca_status c \<or> can_transition (ca_status c) (ca_status c')
     \<or> ca_status c = Expired \<and> ca_status c' = Pending"
  by (auto elim!: case_step_someE simp: can_transition_def)

text \<open>
  A case that has a reviewer and is not under review: claiming it needs a case without a reviewer,
  and nothing takes a reviewer away.
\<close>

definition case_stuck :: "case_state \<Rightarrow> bool" where
  "case_stuck c \<longleftrightarrow> ca_reviewer c \<noteq> None \<and> ca_status c \<in> {Pending, Queued, More_info, Expired, Revoked}"

lemma case_steps_stuck:
  "case_step\<^sup>*\<^sup>* x y \<Longrightarrow> x = Some c \<Longrightarrow> case_stuck c \<Longrightarrow> \<exists>c'. y = Some c' \<and> case_stuck c'"
  by (induction rule: rtranclp_induct) (auto elim!: case_step_someE simp: case_stuck_def)

end
