(* ===== verification/Server_Refinement.thy ===== *)
theory Server_Refinement
  imports Server_Runs Server_Cases
begin

text \<open>The calls of the server refine the machine of Server_Cases.\<close>

section \<open>The case of a request\<close>

definition view_of :: "request_row \<Rightarrow> grant_row option \<Rightarrow> result_row option \<Rightarrow> case_state" where
  "view_of q g r =
     \<lparr>ca_status = rq_status q, ca_reviewer = rq_reviewer q, ca_count = rq_count q, ca_max = rq_max q,
      ca_discord = rq_discord q, ca_grant = map_option (\<lambda>h. (gr_status h, gr_discord h)) g,
      ca_verified = (case r of None \<Rightarrow> False | Some v \<Rightarrow> rs_verified v)\<rparr>"

definition case_of :: "('date, 'm) database_scheme \<Rightarrow> nat \<Rightarrow> case_state option" where
  "case_of s rid = map_option (\<lambda>q. view_of q (db_grants s rid) (db_results s rid)) (db_requests s rid)"

text \<open>Rows of grants and results belong to requests (foreign keys).\<close>

definition rows_owned :: "('date, 'm) database_scheme \<Rightarrow> bool" where
  "rows_owned s \<longleftrightarrow> (\<forall>rid. db_requests s rid = None \<longrightarrow> db_grants s rid = None \<and> db_results s rid = None)"

text \<open>The effect of a service on the cases.\<close>

definition refines :: "('date, 'm) database_scheme \<Rightarrow> ('date, 'm) database_scheme \<Rightarrow> bool" where
  "refines s t \<longleftrightarrow> (rows_owned s \<longrightarrow> rows_owned t \<and> (\<forall>rid. case_step\<^sup>*\<^sup>* (case_of s rid) (case_of t rid)))"

definition same_cases :: "('date, 'm) database_scheme \<Rightarrow> ('date, 'm) database_scheme \<Rightarrow> bool" where
  "same_cases s t \<longleftrightarrow>
     db_requests t = db_requests s \<and> db_grants t = db_grants s \<and> db_results t = db_results s"

lemma refines_refl [simp]: "refines s s"
  by (simp add: refines_def)

lemma same_refines: "same_cases s t \<Longrightarrow> refines s t"
  by (simp add: refines_def same_cases_def rows_owned_def case_of_def)

lemma refines_trans [trans]: "refines s t \<Longrightarrow> refines t u \<Longrightarrow> refines s u"
  unfolding refines_def by (meson rtranclp_trans)

lemma refines_same: "refines s t \<Longrightarrow> same_cases t u \<Longrightarrow> refines s u"
  by (rule refines_trans [OF _ same_refines])

text \<open>A service that changes one request by one step.\<close>

lemma refines_one:
  assumes "db_requests s rid = Some q" and "db_requests t = (db_requests s)(rid \<mapsto> q')"
    and "\<And>r. r \<noteq> rid \<Longrightarrow> db_grants t r = db_grants s r \<and> db_results t r = db_results s r"
    and "case_step\<^sup>*\<^sup>* (Some (view_of q (db_grants s rid) (db_results s rid)))
           (Some (view_of q' (db_grants t rid) (db_results t rid)))"
  shows "refines s t"
proof -
  have "rows_owned s \<Longrightarrow> rows_owned t"
    using assms(2,3) by (auto simp: rows_owned_def)
  moreover have "case_step\<^sup>*\<^sup>* (case_of s r) (case_of t r)" for r
    using assms by (cases "r = rid") (simp_all add: case_of_def)
  ultimately show ?thesis by (simp add: refines_def)
qed

lemma same_casesI [intro]:
  "db_requests t = db_requests s \<Longrightarrow> db_grants t = db_grants s \<Longrightarrow> db_results t = db_results s
     \<Longrightarrow> same_cases s t"
  by (simp add: same_cases_def)

named_theorems cases_frame

lemma same_cases_frame [cases_frame]:
  "same_cases s (record_audit a l r s)" "same_cases s (touch_session vid w s)"
  "same_cases s (new_session cfg now vid rid d s)" "same_cases s (set_capture c s)"
  "same_cases s (rotate_session cfg now v1 v2 w s)"
  "same_cases s (store_evidence cfg now eid rid k t f s)"
  by (auto simp: record_audit_def touch_session_def new_session_def set_capture_def rotate_session_def
      store_evidence_def)

lemma view_of_touched [simp]: "view_of (touched now q) g r = view_of q g r"
  by (simp add: view_of_def touched_def)

lemma tables_of_updates [simp]:
  "db_requests (record_audit a l r s) = db_requests s" "db_grants (record_audit a l r s) = db_grants s"
  "db_results (record_audit a l r s) = db_results s"
  "db_requests (set_request rid q s) = (db_requests s)(rid \<mapsto> q)"
  "db_grants (set_request rid q s) = db_grants s" "db_results (set_request rid q s) = db_results s"
  "db_requests (set_grant rid g s) = db_requests s"
  "db_grants (set_grant rid g s) = (db_grants s)(rid \<mapsto> g)"
  "db_results (set_grant rid g s) = db_results s"
  by (simp_all add: record_audit_def set_request_def set_grant_def)

section \<open>The services\<close>

lemma require_transition_Inr [simp]:
  "require_transition x y = Inr u \<longleftrightarrow> can_transition x y"
  "require_transition x y = Inl e \<longleftrightarrow> \<not> can_transition x y \<and> e = Transition_error x y"
  by (auto simp: require_transition_def)

lemma create_refines:
  assumes "db_requests s rid = None" and "validate_create p = Inr p'"
  shows "refines s (snd (create_request cfg now rid token a p' s))"
proof -
  have max: "1 \<le> cr_max p'" "cr_max p' \<le> 10"
    using assms(2) by (auto simp: validate_create_def Let_def split: if_splits)
  let ?t = "snd (create_request cfg now rid token a p' s)"
  have "rows_owned s \<Longrightarrow> rows_owned ?t"
    by (auto simp: create_request_def Let_def rows_owned_def)
  moreover have "case_step\<^sup>*\<^sup>* (case_of s r) (case_of ?t r)" if "rows_owned s" for r
  proof (cases "r = rid")
    case True
    then show ?thesis
      using assms(1) that case_opens [OF max]
      by (auto simp: create_request_def Let_def case_of_def view_of_def rows_owned_def)
  next
    case False
    then show ?thesis by (simp add: create_request_def Let_def case_of_def)
  qed
  ultimately show ?thesis by (simp add: refines_def)
qed

lemma expire_refines:
  assumes "db_requests s rid = Some q" and "expire_request now rid q s = (r, t)"
  shows "refines s t"
proof (cases "t = s")
  case False
  then have t: "t = record_audit By_system Log_expired rid
      (set_request rid (touched now (q\<lparr>rq_status := Expired\<rparr>)) s)"
    and st: "can_transition (rq_status q) Expired"
    using assms(2) by (auto simp: expire_request_def split: if_splits sum.splits)
  have "case_step (Some (view_of q (db_grants s rid) (db_results s rid)))
      (Some (view_of (q\<lparr>rq_status := Expired\<rparr>) (db_grants s rid) (db_results s rid)))"
    using case_expires [of "view_of q (db_grants s rid) (db_results s rid)"] st
    by (simp add: view_of_def)
  then show ?thesis
    using assms(1) by (intro refines_one [where q = q]) (auto simp: t)
qed simp

lemma expire_unchanged: "expire_request now rid q s = (Inr False, t) \<Longrightarrow> t = s"
  by (auto simp: expire_request_def split: if_splits sum.splits)

text \<open>Services that first expire the request: the rest runs on the tables as they were.\<close>

lemma submission_step:
  assumes "db_requests s rid = Some q" and "create_submission now sid rid q w p s = (Inr i, t)"
  shows "refines s t"
proof -
  have st: "rq_status q \<in> {Pending, More_info}" "rq_count q < rq_max q"
    and t: "db_requests t = (db_requests s)(rid \<mapsto> touched now (q\<lparr>rq_status := Queued,
        rq_count := rq_count q + 1, rq_queue_entered := Some now\<rparr>))"
      "db_grants t = db_grants s" "db_results t = db_results s"
    using assms(2)
    by (auto simp: create_submission_def Let_def split: if_splits sum.splits option.splits)
  show ?thesis
    using case_submits [of "view_of q (db_grants s rid) (db_results s rid)"] st assms(1)
    by (intro refines_one [where q = q]) (auto simp: t view_of_def touched_def)
qed

lemma submission_error:
  "create_submission now sid rid q w p s = (Inl e, t) \<Longrightarrow> t = s"
  by (auto simp: create_submission_def Let_def split: if_splits sum.splits option.splits)

lemma submit_refines: "refines s (snd (submit_route cfg now vid sid new_vid p s))"
proof (cases "\<exists>w q. valid_session now (db_sessions s vid) = Inr w \<and> db_requests s (vs_request w) = Some q")
  case False
  then show ?thesis
    by (auto simp: submit_route_def split: sum.splits option.splits)
next
  case True
  then obtain w q where w: "valid_session now (db_sessions s vid) = Inr w"
    and q: "db_requests s (vs_request w) = Some q" by blast
  obtain x s1 where e: "expire_request now (vs_request w) q s = (x, s1)" by fastforce
  have s1: "refines s s1" by (rule expire_refines [OF q e])
  obtain y s2 where c: "create_submission now sid (vs_request w) q w p s = (y, s2)" by fastforce
  show ?thesis
  proof (cases x)
    case (Inl a)
    then show ?thesis using w q e s1 by (simp add: submit_route_def)
  next
    case (Inr b)
    then consider (gone) "b = True" | (there) "b = False" "s1 = s"
      using e expire_unchanged [of now "vs_request w" q s s1] by (cases b) auto
    then show ?thesis
    proof cases
      case gone
      then show ?thesis
        using w q e Inr refines_same [OF s1 same_cases_frame(2)] by (simp add: submit_route_def)
    next
      case there
      then show ?thesis
      proof (cases y)
        case (Inl a)
        then have "s2 = s" using submission_error c there(2) by blast
        then show ?thesis
          using w q e Inr there c Inl by (auto simp: submit_route_def split: server_error.splits)
      next
        case (Inr i)
        have "refines s (rotate_session cfg now new_vid vid w s2)"
          by (rule refines_same [OF submission_step [OF q c [unfolded Inr]] same_cases_frame(5)])
        then show ?thesis
          using w q e \<open>x = Inr b\<close> there c Inr by (simp add: submit_route_def)
      qed
    qed
  qed
qed

lemma upload_refines: "refines s (snd (upload_route cfg now vid eid t u s))"
proof (cases "\<exists>w q. valid_session now (db_sessions s vid) = Inr w \<and> db_requests s (vs_request w) = Some q")
  case False
  then show ?thesis
    by (auto simp: upload_route_def split: sum.splits option.splits)
next
  case True
  then obtain w q where w: "valid_session now (db_sessions s vid) = Inr w"
    and q: "db_requests s (vs_request w) = Some q" by blast
  obtain x s1 where e: "expire_request now (vs_request w) q s = (x, s1)" by fastforce
  have s1: "refines s s1" by (rule expire_refines [OF q e])
  have "same_cases s1 (snd (upload_route cfg now vid eid t u s))"
    using w q e
    by (auto simp: upload_route_def touch_session_def store_evidence_def same_cases_def
        split: sum.splits bool.splits if_splits)
  with s1 show ?thesis by (rule refines_same)
qed

lemma callback_refines: "refines s (snd (oauth_callback cfg now vid rid answer s))"
proof (cases "db_requests s rid")
  case None
  then show ?thesis by (simp add: oauth_callback_def)
next
  case (Some q)
  obtain x s1 where e: "expire_request now rid q s = (x, s1)" by fastforce
  have s1: "refines s s1" by (rule expire_refines [OF Some e])
  let ?t = "snd (oauth_callback cfg now vid rid answer s)"
  show ?thesis
  proof (cases "x = Inr False")
    case False
    then have "?t = s1" using Some e by (auto simp: oauth_callback_def split: sum.splits bool.splits)
    then show ?thesis using s1 by simp
  next
    case True
    then have [simp]: "s1 = s" using e expire_unchanged by auto
    have "same_cases s ?t \<or> (\<exists>n. db_requests ?t = (db_requests s)(rid \<mapsto> q\<lparr>rq_username := Some n\<rparr>)
        \<and> db_grants ?t = db_grants s \<and> db_results ?t = db_results s)"
      using Some e True
      by (auto simp: oauth_callback_def new_session_def same_cases_def split: sum.splits option.splits)
    then show ?thesis
    proof
      assume "same_cases s ?t"
      then show ?thesis by (rule same_refines)
    next
      assume "\<exists>n. db_requests ?t = (db_requests s)(rid \<mapsto> q\<lparr>rq_username := Some n\<rparr>)
        \<and> db_grants ?t = db_grants s \<and> db_results ?t = db_results s"
      then show ?thesis
        using Some by (auto intro!: refines_one [where q = q] simp: view_of_def)
    qed
  qed
qed

lemma open_link_refines: "refines s (snd (open_link now rid s))"
proof (cases "db_requests s rid")
  case None
  then show ?thesis by (simp add: open_link_def)
next
  case (Some q)
  obtain x s1 where e: "expire_request now rid q s = (x, s1)" by fastforce
  have "snd (open_link now rid s) = s1"
    using Some e by (auto simp: open_link_def split: sum.splits bool.splits)
  then show ?thesis using expire_refines [OF Some e] by simp
qed

lemma expire_loop_refines: "expire_loop now rids s = (r, t) \<Longrightarrow> refines s t"
proof (induction rids arbitrary: s r t)
  case (Cons rid rids)
  show ?case
  proof (cases "db_requests s rid")
    case None
    then show ?thesis using Cons by simp
  next
    case (Some q)
    show ?thesis
    proof (cases "due_for_expiration now q")
      case False
      then show ?thesis using Cons Some by simp
    next
      case True
      let ?u = "record_audit By_system Log_expired rid
          (set_request rid (touched now (q\<lparr>rq_status := Expired\<rparr>)) s)"
      have can: "can_transition (rq_status q) Expired"
        using True by (auto simp: due_for_expiration_def can_transition_def)
      have "expire_request now rid q s = (Inr True, ?u)"
        using True can by (auto simp: due_for_expiration_def expire_request_def split: sum.splits)
      then have "refines s ?u" by (rule expire_refines [OF Some])
      moreover have "refines ?u t"
      proof -
        obtain r' t' where "expire_loop now rids ?u = (r', t')" by fastforce
        moreover from this have "t' = t"
          using Cons.prems Some True can by (auto split: sum.splits)
        ultimately show ?thesis using Cons.IH by blast
      qed
      ultimately show ?thesis by (rule refines_trans)
    qed
  qed
qed simp

lemma expire_due_refines: "refines s (snd (expire_due_requests now rids s))"
  using expire_loop_refines [of now rids s]
  by (auto simp: expire_due_requests_def split: prod.splits sum.splits)

section \<open>What administrators do\<close>

lemma claim_refines: "refines s (snd (claim_case now rid a s))"
proof (cases "fst (claim_case now rid a s)")
  case Inl
  then show ?thesis by (auto simp: claim_case_def Let_def split: option.splits if_splits sum.splits)
next
  case (Inr r)
  then obtain q where q: "db_requests s rid = Some q" "rq_status q = Queued" "rq_reviewer q = None"
    by (auto simp: claim_case_def Let_def split: option.splits if_splits sum.splits)
  show ?thesis
    using q case_claimed [of "view_of q (db_grants s rid) (db_results s rid)" a]
    by (intro refines_one [where q = q])
      (auto simp: claim_case_def Let_def can_transition_def view_of_def touched_def split: sum.splits)
qed

lemma decision_refines: "refines s (snd (record_decision now rid a target reason note message s))"
proof (cases "fst (record_decision now rid a target reason note message s)")
  case Inl
  then show ?thesis by (auto simp: record_decision_def Let_def split: option.splits if_splits sum.splits)
next
  case (Inr r)
  then obtain q where q: "db_requests s rid = Some q" "rq_status q = In_review" "rq_reviewer q = Some a"
    and t: "target \<in> {Approved, Rejected, More_info}"
    by (auto simp: record_decision_def Let_def split: option.splits if_splits sum.splits)
  let ?t = "snd (record_decision now rid a target reason note message s)"
  have "\<exists>q'. db_requests ?t = (db_requests s)(rid \<mapsto> q') \<and> rq_status q' = target
      \<and> rq_reviewer q' = rq_reviewer q \<and> rq_count q' = rq_count q \<and> rq_max q' = rq_max q
      \<and> rq_discord q' = rq_discord q"
    using q t
    by (auto simp: record_decision_def Let_def can_transition_def touched_def upsert_approved_result_def
        split: sum.splits)
  then obtain q' where q': "db_requests ?t = (db_requests s)(rid \<mapsto> q')" "rq_status q' = target"
    "rq_reviewer q' = rq_reviewer q" "rq_count q' = rq_count q" "rq_max q' = rq_max q"
    "rq_discord q' = rq_discord q" by blast
  have g: "db_grants ?t = db_grants s"
    using q t
    by (auto simp: record_decision_def Let_def can_transition_def upsert_approved_result_def split: sum.splits)
  have r: "\<And>r. r \<noteq> rid \<Longrightarrow> db_results ?t r = db_results s r"
    "(case db_results ?t rid of None \<Rightarrow> False | Some v \<Rightarrow> rs_verified v)
       \<longleftrightarrow> (case db_results s rid of None \<Rightarrow> False | Some v \<Rightarrow> rs_verified v) \<or> target = Approved"
    using q t
    by (auto simp: record_decision_def Let_def can_transition_def upsert_approved_result_def
        split: sum.splits option.splits)
  show ?thesis
    using q(1) q'(1)
  proof (rule refines_one)
    show "db_grants ?t r' = db_grants s r' \<and> db_results ?t r' = db_results s r'" if "r' \<noteq> rid" for r'
      using g r(1) [OF that] by simp
    show "case_step\<^sup>*\<^sup>* (Some (view_of q (db_grants s rid) (db_results s rid)))
        (Some (view_of q' (db_grants ?t rid) (db_results ?t rid)))"
      using case_decided [of "view_of q (db_grants s rid) (db_results s rid)" a target] q q' t g r(2)
      by (intro r_into_rtranclp) (simp add: view_of_def)
  qed
qed

lemma revoke_refines: "refines s (snd (revoke_request now rid a s))"
proof (cases "\<exists>q. db_requests s rid = Some q \<and> rq_status q \<notin> {Revoked, Expired}
    \<and> can_transition (rq_status q) Revoked")
  case False
  then show ?thesis by (auto simp: revoke_request_def Let_def split: option.splits sum.splits)
next
  case True
  then obtain q where q: "db_requests s rid = Some q" "rq_status q \<notin> {Revoked, Expired}"
    "can_transition (rq_status q) Revoked" by blast
  show ?thesis
    using q case_revoked [of "view_of q (db_grants s rid) (db_results s rid)"]
    by (intro refines_one [where q = q and rid = rid])
      (auto simp: revoke_request_def Let_def view_of_def touched_def revoked_grant_def revoked_result_def
        option.map_comp comp_def split: sum.splits option.splits)
qed

lemma extend_refines: "refines s (snd (extend_request now rid a expires s))"
proof (cases "fst (extend_request now rid a expires s)")
  case Inl
  then show ?thesis by (auto simp: extend_request_def Let_def split: option.splits if_splits)
next
  case (Inr r)
  then obtain q where q: "db_requests s rid = Some q" "expires > now" "rq_status q \<noteq> Revoked"
    by (auto simp: extend_request_def Let_def split: option.splits if_splits)
  have "case_step\<^sup>*\<^sup>* (Some (view_of q g v)) (Some (view_of
      (if rq_status q = Expired then touched now (q\<lparr>rq_expires := expires\<rparr>)\<lparr>rq_status := Pending\<rparr>
       else touched now (q\<lparr>rq_expires := expires\<rparr>)) g v))" for g v
    using case_reopened [of "view_of q g v"] by (auto simp: view_of_def touched_def)
  then show ?thesis
    using q by (intro refines_one [where q = q and rid = rid]) (auto simp: extend_request_def Let_def)
qed

lemma assign_refines: "refines s (snd (assign_reviewer now rid reviewer ok a s))"
proof (cases "fst (assign_reviewer now rid reviewer ok a s)")
  case Inl
  then show ?thesis by (auto simp: assign_reviewer_def Let_def split: option.splits if_splits)
next
  case (Inr r)
  then obtain q where q: "db_requests s rid = Some q" "ok"
    by (auto simp: assign_reviewer_def Let_def split: option.splits if_splits)
  then show ?thesis
    using case_assigned [of "view_of q (db_grants s rid) (db_results s rid)" reviewer]
    by (intro refines_one [where q = q and rid = rid])
      (auto simp: assign_reviewer_def Let_def view_of_def touched_def)
qed

lemma cleanup_refines: "refines s (snd (cleanup_uploads now gone ids s))"
  by (auto simp: cleanup_uploads_def Let_def intro!: same_refines)

lemma log_out_refines: "refines s (revoke_session now vid s)"
  by (auto simp: revoke_session_def intro!: same_refines split: option.splits)

lemma expired_grant_step:
  "gr_status g = Grant_issued
     \<Longrightarrow> case_step (Some (view_of q (Some g) r)) (Some (view_of q (Some (expired_grant now g)) r))"
  using case_grant_ends [of "view_of q (Some g) r" "gr_discord g"]
  by (simp add: view_of_def expired_grant_def)

lemma grants_job_refines: "refines s (expire_due_grants now s)"
proof -
  let ?t = "expire_due_grants now s"
  have "rows_owned s \<Longrightarrow> rows_owned ?t" by (auto simp: rows_owned_def expire_due_grants_def)
  moreover have "case_step\<^sup>*\<^sup>* (case_of s rid) (case_of ?t rid)" for rid
  proof (cases "db_requests s rid")
    case None
    then show ?thesis by (simp add: case_of_def expire_due_grants_def)
  next
    case (Some q)
    then show ?thesis
    proof (cases "db_grants s rid")
      case None
      then show ?thesis using Some by (simp add: case_of_def expire_due_grants_def)
    next
      case (Some g)
      then show ?thesis
        using \<open>db_requests s rid = Some q\<close> expired_grant_step [of g q "db_results s rid" now]
        by (simp add: case_of_def expire_due_grants_def r_into_rtranclp)
    qed
  qed
  ultimately show ?thesis by (simp add: refines_def)
qed

lemma delete_refines: "refines s (snd (delete_request_evidence now gone ids rid a s))"
  by (auto simp: delete_request_evidence_def Let_def intro!: same_refines)

end
