(* ===== verification/Server_System.thy ===== *)
theory Server_System
  imports Server_Refinement
begin

text \<open>
  Every call of the server refines the machine of the cases, and what follows from it in every
  reachable state.
\<close>

section \<open>Grants\<close>

lemma issue_refines: "refines s (snd (issue_access_grant cfg now rid a invite committed cleaned dm s))"
proof (cases "fst (issue_access_grant cfg now rid a invite committed cleaned dm s)")
  case Inl
  then have "same_cases s (snd (issue_access_grant cfg now rid a invite committed cleaned dm s))"
    by (auto simp: issue_access_grant_def Let_def split: option.splits if_splits)
  then show ?thesis by (rule same_refines)
next
  case (Inr r)
  then obtain q code where q: "db_requests s rid = Some q" "rq_status q = Approved" "invite = Some code"
    "committed"
    and g: "\<not> (case db_grants s rid of
              None \<Rightarrow> False | Some g \<Rightarrow> gr_status g \<in> {Grant_issued, Grant_consumed})"
    by (auto simp: issue_access_grant_def Let_def split: option.splits if_splits)
  let ?t = "snd (issue_access_grant cfg now rid a invite committed cleaned dm s)"
  let ?g = "issued_grant cfg now (rq_discord q) code (db_grants s rid)"
  have t: "db_requests ?t = (db_requests s)(rid \<mapsto> touched now (q\<lparr>rq_access_granted := Some now,
        rq_access_expires := gr_expires ?g\<rparr>))"
    "db_grants ?t = (db_grants s)(rid \<mapsto> ?g)" "db_results ?t = db_results s"
    using q g by (auto simp: issue_access_grant_def Let_def split: option.splits)
  have "gr_status ?g = Grant_issued" "gr_discord ?g = rq_discord q"
    by (simp_all add: issued_grant_def Let_def split: option.splits)
  moreover have "case_step (Some (view_of q (db_grants s rid) v))
      (Some (view_of q (db_grants s rid) v\<lparr>ca_grant := Some (Grant_issued, rq_discord q)\<rparr>))" for v
    using case_granted [of "view_of q (db_grants s rid) v"] q(2) g
    by (simp add: view_of_def split: option.splits)
  ultimately show ?thesis
    by (intro refines_one [OF q(1) t(1)]) (auto simp: t(2,3) view_of_def touched_def)
qed

lemma decision_route_refines:
  "refines s (snd (decision_route cfg now rid a target reason note message invite committed cleaned dm s))"
proof -
  obtain x s1 where d: "record_decision now rid a target reason note message s = (x, s1)" by fastforce
  then have s1: "refines s s1"
    using decision_refines [of s now rid a target reason "note" message] by simp
  have "snd (decision_route cfg now rid a target reason note message invite committed cleaned dm s)
      \<in> {s1, snd (issue_access_grant cfg now rid a invite committed cleaned dm s1)}"
    using d by (cases x) (auto simp: decision_route_def)
  then show ?thesis using s1 refines_trans [OF s1 issue_refines] by auto
qed

lemma grant_change_refines:
  assumes "db_requests s rid = Some q" and "db_grants s rid = Some g"
    and "case_step (Some (view_of q (Some g) (db_results s rid))) (Some (view_of q (Some g') (db_results s rid)))"
  shows "refines s (set_grant rid g' s)"
  using assms by (intro refines_one [where q = q and rid = rid]) auto

text \<open>A grant whose request is missing does not occur; then nothing is claimed.\<close>

lemma refines_owned: "(rows_owned s \<Longrightarrow> refines s t) \<Longrightarrow> refines s t"
  by (auto simp: refines_def)

lemma grant_has_request:
  "rows_owned s \<Longrightarrow> db_grants s rid = Some g \<Longrightarrow> \<exists>q. db_requests s rid = Some q"
  by (cases "db_requests s rid") (auto simp: rows_owned_def)

lemma grant_expires_refines:
  assumes "db_grants s rid = Some g" and "gr_status g = Grant_issued"
  shows "refines s (set_grant rid (expired_grant now g) s)"
proof (rule refines_owned)
  assume "rows_owned s"
  then obtain q where q: "db_requests s rid = Some q" using grant_has_request assms(1) by blast
  show "refines s (set_grant rid (expired_grant now g) s)"
    using case_grant_ends [of "view_of q (Some g) (db_results s rid)" "gr_discord g"] assms(2)
    by (intro grant_change_refines [OF q assms(1)]) (simp add: view_of_def expired_grant_def)
qed

lemma grant_revoked_refines:
  assumes "db_grants s rid = Some g"
  shows "refines s (set_grant rid (revoked_grant now g) s)"
proof (rule refines_owned)
  assume "rows_owned s"
  then obtain q where q: "db_requests s rid = Some q" using grant_has_request assms(1) by blast
  show "refines s (set_grant rid (revoked_grant now g) s)"
    using case_grant_revoked [of "view_of q (Some g) (db_results s rid)" "gr_status g" "gr_discord g"]
    by (intro grant_change_refines [OF q assms(1)]) (simp add: view_of_def revoked_grant_def)
qed

lemma revoke_access_refines: "refines s (snd (revoke_access_grant now rid a deleted s))"
proof (cases "db_grants s rid")
  case None
  then show ?thesis by (simp add: revoke_access_grant_def)
next
  case (Some g)
  let ?t = "snd (revoke_access_grant now rid a deleted s)"
  have "?t = s \<or> same_cases (set_grant rid (revoked_grant now g) s) ?t"
    using Some by (auto simp: revoke_access_grant_def Let_def)
  then show ?thesis
    using refines_same [OF grant_revoked_refines [OF Some, of now]] by auto
qed

lemma applicant_access_refines:
  "refines s (snd (get_applicant_access now rid q discord s))"
proof (cases "db_grants s rid")
  case None
  then show ?thesis by (simp add: get_applicant_access_def)
next
  case (Some g)
  have "snd (get_applicant_access now rid q discord s) \<in>
      {s, if gr_status g = Grant_issued then set_grant rid (expired_grant now g) s else s}"
    using Some
    by (auto simp: get_applicant_access_def expire_grant_if_needed_def Let_def split: option.splits)
  then show ?thesis using grant_expires_refines [OF Some, of now] by auto
qed

lemma read_access_refines: "refines s (snd (read_access now vid s))"
proof (cases "valid_session now (db_sessions s vid)")
  case Inl
  then show ?thesis by (simp add: read_access_def)
next
  case (Inr w)
  show ?thesis
  proof (cases "db_requests s (vs_request w)")
    case None
    then show ?thesis using Inr by (simp add: read_access_def)
  next
    case (Some q)
    obtain r t where g: "get_applicant_access now (vs_request w) q (vs_discord w) s = (r, t)" by fastforce
    then have "refines s t"
      using applicant_access_refines [of s now "vs_request w" q "vs_discord w"] by simp
    then show ?thesis using Inr Some g by (cases r) (auto simp: read_access_def)
  qed
qed

section \<open>The gateway worker\<close>

lemma expire_if_due_refines:
  "db_grants s rid = Some g \<Longrightarrow> gr_status g = Grant_issued \<Longrightarrow> refines s (expire_if_due now rid g s)"
  by (simp add: expire_if_due_def grant_expires_refines)

lemma eligible_refines: "eligible_grant now discord rids s = (r, t) \<Longrightarrow> refines s t"
proof (cases "rev (sort_key (issue_time s) (issued_to discord rids s))")
  case Nil
  then show "eligible_grant now discord rids s = (r, t) \<Longrightarrow> refines s t"
    by (simp add: eligible_grant_def)
next
  case (Cons rid rest)
  then have "rid \<in> set (issued_to discord rids s)"
    by (metis list.set_intros(1) set_rev set_sort)
  then obtain g where g: "db_grants s rid = Some g" "gr_status g = Grant_issued"
    by (auto simp: issued_to_def split: option.splits)
  assume "eligible_grant now discord rids s = (r, t)"
  then have "t \<in> {s, expire_if_due now rid g s}"
    using Cons g by (auto simp: eligible_grant_def split: if_splits)
  then show "refines s t" using expire_if_due_refines [OF g] by auto
qed

lemma consume_refines: "consume_grant now rid discord s = (b, t) \<Longrightarrow> refines s t"
proof (cases "db_grants s rid")
  case None
  then show "consume_grant now rid discord s = (b, t) \<Longrightarrow> refines s t"
    by (simp add: consume_grant_def)
next
  case (Some g)
  assume c: "consume_grant now rid discord s = (b, t)"
  show "refines s t"
  proof (cases b)
    case False
    then have "t = s \<or> gr_status g = Grant_issued \<and> t = expire_if_due now rid g s"
      using c Some by (auto simp: consume_grant_def split: if_splits option.splits)
    then show ?thesis using expire_if_due_refines [OF Some] by auto
  next
    case True
    then obtain q where q: "db_requests s rid = Some q" "rq_status q = Approved" "rq_discord q = discord"
      "gr_discord g = discord" "gr_status g = Grant_issued"
      and t: "t = record_audit By_bot Log_consumed rid (set_request rid (touched now q)
          (set_grant rid (g\<lparr>gr_status := Grant_consumed, gr_consumed := Some now, gr_updated := now\<rparr>) s))"
      using c Some by (auto simp: consume_grant_def split: if_splits option.splits)
    show ?thesis
      using q Some case_consumed [of "view_of q (Some g) (db_results s rid)"]
      by (intro refines_one [where q = q and rid = rid]) (auto simp: t view_of_def touched_def)
  qed
qed

lemma member_start_refines: "refines s (member_start now discord rids role_exists added s)"
proof -
  obtain r t where e: "eligible_grant now discord rids s = (r, t)" by fastforce
  have "same_cases t (member_start now discord rids role_exists added s)"
    using e by (auto simp: member_start_def split: option.splits)
  with eligible_refines [OF e] show ?thesis by (rule refines_same)
qed

lemma member_finish_refines: "refines s (member_finish now k stored removed s)"
proof (cases "k < length (joining s)")
  case True
  obtain rid discord where j: "joining s ! k = (rid, discord)" by fastforce
  let ?s0 = "s\<lparr>joining := take k (joining s) @ drop (Suc k) (joining s)\<rparr>"
  obtain b t where c: "(if stored then consume_grant now rid discord ?s0 else (False, ?s0)) = (b, t)"
    by fastforce
  have "refines ?s0 t" using c consume_refines by (cases stored) auto
  moreover have "same_cases s ?s0" by auto
  ultimately have "refines s t" using refines_trans same_refines by blast
  moreover have "same_cases t (member_finish now k stored removed s)"
    using True j c by (auto simp: member_finish_def Let_def)
  ultimately show ?thesis by (rule refines_same)
qed (simp add: member_finish_def)

section \<open>Phones\<close>

lemma create_capture_route_same: "same_cases s (snd (create_capture_route cfg now vid cid token s))"
  by (auto simp: create_capture_route_def create_capture_def Let_def touch_session_def
      split: sum.splits option.splits prod.splits if_splits)

lemma revoke_capture_route_same: "same_cases s (snd (revoke_capture_route now vid cid s))"
  by (auto simp: revoke_capture_route_def revoke_capture_def touch_session_def set_capture_def
      split: sum.splits option.splits prod.splits if_splits)

lemma exchange_route_same: "same_cases s (snd (exchange_route cfg now origin token phone_token s))"
  by (auto simp: exchange_route_def exchange_token_def set_capture_def Let_def
      split: sum.splits option.splits prod.splits if_splits)

lemma phone_request_refines: "request_of_phone now c s = (r, t) \<Longrightarrow> refines s t"
proof (cases "db_requests s (cp_request c)")
  case None
  then show "request_of_phone now c s = (r, t) \<Longrightarrow> refines s t"
    by (simp add: request_of_phone_def)
next
  case (Some q)
  obtain x s1 where e: "expire_request now (cp_request c) q s = (x, s1)" by fastforce
  assume "request_of_phone now c s = (r, t)"
  then have "same_cases s1 t"
    using Some e by (auto simp: request_of_phone_def set_capture_def split: sum.splits bool.splits if_splits)
  with expire_refines [OF Some e] show "refines s t" by (rule refines_same)
qed

lemma phone_session_refines: "refines s (snd (phone_session_route now cookie ids s))"
proof (cases "phone_dependency now cookie s")
  case Inl
  then show ?thesis by (simp add: phone_session_route_def)
next
  case (Inr c)
  obtain r t where p: "request_of_phone now c s = (r, t)" by fastforce
  have "snd (phone_session_route now cookie ids s) = t"
    using Inr p by (auto simp: phone_session_route_def split: sum.splits)
  then show ?thesis using phone_request_refines [OF p] by simp
qed

lemma phone_upload_refines: "refines s (snd (phone_upload_route cfg now origin cookie eid t u s))"
proof (cases "phone_dependency now cookie s")
  case Inl
  then show ?thesis by (simp add: phone_upload_route_def)
next
  case (Inr c)
  obtain r s1 where p: "request_of_phone now c s = (r, s1)" by fastforce
  have "snd (phone_upload_route cfg now origin cookie eid t u s) = s
      \<or> same_cases s1 (snd (phone_upload_route cfg now origin cookie eid t u s))"
    using Inr p
    by (auto simp: phone_upload_route_def store_evidence_def set_capture_def Let_def split: sum.splits)
  then show ?thesis using refines_same [OF phone_request_refines [OF p]] by auto
qed

lemma phone_complete_refines: "refines s (snd (phone_complete_route cfg now origin cookie ids s))"
proof (cases "phone_dependency now cookie s")
  case Inl
  then show ?thesis by (simp add: phone_complete_route_def)
next
  case (Inr c)
  obtain r s1 where p: "request_of_phone now c s = (r, s1)" by fastforce
  have "snd (phone_complete_route cfg now origin cookie ids s) = s
      \<or> same_cases s1 (snd (phone_complete_route cfg now origin cookie ids s))"
    using Inr p by (auto simp: phone_complete_route_def set_capture_def split: sum.splits)
  then show ?thesis using refines_same [OF phone_request_refines [OF p]] by auto
qed

section \<open>The whole server\<close>

lemmas service_refines =
  open_link_refines callback_refines submit_refines upload_refines expire_due_refines claim_refines
  decision_route_refines cleanup_refines log_out_refines grants_job_refines revoke_refines extend_refines assign_refines delete_refines issue_refines
  revoke_access_refines read_access_refines member_start_refines member_finish_refines
  phone_session_refines phone_upload_refines phone_complete_refines
  create_capture_route_same [THEN same_refines] revoke_capture_route_same [THEN same_refines]
  exchange_route_same [THEN same_refines]

lemma perform_refines: "fresh_call c s \<Longrightarrow> refines s (perform cfg now c s)"
proof (cases c)
  case (Create rid token a p)
  then show "fresh_call c s \<Longrightarrow> refines s (perform cfg now c s)"
    by (auto intro: create_refines split: sum.splits)
qed (simp_all add: service_refines)

lemma serve_refines: "fresh_call c s \<Longrightarrow> refines s (serve cfg roles now c s)"
  by (simp add: serve_def perform_refines)

lemma world_new_owned: "rows_owned (world_new :: 'date world)"
  by (simp add: rows_owned_def world_new_def database_new_def database.defs)

lemma world_new_cases: "case_of (world_new :: 'date world) rid = None"
  by (simp add: case_of_def world_new_def database_new_def database.defs)

lemma reachable_cases:
  "reachable cfg s \<Longrightarrow> rows_owned s \<and> (\<forall>rid. case_step\<^sup>*\<^sup>* None (case_of s rid))"
proof (induction rule: reachable_induct)
  case start
  then show ?case by (simp add: world_new_owned world_new_cases)
next
  case (call s c roles now)
  then have "refines s (serve cfg roles now c s)" by (simp add: serve_refines)
  with call.IH show ?case unfolding refines_def by (meson rtranclp_trans)
qed

lemma later_cases:
  "later cfg s t \<Longrightarrow> rows_owned s \<Longrightarrow> rows_owned t \<and> case_step\<^sup>*\<^sup>* (case_of s rid) (case_of t rid)"
proof (induction rule: later.induct)
  case (later_call t c roles now)
  then have "refines t (serve cfg roles now c t)" by (simp add: serve_refines)
  with later_call show ?case unfolding refines_def by (meson rtranclp_trans)
qed simp

lemma reachable_case_ok:
  assumes "reachable cfg s" and "case_of s rid = Some c"
  shows "case_ok c"
proof -
  have "case_step\<^sup>*\<^sup>* None (Some c)" using reachable_cases [OF assms(1)] assms(2) by metis
  then show ?thesis using case_steps_ok [of None "Some c"] by simp
qed

end
