(* ===== verification/Server_Evidence.thy ===== *)
theory Server_Evidence
  imports Server_System
begin

text \<open>
  The evidence of the submissions: every submission owns its evidence objects for good, and the
  counter of a request counts its submissions.
\<close>

section \<open>What is stored\<close>

definition evidence_ok :: "('date, 'm) database_scheme \<Rightarrow> bool" where
  "evidence_ok s \<longleftrightarrow>
     distinct (map sb_id (db_submissions s))
     \<and> (\<forall>b \<in> set (db_submissions s). distinct (sb_evidence b)
          \<and> (\<forall>i \<in> set (sb_evidence b). \<exists>e. db_evidence s i = Some e \<and> eo_submission e = Some (sb_id b)
               \<and> eo_request e = sb_request b \<and> eo_status e \<noteq> Temporary))
     \<and> (\<forall>i e. db_evidence s i = Some e \<longrightarrow> (eo_status e = Temporary \<longrightarrow> eo_submission e = None)
          \<and> (\<forall>k. eo_submission e = Some k
               \<longrightarrow> (\<exists>b \<in> set (db_submissions s). sb_id b = k \<and> i \<in> set (sb_evidence b))))"

definition counts_ok :: "('date, 'm) database_scheme \<Rightarrow> bool" where
  "counts_ok s \<longleftrightarrow>
     (\<forall>rid. (case db_requests s rid of None \<Rightarrow> 0 | Some q \<Rightarrow> rq_count q)
        = int (length (filter (\<lambda>b. sb_request b = rid) (db_submissions s))))"

definition store_ok :: "('date, 'm) database_scheme \<Rightarrow> bool" where
  "store_ok s \<longleftrightarrow> evidence_ok s \<and> counts_ok s"

text \<open>A service that touches neither.\<close>

definition request_count :: "('date, 'm) database_scheme \<Rightarrow> nat \<Rightarrow> int" where
  "request_count s rid = (case db_requests s rid of None \<Rightarrow> 0 | Some q \<Rightarrow> rq_count q)"

definition store_same :: "('date, 'm) database_scheme \<Rightarrow> ('date, 'm) database_scheme \<Rightarrow> bool" where
  "store_same s t \<longleftrightarrow>
     db_submissions t = db_submissions s \<and> db_evidence t = db_evidence s
     \<and> (\<forall>rid. request_count t rid = request_count s rid)"

lemma store_same_ok: "store_same s t \<Longrightarrow> store_ok s \<Longrightarrow> store_ok t"
  by (simp add: store_same_def store_ok_def evidence_ok_def counts_ok_def request_count_def)

lemma store_same_refl [simp]: "store_same s s"
  by (simp add: store_same_def)

lemma store_same_trans: "store_same s t \<Longrightarrow> store_same t u \<Longrightarrow> store_same s u"
  by (simp add: store_same_def)

lemma store_same_request:
  "db_requests s rid = Some q \<Longrightarrow> rq_count q' = rq_count q \<Longrightarrow> store_same s (set_request rid q' s)"
  by (simp add: store_same_def request_count_def set_request_def)

lemma store_same_tables:
  assumes "db_requests s rid = Some q" and "rq_count q' = rq_count q"
    and "db_requests t = (db_requests s)(rid \<mapsto> q')"
    and "db_submissions t = db_submissions s" and "db_evidence t = db_evidence s"
  shows "store_same s t"
  using assms by (simp add: store_same_def request_count_def)

lemma store_same_same:
  "db_requests t = db_requests s \<Longrightarrow> db_submissions t = db_submissions s
     \<Longrightarrow> db_evidence t = db_evidence s \<Longrightarrow> store_same s t"
  by (simp add: store_same_def request_count_def)

lemma store_of_updates [simp]:
  "db_submissions (record_audit a l r s) = db_submissions s" "db_evidence (record_audit a l r s) = db_evidence s"
  "db_submissions (set_request rid q s) = db_submissions s" "db_evidence (set_request rid q s) = db_evidence s"
  "db_submissions (set_grant rid g s) = db_submissions s" "db_evidence (set_grant rid g s) = db_evidence s"
  "db_submissions (touch_session vid w s) = db_submissions s" "db_evidence (touch_session vid w s) = db_evidence s"
  "db_submissions (set_capture c s) = db_submissions s" "db_evidence (set_capture c s) = db_evidence s"
  "db_requests (touch_session vid w s) = db_requests s" "db_requests (set_capture c s) = db_requests s"
  "db_requests (new_session cfg now vid rid d s) = db_requests s"
  "db_submissions (new_session cfg now vid rid d s) = db_submissions s"
  "db_evidence (new_session cfg now vid rid d s) = db_evidence s"
  by (simp_all add: record_audit_def set_request_def set_grant_def touch_session_def set_capture_def
      new_session_def)

lemma rq_count_touched [simp]: "rq_count (touched now q) = rq_count q"
  by (simp add: touched_def)

section \<open>Services that leave the store\<close>

lemma expire_store: "expire_request now rid q s = (r, t) \<Longrightarrow> db_requests s rid = Some q \<Longrightarrow> store_same s t"
  by (auto simp: expire_request_def store_same_def request_count_def split: if_splits sum.splits)

lemma open_link_store: "store_same s (snd (open_link now rid s))"
proof (cases "db_requests s rid")
  case None
  then show ?thesis by (simp add: open_link_def)
next
  case (Some q)
  obtain x s1 where e: "expire_request now rid q s = (x, s1)" by fastforce
  have "snd (open_link now rid s) = s1"
    using Some e by (auto simp: open_link_def split: sum.splits bool.splits)
  then show ?thesis using expire_store [OF e Some] by simp
qed

lemma callback_store: "store_same s (snd (oauth_callback cfg now vid rid answer s))"
proof (cases "db_requests s rid")
  case None
  then show ?thesis by (simp add: oauth_callback_def)
next
  case (Some q)
  obtain x s1 where e: "expire_request now rid q s = (x, s1)" by fastforce
  let ?t = "snd (oauth_callback cfg now vid rid answer s)"
  show ?thesis
  proof (cases "x = Inr False")
    case False
    then have "?t = s1" using Some e by (auto simp: oauth_callback_def split: sum.splits bool.splits)
    then show ?thesis using expire_store [OF e Some] by simp
  next
    case True
    then have [simp]: "s1 = s" using e expire_unchanged by auto
    show ?thesis
      using Some e True
      by (auto simp: oauth_callback_def store_same_def request_count_def
          split: sum.splits option.splits)
  qed
qed

lemma expire_loop_store: "expire_loop now rids s = (r, t) \<Longrightarrow> store_same s t"
proof (induction rids arbitrary: s r t)
  case (Cons rid rids)
  show ?case
  proof (cases "db_requests s rid")
    case None
    then show ?thesis using Cons by simp
  next
    case (Some q)
    let ?u = "record_audit By_system Log_expired rid
        (set_request rid (touched now (q\<lparr>rq_status := Expired\<rparr>)) s)"
    have u: "store_same s ?u"
      using Some by (intro store_same_tables [where q = q and rid = rid]) auto
    have "t = s \<or> expire_loop now rids s = (r, t) \<or> (\<exists>r'. expire_loop now rids ?u = (r', t))"
      using Cons.prems Some by (auto split: if_splits sum.splits prod.splits)
    then show ?thesis using Cons.IH store_same_trans [OF u] by auto
  qed
qed simp

lemma expire_due_store: "store_same s (snd (expire_due_requests now rids s))"
  using expire_loop_store [of now rids s]
  by (auto simp: expire_due_requests_def split: prod.splits sum.splits)

lemma claim_store: "store_same s (snd (claim_case now rid a s))"
  by (auto simp: claim_case_def Let_def store_same_def request_count_def split: option.splits sum.splits)

lemma decision_store: "store_same s (snd (record_decision now rid a target reason note message s))"
proof (cases "db_requests s rid")
  case None
  then show ?thesis by (simp add: record_decision_def)
next
  case (Some q)
  show ?thesis
    by (rule store_same_tables [OF Some, of "case db_requests (snd (record_decision now rid a target reason note
        message s)) rid of None \<Rightarrow> q | Some q' \<Rightarrow> q'"])
      (use Some in \<open>auto simp: record_decision_def Let_def upsert_approved_result_def split: sum.splits\<close>)
qed

lemma revoke_store: "store_same s (snd (revoke_request now rid a s))"
  by (auto simp: revoke_request_def Let_def store_same_def request_count_def split: option.splits sum.splits)

lemma extend_store: "store_same s (snd (extend_request now rid a expires s))"
  by (auto simp: extend_request_def Let_def store_same_def request_count_def split: option.splits sum.splits)

lemma assign_store: "store_same s (snd (assign_reviewer now rid reviewer ok a s))"
  by (auto simp: assign_reviewer_def Let_def store_same_def request_count_def split: option.splits sum.splits)

lemma issue_store: "store_same s (snd (issue_access_grant cfg now rid a invite committed cleaned dm s))"
  by (auto simp: issue_access_grant_def Let_def store_same_def request_count_def split: option.splits)

lemma decision_route_store:
  "store_same s (snd (decision_route cfg now rid a target reason note message invite committed cleaned dm s))"
proof -
  obtain x s1 where d: "record_decision now rid a target reason note message s = (x, s1)" by fastforce
  then have "store_same s s1"
    using decision_store [of s now rid a target reason "note" message] by simp
  then show ?thesis
    using d store_same_trans [OF _ issue_store] by (cases x) (auto simp: decision_route_def)
qed

lemma revoke_access_store: "store_same s (snd (revoke_access_grant now rid a deleted s))"
  by (auto simp: revoke_access_grant_def Let_def store_same_def request_count_def split: option.splits)

lemma read_access_store: "store_same s (snd (read_access now vid s))"
  by (auto simp: read_access_def get_applicant_access_def expire_grant_if_needed_def Let_def
      store_same_def request_count_def split: sum.splits option.splits)

lemma expire_if_due_store: "store_same s (expire_if_due now rid g s)"
  by (simp add: expire_if_due_def store_same_def request_count_def)

lemma eligible_store: "eligible_grant now discord rids s = (r, t) \<Longrightarrow> store_same s t"
  using expire_if_due_store [of s now]
  by (auto simp: eligible_grant_def split: list.splits option.splits if_splits)

lemma consume_store: "consume_grant now rid discord s = (b, t) \<Longrightarrow> store_same s t"
proof (cases b)
  case True
  assume "consume_grant now rid discord s = (b, t)"
  with True show ?thesis
    by (auto simp: consume_grant_def store_same_def request_count_def split: option.splits if_splits)
next
  case False
  assume "consume_grant now rid discord s = (b, t)"
  with False show ?thesis
    using expire_if_due_store [of s now]
    by (auto simp: consume_grant_def split: option.splits if_splits)
qed

lemma member_start_store: "store_same s (member_start now discord rids role_exists added s)"
proof -
  obtain r t where e: "eligible_grant now discord rids s = (r, t)" by fastforce
  have "store_same t (member_start now discord rids role_exists added s)"
    using e by (auto simp: member_start_def intro: store_same_same split: option.splits)
  with eligible_store [OF e] show ?thesis by (rule store_same_trans)
qed

lemma member_finish_store: "store_same s (member_finish now k stored removed s)"
proof (cases "k < length (joining s)")
  case True
  obtain rid discord where j: "joining s ! k = (rid, discord)" by fastforce
  let ?s0 = "s\<lparr>joining := take k (joining s) @ drop (Suc k) (joining s)\<rparr>"
  obtain b t where c: "(if stored then consume_grant now rid discord ?s0 else (False, ?s0)) = (b, t)"
    by fastforce
  have "store_same ?s0 t" using c consume_store by (cases stored) auto
  then have "store_same s t" by (simp add: store_same_def request_count_def)
  moreover have "store_same t (member_finish now k stored removed s)"
    using True j c by (auto simp: member_finish_def Let_def intro: store_same_same)
  ultimately show ?thesis by (rule store_same_trans)
qed (simp add: member_finish_def)

lemma create_capture_store: "store_same s (snd (create_capture_route cfg now vid cid token s))"
  by (auto simp: create_capture_route_def create_capture_def Let_def touch_session_def record_audit_def
      intro: store_same_same split: sum.splits option.splits prod.splits if_splits)

lemma revoke_capture_store: "store_same s (snd (revoke_capture_route now vid cid s))"
  by (auto simp: revoke_capture_route_def revoke_capture_def intro: store_same_same
      split: sum.splits option.splits prod.splits if_splits)

lemma exchange_store: "store_same s (snd (exchange_route cfg now origin token phone_token s))"
  by (auto simp: exchange_route_def exchange_token_def Let_def intro: store_same_same
      split: sum.splits option.splits prod.splits if_splits)

lemma phone_request_store: "request_of_phone now c s = (r, t) \<Longrightarrow> store_same s t"
proof (cases "db_requests s (cp_request c)")
  case None
  then show "request_of_phone now c s = (r, t) \<Longrightarrow> store_same s t"
    by (simp add: request_of_phone_def)
next
  case (Some q)
  obtain x s1 where e: "expire_request now (cp_request c) q s = (x, s1)" by fastforce
  assume "request_of_phone now c s = (r, t)"
  then have "store_same s1 t"
    using Some e by (auto simp: request_of_phone_def intro: store_same_same split: sum.splits bool.splits if_splits)
  with expire_store [OF e Some] show "store_same s t" by (rule store_same_trans)
qed

lemma phone_session_store: "store_same s (snd (phone_session_route now cookie ids s))"
proof (cases "phone_dependency now cookie s")
  case Inl
  then show ?thesis by (simp add: phone_session_route_def)
next
  case (Inr c)
  obtain r t where p: "request_of_phone now c s = (r, t)" by fastforce
  have "snd (phone_session_route now cookie ids s) = t"
    using Inr p by (auto simp: phone_session_route_def split: sum.splits)
  then show ?thesis using phone_request_store [OF p] by simp
qed

lemma phone_complete_store: "store_same s (snd (phone_complete_route cfg now origin cookie ids s))"
proof (cases "phone_dependency now cookie s")
  case Inl
  then show ?thesis by (simp add: phone_complete_route_def)
next
  case (Inr c)
  obtain r s1 where p: "request_of_phone now c s = (r, s1)" by fastforce
  have "snd (phone_complete_route cfg now origin cookie ids s) = s
      \<or> store_same s1 (snd (phone_complete_route cfg now origin cookie ids s))"
    using Inr p by (auto simp: phone_complete_route_def intro: store_same_same split: sum.splits)
  then show ?thesis using store_same_trans [OF phone_request_store [OF p]] by auto
qed

lemma log_out_store: "store_same s (revoke_session now vid s)"
  by (auto simp: revoke_session_def intro!: store_same_same split: option.splits)

lemma grants_job_store: "store_same s (expire_due_grants now s)"
  by (rule store_same_same) (simp_all add: expire_due_grants_def)

lemmas service_store =
  log_out_store grants_job_store
  open_link_store callback_store expire_due_store claim_store decision_route_store revoke_store
  extend_store assign_store issue_store revoke_access_store read_access_store member_start_store
  member_finish_store create_capture_store revoke_capture_store exchange_store phone_session_store
  phone_complete_store

section \<open>Uploads, deletions and submissions\<close>

text \<open>New evidence is temporary and belongs to no submission; it never replaces an object.\<close>

lemma evidence_ok_change:
  assumes "evidence_ok s" and "db_submissions t = db_submissions s"
    and "\<And>i e. db_evidence s i = Some e \<Longrightarrow> \<exists>e'. db_evidence t i = Some e'
          \<and> eo_submission e' = eo_submission e \<and> eo_request e' = eo_request e
          \<and> (eo_status e' = Temporary \<longrightarrow> eo_status e = Temporary)"
    and "\<And>i e. db_evidence s i = None \<Longrightarrow> db_evidence t i = Some e \<Longrightarrow> eo_submission e = None"
  shows "evidence_ok t"
  unfolding evidence_ok_def
proof (intro conjI ballI allI impI)
  show "distinct (map sb_id (db_submissions t))" using assms(1,2) by (simp add: evidence_ok_def)
next
  fix b assume "b \<in> set (db_submissions t)"
  then show "distinct (sb_evidence b)" using assms(1,2) by (simp add: evidence_ok_def)
next
  fix b i assume "b \<in> set (db_submissions t)" and "i \<in> set (sb_evidence b)"
  then obtain e where "db_evidence s i = Some e" "eo_submission e = Some (sb_id b)"
    "eo_request e = sb_request b" "eo_status e \<noteq> Temporary"
    using assms(1,2) unfolding evidence_ok_def by metis
  then show "\<exists>e. db_evidence t i = Some e \<and> eo_submission e = Some (sb_id b)
      \<and> eo_request e = sb_request b \<and> eo_status e \<noteq> Temporary"
    using assms(3) by metis
next
  fix i e assume t: "db_evidence t i = Some e" "eo_status e = Temporary"
  show "eo_submission e = None"
  proof (cases "db_evidence s i")
    case None
    then show ?thesis using assms(4) t by blast
  next
    case (Some e0)
    then have "eo_submission e0 = None \<or> eo_status e0 \<noteq> Temporary"
      using assms(1) unfolding evidence_ok_def by metis
    then show ?thesis using assms(3) [OF Some] t by fastforce
  qed
next
  fix i e k assume t: "db_evidence t i = Some e" "eo_submission e = Some k"
  show "\<exists>b \<in> set (db_submissions t). sb_id b = k \<and> i \<in> set (sb_evidence b)"
  proof (cases "db_evidence s i")
    case None
    then show ?thesis using assms(4) t by fastforce
  next
    case (Some e0)
    then have "eo_submission e0 = Some k" using assms(3) [OF Some] t by auto
    then show ?thesis using assms(1,2) Some unfolding evidence_ok_def by metis
  qed
qed

lemma counts_ok_same:
  "db_submissions t = db_submissions s \<Longrightarrow> (\<And>rid. request_count t rid = request_count s rid)
     \<Longrightarrow> counts_ok s \<Longrightarrow> counts_ok t"
  by (simp add: counts_ok_def request_count_def)

lemma create_store_ok:
  assumes "store_ok s" and "db_requests s rid = None"
  shows "store_ok (snd (create_request cfg now rid token a p s))"
proof -
  let ?t = "snd (create_request cfg now rid token a p s)"
  have same: "db_submissions ?t = db_submissions s" "db_evidence ?t = db_evidence s"
    by (simp_all add: create_request_def Let_def)
  have "request_count ?t r = request_count s r" for r
    using assms(2) by (simp add: create_request_def Let_def request_count_def)
  then show ?thesis
    using assms(1) same counts_ok_same [of ?t s] by (simp add: store_ok_def evidence_ok_def)
qed

lemma store_evidence_ok:
  assumes "store_ok s" and "db_evidence s eid = None"
  shows "store_ok (store_evidence cfg now eid rid k t f s)"
proof -
  let ?t = "store_evidence cfg now eid rid k t f s"
  have "evidence_ok ?t"
  proof (rule evidence_ok_change)
    show "evidence_ok s" using assms(1) by (simp add: store_ok_def)
    show "db_submissions ?t = db_submissions s" by (simp add: store_evidence_def)
    show "\<exists>e'. db_evidence ?t i = Some e' \<and> eo_submission e' = eo_submission e
        \<and> eo_request e' = eo_request e \<and> (eo_status e' = Temporary \<longrightarrow> eo_status e = Temporary)"
      if "db_evidence s i = Some e" for i e
      using that assms(2) by (auto simp: store_evidence_def)
    show "eo_submission e = None" if "db_evidence s i = None" "db_evidence ?t i = Some e" for i e
      using that by (auto simp: store_evidence_def split: if_splits)
  qed
  moreover have "counts_ok ?t"
    using assms(1) by (intro counts_ok_same [of ?t s]) (auto simp: store_ok_def store_evidence_def request_count_def)
  ultimately show ?thesis by (simp add: store_ok_def)
qed

text \<open>Everything but the tables of the store may differ.\<close>

lemma store_ok_cong:
  fixes s t :: "('date, 'm) database_scheme"
  shows "db_submissions t = db_submissions s \<Longrightarrow> db_evidence t = db_evidence s
     \<Longrightarrow> db_requests t = db_requests s \<Longrightarrow> store_ok s \<Longrightarrow> store_ok t"
  using store_same_same [of t s] store_same_ok [of s t] by simp

lemma store_ok_frame [simp]:
  "store_ok (record_audit a l r s) = store_ok s" "store_ok (set_capture c s) = store_ok s"
  "store_ok (touch_session vid w s) = store_ok s"
  by (rule iffI; rule store_ok_cong; simp)+

lemma upload_store_ok:
  assumes "store_ok s" and "db_evidence s eid = None"
  shows "store_ok (snd (upload_route cfg now vid eid t u s))"
proof (cases "\<exists>w q. valid_session now (db_sessions s vid) = Inr w \<and> db_requests s (vs_request w) = Some q")
  case False
  then show ?thesis
    using assms(1) by (auto simp: upload_route_def split: sum.splits option.splits)
next
  case True
  then obtain w q where w: "valid_session now (db_sessions s vid) = Inr w"
    and q: "db_requests s (vs_request w) = Some q" by blast
  obtain x s1 where e: "expire_request now (vs_request w) q s = (x, s1)" by fastforce
  have s1: "store_ok s1" "db_evidence s1 eid = None"
    using store_same_ok [OF expire_store [OF e q] assms(1)] expire_store [OF e q] assms(2)
    by (simp_all add: store_same_def)
  have "snd (upload_route cfg now vid eid t u s) \<in>
      {s1, touch_session vid w s1} \<union>
      range (\<lambda>f. touch_session vid w (store_evidence cfg now eid (vs_request w) None t f s1))"
    using w q e by (auto simp: upload_route_def split: sum.splits bool.splits)
  then show ?thesis
    using s1 store_evidence_ok [OF s1] by auto
qed

lemma retire_store_ok:
  assumes "store_ok s"
  shows "store_ok (s\<lparr>db_evidence := retire_older now cid t eid (db_evidence s)\<rparr>)" (is "store_ok ?t")
proof -
  have "evidence_ok ?t"
    by (rule evidence_ok_change [of s])
      (use assms in \<open>auto simp: store_ok_def retire_older_def split: option.splits\<close>)
  moreover have "counts_ok ?t"
    using assms by (intro counts_ok_same [of ?t s]) (auto simp: store_ok_def request_count_def)
  ultimately show ?thesis by (simp add: store_ok_def)
qed

lemma phone_upload_store_ok:
  assumes "store_ok s" and "db_evidence s eid = None"
  shows "store_ok (snd (phone_upload_route cfg now origin cookie eid t u s))"
proof (cases "phone_dependency now cookie s")
  case Inl
  then show ?thesis using assms(1) by (simp add: phone_upload_route_def)
next
  case (Inr c)
  obtain r s1 where p: "request_of_phone now c s = (r, s1)" by fastforce
  have s1: "store_ok s1" "db_evidence s1 eid = None"
    using store_same_ok [OF phone_request_store [OF p] assms(1)] phone_request_store [OF p] assms(2)
    by (simp_all add: store_same_def)
  let ?u = "\<lambda>f. (store_evidence cfg now eid (cp_request c) (Some (cp_id c)) t f s1)"
  have "snd (phone_upload_route cfg now origin cookie eid t u s) \<in>
      {s, s1} \<union> range (\<lambda>f. record_audit By_phone Log_capture_uploaded (cp_request c)
         (set_capture (c\<lparr>cp_status := Cap_connected\<rparr>)
           ((?u f)\<lparr>db_evidence := retire_older now (cp_id c) t eid (db_evidence (?u f))\<rparr>)))"
    using Inr p by (auto simp: phone_upload_route_def Let_def split: sum.splits)
  moreover have "store_ok ((?u f)\<lparr>db_evidence := retire_older now (cp_id c) t eid (db_evidence (?u f))\<rparr>)" for f
    by (rule retire_store_ok [OF store_evidence_ok [OF s1]])
  ultimately show ?thesis
    using assms(1) s1(1) by auto
qed

text \<open>Evidence that is only marked deleted.\<close>

lemma deletion_store_ok:
  assumes "store_ok s" and "db_submissions t = db_submissions s" and "db_requests t = db_requests s"
    and e: "\<And>i. db_evidence t i = db_evidence s i
      \<or> db_evidence t i = map_option (deleted_by now who) (db_evidence s i)"
  shows "store_ok t"
proof -
  have "evidence_ok t"
  proof (rule evidence_ok_change)
    show "evidence_ok s" using assms(1) by (simp add: store_ok_def)
    show "db_submissions t = db_submissions s" by (rule assms(2))
    show "\<exists>e'. db_evidence t i = Some e' \<and> eo_submission e' = eo_submission f
        \<and> eo_request e' = eo_request f \<and> (eo_status e' = Temporary \<longrightarrow> eo_status f = Temporary)"
      if "db_evidence s i = Some f" for i f
      using e [of i] that by (auto simp: deleted_by_def)
    show "eo_submission f = None" if "db_evidence s i = None" "db_evidence t i = Some f" for i f
      using e [of i] that by auto
  qed
  moreover have "counts_ok t"
    using assms(1-3) by (intro counts_ok_same [of t s]) (auto simp: store_ok_def request_count_def)
  ultimately show ?thesis by (simp add: store_ok_def)
qed

lemma delete_store_ok: "store_ok s \<Longrightarrow> store_ok (snd (delete_request_evidence now gone ids rid a s))"
  by (rule deletion_store_ok [of s _ now "Some a"]) (simp_all add: delete_request_evidence_def Let_def)

lemma cleanup_store_ok: "store_ok s \<Longrightarrow> store_ok (snd (cleanup_uploads now gone ids s))"
  by (rule deletion_store_ok [of s _ now None]) (simp_all add: cleanup_uploads_def Let_def)

lemma first_error_None: "first_error es = None \<longleftrightarrow> (\<forall>e \<in> set es. e = None)"
  by (induction es rule: first_error.induct) auto

lemma length_map_filter: "length (List.map_filter f xs) \<le> length xs"
  by (simp add: List.map_filter_def)

lemma map_filter_all:
  "length (List.map_filter f xs) = length xs \<longleftrightarrow> (\<forall>x \<in> set xs. f x \<noteq> None)"
proof (induction xs)
  case (Cons x xs)
  then show ?case
    using length_map_filter [of f xs] by (cases "f x") auto
qed simp

lemma set_map_filter: "set (List.map_filter f xs) = {y. \<exists>x \<in> set xs. f x = Some y}"
  by (force simp: List.map_filter_def)

lemma submission_facts:
  assumes "create_submission now sid rid q w p s = (Inr i, t)"
  shows "distinct (sc_evidence_ids p)"
    and "\<And>k. k \<in> set (sc_evidence_ids p) \<Longrightarrow>
           \<exists>e. db_evidence s k = Some e \<and> eo_request e = rid \<and> eo_status e = Temporary"
    and "db_evidence t = attach_all sid now (sc_evidence_ids p) (db_evidence s)"
    and "\<exists>b. db_submissions t = db_submissions s @ [b] \<and> sb_id b = sid \<and> sb_request b = rid
           \<and> sb_evidence b = sc_evidence_ids p"
    and "\<exists>q'. db_requests t = (db_requests s)(rid \<mapsto> q') \<and> rq_count q' = rq_count q + 1"
proof -
  show "distinct (sc_evidence_ids p)"
    using assms by (auto simp: create_submission_def Let_def split: if_splits sum.splits option.splits)
  show "\<exists>e. db_evidence s k = Some e \<and> eo_request e = rid \<and> eo_status e = Temporary"
    if k: "k \<in> set (sc_evidence_ids p)" for k
  proof -
    let ?rows = "List.map_filter (db_evidence s) (sc_evidence_ids p)"
    have len: "length ?rows = length (sc_evidence_ids p)"
      and none: "first_error (map (evidence_error now rid) ?rows) = None"
      using assms by (auto simp: create_submission_def Let_def split: if_splits sum.splits option.splits)
    obtain e where e: "db_evidence s k = Some e" using len k by (auto simp: map_filter_all)
    then have "e \<in> set ?rows" using k by (auto simp: set_map_filter)
    then have "evidence_error now rid e = None" using none by (auto simp: first_error_None)
    then show ?thesis using e by (auto simp: evidence_error_def split: if_splits)
  qed
  show "db_evidence t = attach_all sid now (sc_evidence_ids p) (db_evidence s)"
    and "\<exists>b. db_submissions t = db_submissions s @ [b] \<and> sb_id b = sid \<and> sb_request b = rid
           \<and> sb_evidence b = sc_evidence_ids p"
    and "\<exists>q'. db_requests t = (db_requests s)(rid \<mapsto> q') \<and> rq_count q' = rq_count q + 1"
    using assms by (auto simp: create_submission_def Let_def split: if_splits sum.splits option.splits)
qed

lemma submission_store_ok:
  assumes ok: "store_ok s" and q: "db_requests s rid = Some q"
    and sid: "sid \<notin> sb_id ` set (db_submissions s)"
    and c: "create_submission now sid rid q w p s = (Inr i, t)"
  shows "store_ok t"
proof -
  let ?ids = "sc_evidence_ids p"
  note f = submission_facts [OF c]
  obtain b where b: "db_submissions t = db_submissions s @ [b]" "sb_id b = sid" "sb_request b = rid"
    "sb_evidence b = ?ids" using f(4) by blast
  obtain q' where q': "db_requests t = (db_requests s)(rid \<mapsto> q')" "rq_count q' = rq_count q + 1"
    using f(5) by blast
  have ev: "evidence_ok s" and counts: "counts_ok s" using ok by (simp_all add: store_ok_def)
  have free: "eo_submission e = None" if "k \<in> set ?ids" "db_evidence s k = Some e" for k e
    using f(2) [OF that(1)] that(2) ev unfolding evidence_ok_def by force
  have old: "db_evidence t k = db_evidence s k" if "k \<notin> set ?ids" for k
    using that by (simp add: f(3) attach_all_def)
  have new: "\<exists>e. db_evidence t k = Some e \<and> eo_submission e = Some sid \<and> eo_request e = rid
      \<and> eo_status e = Attached" if "k \<in> set ?ids" for k
    using f(2) [OF that] that by (auto simp: f(3) attach_all_def attached_to_def)
  have "evidence_ok t"
    unfolding evidence_ok_def
  proof (intro conjI ballI allI impI)
    show "distinct (map sb_id (db_submissions t))"
      using ev sid b(1,2) by (auto simp: evidence_ok_def)
  next
    fix b' assume "b' \<in> set (db_submissions t)"
    then show "distinct (sb_evidence b')" using ev b f(1) by (auto simp: evidence_ok_def)
  next
    fix b' k assume b': "b' \<in> set (db_submissions t)" and k: "k \<in> set (sb_evidence b')"
    show "\<exists>e. db_evidence t k = Some e \<and> eo_submission e = Some (sb_id b')
        \<and> eo_request e = sb_request b' \<and> eo_status e \<noteq> Temporary"
    proof (cases "b' \<in> set (db_submissions s)")
      case True
      then obtain e where e: "db_evidence s k = Some e" "eo_submission e = Some (sb_id b')"
        "eo_request e = sb_request b'" "eo_status e \<noteq> Temporary"
        using ev k unfolding evidence_ok_def by metis
      then have "k \<notin> set ?ids" using free by fastforce
      then show ?thesis using e old by simp
    next
      case False
      then have "b' = b" using b' b(1) by simp
      then show ?thesis using new [of k] k b by auto
    qed
  next
    fix k e assume t: "db_evidence t k = Some e" "eo_status e = Temporary"
    then have "k \<notin> set ?ids" using new [of k] by auto
    then show "eo_submission e = None" using t old ev unfolding evidence_ok_def by metis
  next
    fix k e n assume t: "db_evidence t k = Some e" "eo_submission e = Some n"
    show "\<exists>b \<in> set (db_submissions t). sb_id b = n \<and> k \<in> set (sb_evidence b)"
    proof (cases "k \<in> set ?ids")
      case True
      then show ?thesis using new [OF True] t b by auto
    next
      case False
      then have "db_evidence s k = Some e" using t old by simp
      then obtain b' where "b' \<in> set (db_submissions s)" "sb_id b' = n" "k \<in> set (sb_evidence b')"
        using ev t(2) unfolding evidence_ok_def by metis
      then show ?thesis using b(1) by auto
    qed
  qed
  moreover have "counts_ok t"
    unfolding counts_ok_def
  proof
    fix r
    have "(case db_requests s r of None \<Rightarrow> 0 | Some q \<Rightarrow> rq_count q)
        = int (length (filter (\<lambda>b. sb_request b = r) (db_submissions s)))"
      using counts by (simp add: counts_ok_def)
    then show "(case db_requests t r of None \<Rightarrow> 0 | Some q \<Rightarrow> rq_count q)
        = int (length (filter (\<lambda>b. sb_request b = r) (db_submissions t)))"
      using q q' b by auto
  qed
  ultimately show ?thesis by (simp add: store_ok_def)
qed

lemma submit_store_ok:
  assumes "store_ok s" and "sid \<notin> sb_id ` set (db_submissions s)"
  shows "store_ok (snd (submit_route cfg now vid sid new_vid p s))"
proof (cases "\<exists>w q. valid_session now (db_sessions s vid) = Inr w \<and> db_requests s (vs_request w) = Some q")
  case False
  then show ?thesis
    using assms(1) by (auto simp: submit_route_def split: sum.splits option.splits)
next
  case True
  then obtain w q where w: "valid_session now (db_sessions s vid) = Inr w"
    and q: "db_requests s (vs_request w) = Some q" by blast
  obtain x s1 where e: "expire_request now (vs_request w) q s = (x, s1)" by fastforce
  have s1: "store_ok s1" by (rule store_same_ok [OF expire_store [OF e q] assms(1)])
  obtain y s2 where c: "create_submission now sid (vs_request w) q w p s = (y, s2)" by fastforce
  show ?thesis
  proof (cases "x = Inr False")
    case False
    then have "snd (submit_route cfg now vid sid new_vid p s) \<in> {s1, touch_session vid w s1}"
      using w q e by (auto simp: submit_route_def split: sum.splits bool.splits)
    then show ?thesis using s1 by auto
  next
    case True
    then have [simp]: "s1 = s" using e expire_unchanged by auto
    have "store_ok s2"
    proof (cases y)
      case Inl
      then show ?thesis using submission_error c assms(1) by blast
    next
      case (Inr i)
      then show ?thesis using submission_store_ok [OF assms(1) q assms(2)] c by blast
    qed
    moreover have "snd (submit_route cfg now vid sid new_vid p s)
        \<in> {s, s2, rotate_session cfg now new_vid vid w s2}"
      using w q e True c
      by (auto simp: submit_route_def split: sum.splits server_error.splits)
    moreover have "store_ok s2 \<Longrightarrow> store_ok (rotate_session cfg now new_vid vid w s2)"
      by (rule store_ok_cong [of _ s2]) (simp_all add: rotate_session_def new_session_def)
    ultimately show ?thesis using assms(1) by auto
  qed
qed

lemma perform_store_ok:
  assumes "store_ok s" and "fresh_call c s"
  shows "store_ok (perform cfg now c s)"
proof (cases c)
  case (Create rid token a p)
  then show ?thesis using assms create_store_ok by (auto split: sum.splits)
qed (use assms in \<open>simp_all add: service_store [THEN store_same_ok] submit_store_ok upload_store_ok
    phone_upload_store_ok delete_store_ok cleanup_store_ok\<close>)

lemma reachable_store_ok: "reachable cfg s \<Longrightarrow> store_ok s"
proof (induction rule: reachable_induct)
  case start
  show ?case
    by (simp add: store_ok_def evidence_ok_def counts_ok_def world_new_def database_new_def database.defs)
next
  case (call s c roles now)
  then show ?case by (simp add: serve_def perform_store_ok)
qed

end
