(* ===== verification/Server_Gateway.thy ===== *)
theory Server_Gateway
  imports Server_Evidence
begin

text \<open>
  Who has the verified role: the gateway worker and the audit log. A member has the role because a
  run of the worker for them is under way, because their grant was consumed, or because Discord
  refused to take the role back.
\<close>

section \<open>What the other services leave alone\<close>

definition approved_in :: "('date, 'm) database_scheme \<Rightarrow> nat \<Rightarrow> bool" where
  "approved_in s rid \<longleftrightarrow> (\<exists>q. db_requests s rid = Some q \<and> rq_status q = Approved)"

definition approval_logged :: "('date, 'm) database_scheme \<Rightarrow> nat \<Rightarrow> bool" where
  "approval_logged s rid \<longleftrightarrow>
     (\<exists>a. \<lparr>log_actor = By_admin a, log_action = Log_approved, log_request = rid\<rparr> \<in> set (db_audit s))"

definition consumption_logged :: "('date, 'm) database_scheme \<Rightarrow> nat \<Rightarrow> bool" where
  "consumption_logged s rid \<longleftrightarrow>
     \<lparr>log_actor = By_bot, log_action = Log_consumed, log_request = rid\<rparr> \<in> set (db_audit s)"

definition log_grows :: "('date, 'm) database_scheme \<Rightarrow> ('date, 'm) database_scheme \<Rightarrow> bool" where
  "log_grows s t \<longleftrightarrow>
     set (db_audit s) \<subseteq> set (db_audit t)
     \<and> (\<forall>rid. approved_in t rid \<longrightarrow> approved_in s rid \<or> approval_logged t rid)
     \<and> (\<forall>rid. consumption_logged t rid \<longrightarrow>
          consumption_logged s rid \<or> approved_in s rid \<or> approval_logged t rid)"

definition quiet :: "('date, 'm) database_scheme \<Rightarrow> ('date, 'm) database_scheme \<Rightarrow> bool" where
  "quiet s t \<longleftrightarrow> log_grows s t \<and> database.more t = database.more s"

lemma log_grows_refl [simp]: "log_grows s s"
  by (simp add: log_grows_def)

lemma quiet_refl [simp]: "quiet s s"
  by (simp add: quiet_def)

lemma log_grows_trans: "log_grows s t \<Longrightarrow> log_grows t u \<Longrightarrow> log_grows s u"
  unfolding log_grows_def approval_logged_def by (meson subset_iff)

lemma quiet_trans: "quiet s t \<Longrightarrow> quiet t u \<Longrightarrow> quiet s u"
  unfolding quiet_def by (metis log_grows_trans)

lemma audit_of_updates [simp]:
  "db_audit (record_audit a l r s) = db_audit s @ [\<lparr>log_actor = a, log_action = l, log_request = r\<rparr>]"
  "db_audit (set_request rid q s) = db_audit s" "db_audit (set_grant rid g s) = db_audit s"
  "db_audit (touch_session vid w s) = db_audit s" "db_audit (set_capture c s) = db_audit s"
  "db_audit (new_session cfg now vid rid d s) = db_audit s"
  "db_audit (store_evidence cfg now eid rid k t f s) = db_audit s"
  by (simp_all add: record_audit_def set_request_def set_grant_def touch_session_def set_capture_def
      new_session_def store_evidence_def)

lemma more_of_updates [simp]:
  "database.more (record_audit a l r s) = database.more s"
  "database.more (set_request rid q s) = database.more s" "database.more (set_grant rid g s) = database.more s"
  "database.more (touch_session vid w s) = database.more s" "database.more (set_capture c s) = database.more s"
  "database.more (new_session cfg now vid rid d s) = database.more s"
  "database.more (store_evidence cfg now eid rid k t f s) = database.more s"
  by (simp_all add: record_audit_def set_request_def set_grant_def touch_session_def set_capture_def
      new_session_def store_evidence_def)

lemma touched_status [simp]:
  "rq_status (touched now q) = rq_status q" "rq_discord (touched now q) = rq_discord q"
  by (simp_all add: touched_def)

lemma expire_quiet: "expire_request now rid q s = (r, t) \<Longrightarrow> db_requests s rid = Some q \<Longrightarrow> quiet s t"
  by (auto simp: expire_request_def quiet_def log_grows_def approved_in_def consumption_logged_def
      split: if_splits sum.splits)

text \<open>The definitions that reduce quietness to the tables.\<close>

lemmas quiet_defs = quiet_def log_grows_def approved_in_def approval_logged_def consumption_logged_def

lemma claim_quiet: "quiet s (snd (claim_case now rid a s))"
  by (auto simp: claim_case_def Let_def quiet_defs split: option.splits sum.splits)

lemma decision_quiet: "quiet s (snd (record_decision now rid a target reason note message s))"
  by (auto simp: record_decision_def Let_def quiet_defs decision_log_def upsert_approved_result_def
      split: option.splits sum.splits)

lemma revoke_quiet: "quiet s (snd (revoke_request now rid a s))"
  by (auto simp: revoke_request_def Let_def quiet_defs split: option.splits sum.splits)

lemma extend_quiet: "quiet s (snd (extend_request now rid a expires s))"
  by (auto simp: extend_request_def Let_def quiet_defs split: option.splits sum.splits)

lemma assign_quiet: "quiet s (snd (assign_reviewer now rid reviewer ok a s))"
  by (auto simp: assign_reviewer_def Let_def quiet_defs split: option.splits sum.splits)

lemma delete_quiet: "quiet s (snd (delete_request_evidence now gone ids rid a s))"
  by (auto simp: delete_request_evidence_def Let_def quiet_defs)

lemma cleanup_quiet: "quiet s (snd (cleanup_uploads now gone ids s))"
  by (auto simp: cleanup_uploads_def Let_def quiet_defs)

lemma log_out_quiet: "quiet s (revoke_session now vid s)"
  by (auto simp: revoke_session_def quiet_defs split: option.splits)

lemma grants_job_quiet: "quiet s (expire_due_grants now s)"
  by (simp add: expire_due_grants_def quiet_defs)

lemma create_quiet: "quiet s (snd (create_request cfg now rid token a p s))"
  by (auto simp: create_request_def Let_def quiet_defs)

lemma read_access_quiet: "quiet s (snd (read_access now vid s))"
  by (auto simp: read_access_def get_applicant_access_def expire_grant_if_needed_def Let_def quiet_defs
      split: sum.splits option.splits)

lemma expire_if_due_quiet: "quiet s (expire_if_due now rid g s)"
  by (simp add: expire_if_due_def quiet_defs)

lemma open_link_quiet: "quiet s (snd (open_link now rid s))"
proof (cases "db_requests s rid")
  case None
  then show ?thesis by (simp add: open_link_def)
next
  case (Some q)
  obtain x s1 where e: "expire_request now rid q s = (x, s1)" by fastforce
  have "snd (open_link now rid s) = s1"
    using Some e by (auto simp: open_link_def split: sum.splits bool.splits)
  then show ?thesis using expire_quiet [OF e Some] by simp
qed

lemma callback_quiet: "quiet s (snd (oauth_callback cfg now vid rid answer s))"
proof (cases "db_requests s rid")
  case None
  then show ?thesis by (simp add: oauth_callback_def)
next
  case (Some q)
  obtain x s1 where e: "expire_request now rid q s = (x, s1)" by fastforce
  let ?t = "snd (oauth_callback cfg now vid rid answer s)"
  show ?thesis
  proof (cases "x = Inr False")
    case False
    then have "?t = s1" using Some e by (auto simp: oauth_callback_def split: sum.splits bool.splits)
    then show ?thesis using expire_quiet [OF e Some] by simp
  next
    case True
    then have [simp]: "s1 = s" using e expire_unchanged by auto
    show ?thesis
      using Some e True by (auto simp: oauth_callback_def quiet_defs split: sum.splits option.splits)
  qed
qed

lemma expire_loop_quiet: "expire_loop now rids s = (r, t) \<Longrightarrow> quiet s t"
proof (induction rids arbitrary: s r t)
  case (Cons rid rids)
  show ?case
  proof (cases "db_requests s rid")
    case None
    then show ?thesis using Cons by simp
  next
    case (Some q)
    let ?u = "record_audit By_system Log_expired rid
        (set_request rid (touched now (q\<lparr>rq_status := Expired\<rparr>)) s)"
    have u: "quiet s ?u" by (auto simp: quiet_defs)
    have "t = s \<or> expire_loop now rids s = (r, t) \<or> (\<exists>r'. expire_loop now rids ?u = (r', t))"
      using Cons.prems Some by (auto split: if_splits sum.splits prod.splits)
    then show ?thesis using Cons.IH quiet_trans [OF u] by auto
  qed
qed simp

lemma expire_due_quiet: "quiet s (snd (expire_due_requests now rids s))"
  using expire_loop_quiet [of now rids s]
  by (auto simp: expire_due_requests_def split: prod.splits sum.splits)

lemma upload_quiet: "quiet s (snd (upload_route cfg now vid eid t u s))"
proof (cases "\<exists>w q. valid_session now (db_sessions s vid) = Inr w \<and> db_requests s (vs_request w) = Some q")
  case False
  then show ?thesis by (auto simp: upload_route_def split: sum.splits option.splits)
next
  case True
  then obtain w q where w: "valid_session now (db_sessions s vid) = Inr w"
    and q: "db_requests s (vs_request w) = Some q" by blast
  obtain x s1 where e: "expire_request now (vs_request w) q s = (x, s1)" by fastforce
  have "quiet s1 (snd (upload_route cfg now vid eid t u s))"
    using w q e
    by (auto simp: upload_route_def store_evidence_def quiet_defs split: sum.splits bool.splits)
  with expire_quiet [OF e q] show ?thesis by (rule quiet_trans)
qed

lemma submission_quiet: "quiet s (snd (create_submission now sid rid q w p s))"
  by (auto simp: create_submission_def Let_def quiet_defs split: sum.splits option.splits)

lemma touch_quiet: "quiet s (touch_session vid w s)"
  by (auto simp: quiet_defs)

lemma rotate_quiet: "quiet s (rotate_session cfg now new_vid vid w s)"
  by (auto simp: rotate_session_def new_session_def quiet_defs)

lemma submit_quiet: "quiet s (snd (submit_route cfg now vid sid new_vid p s))"
proof (cases "\<exists>w q. valid_session now (db_sessions s vid) = Inr w \<and> db_requests s (vs_request w) = Some q")
  case False
  then show ?thesis by (auto simp: submit_route_def split: sum.splits option.splits)
next
  case True
  then obtain w q where w: "valid_session now (db_sessions s vid) = Inr w"
    and q: "db_requests s (vs_request w) = Some q" by blast
  obtain x s1 where e: "expire_request now (vs_request w) q s = (x, s1)" by fastforce
  obtain y s2 where c: "create_submission now sid (vs_request w) q w p s1 = (y, s2)" by fastforce
  then have s2: "quiet s1 s2" using submission_quiet [of s1 now sid "vs_request w" q w p] by simp
  have "snd (submit_route cfg now vid sid new_vid p s)
      \<in> {s1, touch_session vid w s1, s2, rotate_session cfg now new_vid vid w s2}"
    using w q e c by (auto simp: submit_route_def split: sum.splits bool.splits server_error.splits)
  then have "quiet s1 (snd (submit_route cfg now vid sid new_vid p s))"
    using s2 quiet_trans [OF s2 rotate_quiet] touch_quiet by auto
  with expire_quiet [OF e q] show ?thesis by (rule quiet_trans)
qed

lemma phone_request_quiet: "request_of_phone now c s = (r, t) \<Longrightarrow> quiet s t"
proof (cases "db_requests s (cp_request c)")
  case None
  then show "request_of_phone now c s = (r, t) \<Longrightarrow> quiet s t"
    by (simp add: request_of_phone_def)
next
  case (Some q)
  obtain x s1 where e: "expire_request now (cp_request c) q s = (x, s1)" by fastforce
  assume "request_of_phone now c s = (r, t)"
  then have "quiet s1 t"
    using Some e by (auto simp: request_of_phone_def quiet_defs split: sum.splits bool.splits if_splits)
  with expire_quiet [OF e Some] show "quiet s t" by (rule quiet_trans)
qed

lemma phone_session_quiet: "quiet s (snd (phone_session_route now cookie ids s))"
proof (cases "phone_dependency now cookie s")
  case Inl
  then show ?thesis by (simp add: phone_session_route_def)
next
  case (Inr c)
  obtain r t where p: "request_of_phone now c s = (r, t)" by fastforce
  have "snd (phone_session_route now cookie ids s) = t"
    using Inr p by (auto simp: phone_session_route_def split: sum.splits)
  then show ?thesis using phone_request_quiet [OF p] by simp
qed

lemma phone_complete_quiet: "quiet s (snd (phone_complete_route cfg now origin cookie ids s))"
proof (cases "phone_dependency now cookie s")
  case Inl
  then show ?thesis by (simp add: phone_complete_route_def)
next
  case (Inr c)
  obtain r s1 where p: "request_of_phone now c s = (r, s1)" by fastforce
  have "snd (phone_complete_route cfg now origin cookie ids s) = s
      \<or> quiet s1 (snd (phone_complete_route cfg now origin cookie ids s))"
    using Inr p by (auto simp: phone_complete_route_def quiet_defs split: sum.splits)
  then show ?thesis using quiet_trans [OF phone_request_quiet [OF p]] by auto
qed

lemma phone_upload_quiet: "quiet s (snd (phone_upload_route cfg now origin cookie eid t u s))"
proof (cases "phone_dependency now cookie s")
  case Inl
  then show ?thesis by (simp add: phone_upload_route_def)
next
  case (Inr c)
  obtain r s1 where p: "request_of_phone now c s = (r, s1)" by fastforce
  have "snd (phone_upload_route cfg now origin cookie eid t u s) = s
      \<or> quiet s1 (snd (phone_upload_route cfg now origin cookie eid t u s))"
    using Inr p
    by (auto simp: phone_upload_route_def store_evidence_def Let_def quiet_defs split: sum.splits)
  then show ?thesis using quiet_trans [OF phone_request_quiet [OF p]] by auto
qed

lemma create_capture_quiet: "quiet s (snd (create_capture_route cfg now vid cid token s))"
  by (auto simp: create_capture_route_def create_capture_def Let_def quiet_defs
      split: sum.splits option.splits prod.splits if_splits)

lemma revoke_capture_quiet: "quiet s (snd (revoke_capture_route now vid cid s))"
  by (auto simp: revoke_capture_route_def revoke_capture_def quiet_defs
      split: sum.splits option.splits prod.splits if_splits)

lemma exchange_quiet: "quiet s (snd (exchange_route cfg now origin token phone_token s))"
  by (auto simp: exchange_route_def exchange_token_def Let_def quiet_defs
      split: sum.splits option.splits prod.splits if_splits)

section \<open>Who has the role\<close>

definition log_ok :: "('date, 'm) database_scheme \<Rightarrow> bool" where
  "log_ok s \<longleftrightarrow> (\<forall>rid. approved_in s rid \<or> consumption_logged s rid \<longrightarrow> approval_logged s rid)"

definition consumed_for :: "('date, 'm) database_scheme \<Rightarrow> int \<Rightarrow> bool" where
  "consumed_for s discord \<longleftrightarrow>
     (\<exists>rid q. consumption_logged s rid \<and> db_requests s rid = Some q \<and> rq_discord q = discord)"

definition role_ok :: "'date world \<Rightarrow> bool" where
  "role_ok s \<longleftrightarrow>
     (\<forall>u \<in> role_holders s. u \<in> snd ` set (joining s) \<or> u \<in> unremoved s \<or> consumed_for s u)"

definition roles_same :: "'date world \<Rightarrow> 'date world \<Rightarrow> bool" where
  "roles_same s t \<longleftrightarrow> role_holders t = role_holders s \<and> joining t = joining s \<and> unremoved t = unremoved s"

lemma more_roles_same: "database.more t = database.more s \<Longrightarrow> roles_same s t"
  by (cases s; cases t) (simp add: roles_same_def)

lemma log_grows_ok: "log_grows s t \<Longrightarrow> log_ok s \<Longrightarrow> log_ok t"
  unfolding log_grows_def log_ok_def approval_logged_def by (meson subset_iff)

text \<open>The Discord account of a request is fixed, so a consumption stays one for the same member.\<close>

lemma consumed_for_mono:
  assumes "log_grows s t" and "refines s t" and "rows_owned s" and "consumed_for s u"
  shows "consumed_for t u"
proof -
  obtain rid q where q: "consumption_logged s rid" "db_requests s rid = Some q" "rq_discord q = u"
    using assms(4) by (auto simp: consumed_for_def)
  then have c: "consumption_logged t rid"
    using assms(1) by (auto simp: log_grows_def consumption_logged_def)
  have "case_step\<^sup>*\<^sup>* (case_of s rid) (case_of t rid)" using assms(2,3) by (simp add: refines_def)
  then obtain c' where "case_of t rid = Some c'" "ca_discord c' = u"
    using case_steps_fixed [of "case_of s rid" "case_of t rid"] q by (auto simp: case_of_def view_of_def)
  then show ?thesis using c by (auto simp: consumed_for_def case_of_def view_of_def)
qed

lemma role_ok_mono:
  assumes "log_grows s t" and "refines s t" and "rows_owned s" and "role_ok s"
    and "role_holders t \<subseteq> insert u (role_holders s)" and "u \<in> snd ` set (joining t)"
    and "set (joining s) \<subseteq> set (joining t)" and "unremoved s \<subseteq> unremoved t"
  shows "role_ok t"
  using assms consumed_for_mono [OF assms(1-3)] unfolding role_ok_def by blast

lemma roles_same_ok:
  assumes "log_grows s t" and "refines s t" and "rows_owned s" and "role_ok s" and "roles_same s t"
  shows "role_ok t"
  using assms consumed_for_mono [OF assms(1-3)] unfolding role_ok_def roles_same_def by auto

lemma eligible_quiet: "eligible_grant now discord rids s = (r, t) \<Longrightarrow> quiet s t"
  using expire_if_due_quiet [of s now]
  by (auto simp: eligible_grant_def split: list.splits option.splits if_splits)

text \<open>A consumption is of an approved request of the member.\<close>

lemma consume_grows:
  assumes "consume_grant now rid discord s = (b, t)"
  shows "log_grows s t" and "database.more t = database.more s" and "b \<Longrightarrow> consumed_for t discord"
proof -
  have "log_grows s t \<and> database.more t = database.more s \<and> (b \<longrightarrow> consumed_for t discord)"
  proof (cases b)
    case True
    with assms show ?thesis
      by (auto simp: consume_grant_def quiet_defs consumed_for_def intro!: exI [of _ rid]
          split: option.splits if_splits)
  next
    case False
    with assms show ?thesis
      using expire_if_due_quiet [of s now]
      by (auto simp: consume_grant_def quiet_def split: option.splits if_splits)
  qed
  then show "log_grows s t" "database.more t = database.more s" "b \<Longrightarrow> consumed_for t discord" by auto
qed

lemma issue_grows:
  "log_grows s (snd (issue_access_grant cfg now rid a invite committed cleaned dm s))"
  "roles_same s (snd (issue_access_grant cfg now rid a invite committed cleaned dm s))"
proof -
  let ?t = "snd (issue_access_grant cfg now rid a invite committed cleaned dm s)"
  show "log_grows s ?t"
    by (auto simp: issue_access_grant_def Let_def quiet_defs split: option.splits)
  show "roles_same s ?t"
    by (auto simp: issue_access_grant_def Let_def roles_same_def record_audit_def set_request_def
        set_grant_def split: option.splits)
qed

lemma revoke_access_grows:
  "log_grows s (snd (revoke_access_grant now rid a deleted s))"
  "roles_same s (snd (revoke_access_grant now rid a deleted s))"
  by (auto simp: revoke_access_grant_def Let_def quiet_defs roles_same_def record_audit_def set_grant_def
      split: option.splits)

lemma roles_same_trans: "roles_same s t \<Longrightarrow> roles_same t u \<Longrightarrow> roles_same s u"
  by (simp add: roles_same_def)

lemma decision_route_grows:
  "log_grows s (snd (decision_route cfg now rid a target reason note message invite committed cleaned dm s))
   \<and> roles_same s (snd (decision_route cfg now rid a target reason note message invite committed cleaned dm s))"
proof -
  obtain x s1 where d: "record_decision now rid a target reason note message s = (x, s1)" by fastforce
  then have q: "quiet s s1" using decision_quiet [of s now rid a target reason "note" message] by simp
  then have s1: "log_grows s s1" "roles_same s s1" by (auto simp: quiet_def more_roles_same)
  have "snd (decision_route cfg now rid a target reason note message invite committed cleaned dm s)
      \<in> {s1, snd (issue_access_grant cfg now rid a invite committed cleaned dm s1)}"
    using d by (cases x) (auto simp: decision_route_def)
  then show ?thesis
    using s1 log_grows_trans [OF s1(1) issue_grows(1)] roles_same_trans [OF s1(2) issue_grows(2)] by auto
qed

lemma member_start_grows: "log_grows s (member_start now discord rids role_exists added s)"
proof -
  obtain r t where e: "eligible_grant now discord rids s = (r, t)" by fastforce
  have "db_audit (member_start now discord rids role_exists added s) = db_audit t"
    and "db_requests (member_start now discord rids role_exists added s) = db_requests t"
    using e by (auto simp: member_start_def split: option.splits)
  then show ?thesis
    using eligible_quiet [OF e] by (simp add: quiet_defs)
qed

lemma member_start_ok:
  assumes "role_ok s" and "rows_owned s"
  shows "role_ok (member_start now discord rids role_exists added s)" (is "role_ok ?t")
proof -
  obtain r t where e: "eligible_grant now discord rids s = (r, t)" by fastforce
  then have same: "roles_same s t" using eligible_quiet [OF e] more_roles_same [of t s] by (simp add: quiet_def)
  have "?t = t \<or> role_holders ?t \<subseteq> insert discord (role_holders t)
      \<and> discord \<in> snd ` set (joining ?t) \<and> set (joining t) \<subseteq> set (joining ?t) \<and> unremoved ?t = unremoved t"
    using e by (cases r) (auto simp: member_start_def)
  then show ?thesis
  proof
    assume "?t = t"
    then have "roles_same s ?t" using same by simp
    then show ?thesis by (rule roles_same_ok [OF member_start_grows member_start_refines assms(2,1)])
  next
    assume "role_holders ?t \<subseteq> insert discord (role_holders t)
      \<and> discord \<in> snd ` set (joining ?t) \<and> set (joining t) \<subseteq> set (joining ?t) \<and> unremoved ?t = unremoved t"
    then show ?thesis
      using same
      by (intro role_ok_mono [OF member_start_grows member_start_refines assms(2,1), where u = discord])
        (simp_all add: roles_same_def)
  qed
qed

text \<open>The end of a run: the grant is consumed, or the role is taken back, or Discord refuses.\<close>

lemma member_finish_facts:
  assumes "k < length (joining s)" and "joining s ! k = (rid, discord)"
  shows "log_grows s (member_finish now k stored removed s)"
    and "set (joining s) \<subseteq> insert (rid, discord) (set (joining (member_finish now k stored removed s)))"
    and "unremoved s \<subseteq> unremoved (member_finish now k stored removed s)"
    and "role_holders (member_finish now k stored removed s) \<subseteq> role_holders s"
    and "discord \<in> role_holders (member_finish now k stored removed s)
           \<Longrightarrow> discord \<in> unremoved (member_finish now k stored removed s)
             \<or> consumed_for (member_finish now k stored removed s) discord"
proof -
  let ?u = "member_finish now k stored removed s"
  let ?s0 = "s\<lparr>joining := take k (joining s) @ drop (Suc k) (joining s)\<rparr>"
  obtain b t where c: "(if stored then consume_grant now rid discord ?s0 else (False, ?s0)) = (b, t)"
    by fastforce
  have t: "log_grows ?s0 t" "database.more t = database.more ?s0" "b \<Longrightarrow> consumed_for t discord"
  proof -
    have "consume_grant now rid discord ?s0 = (b, t) \<or> b = False \<and> t = ?s0"
      using c by (cases stored) simp_all
    then have "log_grows ?s0 t \<and> database.more t = database.more ?s0 \<and> (b \<longrightarrow> consumed_for t discord)"
      using consume_grows [of now rid discord ?s0 b t] by auto
    then show "log_grows ?s0 t" "database.more t = database.more ?s0" "b \<Longrightarrow> consumed_for t discord"
      by blast+
  qed
  have u: "?u = (if b then t else if removed then t\<lparr>role_holders := role_holders t - {discord}\<rparr>
                 else t\<lparr>unremoved := insert discord (unremoved t)\<rparr>)"
    using assms c by (simp add: member_finish_def Let_def)
  have same: "roles_same ?s0 t" using more_roles_same [of t ?s0] t(2) by simp
  have "set (joining s) = insert (joining s ! k) (set (take k (joining s) @ drop (Suc k) (joining s)))"
    using id_take_nth_drop [OF assms(1)] by (metis Un_insert_right list.simps(15) set_append)
  then have "set (joining s) = insert (rid, discord) (set (joining ?s0))" by (simp add: assms(2))
  then show "set (joining s) \<subseteq> insert (rid, discord) (set (joining ?u))"
    using same by (auto simp: u roles_same_def)
  have "db_audit ?u = db_audit t" "db_requests ?u = db_requests t" by (simp_all add: u)
  then show "log_grows s ?u" using t(1) by (simp add: quiet_defs)
  show "unremoved s \<subseteq> unremoved ?u" "role_holders ?u \<subseteq> role_holders s"
    using same by (auto simp: u roles_same_def)
  show "discord \<in> role_holders ?u \<Longrightarrow> discord \<in> unremoved ?u \<or> consumed_for ?u discord"
    using t(3) by (auto simp: u split: if_splits)
qed

lemma member_finish_ok:
  assumes "role_ok s" and "rows_owned s"
  shows "role_ok (member_finish now k stored removed s)"
proof (cases "k < length (joining s)")
  case False
  then show ?thesis using assms(1) by (simp add: member_finish_def)
next
  case True
  obtain rid discord where j: "joining s ! k = (rid, discord)" by fastforce
  note f = member_finish_facts [OF True j, of now stored removed]
  let ?u = "member_finish now k stored removed s"
  show ?thesis
    unfolding role_ok_def
  proof
    fix x assume x: "x \<in> role_holders ?u"
    then have old: "x \<in> snd ` set (joining s) \<or> x \<in> unremoved s \<or> consumed_for s x"
      using assms(1) f(4) unfolding role_ok_def by blast
    show "x \<in> snd ` set (joining ?u) \<or> x \<in> unremoved ?u \<or> consumed_for ?u x"
    proof (cases "x = discord")
      case True
      then show ?thesis using f(5) x by blast
    next
      case False
      then have "x \<in> snd ` set (joining s) \<Longrightarrow> x \<in> snd ` set (joining ?u)" using f(2) by force
      then show ?thesis
        using old f(3) consumed_for_mono [OF f(1) member_finish_refines assms(2)] by blast
    qed
  qed
qed

lemma member_finish_grows: "log_grows s (member_finish now k stored removed s)"
proof (cases "k < length (joining s)")
  case True
  obtain rid discord where "joining s ! k = (rid, discord)" by fastforce
  then show ?thesis by (rule member_finish_facts(1) [OF True])
qed (simp add: member_finish_def)

lemmas service_quiet =
  cleanup_quiet log_out_quiet grants_job_quiet
  create_quiet open_link_quiet callback_quiet submit_quiet upload_quiet expire_due_quiet claim_quiet
  revoke_quiet extend_quiet assign_quiet delete_quiet read_access_quiet create_capture_quiet
  revoke_capture_quiet exchange_quiet phone_session_quiet phone_upload_quiet phone_complete_quiet

lemma quiet_grows: "quiet s t \<Longrightarrow> log_grows s t"
  by (simp add: quiet_def)

lemma quiet_roles: "quiet s t \<Longrightarrow> roles_same s t"
  by (simp add: quiet_def more_roles_same)

lemma create_call_quiet: "quiet s (perform cfg now (Create rid token a p) s)"
  by (auto simp: create_quiet split: sum.splits)

lemma perform_grows: "log_grows s (perform cfg now c s)"
proof (cases c)
  case (Create rid token a p)
  then show ?thesis using create_call_quiet quiet_grows by metis
qed (simp_all add: service_quiet [THEN quiet_grows] decision_route_grows issue_grows revoke_access_grows
    member_start_grows member_finish_grows)

lemma perform_role_ok:
  assumes "role_ok s" and "rows_owned s" and "fresh_call c s"
  shows "role_ok (perform cfg now c s)"
proof -
  have keep: "roles_same s (perform cfg now c s) \<Longrightarrow> ?thesis"
    using roles_same_ok [OF perform_grows perform_refines [OF assms(3)] assms(2,1)] .
  show ?thesis
  proof (cases c)
    case (Create rid token a p)
    then show ?thesis using keep create_call_quiet quiet_roles by metis
  next
    case (Member_found discord rids role_exists added)
    then show ?thesis using member_start_ok [OF assms(1,2)] by simp
  next
    case (Member_settled k stored removed)
    then show ?thesis using member_finish_ok [OF assms(1,2)] by simp
  qed (use keep in \<open>simp_all add: service_quiet [THEN quiet_roles] decision_route_grows issue_grows
      revoke_access_grows\<close>)
qed

lemma reachable_roles: "reachable cfg s \<Longrightarrow> log_ok s \<and> role_ok s"
proof (induction rule: reachable_induct)
  case start
  show ?case
    by (simp add: log_ok_def approved_in_def consumption_logged_def role_ok_def world_new_def
        database_new_def database.defs)
next
  case (call s c roles now)
  then show ?case
    using reachable_cases [of cfg s] log_grows_ok [OF perform_grows] perform_role_ok
    by (auto simp: serve_def)
qed

end
