(* ===== verification/Server_Phones.thy ===== *)
theory Server_Phones
  imports Server_System
begin

text \<open>
  QR sessions in every run of the server: what changes in them and what never does.
\<close>

section \<open>How QR sessions change\<close>

definition capture_evolves :: "capture_row \<Rightarrow> capture_row \<Rightarrow> bool" where
  "capture_evolves c d \<longleftrightarrow>
     cp_id d = cp_id c \<and> cp_request d = cp_request c \<and> cp_session d = cp_session c
     \<and> cp_token d = cp_token c \<and> cp_created d = cp_created c \<and> cp_expires d = cp_expires c
     \<and> (cp_exchanged c \<noteq> None \<longrightarrow> cp_exchanged d \<noteq> None)
     \<and> (cp_completed c \<noteq> None \<longrightarrow> cp_completed d \<noteq> None)
     \<and> (cp_revoked c \<noteq> None \<longrightarrow> cp_revoked d \<noteq> None)"

lemma capture_evolves_refl [simp]: "capture_evolves c c"
  by (simp add: capture_evolves_def)

lemma capture_evolves_trans: "capture_evolves c d \<Longrightarrow> capture_evolves d e \<Longrightarrow> capture_evolves c e"
  by (auto simp: capture_evolves_def)

definition captures_evolve :: "capture_row list \<Rightarrow> capture_row list \<Rightarrow> bool" where
  "captures_evolve cs ds \<longleftrightarrow> list_all2 capture_evolves cs ds"

lemma captures_evolve_refl [simp]: "captures_evolve cs cs"
  by (simp add: captures_evolve_def list.rel_refl)

lemma captures_evolve_map: "(\<And>c. c \<in> set cs \<Longrightarrow> capture_evolves c (f c)) \<Longrightarrow> captures_evolve cs (map f cs)"
  by (simp add: captures_evolve_def list_all2_map2 list.rel_refl_strong)

lemma captures_evolve_trans: "captures_evolve cs ds \<Longrightarrow> captures_evolve ds es \<Longrightarrow> captures_evolve cs es"
  unfolding captures_evolve_def by (rule list_all2_trans [OF capture_evolves_trans])

text \<open>The order of two sessions of one applicant: the older one had ended when the newer was made.\<close>

definition captures_ok :: "capture_row list \<Rightarrow> bool" where
  "captures_ok cs \<longleftrightarrow>
     distinct (map cp_id cs) \<and> distinct (map cp_token cs)
     \<and> (\<forall>i j. i < j \<and> j < length cs \<and> cp_session (cs ! i) = cp_session (cs ! j)
          \<and> cp_revoked (cs ! i) = None \<and> cp_completed (cs ! i) = None
          \<longrightarrow> cp_expires (cs ! i) \<le> cp_created (cs ! j))"

lemma captures_evolve_ids:
  "captures_evolve cs ds \<Longrightarrow> map cp_id ds = map cp_id cs \<and> map cp_token ds = map cp_token cs"
  unfolding captures_evolve_def
  by (induction rule: list_all2_induct) (auto simp: capture_evolves_def)

lemma captures_evolve_sets:
  "captures_evolve cs ds \<Longrightarrow> cp_id ` set ds = cp_id ` set cs \<and> cp_token ` set ds = cp_token ` set cs"
  using captures_evolve_ids [of cs ds] arg_cong [of _ _ set] by (metis set_map)

lemma captures_evolve_nth:
  "captures_evolve cs ds \<Longrightarrow> length ds = length cs \<and> (\<forall>i < length cs. capture_evolves (cs ! i) (ds ! i))"
  by (auto simp: captures_evolve_def list_all2_conv_all_nth)

lemma captures_evolve_ok:
  assumes "captures_evolve cs ds" and "captures_ok cs"
  shows "captures_ok ds"
proof -
  note n = captures_evolve_nth [OF assms(1)]
  have "cp_expires (ds ! i) \<le> cp_created (ds ! j)"
    if "i < j" "j < length ds" "cp_session (ds ! i) = cp_session (ds ! j)"
      "cp_revoked (ds ! i) = None" "cp_completed (ds ! i) = None" for i j
  proof -
    have e: "capture_evolves (cs ! i) (ds ! i)" "capture_evolves (cs ! j) (ds ! j)"
      using n that by auto
    then have "cp_session (cs ! i) = cp_session (cs ! j)" "cp_revoked (cs ! i) = None"
      "cp_completed (cs ! i) = None" using that by (auto simp: capture_evolves_def)
    then have "cp_expires (cs ! i) \<le> cp_created (cs ! j)"
      using assms(2) n that unfolding captures_ok_def by metis
    then show ?thesis using e by (simp add: capture_evolves_def)
  qed
  then show ?thesis
    using assms(2) captures_evolve_ids [OF assms(1)] by (auto simp: captures_ok_def)
qed

lemma captures_ok_append:
  assumes "captures_ok cs" and "cp_id c \<notin> cp_id ` set cs" and "cp_token c \<notin> cp_token ` set cs"
    and "\<And>d. d \<in> set cs \<Longrightarrow> cp_session d = cp_session c \<Longrightarrow> cp_revoked d = None \<Longrightarrow> cp_completed d = None
           \<Longrightarrow> cp_expires d \<le> cp_created c"
  shows "captures_ok (cs @ [c])"
proof -
  have "cp_expires ((cs @ [c]) ! i) \<le> cp_created ((cs @ [c]) ! j)"
    if "i < j" "j < length (cs @ [c])" "cp_session ((cs @ [c]) ! i) = cp_session ((cs @ [c]) ! j)"
      "cp_revoked ((cs @ [c]) ! i) = None" "cp_completed ((cs @ [c]) ! i) = None" for i j
  proof (cases "j < length cs")
    case True
    then have "cp_expires (cs ! i) \<le> cp_created (cs ! j)"
      using assms(1) that unfolding captures_ok_def by (auto simp: nth_append)
    then show ?thesis using that True by (simp add: nth_append)
  next
    case False
    then have "j = length cs" "i < length cs" using that by auto
    then show ?thesis using that assms(4) [of "cs ! i"] by (simp add: nth_append)
  qed
  then show ?thesis using assms(1-3) by (auto simp: captures_ok_def)
qed

section \<open>The services\<close>

lemma set_capture_evolve:
  assumes "captures_ok (db_captures s)" and "c \<in> set (db_captures s)" and "capture_evolves c c'"
  shows "captures_evolve (db_captures s) (db_captures (set_capture c' s))"
proof -
  have "d = c" if "d \<in> set (db_captures s)" "cp_id d = cp_id c'" for d
    using that assms by (auto simp: captures_ok_def capture_evolves_def distinct_map dest: inj_onD)
  then show ?thesis
    using assms(3) by (auto simp: set_capture_def intro!: captures_evolve_map)
qed

lemma captures_of_updates [simp]:
  "db_captures (record_audit a l r s) = db_captures s" "db_captures (set_request rid q s) = db_captures s"
  "db_captures (set_grant rid g s) = db_captures s" "db_captures (touch_session vid w s) = db_captures s"
  "db_captures (new_session cfg now vid rid d s) = db_captures s"
  "db_captures (store_evidence cfg now eid rid k t f s) = db_captures s"
  by (simp_all add: record_audit_def set_request_def set_grant_def touch_session_def new_session_def
      store_evidence_def)

lemma valid_capture_row:
  assumes "valid_capture now token s = Inr c"
  shows "\<exists>d \<in> set (db_captures s). capture_evolves d c \<and> cp_revoked c = None \<and> cp_completed c = None
           \<and> cp_exchanged c \<noteq> None \<and> cp_id c = cp_id d"
  using assms
  by (auto simp: valid_capture_def usable_capture_def capture_evolves_def find_Some_iff
      split: option.splits if_splits sum.splits dest: nth_mem)

lemma phone_dependency_row:
  assumes "phone_dependency now cookie s = Inr c"
  shows "\<exists>d \<in> set (db_captures s). capture_evolves d c \<and> cp_revoked c = None \<and> cp_completed c = None
           \<and> cp_exchanged c \<noteq> None \<and> cp_id c = cp_id d"
proof -
  have "valid_capture now (coalesce cookie []) s = Inr c"
    using assms by (auto simp: phone_dependency_def split: if_splits sum.splits server_error.splits)
  then show ?thesis by (rule valid_capture_row)
qed

text \<open>Services that leave the QR sessions alone.\<close>

lemma expire_captures: "expire_request now rid q s = (r, t) \<Longrightarrow> db_captures t = db_captures s"
  by (auto simp: expire_request_def split: if_splits sum.splits)

lemma create_captures: "db_captures (snd (create_request cfg now rid token a p s)) = db_captures s"
  by (simp add: create_request_def Let_def)

lemma open_link_captures: "db_captures (snd (open_link now rid s)) = db_captures s"
  using expire_captures
  by (fastforce simp: open_link_def split: option.splits prod.splits sum.splits bool.splits)

lemma callback_captures: "db_captures (snd (oauth_callback cfg now vid rid answer s)) = db_captures s"
  using expire_captures
  by (fastforce simp: oauth_callback_def split: option.splits prod.splits sum.splits bool.splits)

lemma submission_captures: "db_captures (snd (create_submission now sid rid q w p s)) = db_captures s"
  by (auto simp: create_submission_def Let_def split: sum.splits option.splits)

lemma rotate_captures: "db_captures (rotate_session cfg now v1 v2 w s) = db_captures s"
  by (simp add: rotate_session_def new_session_def)

lemma submit_captures: "db_captures (snd (submit_route cfg now vid sid new_vid p s)) = db_captures s"
proof (cases "\<exists>w q. valid_session now (db_sessions s vid) = Inr w \<and> db_requests s (vs_request w) = Some q")
  case False
  then show ?thesis by (auto simp: submit_route_def split: sum.splits option.splits)
next
  case True
  then obtain w q where w: "valid_session now (db_sessions s vid) = Inr w"
    and q: "db_requests s (vs_request w) = Some q" by blast
  obtain x s1 where e: "expire_request now (vs_request w) q s = (x, s1)" by fastforce
  obtain y s2 where c: "create_submission now sid (vs_request w) q w p s1 = (y, s2)" by fastforce
  have "db_captures s2 = db_captures s"
    using submission_captures [of now sid "vs_request w" q w p s1] c expire_captures [OF e] by simp
  moreover have "snd (submit_route cfg now vid sid new_vid p s)
      \<in> {s1, touch_session vid w s1, s2, rotate_session cfg now new_vid vid w s2}"
    using w q e c by (auto simp: submit_route_def split: sum.splits bool.splits server_error.splits)
  ultimately show ?thesis using expire_captures [OF e] by (auto simp: rotate_captures)
qed

lemma upload_captures: "db_captures (snd (upload_route cfg now vid eid t u s)) = db_captures s"
  using expire_captures
  by (fastforce simp: upload_route_def split: option.splits prod.splits sum.splits bool.splits)

lemma expire_loop_captures: "expire_loop now rids s = (r, t) \<Longrightarrow> db_captures t = db_captures s"
proof (induction rids arbitrary: s r t)
  case (Cons rid rids)
  show ?case
  proof (cases "db_requests s rid")
    case None
    then show ?thesis using Cons by simp
  next
    case (Some q)
    let ?u = "record_audit By_system Log_expired rid
        (set_request rid (touched now (q\<lparr>rq_status := Expired\<rparr>)) s)"
    have "t = s \<or> expire_loop now rids s = (r, t) \<or> (\<exists>r'. expire_loop now rids ?u = (r', t))"
      using Cons.prems Some by (auto split: if_splits sum.splits prod.splits)
    then show ?thesis using Cons.IH [of ?u] Cons.IH [of s] by auto
  qed
qed simp

lemma expire_due_captures: "db_captures (snd (expire_due_requests now rids s)) = db_captures s"
  using expire_loop_captures [of now rids s]
  by (auto simp: expire_due_requests_def split: prod.splits sum.splits)

lemma claim_captures: "db_captures (snd (claim_case now rid a s)) = db_captures s"
  by (auto simp: claim_case_def Let_def split: option.splits sum.splits)

lemma decision_captures:
  "db_captures (snd (record_decision now rid a target reason note message s)) = db_captures s"
  by (auto simp: record_decision_def Let_def upsert_approved_result_def split: option.splits sum.splits)

lemma revoke_captures: "db_captures (snd (revoke_request now rid a s)) = db_captures s"
  by (auto simp: revoke_request_def Let_def split: option.splits sum.splits)

lemma extend_captures: "db_captures (snd (extend_request now rid a expires s)) = db_captures s"
  by (auto simp: extend_request_def Let_def split: option.splits)

lemma assign_captures: "db_captures (snd (assign_reviewer now rid reviewer ok a s)) = db_captures s"
  by (auto simp: assign_reviewer_def Let_def split: option.splits)

lemma delete_captures: "db_captures (snd (delete_request_evidence now gone ids rid a s)) = db_captures s"
  by (simp add: delete_request_evidence_def Let_def)

lemma issue_captures:
  "db_captures (snd (issue_access_grant cfg now rid a invite committed cleaned dm s)) = db_captures s"
  by (auto simp: issue_access_grant_def Let_def split: option.splits)

lemma decision_route_captures:
  "db_captures (snd (decision_route cfg now rid a target reason note message invite committed cleaned dm s))
     = db_captures s"
proof -
  obtain x s1 where d: "record_decision now rid a target reason note message s = (x, s1)" by fastforce
  then show ?thesis
    using decision_captures [of now rid a target reason "note" message s]
    by (cases x) (auto simp: decision_route_def issue_captures)
qed

lemma revoke_access_captures: "db_captures (snd (revoke_access_grant now rid a deleted s)) = db_captures s"
  by (auto simp: revoke_access_grant_def Let_def split: option.splits)

lemma read_access_captures: "db_captures (snd (read_access now vid s)) = db_captures s"
  by (auto simp: read_access_def get_applicant_access_def expire_grant_if_needed_def Let_def
      split: sum.splits option.splits)

lemma expire_if_due_captures [simp]: "db_captures (expire_if_due now rid g s) = db_captures s"
  by (simp add: expire_if_due_def)

lemma eligible_captures: "db_captures (snd (eligible_grant now discord rids s)) = db_captures s"
  by (auto simp: eligible_grant_def split: list.splits option.splits)

lemma consume_captures: "db_captures (snd (consume_grant now rid discord s)) = db_captures s"
  by (auto simp: consume_grant_def split: option.splits)

lemma member_start_captures:
  "db_captures (member_start now discord rids role_exists added s) = db_captures s"
  using eligible_captures [of now discord rids s]
  by (auto simp: member_start_def split: prod.splits option.splits)

lemma member_finish_captures: "db_captures (member_finish now k stored removed s) = db_captures s"
proof (cases "k < length (joining s)")
  case True
  obtain rid discord where j: "joining s ! k = (rid, discord)" by fastforce
  let ?s0 = "s\<lparr>joining := take k (joining s) @ drop (Suc k) (joining s)\<rparr>"
  obtain b t where c: "(if stored then consume_grant now rid discord ?s0 else (False, ?s0)) = (b, t)"
    by fastforce
  then have "db_captures t = db_captures s"
    using consume_captures [of now rid discord ?s0] by (cases stored) auto
  then show ?thesis using True j c by (simp add: member_finish_def Let_def)
qed (simp add: member_finish_def)

lemma cleanup_captures: "db_captures (snd (cleanup_uploads now gone ids s)) = db_captures s"
  by (simp add: cleanup_uploads_def Let_def)

lemma log_out_captures: "db_captures (revoke_session now vid s) = db_captures s"
  by (auto simp: revoke_session_def split: option.splits)

lemma grants_job_captures: "db_captures (expire_due_grants now s) = db_captures s"
  by (simp add: expire_due_grants_def)

lemmas service_captures =
  cleanup_captures log_out_captures grants_job_captures
  open_link_captures callback_captures submit_captures upload_captures expire_due_captures claim_captures
  decision_route_captures revoke_captures extend_captures assign_captures delete_captures issue_captures
  revoke_access_captures read_access_captures member_start_captures member_finish_captures

section \<open>The routes of QR sessions\<close>

text \<open>What a call does to the QR sessions: they evolve, and new ones come after them.\<close>

definition captures_grow :: "capture_row list \<Rightarrow> capture_row list \<Rightarrow> bool" where
  "captures_grow cs ds \<longleftrightarrow> captures_evolve cs (take (length cs) ds)"

lemma captures_evolve_length: "captures_evolve cs ds \<Longrightarrow> length ds = length cs"
  by (simp add: captures_evolve_nth)

lemma captures_grow_evolve: "captures_evolve cs ds \<Longrightarrow> captures_grow cs ds"
  using captures_evolve_length [of cs ds] by (simp add: captures_grow_def)

lemma captures_grow_append: "captures_evolve cs ds \<Longrightarrow> captures_grow cs (ds @ es)"
  using captures_evolve_length [of cs ds] by (simp add: captures_grow_def)

lemma captures_grow_refl [simp]: "captures_grow cs cs"
  by (simp add: captures_grow_evolve)

lemma captures_grow_trans:
  assumes "captures_grow cs ds" and "captures_grow ds es"
  shows "captures_grow cs es"
proof -
  have l: "length cs \<le> length ds"
    using captures_evolve_length [OF assms(1) [unfolded captures_grow_def]] by simp
  have "captures_evolve (take (length cs) ds) (take (length cs) (take (length ds) es))"
    using assms(2) unfolding captures_grow_def captures_evolve_def by (rule list_all2_takeI)
  then show ?thesis
    using assms(1) l captures_evolve_trans by (auto simp: captures_grow_def min_def)
qed

lemma captures_grow_row:
  assumes "captures_grow cs ds" and "c \<in> set cs"
  shows "\<exists>d \<in> set ds. capture_evolves c d"
proof -
  obtain i where "i < length cs" "cs ! i = c" using assms(2) by (auto simp: in_set_conv_nth)
  moreover from this have "capture_evolves c (take (length cs) ds ! i)"
    using captures_evolve_nth [OF assms(1) [unfolded captures_grow_def]] by auto
  moreover have "i < length (take (length cs) ds)"
    using captures_evolve_nth [OF assms(1) [unfolded captures_grow_def]] \<open>i < length cs\<close> by simp
  ultimately show ?thesis by (meson in_set_takeD nth_mem)
qed

definition captures_safe :: "('date, 'm) database_scheme \<Rightarrow> ('date, 'm) database_scheme \<Rightarrow> bool" where
  "captures_safe s t \<longleftrightarrow>
     captures_ok (db_captures s)
       \<longrightarrow> captures_ok (db_captures t) \<and> captures_grow (db_captures s) (db_captures t)"

lemma captures_safe_same: "db_captures t = db_captures s \<Longrightarrow> captures_safe s t"
  by (simp add: captures_safe_def)

lemma captures_safe_evolve:
  "(captures_ok (db_captures s) \<Longrightarrow> captures_evolve (db_captures s) (db_captures t)) \<Longrightarrow> captures_safe s t"
  using captures_evolve_ok captures_grow_evolve by (auto simp: captures_safe_def)

lemma set_capture_safe:
  assumes "c \<in> set (db_captures s)" and "capture_evolves c c'" and "db_captures t = db_captures (set_capture c' s)"
  shows "captures_safe s t"
  using set_capture_evolve assms by (auto intro!: captures_safe_evolve)

lemma superseded_evolves [simp]: "capture_evolves c (superseded now c)"
  by (simp add: superseded_def capture_evolves_def)

lemma superseded_ended:
  assumes "d \<in> set (map (\<lambda>d. if cp_session d = vid \<and> usable_capture now d then superseded now d else d) cs)"
    and "cp_session d = vid" and "cp_revoked d = None" and "cp_completed d = None"
  shows "cp_expires d \<le> now"
proof -
  obtain d0 where "d = (if cp_session d0 = vid \<and> usable_capture now d0 then superseded now d0 else d0)"
    using assms(1) unfolding set_map by (rule imageE)
  then show ?thesis using assms(2-4) by (auto simp: usable_capture_def superseded_def split: if_splits)
qed

lemma create_capture_safe:
  assumes "cid \<notin> cp_id ` set (db_captures s)" and "token \<notin> cp_token ` set (db_captures s)"
  shows "captures_safe s (snd (create_capture cfg now cid token rid q vid w s))"
proof (cases "parents_allow now rid q w")
  case True
  let ?f = "\<lambda>d. if cp_session d = vid \<and> usable_capture now d then superseded now d else d"
  let ?ds = "map ?f (db_captures s)"
  obtain c where t: "db_captures (snd (create_capture cfg now cid token rid q vid w s)) = ?ds @ [c]"
    and c: "cp_id c = cid" "cp_token c = token" "cp_session c = vid" "cp_created c = now"
    using True by (auto simp: create_capture_def Let_def)
  have e: "captures_evolve (db_captures s) ?ds"
    by (auto intro: captures_evolve_map)
  have "captures_ok (?ds @ [c])" if ok: "captures_ok (db_captures s)"
  proof (rule captures_ok_append)
    show "captures_ok ?ds" by (rule captures_evolve_ok [OF e ok])
    show "cp_id c \<notin> cp_id ` set ?ds"
      unfolding c(1) captures_evolve_sets [OF e, THEN conjunct1] by (rule assms(1))
    show "cp_token c \<notin> cp_token ` set ?ds"
      unfolding c(2) captures_evolve_sets [OF e, THEN conjunct2] by (rule assms(2))
  next
    fix d assume d: "d \<in> set ?ds" "cp_session d = cp_session c" "cp_revoked d = None" "cp_completed d = None"
    show "cp_expires d \<le> cp_created c"
      unfolding c(4) by (rule superseded_ended [OF d(1) _ d(3,4)]) (simp only: d(2) c(3))
  qed
  then show ?thesis
    using t captures_grow_append [OF e] by (simp add: captures_safe_def)
qed (simp add: create_capture_def captures_safe_def)

lemma create_route_safe:
  assumes "cid \<notin> cp_id ` set (db_captures s)" and "token \<notin> cp_token ` set (db_captures s)"
  shows "captures_safe s (snd (create_capture_route cfg now vid cid token s))"
proof (cases "\<exists>w q. valid_session now (db_sessions s vid) = Inr w \<and> db_requests s (vs_request w) = Some q")
  case True
  then obtain w q where w: "valid_session now (db_sessions s vid) = Inr w"
    "db_requests s (vs_request w) = Some q" by blast
  obtain r t where "create_capture cfg now cid token (vs_request w) q vid w s = (r, t)" by fastforce
  then show ?thesis
    using create_capture_safe [OF assms, of cfg now "vs_request w" q vid w] w
    by (cases r) (auto simp: create_capture_route_def captures_safe_def)
qed (auto simp: create_capture_route_def captures_safe_def split: sum.splits option.splits)

lemma revoke_route_safe: "captures_safe s (snd (revoke_capture_route now vid cid s))"
proof (cases "\<exists>w c. valid_session now (db_sessions s vid) = Inr w
    \<and> find (\<lambda>c. cp_id c = cid) (db_captures s) = Some c \<and> cp_session c = vid")
  case True
  then obtain w c where w: "valid_session now (db_sessions s vid) = Inr w"
    "find (\<lambda>c. cp_id c = cid) (db_captures s) = Some c" "cp_session c = vid" by blast
  then have "c \<in> set (db_captures s)" by (auto simp: find_Some_iff)
  then show ?thesis
    using w by (intro set_capture_safe [of c s "superseded now c"])
      (auto simp: revoke_capture_route_def revoke_capture_def)
qed (auto simp: revoke_capture_route_def revoke_capture_def intro!: captures_safe_same
       split: sum.splits option.splits)

lemma exchange_token_row:
  assumes "exchange_token now token phone s = (Inr c', t)"
  shows "\<exists>c \<in> set (db_captures s). t = set_capture c' s \<and> capture_evolves c c' \<and> cp_token c = token
           \<and> cp_exchanged c = None \<and> cp_exchanged c' \<noteq> None \<and> usable_capture now c"
proof (cases "find (\<lambda>c. cp_token c = token) (db_captures s)")
  case (Some c)
  then have "c \<in> set (db_captures s)" "cp_token c = token" by (auto simp: find_Some_iff)
  moreover have "capture_evolves c c' \<and> t = set_capture c' s \<and> cp_exchanged c = None
      \<and> cp_exchanged c' \<noteq> None \<and> usable_capture now c"
    using assms Some
    by (auto simp: exchange_token_def capture_evolves_def Let_def split: if_splits sum.splits)
  ultimately show ?thesis by blast
qed (use assms in \<open>simp add: exchange_token_def\<close>)

lemma exchange_route_safe: "captures_safe s (snd (exchange_route cfg now origin token phone s))"
proof (cases "\<exists>c t. exchange_token now (trim (coalesce token [])) phone s = (Inr c, t)")
  case True
  then obtain c t where x: "exchange_token now (trim (coalesce token [])) phone s = (Inr c, t)" by blast
  obtain d where d: "d \<in> set (db_captures s)" "capture_evolves d c" "t = set_capture c s"
    using exchange_token_row [OF x] by blast
  have "captures_safe s t" using set_capture_safe [OF d(1,2)] d(3) by simp
  then show ?thesis using x by (auto simp: exchange_route_def captures_safe_def)
next
  case False
  then show ?thesis
    by (auto simp: exchange_route_def captures_safe_def split: prod.splits sum.splits)
qed

lemma request_of_phone_captures:
  assumes "request_of_phone now c s = (r, t)"
  shows "db_captures t = db_captures s \<or> db_captures t = db_captures (set_capture c s)"
  using assms expire_captures
  by (fastforce simp: request_of_phone_def set_capture_def
      split: option.splits prod.splits sum.splits bool.splits if_splits)

lemma request_of_phone_same:
  "request_of_phone now c s = (Inr q, t) \<Longrightarrow> db_captures t = db_captures s"
  using expire_captures
  by (fastforce simp: request_of_phone_def split: option.splits prod.splits sum.splits bool.splits if_splits)

text \<open>The phone's three routes change the row of the credential, or nothing.\<close>

lemma phone_safe:
  assumes "phone_dependency now cookie s = Inr c" and "capture_evolves c c'"
    and "db_captures t \<in> {db_captures s, db_captures (set_capture c s), db_captures (set_capture c' s)}"
  shows "captures_safe s t"
proof -
  obtain d where d: "d \<in> set (db_captures s)" "capture_evolves d c"
    using phone_dependency_row [OF assms(1)] by blast
  moreover have "capture_evolves d c'" using d(2) assms(2) capture_evolves_trans by blast
  ultimately show ?thesis
    using assms(3) set_capture_safe [OF d(1)] captures_safe_same by blast
qed

lemma set_capture_of: "db_captures t = db_captures s \<Longrightarrow> db_captures (set_capture c t) = db_captures (set_capture c s)"
  by (simp add: set_capture_def)

lemma phone_session_safe: "captures_safe s (snd (phone_session_route now cookie ids s))"
proof (cases "phone_dependency now cookie s")
  case (Inr c)
  obtain r t where r: "request_of_phone now c s = (r, t)" by fastforce
  have "snd (phone_session_route now cookie ids s) = t"
    using Inr r by (auto simp: phone_session_route_def split: sum.splits)
  then show ?thesis
    using phone_safe [OF Inr capture_evolves_refl] request_of_phone_captures [OF r] by auto
qed (simp add: phone_session_route_def captures_safe_def)

lemma phone_upload_safe: "captures_safe s (snd (phone_upload_route cfg now origin cookie eid k u s))"
proof (cases "phone_dependency now cookie s")
  case (Inr c)
  let ?c = "c\<lparr>cp_status := Cap_connected\<rparr>"
  obtain r t where r: "request_of_phone now c s = (r, t)" by fastforce
  have "db_captures (snd (phone_upload_route cfg now origin cookie eid k u s))
      \<in> {db_captures s, db_captures (set_capture c s), db_captures (set_capture ?c s)}"
    using Inr r request_of_phone_captures [OF r] request_of_phone_same [of now c s _ t]
    by (cases r) (auto simp: phone_upload_route_def Let_def set_capture_def split: sum.splits)
  moreover have "capture_evolves c ?c" by (simp add: capture_evolves_def)
  ultimately show ?thesis using phone_safe [OF Inr] by blast
qed (simp add: phone_upload_route_def captures_safe_def)

lemma phone_complete_safe: "captures_safe s (snd (phone_complete_route cfg now origin cookie ids s))"
proof (cases "phone_dependency now cookie s")
  case (Inr c)
  let ?c = "c\<lparr>cp_completed := Some now, cp_status := Cap_completed, cp_phone_token := None, cp_phone_expires := None\<rparr>"
  obtain r t where r: "request_of_phone now c s = (r, t)" by fastforce
  have "db_captures (snd (phone_complete_route cfg now origin cookie ids s))
      \<in> {db_captures s, db_captures (set_capture c s), db_captures (set_capture ?c s)}"
    using Inr r request_of_phone_captures [OF r] request_of_phone_same [of now c s _ t]
    by (cases r) (auto simp: phone_complete_route_def set_capture_def split: sum.splits)
  moreover have "capture_evolves c ?c" by (simp add: capture_evolves_def)
  ultimately show ?thesis using phone_safe [OF Inr] by blast
qed (simp add: phone_complete_route_def captures_safe_def)

section \<open>In every run\<close>

lemma perform_captures:
  assumes "fresh_call c s"
  shows "captures_safe s (perform cfg now c s)"
proof (cases c)
  case (Create rid token a p)
  then show ?thesis
    by (auto intro!: captures_safe_same simp: create_captures split: sum.splits)
next
  case (Create_capture vid cid token)
  then show ?thesis using create_route_safe [of cid s token] assms by simp
next
  case (Revoke_capture vid cid)
  then show ?thesis by (simp add: revoke_route_safe)
next
  case (Exchange_token o' token phone)
  then show ?thesis by (simp add: exchange_route_safe)
next
  case (Phone_session cookie ids)
  then show ?thesis by (simp add: phone_session_safe)
next
  case (Phone_upload o' cookie eid t u)
  then show ?thesis by (simp add: phone_upload_safe)
next
  case (Phone_complete o' cookie ids)
  then show ?thesis by (simp add: phone_complete_safe)
qed (simp_all add: captures_safe_same service_captures)

lemma serve_captures: "fresh_call c s \<Longrightarrow> captures_safe s (serve cfg roles now c s)"
  using perform_captures [of c s] by (simp add: serve_def captures_safe_same)

lemma reachable_captures_ok: "reachable cfg s \<Longrightarrow> captures_ok (db_captures s)"
proof (induction rule: reachable_induct)
  case start
  then show ?case by (simp add: captures_ok_def world_new_def database_new_def database.defs)
next
  case (call s c roles now)
  then show ?case using serve_captures [of c s cfg roles now] by (simp add: captures_safe_def)
qed

lemma later_captures: "reachable cfg s \<Longrightarrow> later cfg s t \<Longrightarrow> captures_grow (db_captures s) (db_captures t)"
proof (rotate_tac, induction rule: later.induct)
  case (later_call t c roles now)
  have "captures_ok (db_captures t)"
    using reachable_captures_ok reachable_later later_call by blast
  then have "captures_grow (db_captures t) (db_captures (serve cfg roles now c t))"
    using serve_captures [of c t cfg roles now] later_call by (simp add: captures_safe_def)
  then show ?case using later_call captures_grow_trans by blast
qed simp

text \<open>A row of a capture, found by its token, is the same one for ever.\<close>

lemma later_row:
  assumes "reachable cfg s" and "later cfg s t" and "c \<in> set (db_captures s)"
    and "d \<in> set (db_captures t)" and "cp_token d = cp_token c \<or> cp_id d = cp_id c"
  shows "capture_evolves c d"
proof -
  obtain e where e: "e \<in> set (db_captures t)" "capture_evolves c e"
    using captures_grow_row [OF later_captures [OF assms(1,2)] assms(3)] by blast
  have "distinct (map cp_id (db_captures t))" "distinct (map cp_token (db_captures t))"
    using reachable_captures_ok [OF reachable_later [OF assms(1,2)]] by (auto simp: captures_ok_def)
  moreover have "cp_token d = cp_token e \<or> cp_id d = cp_id e"
    using assms(5) e(2) by (auto simp: capture_evolves_def)
  ultimately have "d = e" using assms(4) e(1) by (auto simp: distinct_map dest: inj_onD)
  then show ?thesis using e(2) by simp
qed

end
