(* ===== verification/Server_Cases_Proved.thy ===== *)
theory Server_Cases_Proved
  imports Server_Gateway
begin

text \<open>
  What every run of the server keeps for a case: its life refines the abstract machine, access needs
  a review, submissions and their evidence, the final statuses, and the cases no reviewer can take
  any more. The witnesses are runs of the model from the empty database.
\<close>

section \<open>Runs to test with\<close>

definition front_only :: required_evidence where
  "front_only =
     \<lparr>needs_legal_name = True, needs_date_of_birth = False, needs_age_confirmation = False,
      needs_issuing_country = False, needs_document_type = False, needs_document_front = True,
      needs_document_back = False, needs_selfie = False, needs_liveness = False\<rparr>"

definition sample_staff :: "nat \<rightharpoonup> admin_role" where
  "sample_staff = [7 \<mapsto> Admin]"

definition sample_submission :: "nat list \<Rightarrow> string submission_create" where
  "sample_submission ids =
     \<lparr>sc_legal_name = Some ''Ann'', sc_date_of_birth = None, sc_age_result = None,
      sc_issuing_country = None, sc_document_type = None, sc_evidence_ids = ids,
      sc_consent_confirmed = True, sc_accuracy_confirmed = True\<rparr>"

definition timed_calls :: "(int \<times> string call) list \<Rightarrow> string trace" where
  "timed_calls cs = map (\<lambda>(n, c). (sample_staff, n, c)) cs"

definition sample_opening :: "(int \<times> string call) list" where
  "sample_opening =
     [(0, Create 1 ''tok'' 7 \<lparr>cr_discord = ''00000000000000009'', cr_username = None,
        cr_required = front_only, cr_expires = None, cr_max = 2\<rparr>),
      (10, Discord_callback 1 1 (Some (9, ''ann'')))]"

definition sample_review :: "(int \<times> string call) list" where
  "sample_review =
     [(20, Upload 1 5 Document_front (Inr \<lparr>sf_content_type = ''image/png'', sf_size = 100\<rparr>)),
      (30, Submit 1 3 2 (sample_submission [5])),
      (40, Claim 1 7)]"

definition opened_world :: "string world" where
  "opened_world = run_trace default_config (timed_calls sample_opening) world_new"

definition review_world :: "string world" where
  "review_world = run_trace default_config (timed_calls (sample_opening @ sample_review)) world_new"

definition sample_approval :: "(int \<times> string call) list" where
  "sample_approval = [(50, Decide 1 7 Approved None None None (Some ''inv'') True True (Some True))]"

definition sample_return :: "(int \<times> string call) list" where
  "sample_return = [(50, Decide 1 7 More_info None None (Some ''Again'') None True True None)]"

definition approved_world :: "string world" where
  "approved_world = run_trace default_config (timed_calls sample_approval) review_world"

definition returned_world :: "string world" where
  "returned_world = run_trace default_config (timed_calls sample_return) review_world"

lemma opened_reachable: "reachable default_config opened_world"
  unfolding opened_world_def by (rule reachable_trace) code_simp

lemma review_reachable: "reachable default_config review_world"
  unfolding review_world_def by (rule reachable_trace) code_simp

lemma approved_reachable: "reachable default_config approved_world"
  unfolding approved_world_def
  by (rule reachable_later [OF review_reachable later_trace]) code_simp

lemma returned_reachable: "reachable default_config returned_world"
  unfolding returned_world_def
  by (rule reachable_later [OF review_reachable later_trace]) code_simp

section \<open>The case machine\<close>

text \<open>C1: the server implements the machine of a case: whatever call comes in, authorised or not, at
  whatever time, the case of every request (status, reviewer, number of submissions, grant,
  verification) is changed by steps of the machine only, and requests nobody called for keep theirs
  within it.\<close>

theorem server_refines_cases:
  assumes "reachable cfg s" and "fresh_call c s"
  shows "case_step\<^sup>*\<^sup>* (case_of s rid) (case_of (serve cfg roles now c s) rid)"
  using serve_refines [OF assms(2), of cfg roles now] reachable_cases [OF assms(1)]
  by (simp add: refines_def)

theorem server_refines_cases_witness:
  "\<exists>c. case_of (serve default_config sample_staff 50 (snd (sample_approval ! 0)) review_world) 1 = Some c
     \<and> ca_status c = Approved \<and> case_step\<^sup>*\<^sup>* (case_of review_world 1) (Some c)"
proof -
  let ?c = "snd (sample_approval ! 0)"
  let ?t = "serve default_config sample_staff 50 ?c review_world"
  have "map_option ca_status (case_of ?t 1) = Some Approved" "fresh_call ?c review_world"
    by code_simp+
  then show ?thesis
    using server_refines_cases [OF review_reachable, of ?c 1 sample_staff 50] by auto
qed

section \<open>Access follows a review\<close>

lemma case_row:
  assumes "reachable cfg s" and "db_requests s rid = Some q"
  shows "case_ok (view_of q (db_grants s rid) (db_results s rid))"
  by (rule reachable_case_ok [OF assms(1), of rid]) (simp add: case_of_def assms(2))

lemma counted_submission:
  assumes "reachable cfg s" and "db_requests s rid = Some q"
  shows "rq_count q = int (length (filter (\<lambda>b. sb_request b = rid) (db_submissions s)))"
  using reachable_store_ok [OF assms(1)] assms(2)
  by (auto simp: store_ok_def counts_ok_def dest: spec [of _ rid])

lemma submission_of_count:
  assumes "reachable cfg s" and "db_requests s rid = Some q" and "1 \<le> rq_count q"
  shows "\<exists>b \<in> set (db_submissions s). sb_request b = rid"
proof -
  have "filter (\<lambda>b. sb_request b = rid) (db_submissions s) \<noteq> []"
    using counted_submission [OF assms(1,2)] assms(3) by auto
  then show ?thesis by (auto simp: filter_empty_conv)
qed

lemma approved_case:
  assumes "reachable cfg s" and "db_requests s rid = Some q" and "rq_status q = Approved"
  shows "rq_reviewer q \<noteq> None" and "approval_logged s rid"
    and "\<exists>b \<in> set (db_submissions s). sb_request b = rid"
proof -
  have ok: "case_ok (view_of q (db_grants s rid) (db_results s rid))" by (rule case_row [OF assms(1,2)])
  then show "rq_reviewer q \<noteq> None" using assms(3) by (simp add: case_ok_def view_of_def)
  show "approval_logged s rid"
    using reachable_roles [OF assms(1)] assms(2,3) by (auto simp: log_ok_def approved_in_def)
  have "1 \<le> rq_count q" using ok assms(3) by (simp add: case_ok_def view_of_def)
  then show "\<exists>b \<in> set (db_submissions s). sb_request b = rid"
    by (rule submission_of_count [OF assms(1,2)])
qed

text \<open>C2: access rests on a review in every run: when a grant of a request is open or used, or its
  result counts as verified, then the request is approved, has a reviewer, an administrator's approval
  is in the audit log, at least one submission is stored, and the grant is that of the Discord account
  the request was made for.\<close>

theorem access_rests_on_review:
  assumes "reachable cfg s" and "db_requests s rid = Some q"
    and "map_option gr_status (db_grants s rid) \<in> {Some Grant_issued, Some Grant_consumed}
       \<or> map_option rs_verified (db_results s rid) = Some True"
  shows "rq_status q = Approved \<and> rq_reviewer q \<noteq> None \<and> approval_logged s rid
    \<and> (\<exists>b \<in> set (db_submissions s). sb_request b = rid)
    \<and> (\<forall>g. db_grants s rid = Some g \<longrightarrow> gr_discord g = rq_discord q)"
proof -
  have ok: "case_ok (view_of q (db_grants s rid) (db_results s rid))" by (rule case_row [OF assms(1,2)])
  then have "rq_status q = Approved"
    using assms(3) by (auto simp: case_ok_def view_of_def split: option.splits)
  moreover have "\<forall>g. db_grants s rid = Some g \<longrightarrow> gr_discord g = rq_discord q"
    using ok by (auto simp: case_ok_def view_of_def)
  ultimately show ?thesis using approved_case [OF assms(1,2)] by blast
qed

theorem access_rests_on_review_witness:
  "\<exists>q. db_requests approved_world 1 = Some q \<and> rq_status q = Approved
     \<and> (\<exists>b \<in> set (db_submissions approved_world). sb_request b = 1)"
proof -
  have "map_option gr_status (db_grants approved_world 1) = Some Grant_issued" by code_simp
  moreover have "map_option rq_status (db_requests approved_world 1) = Some Approved" by code_simp
  then obtain q where "db_requests approved_world 1 = Some q" by auto
  ultimately show ?thesis
    using access_rests_on_review [OF approved_reachable, of 1 q] by simp
qed

text \<open>C3: whoever is shown an invitation to the Discord server is signed in with the account the
  request was made for, the request has been approved by a reviewer on the strength of a stored
  submission, and the grant is open and not over.\<close>

theorem invitation_shown_to_owner:
  assumes "reachable cfg s" and "read_access now vid s = (Inr (Some (g, Some invite_code)), t)"
  shows "\<exists>w q. db_sessions s vid = Some w \<and> db_requests s (vs_request w) = Some q
    \<and> vs_discord w = rq_discord q \<and> gr_discord g = rq_discord q \<and> rq_status q = Approved
    \<and> gr_status g = Grant_issued \<and> \<not> grant_is_due now g \<and> approval_logged s (vs_request w)
    \<and> (\<exists>b \<in> set (db_submissions s). sb_request b = vs_request w)"
proof -
  obtain v where v: "valid_session now (db_sessions s vid) = Inr v"
    using assms(2) by (auto simp: read_access_def split: sum.splits)
  then obtain w where w: "db_sessions s vid = Some w" "vs_request v = vs_request w" "vs_discord v = vs_discord w"
    by (auto simp: valid_session_def split: option.splits if_splits)
  obtain q where q: "db_requests s (vs_request w) = Some q" "session_matches (vs_request w) q v"
    using assms(2) v w by (auto simp: read_access_def split: option.splits if_splits)
  then have a: "get_applicant_access now (vs_request w) q (vs_discord w) s
      = (Inr (Some (g, Some invite_code)), t)"
    using assms(2) v w by (auto simp: read_access_def split: prod.splits sum.splits)
  then have "rq_status q = Approved" "vs_discord w = rq_discord q"
    by (auto simp: get_applicant_access_def split: if_splits)
  moreover from a have "gr_status g = Grant_issued \<and> \<not> grant_is_due now g \<and> gr_discord g = vs_discord w"
    by (auto simp: get_applicant_access_def expire_grant_if_needed_def expired_grant_def set_grant_def Let_def
        split: option.splits if_splits)
  ultimately show ?thesis using w(1) q(1) approved_case [OF assms(1) q(1)] by auto
qed

theorem invitation_shown_to_owner_witness:
  "\<exists>g t. read_access 60 2 approved_world = (Inr (Some (g, Some ''inv'')), t) \<and> gr_discord g = 9
     \<and> approval_logged approved_world 1"
proof -
  have "(case fst (read_access 60 2 approved_world) of
      Inr (Some (g, Some i)) \<Rightarrow> gr_discord g = 9 \<and> i = ''inv'' | _ \<Rightarrow> False)" by code_simp
  then obtain g t where r: "read_access 60 2 approved_world = (Inr (Some (g, Some ''inv'')), t)" "gr_discord g = 9"
    by (cases "read_access 60 2 approved_world") (auto split: sum.splits option.splits)
  moreover have "map_option vs_request (db_sessions approved_world 2) = Some 1" by code_simp
  ultimately show ?thesis
    using invitation_shown_to_owner [OF approved_reachable r(1)] by auto
qed

section \<open>Submissions and evidence\<close>





section \<open>Final statuses and stuck cases\<close>

lemma later_case:
  assumes "reachable cfg s" and "later cfg s t" and "db_requests s rid = Some q"
  shows "case_step\<^sup>*\<^sup>* (Some (view_of q (db_grants s rid) (db_results s rid))) (case_of t rid)"
proof -
  have "case_step\<^sup>*\<^sup>* (case_of s rid) (case_of t rid)"
    using later_cases [OF assms(2)] reachable_cases [OF assms(1)] by blast
  then show ?thesis by (simp add: case_of_def assms(3))
qed

lemma case_of_row: "case_of t rid = Some c \<Longrightarrow> \<exists>q. db_requests t rid = Some q \<and> c = view_of q (db_grants t rid) (db_results t rid)"
  by (auto simp: case_of_def)

lemma case_steps_final:
  "case_step\<^sup>*\<^sup>* x y \<Longrightarrow> x = Some c \<Longrightarrow> ca_status c \<in> {Rejected, Revoked}
     \<Longrightarrow> \<exists>c'. y = Some c' \<and> ca_status c' = ca_status c"
  by (induction rule: rtranclp_induct) (auto elim!: case_step_someE simp: can_transition_def)

text \<open>C16: a rejection and a revocation are final: in every later state, whatever is called by whom,
  the request still has that status, its result does not count as verified and no grant of it is open
  or used.\<close>

theorem final_statuses_stay:
  assumes "reachable cfg s" and "later cfg s t"
    and "db_requests s rid = Some q" and "rq_status q \<in> {Rejected, Revoked}"
  shows "\<exists>q'. db_requests t rid = Some q' \<and> rq_status q' = rq_status q
    \<and> map_option rs_verified (db_results t rid) \<noteq> Some True
    \<and> map_option gr_status (db_grants t rid) \<notin> {Some Grant_issued, Some Grant_consumed}"
proof -
  obtain c where c: "case_of t rid = Some c" "ca_status c = rq_status q"
    using case_steps_final [OF later_case [OF assms(1-3)] refl] assms(4) by (auto simp: view_of_def)
  have ok: "case_ok c" by (rule reachable_case_ok [OF reachable_later [OF assms(1,2)] c(1)])
  obtain q' where q': "db_requests t rid = Some q'" "c = view_of q' (db_grants t rid) (db_results t rid)"
    using case_of_row [OF c(1)] by blast
  then show ?thesis
    using ok c(2) assms(4) by (cases "db_grants t rid"; cases "db_results t rid") (auto simp: case_ok_def view_of_def)
qed

definition revoked_world :: "string world" where
  "revoked_world = run_trace default_config (timed_calls [(60, Revoke_case 1 7)]) approved_world"

lemma revoked_later: "later default_config approved_world revoked_world"
  unfolding revoked_world_def by (rule later_trace) code_simp

theorem final_statuses_stay_witness:
  "\<exists>q'. db_requests (run_trace default_config (timed_calls [(70, Extend 1 7 900), (80, Claim 1 7)]) revoked_world) 1
       = Some q' \<and> rq_status q' = Revoked"
proof -
  let ?cs = "timed_calls [(70, Extend 1 7 900), (80, Claim 1 7)]"
  have "map_option rq_status (db_requests revoked_world 1) = Some Revoked" by code_simp
  then obtain q where q: "db_requests revoked_world 1 = Some q" "rq_status q = Revoked" by auto
  have l: "later default_config revoked_world (run_trace default_config ?cs revoked_world)"
    by (rule later_trace) code_simp
  show ?thesis
    using final_statuses_stay [OF reachable_later [OF approved_reachable revoked_later] l q(1)] q(2) by auto
qed

text \<open>C8: a case that has a reviewer and is not under review never comes under review again: claiming
  asks for a case without a reviewer, and nothing takes a reviewer away. So a case sent back for more
  information, or assigned while it waits, can be submitted again but never decided: in no later state
  is it in review, approved or rejected.\<close>

theorem returned_cases_undecidable:
  assumes "reachable cfg s" and "later cfg s t" and "db_requests s rid = Some q"
    and "rq_reviewer q \<noteq> None" and "rq_status q \<in> {Pending, Queued, More_info, Expired}"
  shows "\<exists>q'. db_requests t rid = Some q' \<and> rq_reviewer q' \<noteq> None
    \<and> rq_status q' \<notin> {In_review, Approved, Rejected}"
proof -
  have "case_stuck (view_of q (db_grants s rid) (db_results s rid))"
    using assms(4,5) by (auto simp: case_stuck_def view_of_def)
  then obtain c where c: "case_of t rid = Some c" "case_stuck c"
    using case_steps_stuck [OF later_case [OF assms(1-3)] refl] by blast
  then show ?thesis using case_of_row [OF c(1)] by (auto simp: case_stuck_def view_of_def)
qed

definition sample_resubmission :: "(int \<times> string call) list" where
  "sample_resubmission =
     [(60, Submit 2 4 3 (sample_submission [])), (70, Claim 1 7), (80, Assign 1 7 True 7), (90, Claim 1 7)]"

theorem returned_cases_undecidable_witness:
  "\<exists>q'. db_requests (run_trace default_config (timed_calls sample_resubmission) returned_world) 1 = Some q'
     \<and> rq_status q' = Queued \<and> rq_status q' \<noteq> In_review"
proof -
  let ?t = "run_trace default_config (timed_calls sample_resubmission) returned_world"
  have "map_option (\<lambda>q. (rq_status q, rq_reviewer q)) (db_requests returned_world 1) = Some (More_info, Some 7)"
    by code_simp
  then obtain q where q: "db_requests returned_world 1 = Some q" "rq_status q = More_info" "rq_reviewer q = Some 7"
    by auto
  have l: "later default_config returned_world ?t" by (rule later_trace) code_simp
  obtain q' where "db_requests ?t 1 = Some q'" "rq_status q' \<notin> {In_review, Approved, Rejected}"
    using returned_cases_undecidable [OF returned_reachable l q(1)] q(2,3) by auto
  moreover have "map_option rq_status (db_requests ?t 1) = Some Queued" by code_simp
  ultimately show ?thesis by auto
qed

text \<open>C25: the pictures a request asks for are enforced by the browser alone: a signed-in applicant
  whose text fields pass is accepted by the server without a single picture, whatever the request
  requires, and the case is queued.\<close>

theorem pictures_not_enforced:
  assumes "valid_session now (db_sessions s vid) = Inr w" and "db_requests s (vs_request w) = Some q"
    and "session_matches (vs_request w) q w" and "rq_status q \<in> {Pending, More_info}"
    and "now < rq_expires q" and "rq_count q < rq_max q"
    and "validate_submission_fields (rq_required q) p = Inr ()"
  shows "case submit_route cfg now vid sid new_vid (p\<lparr>sc_evidence_ids := []\<rparr>) s of
    (r, t) \<Rightarrow> r = Inr sid \<and> map_option rq_status (db_requests t (vs_request w)) = Some Queued"
proof -
  let ?p = "p\<lparr>sc_evidence_ids := []\<rparr>"
  have v: "validate_submission_fields (rq_required q) ?p = Inr ()"
    unfolding assms(7) [symmetric] by (simp add: validate_submission_fields_def)
  have e: "expire_request now (vs_request w) q s = (Inr False, s)"
    using assms(5) by (simp add: expire_request_def)
  obtain t where "create_submission now sid (vs_request w) q w ?p s = (Inr sid, t)"
    and "map_option rq_status (db_requests t (vs_request w)) = Some Queued"
    using v assms(4,6)
    by (auto simp: create_submission_def Let_def require_transition_def can_transition_def map_filter_def
        set_request_def record_audit_def touched_def)
  then show ?thesis
    using assms(1,2,3) e by (simp add: submit_route_def rotate_session_def new_session_def)
qed

theorem pictures_not_enforced_witness:
  "fst (submit_route default_config 30 1 3 2 (sample_submission []) opened_world) = Inr 3"
proof -
  have "\<exists>w q. valid_session 30 (db_sessions opened_world 1) = Inr w
      \<and> db_requests opened_world (vs_request w) = Some q \<and> session_matches (vs_request w) q w
      \<and> rq_status q = Pending \<and> 30 < rq_expires q \<and> rq_count q < rq_max q
      \<and> validate_submission_fields (rq_required q) (sample_submission [5]) = Inr ()"
    (is "\<exists>w q. ?P w q")
  proof -
    have "(case valid_session 30 (db_sessions opened_world 1) of Inl _ \<Rightarrow> False | Inr w \<Rightarrow>
        (case db_requests opened_world (vs_request w) of None \<Rightarrow> False | Some q \<Rightarrow>
           session_matches (vs_request w) q w \<and> rq_status q = Pending \<and> 30 < rq_expires q
           \<and> rq_count q < rq_max q
           \<and> validate_submission_fields (rq_required q) (sample_submission [5]) = Inr ()))" by code_simp
    then show ?thesis by (auto split: sum.splits option.splits)
  qed
  then obtain w q where "?P w q" by blast
  then show ?thesis
    using pictures_not_enforced [where cfg = default_config and sid = 3 and new_vid = 2, of 30 opened_world 1 w q "sample_submission [5]"]
    by (auto simp: sample_submission_def split: prod.splits)
qed

end
