(* ===== verification/Server_Members_Proved.thy ===== *)
theory Server_Members_Proved
  imports Server_Cases_Proved
begin

text \<open>
  What every run of the server keeps for the members of the Discord server: who has the verified role,
  when it is lost, and what revoking leaves alive.
\<close>

section \<open>The verified role\<close>

text \<open>C7: nobody has the verified role without an approval: whoever has it is being served by a run of
  the gateway worker, or could not be deprived of it by Discord, or has a request whose grant the bot
  has consumed and which an administrator has approved, both in the audit log.\<close>

theorem role_needs_approval:
  assumes "reachable cfg s" and "u \<in> role_holders s"
  shows "\<exists>rid q. u \<in> snd ` set (joining s) \<or> u \<in> unremoved s
    \<or> db_requests s rid = Some q \<and> rq_discord q = u \<and> consumption_logged s rid \<and> approval_logged s rid"
  using reachable_roles [OF assms(1)] assms(2) unfolding role_ok_def log_ok_def consumed_for_def by blast

definition member_world :: "string world" where
  "member_world =
     run_trace default_config (timed_calls [(60, Member_found 9 [1] True True), (61, Member_settled 0 True True)])
       approved_world"

lemma member_reachable: "reachable default_config member_world"
  unfolding member_world_def
  by (rule reachable_later [OF approved_reachable later_trace]) code_simp

theorem role_needs_approval_witness:
  "\<exists>rid q. db_requests member_world rid = Some q \<and> rq_discord q = 9 \<and> consumption_logged member_world rid
     \<and> approval_logged member_world rid"
proof -
  have "9 \<in> role_holders member_world" "joining member_world = []" "9 \<notin> unremoved member_world"
    by code_simp+
  then show ?thesis using role_needs_approval [OF member_reachable, of 9] by auto
qed

text \<open>Eligibility in closed form; it depends on the database alone.\<close>

lemma eligible_grant_some:
  "eligible_grant now discord rids s = (Some rid, s1) \<longleftrightarrow>
     s1 = s \<and> (\<exists>rest g. rev (sort_key (issue_time s) (issued_to discord rids s)) = rid # rest
       \<and> db_grants s rid = Some g \<and> gr_expires g \<noteq> None \<and> \<not> grant_is_due now g
       \<and> request_allows rid discord s)"
  by (auto simp: eligible_grant_def split: list.splits option.splits)

lemma eligible_grant_facts:
  assumes "eligible_grant now discord rids s = (Some rid, s1)"
  shows "\<exists>g q e. s1 = s \<and> db_grants s rid = Some g \<and> gr_discord g = discord \<and> gr_status g = Grant_issued
    \<and> gr_expires g = Some e \<and> \<not> grant_is_due now g \<and> db_requests s rid = Some q
    \<and> rq_status q = Approved \<and> rq_discord q = discord"
proof -
  obtain rest g where r: "rev (sort_key (issue_time s) (issued_to discord rids s)) = rid # rest"
    "s1 = s" "db_grants s rid = Some g" "gr_expires g \<noteq> None" "\<not> grant_is_due now g"
    "request_allows rid discord s"
    using assms unfolding eligible_grant_some by blast
  then have "rid \<in> set (issued_to discord rids s)"
    by (metis list.set_intros(1) set_rev set_sort)
  then show ?thesis
    using r(2-6) by (auto simp: issued_to_def request_allows_def split: option.splits)
qed

lemma eligible_grant_frame:
  assumes "eligible_grant now discord rids s = (Some rid, s)"
    and "db_grants t = db_grants s" and "db_requests t = db_requests s"
  shows "eligible_grant now discord rids t = (Some rid, t)"
proof -
  have "issue_time t = issue_time s" "issued_to discord rids t = issued_to discord rids s"
    "request_allows rid discord t \<longleftrightarrow> request_allows rid discord s"
    using assms(2,3) by (simp_all add: issue_time_def issued_to_def request_allows_def fun_eq_iff)
  then show ?thesis using assms(1,2) by (simp add: eligible_grant_some)
qed

text \<open>C24: two runs of the gateway worker for one member that overlap (the member joins while the
  reconciliation looks at them) take the role away again: both find the open grant, the first consumes
  it, the second can no longer consume it and removes the role. The grant is used up and the member
  is left without access.\<close>

theorem overlapping_runs_remove_role:
  assumes "eligible_grant now discord rids s = (Some rid, s)" and "joining s = []"
  shows "case member_start now discord rids True True (member_start now discord rids True True s) of
    t \<Rightarrow> case member_finish now 0 True True (member_finish now 0 True True t) of
      u \<Rightarrow> discord \<in> role_holders t \<and> discord \<notin> role_holders u
        \<and> map_option gr_status (db_grants u rid) = Some Grant_consumed \<and> joining u = []"
proof -
  let ?h = "insert discord (role_holders s)"
  let ?t1 = "s\<lparr>role_holders := ?h, joining := [(rid, discord)]\<rparr>"
  let ?t = "s\<lparr>role_holders := ?h, joining := [(rid, discord), (rid, discord)]\<rparr>"
  obtain g q e where g: "db_grants s rid = Some g" "gr_discord g = discord" "gr_status g = Grant_issued"
    "gr_expires g = Some e" "\<not> grant_is_due now g" "db_requests s rid = Some q" "rq_status q = Approved"
    "rq_discord q = discord"
    using eligible_grant_facts [OF assms(1)] by blast
  have one: "member_start now discord rids True True s = ?t1"
  proof (cases "discord \<in> role_holders s")
    case True
    then have "?h = role_holders s" by auto
    then show ?thesis using True assms by (simp add: member_start_def)
  qed (simp add: member_start_def assms)
  have two: "member_start now discord rids True True ?t1 = ?t"
    by (simp add: member_start_def eligible_grant_frame [OF assms(1), of ?t1])
  let ?u = "member_finish now 0 True True ?t"
  have u: "joining ?u = [(rid, discord)]" "map_option gr_status (db_grants ?u rid) = Some Grant_consumed"
    using g by (simp_all add: member_finish_def Let_def consume_grant_def set_grant_def set_request_def
        record_audit_def)
  then obtain h where h: "db_grants ?u rid = Some h" "gr_status h = Grant_consumed" by auto
  have "role_holders (member_finish now 0 True True ?u) = role_holders ?u - {discord}
      \<and> db_grants (member_finish now 0 True True ?u) rid = Some h
      \<and> joining (member_finish now 0 True True ?u) = []"
    using u(1) h by (simp add: member_finish_def Let_def consume_grant_def)
  then show ?thesis using one two h(2) by simp
qed

theorem overlapping_runs_remove_role_witness:
  "9 \<notin> role_holders (member_finish 60 0 True True (member_finish 60 0 True True
      (member_start 60 9 [1] True True (member_start 60 9 [1] True True approved_world))))"
proof -
  have "fst (eligible_grant 60 9 [1] approved_world) = Some 1" "joining approved_world = []"
    by code_simp+
  then have "eligible_grant 60 9 [1] approved_world = (Some 1, approved_world)"
    using eligible_grant_facts [of 60 9 "[1]" approved_world 1 "snd (eligible_grant 60 9 [1] approved_world)"]
    by (cases "eligible_grant 60 9 [1] approved_world") auto
  then show ?thesis
    using overlapping_runs_remove_role [of 60 9 "[1]" approved_world 1] \<open>joining approved_world = []\<close> by simp
qed

text \<open>Revoking an approved request marks its grant revoked without deleting its invite at Discord,
  and from then on revoking the access answers with success and deletes nothing, whatever Discord
  would answer: the invite stays alive.\<close>

theorem revoked_request_keeps_invite:
  assumes "db_requests s rid = Some q" and "rq_status q = Approved" and "db_grants s rid = Some g"
  shows "case revoke_request now rid a s of (r, t) \<Rightarrow>
    (\<exists>q'. r = Inr q' \<and> rq_status q' = Revoked) \<and> live_invites t = live_invites s
    \<and> revoke_access_grant later_now rid a' deleted t = (Inr (revoked_grant now g), t)"
  using assms
  by (simp add: revoke_request_def require_transition_def can_transition_def Let_def touched_def
      set_request_def record_audit_def revoke_access_grant_def revoked_grant_def)

theorem revoked_request_keeps_invite_witness:
  "live_invites (snd (revoke_access_grant 70 1 7 True (snd (revoke_request 60 1 7 approved_world)))) = [''inv'']"
proof -
  have "map_option rq_status (db_requests approved_world 1) = Some Approved"
    "\<not> Option.is_none (db_grants approved_world 1)" and live: "live_invites approved_world = [''inv'']"
    by code_simp+
  then obtain q g where "db_requests approved_world 1 = Some q" "rq_status q = Approved"
    "db_grants approved_world 1 = Some g" by (auto simp: Option.is_none_def)
  then show ?thesis
    using revoked_request_keeps_invite [where rid = 1 and now = 60 and later_now = 70 and a = 7 and a' = 7 and deleted = True, of approved_world q g] live
    by (simp split: prod.splits)
qed

end
