(* ===== verification/Server_Phones_Proved.thy ===== *)
theory Server_Phones_Proved
  imports Server_Cases_Proved Server_Phones
begin

text \<open>
  The hand-over to a phone in every run of the server: its token works once, an applicant has one
  usable QR session, a session that has ended lets no phone in, and what a phone is told when the
  case has moved on.
\<close>

section \<open>A run to test with\<close>

definition sample_capture :: "(int \<times> string call) list" where
  "sample_capture = [(20, Create_capture 1 1 ''qr''), (25, Create_capture 1 2 ''qr2'')]"

definition capture_world :: "string world" where
  "capture_world = run_trace default_config (timed_calls sample_capture) opened_world"

definition phone_origin :: "string option" where
  "phone_origin = Some ''http://localhost:3000''"

definition sample_exchange :: "(int \<times> string call) list" where
  "sample_exchange = [(30, Exchange_token phone_origin (Some ''qr2'') ''phone'')]"

definition phone_world :: "string world" where
  "phone_world = run_trace default_config (timed_calls sample_exchange) capture_world"

lemma capture_reachable: "reachable default_config capture_world"
  unfolding capture_world_def
  by (rule reachable_later [OF opened_reachable later_trace]) code_simp

lemma phone_later: "later default_config capture_world phone_world"
  unfolding phone_world_def by (rule later_trace) code_simp

section \<open>The token\<close>

lemma exchange_route_row:
  assumes "exchange_route cfg now origin (Some token) phone s = (Inr c, t)"
  shows "c \<in> set (db_captures t) \<and> cp_token c = trim token \<and> cp_exchanged c \<noteq> None"
proof -
  obtain t0 where x: "exchange_token now (trim token) phone s = (Inr c, t0)"
    and t: "t = record_audit By_phone Log_capture_exchanged (cp_request c) t0"
    using assms by (auto simp: exchange_route_def coalesce_def split: if_splits prod.splits sum.splits)
  obtain d where d: "d \<in> set (db_captures s)" "t0 = set_capture c s" "capture_evolves d c"
    "cp_token d = trim token" "cp_exchanged c \<noteq> None"
    using exchange_token_row [OF x] by blast
  then have "cp_id d = cp_id c" "cp_token c = trim token" by (simp_all add: capture_evolves_def)
  then show ?thesis using d t by (force simp: set_capture_def)
qed

text \<open>C11: the token of a QR code works once: after it has been exchanged for a phone's credential, no
  exchange of it, from whatever phone and whenever, succeeds in any later state.\<close>

theorem qr_token_works_once:
  assumes "reachable cfg s" and "Some phone \<notin> cp_phone_token ` set (db_captures s)"
    and "exchange_route cfg now origin (Some token) phone s = (Inr c, t)" and "later cfg t u"
  shows "\<exists>e. fst (exchange_route cfg now' origin' (Some token) phone' u) = Inl e"
proof -
  have row: "c \<in> set (db_captures t)" "cp_token c = trim token" "cp_exchanged c \<noteq> None"
    using exchange_route_row [OF assms(3)] by auto
  have "t = serve cfg (\<lambda>_. None) now (Exchange_token origin (Some token) phone) s"
    using assms(3) by (simp add: serve_def authorised_def)
  then have "later cfg s t"
    using later_call [OF later_refl, of "Exchange_token origin (Some token) phone" s cfg] assms(2) by simp
  then have rt: "reachable cfg t" using assms(1) reachable_later by blast
  have "\<not> (\<exists>d. find (\<lambda>d. cp_token d = trim token) (db_captures u) = Some d \<and> cp_exchanged d = None)"
  proof
    assume "\<exists>d. find (\<lambda>d. cp_token d = trim token) (db_captures u) = Some d \<and> cp_exchanged d = None"
    then obtain d where f: "find (\<lambda>d. cp_token d = trim token) (db_captures u) = Some d" "cp_exchanged d = None"
      by blast
    then have d: "d \<in> set (db_captures u)" "cp_token d = trim token" "cp_exchanged d = None"
      by (auto simp: find_Some_iff)
    then have "capture_evolves c d" using later_row [OF rt assms(4) row(1)] row(2) by simp
    then show False using row(3) d(3) by (auto simp: capture_evolves_def)
  qed
  then have "\<exists>e v. exchange_token now' (trim token) phone' u = (Inl e, v)"
    by (auto simp: exchange_token_def split: option.splits)
  then show ?thesis by (auto simp: exchange_route_def coalesce_def)
qed

theorem qr_token_works_once_witness:
  "\<exists>e. fst (exchange_route default_config 31 phone_origin (Some ''qr2'') ''other'' phone_world) = Inl e"
proof -
  obtain r t where x: "exchange_route default_config 30 phone_origin (Some ''qr2'') ''phone'' capture_world = (r, t)"
    by fastforce
  have "isl (fst (exchange_route default_config 30 phone_origin (Some ''qr2'') ''phone'' capture_world)) = False"
    "Some ''phone'' \<notin> cp_phone_token ` set (db_captures capture_world)" by code_simp+
  moreover from x have "phone_world = t"
    by (simp add: phone_world_def sample_exchange_def timed_calls_def serve_def authorised_def)
  ultimately show ?thesis
    using qr_token_works_once [OF capture_reachable _ _ later_refl, of "''phone''" 30 phone_origin "''qr2''" _ t
        31 phone_origin "''other''"] x
    by (cases r) auto
qed

section \<open>Sessions\<close>

text \<open>An applicant's session has at most one usable QR session at any time: making a new one ends
  the others, so of two that are usable at \<open>now\<close> and were made by then, both are the same.\<close>

theorem one_usable_qr_session:
  assumes "reachable cfg s" and "c \<in> set (db_captures s)" and "d \<in> set (db_captures s)"
    and "cp_session c = cp_session d" and "usable_capture now c" and "usable_capture now d"
    and "cp_created c \<le> now" and "cp_created d \<le> now"
  shows "c = d"
proof -
  let ?cs = "db_captures s"
  obtain i j where i: "i < length ?cs" "?cs ! i = c" and j: "j < length ?cs" "?cs ! j = d"
    using assms(2,3) by (auto simp: in_set_conv_nth)
  have order: "\<not> (i < j \<and> j < length ?cs \<and> cp_session (?cs ! i) = cp_session (?cs ! j)
      \<and> usable_capture now (?cs ! i) \<and> cp_created (?cs ! j) \<le> now)" for i j
  proof
    assume h: "i < j \<and> j < length ?cs \<and> cp_session (?cs ! i) = cp_session (?cs ! j)
      \<and> usable_capture now (?cs ! i) \<and> cp_created (?cs ! j) \<le> now"
    then have "cp_expires (?cs ! i) \<le> cp_created (?cs ! j)"
      using reachable_captures_ok [OF assms(1)] by (simp add: captures_ok_def usable_capture_def)
    then show False using h by (simp add: usable_capture_def)
  qed
  have "i = j" using order [of i j] order [of j i] i j assms by (metis linorder_neqE_nat)
  then show ?thesis using i j by simp
qed

theorem one_usable_qr_session_witness:
  "\<exists>c d. db_captures capture_world = [c, d] \<and> usable_capture 26 d \<and> \<not> usable_capture 26 c"
proof -
  have "map (usable_capture 26) (db_captures capture_world) = [False, True]"
    "map cp_created (db_captures capture_world) = [20, 25]" "map cp_session (db_captures capture_world) = [1, 1]"
    by code_simp+
  then obtain c d where cd: "db_captures capture_world = [c, d]" "usable_capture 26 d" "cp_created c = 20"
    "cp_created d = 25" "cp_session c = cp_session d" "cp_id c \<noteq> cp_id d"
    using reachable_captures_ok [OF capture_reachable] by (auto simp: captures_ok_def)
  then show ?thesis
    using one_usable_qr_session [OF capture_reachable, of c d 26] by auto
qed

text \<open>Once a QR session is completed or revoked, the phone's credential is dead for good: in no
  later state does any cookie let a phone into that session.\<close>

theorem ended_sessions_admit_nobody:
  assumes "reachable cfg s" and "later cfg s t" and "c \<in> set (db_captures s)"
    and "\<not> (cp_completed c = None \<and> cp_revoked c = None)"
    and "phone_dependency now cookie t = Inr d"
  shows "cp_id d \<noteq> cp_id c"
proof
  assume same: "cp_id d = cp_id c"
  obtain e where e: "e \<in> set (db_captures t)" "capture_evolves e d" "cp_revoked d = None"
    "cp_completed d = None" "cp_id d = cp_id e"
    using phone_dependency_row [OF assms(5)] by blast
  have "capture_evolves c e"
    using later_row [OF assms(1-3) e(1)] same e(5) by simp
  then have "capture_evolves c d" using e(2) capture_evolves_trans by blast
  then show False using assms(4) e(3,4) by (auto simp: capture_evolves_def)
qed

theorem ended_sessions_admit_nobody_witness:
  "\<exists>c d. c \<in> set (db_captures capture_world) \<and> cp_revoked c \<noteq> None
     \<and> phone_dependency 31 (Some ''phone'') phone_world = Inr d \<and> cp_id d \<noteq> cp_id c"
proof -
  have "list_ex (\<lambda>c. \<not> Option.is_none (cp_revoked c)) (db_captures capture_world)"
    "\<not> isl (phone_dependency 31 (Some ''phone'') phone_world)" by code_simp+
  then obtain c d where c: "c \<in> set (db_captures capture_world)" "cp_revoked c \<noteq> None"
    and d: "phone_dependency 31 (Some ''phone'') phone_world = Inr d"
    by (cases "phone_dependency 31 (Some ''phone'') phone_world") (auto simp: list_ex_iff Option.is_none_def)
  then have "cp_id d \<noteq> cp_id c"
    using ended_sessions_admit_nobody [OF capture_reachable phone_later c(1) _ d] by simp
  then show ?thesis using c d by blast
qed

section \<open>When the case has moved on\<close>

text \<open>C33: a phone whose case is no longer open (it has been submitted from the desktop, its time is
  over or the applicant's session has ended) gets an exception no route handles, from each of the
  three routes, instead of the 401 or 403 the routes give for a session that has ended: the dependency
  catches the exception for an invalid credential only.\<close>

theorem moved_on_case_raises:
  assumes "coalesce cookie [] \<noteq> []"
    and "find (\<lambda>c. cp_phone_token c = Some (coalesce cookie [])) (db_captures s) = Some c"
    and "usable_capture now c" and "cp_exchanged c \<noteq> None" and "cp_phone_expires c = Some e" and "now < e"
    and "db_requests s (cp_request c) = Some q" and "db_sessions s (cp_session c) = Some w"
    and "\<not> (rq_status q \<in> {Pending, More_info} \<and> vs_revoked w = None)"
  shows "phone_session_route now cookie ids s = (Inl Capture_unavailable, s)
    \<and> phone_upload_route cfg now origin cookie eid k u s = (Inl Capture_unavailable, s)
    \<and> phone_complete_route cfg now origin cookie ids s = (Inl Capture_unavailable, s)"
proof -
  have "validate_parents now c s = Inl Capture_unavailable"
    using assms(7-9) by (auto simp: validate_parents_def parents_allow_def request_allows_capture_def)
  then have "valid_capture now (coalesce cookie []) s = Inl Capture_unavailable"
    using assms(2-6) by (simp add: valid_capture_def)
  then have "phone_dependency now cookie s = Inl Capture_unavailable"
    using assms(1) by (simp add: phone_dependency_def)
  then show ?thesis
    by (simp add: phone_session_route_def phone_upload_route_def phone_complete_route_def)
qed

definition submitted_phone_world :: "string world" where
  "submitted_phone_world =
     run_trace default_config (timed_calls [(40, Submit 1 3 2 (sample_submission []))]) phone_world"

theorem moved_on_case_raises_witness:
  "fst (phone_session_route 50 (Some ''phone'') [] submitted_phone_world) = Inl Capture_unavailable"
proof -
  let ?s = submitted_phone_world
  have "(case find (\<lambda>c. cp_phone_token c = Some ''phone'') (db_captures ?s) of None \<Rightarrow> False | Some c \<Rightarrow>
      usable_capture 50 c \<and> \<not> Option.is_none (cp_exchanged c)
      \<and> (case cp_phone_expires c of None \<Rightarrow> False | Some e \<Rightarrow> 50 < e)
      \<and> (case db_requests ?s (cp_request c) of None \<Rightarrow> False | Some q \<Rightarrow> rq_status q = Queued)
      \<and> \<not> Option.is_none (db_sessions ?s (cp_session c)))" by code_simp
  then obtain c e q w where "find (\<lambda>c. cp_phone_token c = Some ''phone'') (db_captures ?s) = Some c"
    "usable_capture 50 c" "cp_exchanged c \<noteq> None" "cp_phone_expires c = Some e" "50 < e"
    "db_requests ?s (cp_request c) = Some q" "rq_status q = Queued" "db_sessions ?s (cp_session c) = Some w"
    by (auto simp: Option.is_none_def split: option.splits)
  then show ?thesis
    using moved_on_case_raises [where cookie = "Some ''phone''" and s = ?s and now = 50 and ids = "[]",
        of c e q w]
    by (simp add: coalesce_def)
qed

end
