(* ===== verification/Server_Contract.thy ===== *)
theory Server_Contract
  imports Dates Request_Form Identity_Form Server_Requests
begin

text \<open>
  The contract between the browser and the server: what the two forms send, read by the schemas of
  the server (schemas/verification_request.py, schemas/submission.py). How a text is read as an
  instant, a date or an identifier is a parameter.
\<close>

section \<open>Making a request\<close>

definition read_create :: "(string \<Rightarrow> int) \<Rightarrow> create_payload \<Rightarrow> request_create" where
  "read_create read_instant p =
     \<lparr>cr_discord = c_assigned_discord_user_id p, cr_username = c_discord_username_snapshot p,
      cr_required = c_required_evidence p, cr_expires = map_option read_instant (c_expires_at p),
      cr_max = c_max_submissions p\<rparr>"

lemma trim_digits: "list_all is_digit t \<Longrightarrow> trim t = t"
  by (rule trim_no_ws) (auto simp: list_all_iff digit_not_ws)



section \<open>Submitting\<close>

definition too_long :: "nat \<Rightarrow> string option \<Rightarrow> bool" where
  "too_long n x \<longleftrightarrow> (case x of None \<Rightarrow> False | Some t \<Rightarrow> length t > n)"

text \<open>
  \<open>VerificationSubmissionCreate\<close> reads the body: the lengths of its texts, the date and the
  identifiers.
\<close>

definition read_submission ::
  "(string \<Rightarrow> 'date option) \<Rightarrow> (string \<Rightarrow> nat option) \<Rightarrow> submission_payload
     \<Rightarrow> server_error + 'date submission_create" where
  "read_submission read_date read_uuid p =
     (if too_long 255 (p_legal_name p) \<or> too_long 50 (p_age_result p) \<or> too_long 50 (p_document_type p)
         \<or> (case p_issuing_country p of None \<Rightarrow> False | Some t \<Rightarrow> length t \<noteq> 2)
         \<or> (case p_date_of_birth p of None \<Rightarrow> False | Some t \<Rightarrow> read_date t = None)
         \<or> None \<in> set (map read_uuid (p_evidence_ids p))
      then Inl (Http_error 422 ''Unprocessable Entity'')
      else Inr \<lparr>sc_legal_name = p_legal_name p,
                sc_date_of_birth = Option.bind (p_date_of_birth p) read_date,
                sc_age_result = p_age_result p, sc_issuing_country = p_issuing_country p,
                sc_document_type = p_document_type p,
                sc_evidence_ids = List.map_filter read_uuid (p_evidence_ids p),
                sc_consent_confirmed = p_consent_confirmed p,
                sc_accuracy_confirmed = p_accuracy_confirmed p\<rparr>)"


definition sample_requirements :: required_evidence where
  "sample_requirements =
     \<lparr>needs_legal_name = True, needs_date_of_birth = False, needs_age_confirmation = False,
      needs_issuing_country = True, needs_document_type = False, needs_document_front = False,
      needs_document_back = False, needs_selfie = False, needs_liveness = False\<rparr>"

definition sample_form :: "string \<Rightarrow> identity_form" where
  "sample_form country =
     identity_form_new\<lparr>if_config := Some sample_requirements, if_legal_name := ''Ann'',
       if_issuing_country := country, if_consent := True, if_accuracy := True\<rparr>"


end
