(* ===== verification/Spec2Isabelle.thy ===== *)
theory Spec2Isabelle
  imports Prelude Uri Http Status Api_Client Admin_Session Admin_Session_Steps Admin_Api Calendar Dates
    Handlers Review_Panels Identity_Form Camera Face_Capture Evidence_Upload Mobile_Capture
    Polling Mobile_Handoff Request_Form Created_Request Team_Access Filtered_Lists Verification_Queue Audit_Activity
    Case_Pages Admin_Screens Admin_Gate Invitation Applicant_Flow Applicant_Screens Landing Toasts
    Handoff_Exchange Routes Endpoints Dev_Session
    Views Identity_View Document_View Face_View Mobile_View Request_View Team_View Queue_View Audit_View
    Entry_View Shell_View Applicant_View
    Server_Rules Server_Requests Server_Review Server_Capture Server_Access Server_Runs Server_Cases
    Server_Refinement Server_System Server_Evidence Server_Gateway Server_Phones
    Server_Cases_Proved Server_Members_Proved Server_Phones_Proved Server_Contract
begin

text \<open>
  SCANLY: an identity-verification service in front of a Discord server. An applicant opens a
  private link, signs in with Discord, fills in an identity form, takes pictures of documents and of
  the face (on the desktop or, through a QR code, on a phone) and waits for a decision;
  administrators work through a review queue, decide, and manage requests and their own team; an
  approved applicant is given an invite, and a bot gives the verified role to the member who comes
  with it. The browser half is the TypeScript under \<open>src/frontend/src\<close>, the server the Python under
  \<open>src/app\<close>. The browser's components are proved against an arbitrary server, reached through
  \<open>fetch\<close>; the server's tables and calls are modelled on their own, and \<open>Server_Contract\<close> joins
  the two.

  \<^bold>\<open>Method.\<close> The front end is React: a component is a state, and handlers that run to their next
  \<open>await\<close>. A handler is modelled by a start (its guards, its state changes up to the first
  \<open>await\<close>, and the call it makes) and a settle (what it does with the answer); effects, timers and
  inputs are further events. A run is any list of such events, so that every interleaving of
  clicks, typing, timers and answers is covered; a click that the rendered page does not offer (a
  disabled or hidden button) leaves the state as it is, which the views below justify for the main
  pages. JavaScript exceptions are values of
  \<open>js_error\<close>, \<open>null\<close> and \<open>undefined\<close> are \<open>None\<close>, numbers are integers, and strings
  are byte strings (see \<open>Prelude\<close>).

  \<^bold>\<open>Foundations.\<close>
  \<^item> \<open>Prelude\<close>: string methods of JavaScript, decimal printing and parsing, and the locales
    \<open>normaliser\<close> and \<open>masked_input\<close> for input fields that normalise what is typed.
  \<^item> \<open>Uri\<close>: \<open>encodeURIComponent\<close>, \<open>decodeURIComponent\<close> and \<open>URLSearchParams\<close>,
    with their round trips.
  \<^item> \<open>Http\<close>: JSON values, headers, requests, responses, the browser's state and the arbitrary
    server; the locale \<open>api_client\<close> proves once that a client which keeps an invariant and only
    sends acceptable requests does so over any sequence of calls.
  \<^item> \<open>Handlers\<close>: runs of interleaved handlers, and the locales \<open>guarded_handler\<close> (what every
    call sent satisfies, what every state satisfies), \<open>single_flight\<close> (at most one call under
    way) and \<open>releasing_flight\<close> (busy exactly while one is). Every panel and form below is an
    interpretation of one of them.
  \<^item> \<open>Polling\<close>: effects that poll; the locale \<open>polling\<close> shows that such a loop neither stops by itself
    nor goes on after its clean-up, and ends with the answer that ends it.
  \<^item> \<open>Filtered_Lists\<close>: lists loaded for a filter; the locale \<open>filtered_list\<close> shows when a quiet page
    shows what its filter asks for.
  \<^item> \<open>Camera\<close>: tracks, object URLs and the search for a usable camera, with the locale
    \<open>camera_card\<close> for cards whose orderly events leave no camera running.

  \<^bold>\<open>The clients.\<close>
  \<^item> \<open>Status\<close> (\<open>types/verification.ts\<close>, \<open>lib/verification-status.ts\<close>,
    \<open>lib/admin-status.ts\<close>, \<open>lib/status-routing.ts\<close>, \<open>components/verification/status-guard.tsx\<close>,
    \<open>verification-progress.tsx\<close>): statuses, tables, routing and the route guard.
  \<^item> \<open>Api_Client\<close> (\<open>lib/api.ts\<close> and the applicant endpoints in \<open>lib/*-api.ts\<close>).
  \<^item> \<open>Admin_Session\<close> and \<open>Admin_Api\<close> (\<open>lib/admin-api.ts\<close>): the session, \<open>adminFetch\<close>
    and every endpoint. \<open>Admin_Session\<close> runs one call at a time; \<open>Admin_Session_Steps\<close> gives the
    interleavings of concurrent calls as a step relation and shows that the first refines it.
  \<^item> \<open>Endpoints\<close>: every endpoint wrapper of the two clients is well typed, for any arguments.
  \<^item> \<open>Calendar\<close> and \<open>Dates\<close> (\<open>lib/date.ts\<close>, the expiration fields of
    \<open>components/admin/create-verification-request-form.tsx\<close>): the \<open>Date\<close> constructor and
    getters over the proleptic Gregorian calendar, with the time zone a parameter.

  \<^bold>\<open>The components.\<close>
  \<^item> \<open>Review_Panels\<close> (\<open>components/admin/\<close> \<open>decision-panel\<close>, \<open>request-actions-panel\<close>,
    \<open>internal-notes-panel\<close>, \<open>access-management-panel\<close>, \<open>evidence-deletion-panel\<close>,
    \<open>evidence-review-card\<close>).
  \<^item> \<open>Request_Form\<close> and \<open>Created_Request\<close> (\<open>create-verification-request-form\<close>: the form, and
    the panel that copies the new link) and \<open>Team_Access\<close> (\<open>admin-team-access\<close>).
  \<^item> \<open>Verification_Queue\<close> (\<open>verification-queue\<close>) and \<open>Audit_Activity\<close>
    (\<open>admin-audit-activity\<close>): filters, debounced loading and paging, with the answers in any order.
  \<^item> \<open>Case_Pages\<close> (\<open>review-workspace\<close>, \<open>audit-timeline\<close>, \<open>reviewer-picker\<close>): one request's
    case and history, loaded and reloaded, as interpretations of one locale; \<open>Admin_Screens\<close>
    (\<open>admin-overview\<close>, \<open>admin-settings\<close>): the counts and the rows of the settings.
  \<^item> \<open>Admin_Gate\<close> (\<open>admin-access-gate\<close>, \<open>admin-shell\<close> and
    \<open>components/navigation/session-navigation-bridge\<close>): who gets in, and where an expired session
    leads. \<open>Invitation\<close> (\<open>admin-invitation-screen\<close>): the acceptance of a one-time token.
  \<^item> \<open>Applicant_Screens\<close> (\<open>components/verification/\<close> \<open>verification-entry\<close>, \<open>waiting-room\<close>,
    \<open>approved-access\<close>, \<open>account-confirmation\<close>, \<open>more-information-required\<close>,
    \<open>session-actions\<close>) and \<open>Landing\<close> (the carousel of \<open>verification-entry\<close>).
  \<^item> \<open>Applicant_Flow\<close>: the identity page as a whole, the form with the phone card in it; every
    identifier it submits is traced to an upload.
  \<^item> \<open>Routes\<close> (\<open>app/\<close>, \<open>components/verification/verification-result-state\<close>): the pages, and that
    every address the program goes to is one of them.
  \<^item> \<open>Toasts\<close> (\<open>components/ui/\<close> \<open>toast-provider\<close>, \<open>confirm-dialog\<close>, \<open>modals\<close>) and
    \<open>Handoff_Exchange\<close> (\<open>mobile-handoff-exchange\<close>, an older page that nothing mounts).
  \<^item> \<open>Dev_Session\<close> (\<open>app/api/admin/dev-session/route.ts\<close>): the server route of local development.
  \<^item> \<open>Identity_Form\<close> (\<open>components/verification/identity-verification-form\<close>), \<open>Face_Capture\<close>
    (\<open>face-capture-card\<close>), \<open>Evidence_Upload\<close> (\<open>evidence-upload-card\<close>).
  \<^item> \<open>Mobile_Handoff\<close> (\<open>mobile-capture-handoff\<close> on the desktop, \<open>mobile-handoff-entry\<close> on the
    phone) and \<open>Mobile_Capture\<close> (\<open>mobile-capture-page\<close>).

  \<^bold>\<open>The views.\<close> \<open>Views\<close> has the tree of elements a component renders, without styles and icons, where a
  button, a field or a choice carries the event that using it causes. The locale \<open>page\<close> (and \<open>screen\<close>, for
  components that call the server, which is one) says that an event the page does not offer has no
  effect in the model; then every run of the model is a run of the page, in which each of the user's
  events was offered when it happened. \<open>Identity_View\<close>, \<open>Document_View\<close>, \<open>Face_View\<close>, \<open>Mobile_View\<close>,
  \<open>Request_View\<close>, \<open>Team_View\<close>, \<open>Queue_View\<close> and \<open>Audit_View\<close> are the components of the same names, each an
  interpretation, with what its buttons promise: that a click sends a request or the page says why not,
  and that every control has a name. \<open>Entry_View\<close> is the page of a private link, with all its sections
  and the links between them, \<open>Applicant_View\<close> the waiting room, the approved access, the account and the
  request for more information, and \<open>Shell_View\<close> the frames of the applicants' and administrators' pages
  and the pages without a state of their own.

  \<^bold>\<open>The server.\<close> A service is one transaction on a record of tables: it answers with a value or an
  exception and the tables after its last commit. Time, new identifiers and the answers of Discord,
  of the object store and of the file check are arguments.
  \<^item> \<open>Server_Rules\<close> (\<open>core/constants.py\<close>, \<open>core/permissions.py\<close>, \<open>services/verification/\<close>
    \<open>state_machine\<close>, \<open>submission_rules\<close>, \<open>evidence_rules\<close>): enumerations, which agree with the browser's,
    transition table, permissions, the fields of a submission.
  \<^item> \<open>Server_Requests\<close> (\<open>services/verification/\<close> \<open>request_service\<close>, \<open>session_service\<close>,
    \<open>submission_service\<close>, the routes of login, upload and submission, the expiration job),
    \<open>Server_Review\<close> (\<open>services/admin/\<close> \<open>review_service\<close>, \<open>request_lifecycle_service\<close>,
    \<open>evidence_deletion_service\<close>, the clean-up job), \<open>Server_Capture\<close> (\<open>mobile_capture_service\<close> with the
    desktop's and the phone's routes) and \<open>Server_Access\<close> (\<open>services/access/grant_service\<close>,
    \<open>services/discord/gateway_worker\<close>): the operations.
  \<^item> \<open>Server_Runs\<close>: the calls as a datatype, the permission of each, and the reachable states: any calls
    by anyone at any times, provided that identifiers made by the database are new.
  \<^item> \<open>Server_Cases\<close> is the specification, a small machine for the life of one case;
    \<open>Server_Refinement\<close> and \<open>Server_System\<close> show that every call is a sequence of its steps for every
    case. \<open>Server_Evidence\<close> (submissions and evidence), \<open>Server_Gateway\<close> (roles and the audit log) and
    \<open>Server_Phones\<close> (QR sessions) are invariants of the reachable states.
  \<^item> \<open>Server_Cases_Proved\<close>, \<open>Server_Members_Proved\<close>, \<open>Server_Phones_Proved\<close>: what follows for
    applicants, members of the Discord server and phones, with concrete runs as witnesses, and the
    defects found. \<open>Server_Contract\<close>: what the two forms of the browser send, as the server reads it.

  \<^bold>\<open>Bounds.\<close> No fuel is used. The year of a day number is found by a search whose termination is
  proved from the length of a year; all other recursion is structural.

  \<^bold>\<open>Not modelled.\<close> Styles, icons and locale-dependent formatting, and the markup of the pages without a
  view; the pixels of a picture (a
  capture is a file name, a type and a size). Of the server: sign-in, sessions, step-up and invitations of
  administrators, notes and read-only queries, the inspection of uploaded files, e-mail, cookies, CSRF
  and rate limits, encryption and hashing (a token stands for its hash). A call of the server runs
  alone, as the row locks and single transactions intend; the exception is the gateway worker, whose
  runs take no lock around Discord's calls and are modelled as two interleaving steps.
\<close>

end
